(* ===== verification/Rbac_Prelude.thy ===== *)
theory Rbac_Prelude
  imports Main "HOL-Library.Word" "HOL-Library.AList" "HOL-Library.Multiset"
begin

text \<open>
  Vocabulary shared by the component theories: the machine integers of the Rust sources, the
  error values that \<open>anyhow\<close> carries, hash maps in some iteration order, and the generic facts
  on \<open>u32\<close> bitmaps and on loops that fill them. The collection \<open>bitmap_simps\<close> holds the
  rewrite rules that turn tests and updates of a bitmap into statements on single bits, and
  \<open>rust_defs\<close> the definitions of the small library operations the sources call.
\<close>

unbundle bit_operations_syntax

named_theorems bitmap_simps
named_theorems rust_defs

section \<open>Machine integers\<close>

type_synonym u8 = "8 word"
type_synonym u32 = "32 word"
type_synonym u64 = "64 word"
type_synonym i32 = "32 word"
type_synonym i64 = "64 word"

text \<open>
  \<open>i32\<close> and \<open>i64\<close> are two's complement, so \<open>-1\<close> is the word with all bits set and the cast
  \<open>x as u32\<close> is the identity.

  The expression \<open>1 << b\<close> on \<open>u32\<close>. Rust traps (or masks the amount) from 32 on; every use in
  the sources has \<open>b < 32\<close>, which the theories of the users prove.
\<close>

definition shl1 :: "u32 \<Rightarrow> u32" where
  "shl1 b = push_bit (unat b) 1"

lemma bit_shl1 [bitmap_simps]: "bit (shl1 b) n \<longleftrightarrow> n = unat b \<and> n < 32"
  by (auto simp: shl1_def bit_exp_iff)

lemma bit_ones [bitmap_simps]: "bit (0xFFFFFFFF :: u32) n \<longleftrightarrow> n < 32"
proof -
  have "(0xFFFFFFFF :: u32) = mask 32"
    by (simp add: mask_eq_exp_minus_1)
  moreover have "bit (mask 32 :: u32) n \<longleftrightarrow> n < 32"
    by (simp only: bit_mask_iff) simp
  ultimately show ?thesis
    by (simp only:)
qed

lemma u32_bit_less: "bit (v :: u32) n \<Longrightarrow> n < 32"
  using bit_imp_le_length [of v n] by simp

lemma unat_less_32: "(b :: u32) < 32 \<longleftrightarrow> unat b < 32"
  by (simp add: word_less_nat_alt)

lemma and_shl1_nonzero [bitmap_simps]:
  assumes "(b :: u32) < 32"
  shows "(v AND shl1 b \<noteq> 0) \<longleftrightarrow> bit v (unat b)"
proof
  assume "v AND shl1 b \<noteq> 0"
  then obtain n where "bit (v AND shl1 b) n"
    by (auto simp: bit_eq_iff)
  then show "bit v (unat b)"
    by (auto simp: bit_and_iff bit_shl1)
next
  assume "bit v (unat b)"
  with assms have "bit (v AND shl1 b) (unat b)"
    by (simp add: bit_and_iff bit_shl1 unat_less_32)
  then show "v AND shl1 b \<noteq> 0"
    by auto
qed

text \<open>One bitmap grants no more than another.\<close>

definition bitmap_le :: "u32 \<Rightarrow> u32 \<Rightarrow> bool" where
  "bitmap_le v w \<longleftrightarrow> v AND w = v"

lemma bitmap_le_iff: "bitmap_le v w \<longleftrightarrow> (\<forall>n. bit v n \<longrightarrow> bit w n)"
  unfolding bitmap_le_def bit_eq_iff by (auto simp: bit_and_iff dest: u32_bit_less)

lemma bitmap_le_refl [simp]: "bitmap_le v v"
  by (simp add: bitmap_le_def)

lemma bitmap_le_and [simp]: "bitmap_le (v AND w) v" "bitmap_le (v AND w) w"
  by (auto simp: bitmap_le_iff bit_and_iff)

lemma bitmap_le_ones [simp]: "bitmap_le v 0xFFFFFFFF"
  unfolding bitmap_le_iff bit_ones by (blast dest: u32_bit_less)

section \<open>Errors\<close>

text \<open>
  An \<open>anyhow::Error\<close> is a message, or a context wrapped around a cause by \<open>context\<close> and
  \<open>with_context\<close>. Its \<open>to_string\<close> shows the outermost layer only.
\<close>

datatype anyhow = Msg string | Context string anyhow

type_synonym 'a result = "anyhow + 'a"

fun to_string :: "anyhow \<Rightarrow> string" where
  "to_string (Msg s) = s"
| "to_string (Context c e) = c"

definition with_context :: "string \<Rightarrow> 'a result \<Rightarrow> 'a result" where
  [rust_defs]: "with_context c r = (case r of Inl e \<Rightarrow> Inl (Context c e) | Inr x \<Rightarrow> Inr x)"

lemma with_context_simps [simp]:
  "with_context c (Inl e) = Inl (Context c e)"
  "with_context c (Inr x) = Inr x"
  by (simp_all add: with_context_def)

lemma with_context_eq_Inr [simp]: "with_context c r = Inr x \<longleftrightarrow> r = Inr x"
  by (cases r) simp_all

text \<open>The operator \<open>?\<close>: an error returns at once, a value goes on.\<close>

definition and_then :: "'a result \<Rightarrow> ('a \<Rightarrow> 'b result) \<Rightarrow> 'b result" where
  [rust_defs]: "and_then r f = (case r of Inl e \<Rightarrow> Inl e | Inr x \<Rightarrow> f x)"

lemma and_then_simps [simp]:
  "and_then (Inl e) f = Inl e"
  "and_then (Inr x) f = f x"
  by (simp_all add: and_then_def)

lemma and_then_eq_Inr [simp]: "and_then r f = Inr y \<longleftrightarrow> (\<exists>x. r = Inr x \<and> f x = Inr y)"
  by (cases r) simp_all

section \<open>Hash maps\<close>

text \<open>
  A \<open>std::collections::HashMap\<close> is the list of its entries in the order an iteration visits them.
  Rust leaves that order open (it differs between runs), so results that must not depend on it are
  proved equal under permutation of the list. Keys are distinct.
\<close>

type_synonym ('k, 'v) hashmap = "('k \<times> 'v) list"

definition hm_wf :: "('k, 'v) hashmap \<Rightarrow> bool" where
  "hm_wf m \<longleftrightarrow> distinct (map fst m)"

definition hm_get :: "('k, 'v) hashmap \<Rightarrow> 'k \<Rightarrow> 'v option" where
  [rust_defs]: "hm_get m k = map_of m k"

definition contains_key :: "('k, 'v) hashmap \<Rightarrow> 'k \<Rightarrow> bool" where
  [rust_defs]: "contains_key m k \<longleftrightarrow> hm_get m k \<noteq> None"

definition keys :: "('k, 'v) hashmap \<Rightarrow> 'k list" where
  [rust_defs]: "keys m = map fst m"

definition hm_insert :: "'k \<Rightarrow> 'v \<Rightarrow> ('k, 'v) hashmap \<Rightarrow> ('k, 'v) hashmap" where
  [rust_defs]: "hm_insert k v m = AList.update k v m"

lemma contains_key_iff: "contains_key m k \<longleftrightarrow> k \<in> set (keys m)"
  by (simp add: contains_key_def hm_get_def keys_def map_of_eq_None_iff)

lemma hm_get_keys: "hm_get m k = Some v \<Longrightarrow> k \<in> set (keys m)"
  unfolding hm_get_def keys_def set_map by (metis domI dom_map_of_conv_image_fst)

lemma hm_wf_empty [simp]: "hm_wf []"
  by (simp add: hm_wf_def)

lemma hm_wf_insert [simp]: "hm_wf m \<Longrightarrow> hm_wf (hm_insert k v m)"
  by (simp add: hm_wf_def hm_insert_def distinct_update)

lemma hm_get_insert: "hm_get (hm_insert k v m) k' = (if k' = k then Some v else hm_get m k')"
  by (simp add: hm_get_def hm_insert_def update_conv')

lemma hm_get_eq_Some: "hm_wf m \<Longrightarrow> hm_get m k = Some v \<longleftrightarrow> (k, v) \<in> set m"
  by (simp add: hm_get_def hm_wf_def)

lemma hm_wf_perm: "mset m = mset m' \<Longrightarrow> hm_wf m \<longleftrightarrow> hm_wf m'"
  unfolding hm_wf_def by (metis mset_eq_imp_distinct_iff mset_map)

lemma hm_get_perm:
  assumes "hm_wf m" and "mset m = mset m'"
  shows "hm_get m k = hm_get m' k"
proof -
  have wf': "hm_wf m'"
    using assms hm_wf_perm by blast
  have "hm_get m k = Some v \<longleftrightarrow> hm_get m' k = Some v" for v
    unfolding hm_get_eq_Some [OF assms(1)] hm_get_eq_Some [OF wf']
    using mset_eq_setD [OF assms(2)] by simp
  then show ?thesis
    by (metis not_Some_eq)
qed

lemma keys_perm: "mset m = mset m' \<Longrightarrow> set (keys m) = set (keys m')"
  by (auto simp: keys_def dest: mset_eq_setD)

section \<open>Layout of structs\<close>

text \<open>
  \<open>repr(C)\<close>: each field starts at the next multiple of its alignment. The end of the last field, given
  the sizes and alignments, and where the fields start.
\<close>

fun layout_end :: "nat \<Rightarrow> (nat \<times> nat) list \<Rightarrow> nat" where
  "layout_end off [] = off"
| "layout_end off ((sz, al) # fs) = layout_end ((off + al - 1) div al * al + sz) fs"

fun field_offsets :: "nat \<Rightarrow> (nat \<times> nat) list \<Rightarrow> nat list" where
  "field_offsets off [] = []"
| "field_offsets off ((sz, al) # fs) =
     (let start = (off + al - 1) div al * al in start # field_offsets (start + sz) fs)"

section \<open>Step relations\<close>

text \<open>Invariants of a step relation, and what they give for reachable states.\<close>

locale step_invariant =
  fixes step :: "'s \<Rightarrow> 's \<Rightarrow> bool" and start :: 's and I :: "'s \<Rightarrow> bool"
  assumes holds_initially: "I start"
    and kept: "step s s' \<Longrightarrow> I s \<Longrightarrow> I s'"
begin

lemma reachable_invariant: "step\<^sup>*\<^sup>* start s \<Longrightarrow> I s"
  by (induction rule: rtranclp_induct) (auto intro: holds_initially kept)

end

section \<open>Machines with answers\<close>

text \<open>
  A machine takes an event and its state to an answer and the next state. If every step of one
  machine is answered as by another, in related states, so is every run.
\<close>

fun run_machine :: "('e \<Rightarrow> 's \<Rightarrow> 'a \<times> 's) \<Rightarrow> 'e list \<Rightarrow> 's \<Rightarrow> 'a list \<times> 's" where
  "run_machine step [] s = ([], s)"
| "run_machine step (e # es) s =
     (let (a, s') = step e s; (as, s'') = run_machine step es s' in (a # as, s''))"

lemma fst_run_machine_Cons:
  "fst (run_machine step (e # es) s) = fst (step e s) # fst (run_machine step es (snd (step e s)))"
  by (simp add: split_beta)

lemma snd_run_machine_Cons: "snd (run_machine step (e # es) s) = snd (run_machine step es (snd (step e s)))"
  by (simp add: split_beta)

lemmas run_machine_Cons = fst_run_machine_Cons snd_run_machine_Cons

declare run_machine.simps(2) [simp del] run_machine_Cons [simp]

locale machine_refinement =
  fixes cstep :: "'e \<Rightarrow> 's \<Rightarrow> 'a \<times> 's" and astep :: "'e \<Rightarrow> 't \<Rightarrow> 'a \<times> 't"
    and rel :: "'s \<Rightarrow> 't \<Rightarrow> bool" and ok :: "'e \<Rightarrow> bool"
  assumes same_answer: "rel s t \<Longrightarrow> ok e \<Longrightarrow> fst (cstep e s) = fst (astep e t)"
    and related_after: "rel s t \<Longrightarrow> ok e \<Longrightarrow> rel (snd (cstep e s)) (snd (astep e t))"
begin

lemma run_related:
  "rel s t \<Longrightarrow> list_all ok es \<Longrightarrow>
     fst (run_machine cstep es s) = fst (run_machine astep es t) \<and>
     rel (snd (run_machine cstep es s)) (snd (run_machine astep es t))"
  by (induction es arbitrary: s t) (simp_all add: same_answer related_after)

end

end
