(* ===== verification/Common_Types.thy ===== *)
theory Common_Types
  imports Rbac_Prelude
begin

text \<open>
  The crate \<open>bpf-rbacd-common\<close>: the key and value of the eBPF policy map, the policy flags, and
  the tables of kernel enum values that serve as bit positions. A module of \<open>u32\<close> constants is
  the association list of its constants' names and values.
\<close>

section \<open>Keys and values of the policy map\<close>

record PolicyKey =
  userns_id :: u64

record PolicyValue =
  allowed_cmds :: u32
  allowed_prog_types :: u32
  allowed_map_types :: u32
  allowed_attach_types :: u32
  flags :: u32
  reserved :: "u32 list"

definition PolicyValue_empty :: PolicyValue where
  "PolicyValue_empty =
     \<lparr>allowed_cmds = 0, allowed_prog_types = 0, allowed_map_types = 0,
      allowed_attach_types = 0, flags = 0, reserved = replicate 3 0\<rparr>"

definition PolicyValue_allow_all :: PolicyValue where
  "PolicyValue_allow_all =
     \<lparr>allowed_cmds = 0xFFFFFFFF, allowed_prog_types = 0xFFFFFFFF, allowed_map_types = 0xFFFFFFFF,
      allowed_attach_types = 0xFFFFFFFF, flags = 0, reserved = replicate 3 0\<rparr>"

section \<open>Flags\<close>

definition POLICY_FLAG_ALLOW_ALL :: u32 where
  "POLICY_FLAG_ALLOW_ALL = push_bit 0 1"

definition POLICY_FLAG_DENY_ALL :: u32 where
  "POLICY_FLAG_DENY_ALL = push_bit 1 1"

lemma flag_bits:
  "(f AND POLICY_FLAG_ALLOW_ALL \<noteq> 0) \<longleftrightarrow> bit f 0"
  "(f AND POLICY_FLAG_DENY_ALL \<noteq> 0) \<longleftrightarrow> bit f 1"
  using and_shl1_nonzero [of 0 f] and_shl1_nonzero [of 1 f]
  by (simp_all add: POLICY_FLAG_ALLOW_ALL_def POLICY_FLAG_DENY_ALL_def shl1_def)

definition MAX_POLICY_ENTRIES :: u32 where
  "MAX_POLICY_ENTRIES = 1024"

section \<open>Kernel enum values\<close>

definition common_prog_types :: "(string \<times> u32) list" where
  "common_prog_types =
     [(''SOCKET_FILTER'', 1), (''KPROBE'', 2), (''SCHED_CLS'', 3), (''SCHED_ACT'', 4),
      (''TRACEPOINT'', 5), (''XDP'', 6), (''PERF_EVENT'', 7), (''CGROUP_SKB'', 8),
      (''CGROUP_SOCK'', 9), (''LWT_IN'', 10), (''LWT_OUT'', 11), (''LWT_XMIT'', 12),
      (''SOCK_OPS'', 13), (''SK_SKB'', 14), (''CGROUP_DEVICE'', 15), (''SK_MSG'', 16),
      (''RAW_TRACEPOINT'', 17), (''CGROUP_SOCK_ADDR'', 18), (''LWT_SEG6LOCAL'', 19),
      (''SK_REUSEPORT'', 21), (''FLOW_DISSECTOR'', 22), (''TRACING'', 26), (''STRUCT_OPS'', 27),
      (''EXT'', 28), (''LSM'', 29), (''SK_LOOKUP'', 30)]"

definition common_map_types :: "(string \<times> u32) list" where
  "common_map_types =
     [(''HASH'', 1), (''ARRAY'', 2), (''PROG_ARRAY'', 3), (''PERF_EVENT_ARRAY'', 4),
      (''PERCPU_HASH'', 5), (''PERCPU_ARRAY'', 6), (''STACK_TRACE'', 7), (''CGROUP_ARRAY'', 8),
      (''LRU_HASH'', 9), (''LRU_PERCPU_HASH'', 10), (''LPM_TRIE'', 11), (''ARRAY_OF_MAPS'', 12),
      (''HASH_OF_MAPS'', 13), (''DEVMAP'', 14), (''SOCKMAP'', 15), (''CPUMAP'', 16),
      (''XSKMAP'', 17), (''SOCKHASH'', 18), (''RINGBUF'', 27)]"

definition common_commands :: "(string \<times> u32) list" where
  "common_commands =
     [(''MAP_CREATE'', 0), (''MAP_LOOKUP_ELEM'', 1), (''MAP_UPDATE_ELEM'', 2),
      (''MAP_DELETE_ELEM'', 3), (''MAP_GET_NEXT_KEY'', 4), (''PROG_LOAD'', 5), (''OBJ_PIN'', 6),
      (''OBJ_GET'', 7), (''PROG_ATTACH'', 8), (''PROG_DETACH'', 9), (''PROG_TEST_RUN'', 10),
      (''OBJ_GET_INFO_BY_FD'', 15), (''BTF_LOAD'', 18), (''LINK_CREATE'', 28),
      (''LINK_UPDATE'', 29), (''TOKEN_CREATE'', 33)]"

end
