(* ===== verification/Lsm_Hooks.thy ===== *)
theory Lsm_Hooks
  imports Common_Types
begin

text \<open>
  The eBPF LSM programs of \<open>bpf-rbacd-ebpf\<close>. A hook reads its context, looks the caller's user
  namespace up in the policy map and answers \<open>0\<close> (allow) or \<open>-1\<close> (\<open>EPERM\<close>); the log records
  that \<open>info!\<close> emits are returned beside the answer. The programs share one contract, the locale
  \<open>lsm_hook\<close>, and every fact about them is proved there once.
\<close>

section \<open>Context, policy map and log\<close>

text \<open>
  The context holds the hook arguments the programs read: argument 0 (the command of
  \<open>security_bpf\<close>), argument 1 (the pointer to \<open>bpf_attr\<close>: \<open>None\<close> when it is null, else the
  first \<open>u32\<close> it points to) and argument 3 (whether the call came from the kernel).
\<close>

record lsm_context =
  arg_cmd :: i32
  arg_attr :: "u32 option"
  arg_kernel :: u32

type_synonym policy_map = "PolicyKey \<rightharpoonup> PolicyValue"

datatype lsm_log =
    DeniedCmd i32 u64
  | DeniedProgType u32 u64
  | DeniedMapType u32 u64

section \<open>The programs\<close>

text \<open>
  The resolver of the caller's namespace is a stub in the source. The bodies take its answer as the
  argument \<open>userns\<close>, so that they are proved for any resolver; the programs of the source are the ones
  named \<open>compiled\<close>, which pass them the answer of \<open>get_current_userns_id\<close>.
\<close>

definition get_current_userns_id :: "i64 + u64" where
  "get_current_userns_id = Inr 0"

definition try_bpf_rbac_bpf ::
    "i64 + u64 \<Rightarrow> policy_map \<Rightarrow> lsm_context \<Rightarrow> (i64 + i32) \<times> lsm_log list" where
  "try_bpf_rbac_bpf userns POLICY_MAP ctx =
     (let cmd = arg_cmd ctx; kernel = arg_kernel ctx in
      if kernel \<noteq> 0 then (Inr 0, [])
      else case userns of
        Inl e \<Rightarrow> (Inl e, [])
      | Inr ns \<Rightarrow>
          (case POLICY_MAP \<lparr>userns_id = ns\<rparr> of
             None \<Rightarrow> (Inr 0, [])
           | Some policy \<Rightarrow>
               if flags policy AND POLICY_FLAG_DENY_ALL \<noteq> 0 then (Inr (- 1), [])
               else if flags policy AND POLICY_FLAG_ALLOW_ALL \<noteq> 0 then (Inr 0, [])
               else let cmd_bit = cmd in
                 if cmd_bit < 32 \<and> allowed_cmds policy AND shl1 cmd_bit \<noteq> 0 then (Inr 0, [])
                 else (Inr (- 1), [DeniedCmd cmd ns])))"

definition bpf_rbac_bpf ::
    "i64 + u64 \<Rightarrow> policy_map \<Rightarrow> lsm_context \<Rightarrow> i32 \<times> lsm_log list" where
  "bpf_rbac_bpf userns POLICY_MAP ctx =
     (case try_bpf_rbac_bpf userns POLICY_MAP ctx of
        (Inr ret, l) \<Rightarrow> (ret, l)
      | (Inl _, l) \<Rightarrow> (- 1, l))"

definition try_bpf_rbac_prog_load ::
    "i64 + u64 \<Rightarrow> policy_map \<Rightarrow> lsm_context \<Rightarrow> (i64 + i32) \<times> lsm_log list" where
  "try_bpf_rbac_prog_load userns POLICY_MAP ctx =
     (let kernel = arg_kernel ctx in
      if kernel \<noteq> 0 then (Inr 0, [])
      else case userns of
        Inl e \<Rightarrow> (Inl e, [])
      | Inr ns \<Rightarrow>
          (case POLICY_MAP \<lparr>userns_id = ns\<rparr> of
             None \<Rightarrow> (Inr 0, [])
           | Some policy \<Rightarrow>
               if flags policy AND POLICY_FLAG_DENY_ALL \<noteq> 0 then (Inr (- 1), [])
               else if flags policy AND POLICY_FLAG_ALLOW_ALL \<noteq> 0 then (Inr 0, [])
               else (case arg_attr ctx of
                       None \<Rightarrow> (Inr (- 1), [])
                     | Some prog_type \<Rightarrow>
                         if prog_type < 32 \<and> allowed_prog_types policy AND shl1 prog_type \<noteq> 0
                         then (Inr 0, [])
                         else (Inr (- 1), [DeniedProgType prog_type ns]))))"

definition bpf_rbac_prog_load ::
    "i64 + u64 \<Rightarrow> policy_map \<Rightarrow> lsm_context \<Rightarrow> i32 \<times> lsm_log list" where
  "bpf_rbac_prog_load userns POLICY_MAP ctx =
     (case try_bpf_rbac_prog_load userns POLICY_MAP ctx of
        (Inr ret, l) \<Rightarrow> (ret, l)
      | (Inl _, l) \<Rightarrow> (- 1, l))"

definition try_bpf_rbac_map_create ::
    "i64 + u64 \<Rightarrow> policy_map \<Rightarrow> lsm_context \<Rightarrow> (i64 + i32) \<times> lsm_log list" where
  "try_bpf_rbac_map_create userns POLICY_MAP ctx =
     (let kernel = arg_kernel ctx in
      if kernel \<noteq> 0 then (Inr 0, [])
      else case userns of
        Inl e \<Rightarrow> (Inl e, [])
      | Inr ns \<Rightarrow>
          (case POLICY_MAP \<lparr>userns_id = ns\<rparr> of
             None \<Rightarrow> (Inr 0, [])
           | Some policy \<Rightarrow>
               if flags policy AND POLICY_FLAG_DENY_ALL \<noteq> 0 then (Inr (- 1), [])
               else if flags policy AND POLICY_FLAG_ALLOW_ALL \<noteq> 0 then (Inr 0, [])
               else (case arg_attr ctx of
                       None \<Rightarrow> (Inr (- 1), [])
                     | Some map_type \<Rightarrow>
                         if map_type < 32 \<and> allowed_map_types policy AND shl1 map_type \<noteq> 0
                         then (Inr 0, [])
                         else (Inr (- 1), [DeniedMapType map_type ns]))))"

definition bpf_rbac_map_create ::
    "i64 + u64 \<Rightarrow> policy_map \<Rightarrow> lsm_context \<Rightarrow> i32 \<times> lsm_log list" where
  "bpf_rbac_map_create userns POLICY_MAP ctx =
     (case try_bpf_rbac_map_create userns POLICY_MAP ctx of
        (Inr ret, l) \<Rightarrow> (ret, l)
      | (Inl _, l) \<Rightarrow> (- 1, l))"

text \<open>The programs as the source compiles them: each asks the resolver of the source.\<close>

definition compiled_bpf :: "policy_map \<Rightarrow> lsm_context \<Rightarrow> i32 \<times> lsm_log list" where
  "compiled_bpf POLICY_MAP ctx = bpf_rbac_bpf get_current_userns_id POLICY_MAP ctx"

definition compiled_prog_load :: "policy_map \<Rightarrow> lsm_context \<Rightarrow> i32 \<times> lsm_log list" where
  "compiled_prog_load POLICY_MAP ctx = bpf_rbac_prog_load get_current_userns_id POLICY_MAP ctx"

definition compiled_map_create :: "policy_map \<Rightarrow> lsm_context \<Rightarrow> i32 \<times> lsm_log list" where
  "compiled_map_create POLICY_MAP ctx = bpf_rbac_map_create get_current_userns_id POLICY_MAP ctx"

section \<open>What a hook must decide\<close>

text \<open>
  The abstract decision: a request about \<open>subject\<close> (a command, program type or map type number;
  \<open>None\<close> if it could not be read) under a policy entry, judged on single bits.
\<close>

definition entry_permits :: "PolicyValue \<Rightarrow> u32 \<Rightarrow> u32 option \<Rightarrow> bool" where
  "entry_permits policy bitmap subject \<longleftrightarrow>
     \<not> bit (flags policy) 1 \<and>
     (bit (flags policy) 0 \<or>
      (case subject of None \<Rightarrow> False | Some s \<Rightarrow> unat s < 32 \<and> bit bitmap (unat s)))"

definition hook_permits ::
    "i64 + u64 \<Rightarrow> policy_map \<Rightarrow> (PolicyValue \<Rightarrow> u32) \<Rightarrow> u32 option \<Rightarrow> bool \<Rightarrow> bool" where
  "hook_permits userns m bitmap subject from_kernel \<longleftrightarrow>
     from_kernel \<or>
     (case userns of
        Inl _ \<Rightarrow> False
      | Inr u \<Rightarrow> (case m \<lparr>userns_id = u\<rparr> of
                    None \<Rightarrow> True
                  | Some policy \<Rightarrow> entry_permits policy (bitmap policy) subject))"

locale lsm_hook =
  fixes hook :: "i64 + u64 \<Rightarrow> policy_map \<Rightarrow> lsm_context \<Rightarrow> i32 \<times> lsm_log list"
    and bitmap :: "PolicyValue \<Rightarrow> u32"
    and subject :: "lsm_context \<Rightarrow> u32 option"
    and denied :: "u32 \<Rightarrow> u64 \<Rightarrow> lsm_log"
  assumes from_kernel: "arg_kernel ctx \<noteq> 0 \<Longrightarrow> hook userns m ctx = (0, [])"
    and unresolved: "arg_kernel ctx = 0 \<Longrightarrow> hook (Inl e) m ctx = (- 1, [])"
    and unmanaged: "arg_kernel ctx = 0 \<Longrightarrow> m \<lparr>userns_id = u\<rparr> = None \<Longrightarrow>
        hook (Inr u) m ctx = (0, [])"
    and managed: "arg_kernel ctx = 0 \<Longrightarrow> m \<lparr>userns_id = u\<rparr> = Some policy \<Longrightarrow>
        hook (Inr u) m ctx =
          (if entry_permits policy (bitmap policy) (subject ctx) then (0, [])
           else if bit (flags policy) 1 then (- 1, [])
           else case subject ctx of None \<Rightarrow> (- 1, []) | Some s \<Rightarrow> (- 1, [denied s u]))"
begin

lemma refines:
  "fst (hook userns m ctx) =
     (if hook_permits userns m bitmap (subject ctx) (arg_kernel ctx \<noteq> 0) then 0 else - 1)"
proof (cases "arg_kernel ctx = 0")
  case False
  then show ?thesis
    by (simp add: from_kernel hook_permits_def)
next
  case True
  then show ?thesis
    by (cases userns)
      (auto simp: unresolved unmanaged managed hook_permits_def split: option.splits)
qed

lemma allows_iff:
  "fst (hook userns m ctx) = 0 \<longleftrightarrow>
     hook_permits userns m bitmap (subject ctx) (arg_kernel ctx \<noteq> 0)"
  by (simp add: refines)

lemma own_entry_decides:
  assumes "m' \<lparr>userns_id = u\<rparr> = m \<lparr>userns_id = u\<rparr>"
  shows "hook (Inr u) m' ctx = hook (Inr u) m ctx"
  using assms by (cases "arg_kernel ctx = 0"; cases "m \<lparr>userns_id = u\<rparr>")
    (simp_all add: from_kernel unmanaged managed)

lemma isolated: "u \<noteq> u' \<Longrightarrow> hook (Inr u) (m(\<lparr>userns_id = u'\<rparr> := e)) ctx = hook (Inr u) m ctx"
  by (rule own_entry_decides) simp

lemma logged_iff:
  assumes "arg_kernel ctx = 0" and "m \<lparr>userns_id = u\<rparr> = Some policy"
  shows "snd (hook (Inr u) m ctx) =
     (case subject ctx of
        Some s \<Rightarrow> if fst (hook (Inr u) m ctx) = - 1 \<and> \<not> bit (flags policy) 1
                  then [denied s u] else []
      | None \<Rightarrow> [])"
  using assms by (auto simp: managed split: option.splits)

lemma restrictive:
  assumes "\<And>u p. m \<lparr>userns_id = u\<rparr> = Some p \<Longrightarrow> \<exists>p'. m' \<lparr>userns_id = u\<rparr> = Some p' \<and>
      flags p' = flags p \<and> bitmap_le (bitmap p) (bitmap p')"
    and "dom m' = dom m" and "fst (hook userns m ctx) = 0"
  shows "fst (hook userns m' ctx) = 0"
proof -
  have "hook_permits userns m' bitmap (subject ctx) (arg_kernel ctx \<noteq> 0)"
    if permits: "hook_permits userns m bitmap (subject ctx) (arg_kernel ctx \<noteq> 0)"
  proof (cases "arg_kernel ctx \<noteq> 0")
    case False
    with permits obtain u where u: "userns = Inr u"
      by (cases userns) (simp_all add: hook_permits_def)
    show ?thesis
    proof (cases "m \<lparr>userns_id = u\<rparr>")
      case None
      with assms(2) have "m' \<lparr>userns_id = u\<rparr> = None"
        by (metis domIff)
      with u show ?thesis by (simp add: hook_permits_def)
    next
      case (Some p)
      with assms(1) obtain p' where "m' \<lparr>userns_id = u\<rparr> = Some p'" "flags p' = flags p"
        and le: "bitmap_le (bitmap p) (bitmap p')"
        by blast
      with u permits Some False show ?thesis
        by (auto simp: hook_permits_def entry_permits_def bitmap_le_iff split: option.splits)
    qed
  qed (simp add: hook_permits_def)
  with assms(3) show ?thesis
    by (simp add: refines split: if_splits)
qed

end

lemmas hook_defs =
  bpf_rbac_bpf_def try_bpf_rbac_bpf_def bpf_rbac_prog_load_def try_bpf_rbac_prog_load_def
  bpf_rbac_map_create_def try_bpf_rbac_map_create_def

lemma subject_test:
  "((s :: u32) < 32 \<and> v AND shl1 s \<noteq> 0) \<longleftrightarrow> unat s < 32 \<and> bit v (unat s)"
  using and_shl1_nonzero [of s v] by (auto simp: unat_less_32)

interpretation bpf_hook: lsm_hook bpf_rbac_bpf allowed_cmds "\<lambda>ctx. Some (arg_cmd ctx)" DeniedCmd
  by unfold_locales
    (auto simp: hook_defs Let_def flag_bits subject_test entry_permits_def)

interpretation prog_load_hook:
  lsm_hook bpf_rbac_prog_load allowed_prog_types arg_attr DeniedProgType
  by unfold_locales
    (auto simp: hook_defs Let_def flag_bits subject_test entry_permits_def split: option.splits)

interpretation map_create_hook:
  lsm_hook bpf_rbac_map_create allowed_map_types arg_attr DeniedMapType
  by unfold_locales
    (auto simp: hook_defs Let_def flag_bits subject_test entry_permits_def split: option.splits)

section \<open>Properties of the programs\<close>

text \<open>
  C5: each of the three programs returns \<open>0\<close> exactly when the abstract decision permits the
  request, and \<open>-1\<close> otherwise, whatever the resolver answers and whatever the map holds.
\<close>

theorem lsm_hooks_refine_decision:
  "fst (bpf_rbac_bpf userns m ctx) =
     (if hook_permits userns m allowed_cmds (Some (arg_cmd ctx)) (arg_kernel ctx \<noteq> 0)
      then 0 else - 1) \<and>
   fst (bpf_rbac_prog_load userns m ctx) =
     (if hook_permits userns m allowed_prog_types (arg_attr ctx) (arg_kernel ctx \<noteq> 0)
      then 0 else - 1) \<and>
   fst (bpf_rbac_map_create userns m ctx) =
     (if hook_permits userns m allowed_map_types (arg_attr ctx) (arg_kernel ctx \<noteq> 0)
      then 0 else - 1)"
  by (intro conjI bpf_hook.refines prog_load_hook.refines map_create_hook.refines)

text \<open>
  \<open>POLICY_FLAG_DENY_ALL\<close> takes precedence over every other setting of an entry,
  \<open>POLICY_FLAG_ALLOW_ALL\<close> and all bitmaps included: each program answers \<open>-1\<close> to any request
  that does not come from the kernel, and logs nothing.
\<close>

theorem lsm_deny_all_precedence:
  assumes "arg_kernel ctx = 0" and "m \<lparr>userns_id = ns\<rparr> = Some policy"
    and "flags policy AND POLICY_FLAG_DENY_ALL \<noteq> 0"
  shows "bpf_rbac_bpf (Inr ns) m ctx = (- 1, []) \<and>
     bpf_rbac_prog_load (Inr ns) m ctx = (- 1, []) \<and>
     bpf_rbac_map_create (Inr ns) m ctx = (- 1, [])"
  using assms
  by (simp add: flag_bits entry_permits_def bpf_hook.managed prog_load_hook.managed
      map_create_hook.managed)

theorem lsm_deny_all_precedence_witness:
  "bpf_rbac_bpf (Inr 7)
     [\<lparr>userns_id = 7\<rparr> \<mapsto> PolicyValue_allow_all\<lparr>flags := 3\<rparr>]
     \<lparr>arg_cmd = 5, arg_attr = Some 2, arg_kernel = 0\<rparr> = (- 1, [])"
  using lsm_deny_all_precedence
    [of "\<lparr>arg_cmd = 5, arg_attr = Some 2, arg_kernel = 0\<rparr>"
        "[\<lparr>userns_id = 7\<rparr> \<mapsto> PolicyValue_allow_all\<lparr>flags := 3\<rparr>]" 7]
  by (simp add: POLICY_FLAG_DENY_ALL_def)

text \<open>
  Namespaces are isolated from each other. Adding, changing or removing the entry of one user
  namespace never changes what any program answers, or logs, for another.
\<close>

theorem lsm_namespace_isolation:
  assumes "ns \<noteq> ns'"
  shows "bpf_rbac_bpf (Inr ns) (m(\<lparr>userns_id = ns'\<rparr> := entry)) ctx = bpf_rbac_bpf (Inr ns) m ctx \<and>
     bpf_rbac_prog_load (Inr ns) (m(\<lparr>userns_id = ns'\<rparr> := entry)) ctx =
       bpf_rbac_prog_load (Inr ns) m ctx \<and>
     bpf_rbac_map_create (Inr ns) (m(\<lparr>userns_id = ns'\<rparr> := entry)) ctx =
       bpf_rbac_map_create (Inr ns) m ctx"
  using assms by (intro conjI bpf_hook.isolated prog_load_hook.isolated map_create_hook.isolated)

theorem lsm_namespace_isolation_witness:
  "bpf_rbac_bpf (Inr 1) (Map.empty(\<lparr>userns_id = 2\<rparr> := Some PolicyValue_empty))
     \<lparr>arg_cmd = 5, arg_attr = None, arg_kernel = 0\<rparr> = (0, [])"
  using lsm_namespace_isolation [of 1 2 Map.empty "Some PolicyValue_empty"
      "\<lparr>arg_cmd = 5, arg_attr = None, arg_kernel = 0\<rparr>"]
  by (simp add: hook_defs)

text \<open>
  A namespace without a policy entry is not restricted at all: every program allows every
  request and logs nothing. Removing an entry therefore lifts the restrictions of its namespace.
\<close>

theorem lsm_removed_entry_allows:
  "bpf_rbac_bpf (Inr ns) (m(\<lparr>userns_id = ns\<rparr> := None)) ctx = (0, []) \<and>
   bpf_rbac_prog_load (Inr ns) (m(\<lparr>userns_id = ns\<rparr> := None)) ctx = (0, []) \<and>
   bpf_rbac_map_create (Inr ns) (m(\<lparr>userns_id = ns\<rparr> := None)) ctx = (0, [])"
  by (cases "arg_kernel ctx = 0")
    (simp_all add: bpf_hook.unmanaged prog_load_hook.unmanaged map_create_hook.unmanaged
      bpf_hook.from_kernel prog_load_hook.from_kernel map_create_hook.from_kernel)

text \<open>
  With the stubbed resolver of the source only the entry of namespace 0 has any effect. As
  long as the map has none, the three programs allow every request of every process, whatever
  entries the map holds for real namespaces.
\<close>

theorem lsm_stub_resolver_inert:
  assumes "m \<lparr>userns_id = 0\<rparr> = None"
  shows "compiled_bpf m ctx = (0, []) \<and> compiled_prog_load m ctx = (0, []) \<and>
     compiled_map_create m ctx = (0, [])"
  using assms
  by (cases "arg_kernel ctx = 0")
    (simp_all add: compiled_bpf_def compiled_prog_load_def compiled_map_create_def get_current_userns_id_def
      bpf_hook.unmanaged prog_load_hook.unmanaged map_create_hook.unmanaged
      bpf_hook.from_kernel prog_load_hook.from_kernel map_create_hook.from_kernel)

theorem lsm_stub_resolver_inert_witness:
  "compiled_bpf
     [\<lparr>userns_id = 4026531837\<rparr> \<mapsto> PolicyValue_empty\<lparr>flags := POLICY_FLAG_DENY_ALL\<rparr>]
     \<lparr>arg_cmd = 5, arg_attr = Some 2, arg_kernel = 0\<rparr> = (0, [])"
  using lsm_stub_resolver_inert
    [of "[\<lparr>userns_id = 4026531837\<rparr> \<mapsto> PolicyValue_empty\<lparr>flags := POLICY_FLAG_DENY_ALL\<rparr>]"
        "\<lparr>arg_cmd = 5, arg_attr = Some 2, arg_kernel = 0\<rparr>"]
  by simp

text \<open>
  The command \<open>TOKEN_CREATE\<close> of the shared constants has a number that no 32-bit bitmap can
  hold. In a managed namespace without \<open>POLICY_FLAG_ALLOW_ALL\<close> the \<open>security_bpf\<close> program denies
  it whatever \<open>allowed_cmds\<close> says.
\<close>

theorem lsm_token_create_denied:
  assumes "map_of common_commands ''TOKEN_CREATE'' = Some (arg_cmd ctx)"
    and "arg_kernel ctx = 0" and "m \<lparr>userns_id = ns\<rparr> = Some policy"
    and "flags policy AND POLICY_FLAG_ALLOW_ALL = 0"
  shows "fst (bpf_rbac_bpf (Inr ns) m ctx) = - 1"
proof -
  from assms(1) have "arg_cmd ctx = 33"
    by (simp add: common_commands_def)
  with assms show ?thesis
    using flag_bits(1) [of "flags policy"]
    by (simp add: bpf_hook.refines hook_permits_def entry_permits_def)
qed

theorem lsm_token_create_denied_witness:
  "fst (bpf_rbac_bpf (Inr 9) [\<lparr>userns_id = 9\<rparr> \<mapsto> PolicyValue_allow_all]
     \<lparr>arg_cmd = 33, arg_attr = None, arg_kernel = 0\<rparr>) = - 1"
  using lsm_token_create_denied
    [of "\<lparr>arg_cmd = 33, arg_attr = None, arg_kernel = 0\<rparr>"
        "[\<lparr>userns_id = 9\<rparr> \<mapsto> PolicyValue_allow_all]" 9 PolicyValue_allow_all]
  by (simp add: common_commands_def PolicyValue_allow_all_def)

text \<open>
  The two constructors of \<open>PolicyValue\<close>. Under \<open>empty()\<close> every program denies every request
  from user space; under \<open>allow_all()\<close> a program allows exactly the numbers below 32.
\<close>

theorem lsm_constructor_values:
  assumes "arg_kernel ctx = 0"
  shows "(m \<lparr>userns_id = ns\<rparr> = Some PolicyValue_empty \<longrightarrow>
      fst (bpf_rbac_bpf (Inr ns) m ctx) = - 1 \<and>
      fst (bpf_rbac_prog_load (Inr ns) m ctx) = - 1 \<and>
      fst (bpf_rbac_map_create (Inr ns) m ctx) = - 1) \<and>
    (m \<lparr>userns_id = ns\<rparr> = Some PolicyValue_allow_all \<longrightarrow>
      (fst (bpf_rbac_bpf (Inr ns) m ctx) = 0 \<longleftrightarrow> unat (arg_cmd ctx) < 32) \<and>
      (fst (bpf_rbac_prog_load (Inr ns) m ctx) = 0 \<longleftrightarrow> (\<exists>t. arg_attr ctx = Some t \<and> unat t < 32)) \<and>
      (fst (bpf_rbac_map_create (Inr ns) m ctx) = 0 \<longleftrightarrow> (\<exists>t. arg_attr ctx = Some t \<and> unat t < 32)))"
proof -
  have empty: "\<not> entry_permits PolicyValue_empty 0 s" for s
    by (cases s) (simp_all add: entry_permits_def PolicyValue_empty_def)
  have all: "entry_permits PolicyValue_allow_all 0xFFFFFFFF s \<longleftrightarrow>
      (\<exists>t. s = Some t \<and> unat t < 32)" for s
    unfolding entry_permits_def bit_ones by (cases s) (simp_all add: PolicyValue_allow_all_def)
  show ?thesis
    using assms empty all
    by (simp add: bpf_hook.refines prog_load_hook.refines map_create_hook.refines
        hook_permits_def) (simp add: PolicyValue_empty_def PolicyValue_allow_all_def)
qed

theorem lsm_constructor_values_witness:
  "fst (bpf_rbac_bpf (Inr 4) [\<lparr>userns_id = 4\<rparr> \<mapsto> PolicyValue_empty]
     \<lparr>arg_cmd = 0, arg_attr = None, arg_kernel = 0\<rparr>) = - 1"
  using lsm_constructor_values
    [of "\<lparr>arg_cmd = 0, arg_attr = None, arg_kernel = 0\<rparr>"
        "[\<lparr>userns_id = 4\<rparr> \<mapsto> PolicyValue_empty]" 4]
  by simp

text \<open>
  A denial leaves a trace. When a program denies a request of a managed namespace because of a
  bitmap, it logs one record with the number and the namespace; it logs nothing when it allows,
  when \<open>POLICY_FLAG_DENY_ALL\<close> is set, or when the attribute pointer is null.
\<close>

theorem lsm_denials_logged:
  assumes "arg_kernel ctx = 0" and "m \<lparr>userns_id = ns\<rparr> = Some policy"
  shows "snd (bpf_rbac_bpf (Inr ns) m ctx) =
      (if fst (bpf_rbac_bpf (Inr ns) m ctx) = - 1 \<and> \<not> bit (flags policy) 1
       then [DeniedCmd (arg_cmd ctx) ns] else []) \<and>
    snd (bpf_rbac_prog_load (Inr ns) m ctx) =
      (case arg_attr ctx of
         Some t \<Rightarrow> if fst (bpf_rbac_prog_load (Inr ns) m ctx) = - 1 \<and> \<not> bit (flags policy) 1
                   then [DeniedProgType t ns] else []
       | None \<Rightarrow> []) \<and>
    snd (bpf_rbac_map_create (Inr ns) m ctx) =
      (case arg_attr ctx of
         Some t \<Rightarrow> if fst (bpf_rbac_map_create (Inr ns) m ctx) = - 1 \<and> \<not> bit (flags policy) 1
                   then [DeniedMapType t ns] else []
       | None \<Rightarrow> [])"
  using assms bpf_hook.logged_iff [of ctx m ns policy]
    prog_load_hook.logged_iff [of ctx m ns policy] map_create_hook.logged_iff [of ctx m ns policy]
  by (simp cong: option.case_cong)

theorem lsm_denials_logged_witness:
  "bpf_rbac_bpf (Inr 3) [\<lparr>userns_id = 3\<rparr> \<mapsto> PolicyValue_empty]
     \<lparr>arg_cmd = 5, arg_attr = None, arg_kernel = 0\<rparr> = (- 1, [DeniedCmd 5 3])"
proof -
  let ?m = "[\<lparr>userns_id = 3\<rparr> \<mapsto> PolicyValue_empty]"
  let ?ctx = "\<lparr>arg_cmd = 5, arg_attr = None, arg_kernel = 0\<rparr>"
  have "fst (bpf_rbac_bpf (Inr 3) ?m ?ctx) = - 1"
    by (simp add: hook_defs PolicyValue_empty_def)
  moreover from this have "snd (bpf_rbac_bpf (Inr 3) ?m ?ctx) = [DeniedCmd 5 3]"
    using lsm_denials_logged [of ?ctx ?m 3 PolicyValue_empty]
    by (simp add: PolicyValue_empty_def)
  ultimately show ?thesis
    by (simp add: prod_eq_iff)
qed

end
