(* ===== verification/Wire_Protocol.thy ===== *)
theory Wire_Protocol
  imports Rbac_Prelude
begin

text \<open>
  The messages of \<open>src/protocol.rs\<close>: what a client asks of the daemon and what the daemon answers.
  A Rust \<open>String\<close> is the list of its UTF-8 bytes.
\<close>

datatype Request =
    LoadProgram (req_prog_type: string) (req_object_path: string) (req_program_name: string)
  | CreateMap (req_map_type: string) (req_name: string) (req_key_size: u32)
      (req_value_size: u32) (req_max_entries: u32)
  | Attach (req_attach_type: string) (req_prog_fd: i32) (req_target: string)

datatype Response =
    Success (resp_fd: "i32 option")
  | Denied (resp_reason: string)
  | Error (resp_message: string)

end
