(* ===== verification/Policy_Engine.thy ===== *)
theory Policy_Engine
  imports Common_Types Wire_Protocol
begin

text \<open>
  The policy engine of \<open>src/policy.rs\<close>: the configuration, role resolution, the permission checks,
  and the conversion of a role to \<open>u32\<close> bitmaps. The meaning of a policy as sets of permissions
  is stated separately (\<open>granted\<close>, \<open>granted_ops\<close>), and the checks are proved to implement it.
\<close>

section \<open>Configuration\<close>

type_synonym type_ops = "(string, string list) hashmap"

record SystemPolicy =
  sp_commands :: "string list"
  sp_prog_types :: type_ops
  sp_map_types :: type_ops

record Role =
  description :: "string option"
  groups :: "string list"
  commands :: "string list"
  prog_types :: type_ops
  map_types :: type_ops

record PolicyConfig =
  system_policy :: "SystemPolicy option"
  config_roles :: "(string, Role) hashmap"

record Policy =
  config :: PolicyConfig

text \<open>
  Loading reads a file and parses it; the file system and the YAML parser are parameters.
\<close>

definition Policy_load ::
    "(string \<Rightarrow> string result) \<Rightarrow> (string \<Rightarrow> PolicyConfig result) \<Rightarrow> string \<Rightarrow> Policy result" where
  "Policy_load read_to_string from_str path =
     (case read_to_string path of
        Inl e \<Rightarrow> Inl e
      | Inr contents \<Rightarrow>
          (case from_str contents of
             Inl e \<Rightarrow> Inl e
           | Inr c \<Rightarrow> Inr \<lparr>config = c\<rparr>))"

definition roles :: "Policy \<Rightarrow> (string, Role) hashmap" where
  "roles self = config_roles (config self)"

section \<open>Role resolution\<close>

definition priority_roles :: "string list" where
  "priority_roles = [''ebpf-admin'', ''ebpf-net'', ''ebpf'']"

definition get_role_for_groups :: "Policy \<Rightarrow> string list \<Rightarrow> string option" where
  "get_role_for_groups self user_groups =
     (let user_groups_set = set user_groups;
          matches = (\<lambda>role. list_ex (\<lambda>group. group \<in> user_groups_set) (groups role))
      in case find (\<lambda>role_name. case hm_get (config_roles (config self)) role_name of
                        Some role \<Rightarrow> matches role
                      | None \<Rightarrow> False) priority_roles of
           Some role_name \<Rightarrow> Some role_name
         | None \<Rightarrow> map_option fst (find (\<lambda>(role_name, role). matches role)
                                      (config_roles (config self))))"

section \<open>Permission checks\<close>

definition check_type_op :: "type_ops \<Rightarrow> string \<Rightarrow> string \<Rightarrow> bool" where
  "check_type_op type_map type_name op =
     (case hm_get type_map ''any'' of
        Some ops \<Rightarrow> list_ex (\<lambda>o'. o' = ''any'' \<or> o' = op) ops
      | None \<Rightarrow>
          (case hm_get type_map type_name of
             Some ops \<Rightarrow> list_ex (\<lambda>o'. o' = ''any'' \<or> o' = op) ops
           | None \<Rightarrow> False))"

definition is_command_allowed :: "Policy \<Rightarrow> Role \<Rightarrow> string \<Rightarrow> bool" where
  "is_command_allowed self role command =
     (let role_allows = list_ex (\<lambda>c. c = ''any'' \<or> c = command) (commands role)
      in if \<not> role_allows then False
         else case system_policy (config self) of
                Some system \<Rightarrow> list_ex (\<lambda>c. c = ''any'' \<or> c = command) (sp_commands system)
              | None \<Rightarrow> True)"

definition is_prog_op_allowed :: "Policy \<Rightarrow> Role \<Rightarrow> string \<Rightarrow> string \<Rightarrow> bool" where
  "is_prog_op_allowed self role ptype operation =
     (let role_allows = check_type_op (prog_types role) ptype operation
      in if \<not> role_allows then False
         else case system_policy (config self) of
                Some system \<Rightarrow> check_type_op (sp_prog_types system) ptype operation
              | None \<Rightarrow> True)"

definition is_map_op_allowed :: "Policy \<Rightarrow> Role \<Rightarrow> string \<Rightarrow> string \<Rightarrow> bool" where
  "is_map_op_allowed self role mtype operation =
     (let role_allows = check_type_op (map_types role) mtype operation
      in if \<not> role_allows then False
         else case system_policy (config self) of
                Some system \<Rightarrow> check_type_op (sp_map_types system) mtype operation
              | None \<Rightarrow> True)"

definition is_allowed :: "Policy \<Rightarrow> string \<Rightarrow> Request \<Rightarrow> bool" where
  "is_allowed self role_name request =
     (case hm_get (config_roles (config self)) role_name of
        None \<Rightarrow> False
      | Some role \<Rightarrow>
          (case request of
             LoadProgram ptype _ _ \<Rightarrow>
               is_command_allowed self role ''PROG_LOAD'' \<and>
               is_prog_op_allowed self role ptype ''load''
           | CreateMap mtype _ _ _ _ \<Rightarrow>
               is_command_allowed self role ''MAP_CREATE'' \<and>
               is_map_op_allowed self role mtype ''create''
           | Attach atype _ _ \<Rightarrow>
               is_command_allowed self role ''PROG_ATTACH'' \<and>
               is_prog_op_allowed self role atype ''attach''))"

section \<open>Bit positions\<close>

text \<open>
  A \<open>match\<close> on a string is the list of its arms; \<open>map_of\<close> takes the first that fits.
\<close>

definition prog_type_arms :: "(string \<times> u32) list" where
  "prog_type_arms =
     [(''socket_filter'', 1), (''kprobe'', 2), (''kretprobe'', 2), (''sched_cls'', 3),
      (''sched_act'', 4), (''tracepoint'', 5), (''xdp'', 6), (''perf_event'', 7),
      (''cgroup_skb'', 8), (''cgroup_sock'', 9), (''lwt_in'', 10), (''lwt_out'', 11),
      (''lwt_xmit'', 12), (''sock_ops'', 13), (''sk_skb'', 14), (''cgroup_device'', 15),
      (''sk_msg'', 16), (''raw_tracepoint'', 17), (''cgroup_sock_addr'', 18),
      (''lwt_seg6local'', 19), (''lirc_mode2'', 20), (''sk_reuseport'', 21),
      (''flow_dissector'', 22), (''cgroup_sysctl'', 23), (''raw_tracepoint_writable'', 24),
      (''cgroup_sockopt'', 25), (''tracing'', 26), (''fentry'', 26), (''fexit'', 26),
      (''struct_ops'', 27), (''ext'', 28), (''lsm'', 29), (''sk_lookup'', 30), (''uprobe'', 2),
      (''uretprobe'', 2)]"

definition prog_type_to_bit :: "string \<Rightarrow> u32 option" where
  "prog_type_to_bit name = map_of prog_type_arms name"

definition map_type_arms :: "(string \<times> u32) list" where
  "map_type_arms =
     [(''hash'', 1), (''array'', 2), (''prog_array'', 3), (''perf_event_array'', 4),
      (''percpu_hash'', 5), (''percpu_array'', 6), (''stack_trace'', 7), (''cgroup_array'', 8),
      (''lru_hash'', 9), (''lru_percpu_hash'', 10), (''lpm_trie'', 11), (''array_of_maps'', 12),
      (''hash_of_maps'', 13), (''devmap'', 14), (''sockmap'', 15), (''cpumap'', 16),
      (''xskmap'', 17), (''sockhash'', 18), (''cgroup_storage'', 19),
      (''reuseport_sockarray'', 20), (''percpu_cgroup_storage'', 21), (''queue'', 22),
      (''stack'', 23), (''sk_storage'', 24), (''devmap_hash'', 25), (''struct_ops'', 26),
      (''ringbuf'', 27), (''inode_storage'', 28), (''task_storage'', 29), (''bloom_filter'', 30)]"

definition map_type_to_bit :: "string \<Rightarrow> u32 option" where
  "map_type_to_bit name = map_of map_type_arms name"

definition command_arms :: "(string \<times> u32) list" where
  "command_arms =
     [(''MAP_CREATE'', 0), (''MAP_LOOKUP_ELEM'', 1), (''MAP_UPDATE_ELEM'', 2),
      (''MAP_DELETE_ELEM'', 3), (''MAP_GET_NEXT_KEY'', 4), (''PROG_LOAD'', 5), (''OBJ_PIN'', 6),
      (''OBJ_GET'', 7), (''PROG_ATTACH'', 8), (''PROG_DETACH'', 9), (''PROG_TEST_RUN'', 10),
      (''PROG_GET_NEXT_ID'', 11), (''MAP_GET_NEXT_ID'', 12), (''PROG_GET_FD_BY_ID'', 13),
      (''MAP_GET_FD_BY_ID'', 14), (''OBJ_GET_INFO_BY_FD'', 15), (''PROG_QUERY'', 16),
      (''RAW_TRACEPOINT_OPEN'', 17), (''BTF_LOAD'', 18), (''BTF_GET_FD_BY_ID'', 19),
      (''TASK_FD_QUERY'', 20), (''MAP_LOOKUP_AND_DELETE_ELEM'', 21), (''MAP_FREEZE'', 22),
      (''BTF_GET_NEXT_ID'', 23), (''MAP_LOOKUP_BATCH'', 24),
      (''MAP_LOOKUP_AND_DELETE_BATCH'', 25), (''MAP_UPDATE_BATCH'', 26),
      (''MAP_DELETE_BATCH'', 27), (''LINK_CREATE'', 28), (''LINK_UPDATE'', 29),
      (''LINK_GET_FD_BY_ID'', 30), (''LINK_GET_NEXT_ID'', 31)]"

definition command_to_bit :: "string \<Rightarrow> u32 option" where
  "command_to_bit name = map_of command_arms name"

section \<open>Bitmaps\<close>

text \<open>
  The loop that all bitmap functions share: for each name with a bit position, set the bit.
\<close>

fun set_bits :: "(string \<Rightarrow> u32 option) \<Rightarrow> string list \<Rightarrow> u32 \<Rightarrow> u32" where
  "set_bits to_bit [] bitmap = bitmap"
| "set_bits to_bit (name # names) bitmap =
     set_bits to_bit names
       (case to_bit name of Some b \<Rightarrow> bitmap OR shl1 b | None \<Rightarrow> bitmap)"

definition prog_types_bitmap :: "Policy \<Rightarrow> Role \<Rightarrow> u32" where
  "prog_types_bitmap self role =
     (if contains_key (prog_types role) ''any'' then 0xFFFFFFFF
      else let bitmap = set_bits prog_type_to_bit (keys (prog_types role)) 0
        in case system_policy (config self) of
             Some system \<Rightarrow>
               let system_bitmap =
                 (if contains_key (sp_prog_types system) ''any'' then 0xFFFFFFFF
                  else set_bits prog_type_to_bit (keys (sp_prog_types system)) 0)
               in bitmap AND system_bitmap
           | None \<Rightarrow> bitmap)"

definition map_types_bitmap :: "Policy \<Rightarrow> Role \<Rightarrow> u32" where
  "map_types_bitmap self role =
     (if contains_key (map_types role) ''any'' then 0xFFFFFFFF
      else let bitmap = set_bits map_type_to_bit (keys (map_types role)) 0
        in case system_policy (config self) of
             Some system \<Rightarrow>
               let system_bitmap =
                 (if contains_key (sp_map_types system) ''any'' then 0xFFFFFFFF
                  else set_bits map_type_to_bit (keys (sp_map_types system)) 0)
               in bitmap AND system_bitmap
           | None \<Rightarrow> bitmap)"

definition commands_bitmap :: "Policy \<Rightarrow> Role \<Rightarrow> u32" where
  "commands_bitmap self role =
     (if list_ex (\<lambda>c. c = ''any'') (commands role) then 0xFFFFFFFF
      else let bitmap = set_bits command_to_bit (commands role) 0
        in case system_policy (config self) of
             Some system \<Rightarrow>
               let system_bitmap =
                 (if list_ex (\<lambda>c. c = ''any'') (sp_commands system) then 0xFFFFFFFF
                  else set_bits command_to_bit (sp_commands system) 0)
               in bitmap AND system_bitmap
           | None \<Rightarrow> bitmap)"

end
