(* ===== verification/Policy_Semantics.thy ===== *)
theory Policy_Semantics
  imports Policy_Engine
begin

text \<open>
  What a policy means, and that the engine implements it. The meaning of a list of names is a set
  (\<open>granted\<close>: \<open>any\<close> stands for every name), the meaning of a table of types and operations a set
  of pairs (\<open>granted_ops\<close>). The locale \<open>name_bits\<close> states what the bitmap loops need of a table
  of bit positions; \<open>inj_name_bits\<close> adds that no two names share a bit.
\<close>

section \<open>Meaning of permission lists\<close>

definition granted :: "string list \<Rightarrow> string set" where
  "granted names = (if ''any'' \<in> set names then UNIV else set names)"

definition granted_ops :: "type_ops \<Rightarrow> (string \<times> string) set" where
  "granted_ops m =
     (if ''any'' \<in> set (keys m)
      then {(t, op). \<exists>ops. hm_get m ''any'' = Some ops \<and> op \<in> granted ops}
      else {(t, op). \<exists>ops. hm_get m t = Some ops \<and> op \<in> granted ops})"

definition system_commands :: "Policy \<Rightarrow> string set" where
  "system_commands p =
     (case system_policy (config p) of None \<Rightarrow> UNIV | Some s \<Rightarrow> granted (sp_commands s))"

definition system_prog_ops :: "Policy \<Rightarrow> (string \<times> string) set" where
  "system_prog_ops p =
     (case system_policy (config p) of None \<Rightarrow> UNIV | Some s \<Rightarrow> granted_ops (sp_prog_types s))"

definition system_map_ops :: "Policy \<Rightarrow> (string \<times> string) set" where
  "system_map_ops p =
     (case system_policy (config p) of None \<Rightarrow> UNIV | Some s \<Rightarrow> granted_ops (sp_map_types s))"

lemma list_ex_granted: "list_ex (\<lambda>c. c = ''any'' \<or> c = x) xs \<longleftrightarrow> x \<in> granted xs"
  by (auto simp: granted_def list_ex_iff)

lemma check_type_op_granted: "check_type_op m t op \<longleftrightarrow> (t, op) \<in> granted_ops m"
proof (cases "hm_get m ''any''")
  case None
  then have "''any'' \<notin> set (keys m)"
    using contains_key_iff [of m "''any''"] by (simp add: contains_key_def)
  with None show ?thesis
    by (auto simp: check_type_op_def granted_ops_def list_ex_granted split: option.splits)
next
  case (Some ops)
  then have "''any'' \<in> set (keys m)"
    by (rule hm_get_keys)
  with Some show ?thesis
    by (simp add: check_type_op_def granted_ops_def list_ex_granted)
qed

lemma is_command_allowed_iff:
  "is_command_allowed p r c \<longleftrightarrow> c \<in> granted (commands r) \<inter> system_commands p"
  by (simp add: is_command_allowed_def system_commands_def list_ex_granted Let_def
      split: option.splits)

lemma is_prog_op_allowed_iff:
  "is_prog_op_allowed p r t op \<longleftrightarrow> (t, op) \<in> granted_ops (prog_types r) \<inter> system_prog_ops p"
  by (simp add: is_prog_op_allowed_def system_prog_ops_def check_type_op_granted Let_def
      split: option.splits)

lemma is_map_op_allowed_iff:
  "is_map_op_allowed p r t op \<longleftrightarrow> (t, op) \<in> granted_ops (map_types r) \<inter> system_map_ops p"
  by (simp add: is_map_op_allowed_def system_map_ops_def check_type_op_granted Let_def
      split: option.splits)

lemmas checks_iff = is_command_allowed_iff is_prog_op_allowed_iff is_map_op_allowed_iff

text \<open>The permissions a request needs, and the role that must hold them.\<close>

fun needs_command :: "Request \<Rightarrow> string" where
  "needs_command (LoadProgram _ _ _) = ''PROG_LOAD''"
| "needs_command (CreateMap _ _ _ _ _) = ''MAP_CREATE''"
| "needs_command (Attach _ _ _) = ''PROG_ATTACH''"

fun within_ops :: "(string \<times> string) set \<Rightarrow> (string \<times> string) set \<Rightarrow> Request \<Rightarrow> bool" where
  "within_ops progs maps (LoadProgram t _ _) \<longleftrightarrow> (t, ''load'') \<in> progs"
| "within_ops progs maps (CreateMap t _ _ _ _) \<longleftrightarrow> (t, ''create'') \<in> maps"
| "within_ops progs maps (Attach t _ _) \<longleftrightarrow> (t, ''attach'') \<in> progs"

lemma is_allowed_iff:
  "is_allowed p name req \<longleftrightarrow>
     (\<exists>r. hm_get (roles p) name = Some r \<and>
        needs_command req \<in> granted (commands r) \<inter> system_commands p \<and>
        within_ops (granted_ops (prog_types r) \<inter> system_prog_ops p)
          (granted_ops (map_types r) \<inter> system_map_ops p) req)"
  by (cases req) (auto simp: is_allowed_def roles_def checks_iff split: option.splits)

section \<open>Role resolution\<close>

definition role_matches :: "Role \<Rightarrow> string list \<Rightarrow> bool" where
  "role_matches r gs \<longleftrightarrow> set (groups r) \<inter> set gs \<noteq> {}"

lemma role_matches_list_ex: "list_ex (\<lambda>g. g \<in> set gs) (groups r) \<longleftrightarrow> role_matches r gs"
  by (auto simp: role_matches_def list_ex_iff)

definition holds_role :: "Policy \<Rightarrow> string list \<Rightarrow> string \<Rightarrow> bool" where
  "holds_role p gs name \<longleftrightarrow>
     (\<exists>r. hm_get (roles p) name = Some r \<and> role_matches r gs)"

lemma get_role_unfold:
  "get_role_for_groups p gs =
     (case find (holds_role p gs) priority_roles of
        Some name \<Rightarrow> Some name
      | None \<Rightarrow> map_option fst (find (\<lambda>(name, r). role_matches r gs) (roles p)))"
proof -
  have "(\<lambda>name. case hm_get (config_roles (config p)) name of
           Some r \<Rightarrow> list_ex (\<lambda>g. g \<in> set gs) (groups r) | None \<Rightarrow> False) = holds_role p gs"
    by (rule ext) (simp add: holds_role_def roles_def role_matches_list_ex split: option.splits)
  then show ?thesis
    unfolding get_role_for_groups_def Let_def role_matches_list_ex roles_def by simp
qed

lemma get_role_Some:
  assumes "hm_wf (roles p)" and "get_role_for_groups p gs = Some name"
  shows "holds_role p gs name"
proof (cases "find (holds_role p gs) priority_roles")
  case (Some n)
  with assms(2) show ?thesis
    by (auto simp: get_role_unfold find_Some_iff)
next
  case None
  with assms(2) obtain r where
    found: "find (\<lambda>(name, r). role_matches r gs) (roles p) = Some (name, r)"
    by (auto simp: get_role_unfold)
  then obtain i where "i < length (roles p)" "roles p ! i = (name, r)" "role_matches r gs"
    by (auto simp: find_Some_iff)
  then have "(name, r) \<in> set (roles p)"
    by (metis nth_mem)
  with assms(1) \<open>role_matches r gs\<close> show ?thesis
    by (auto simp: holds_role_def hm_get_eq_Some)
qed

lemma get_role_None:
  assumes "hm_wf (roles p)"
  shows "get_role_for_groups p gs = None \<longleftrightarrow> (\<forall>name. \<not> holds_role p gs name)"
proof
  assume none: "get_role_for_groups p gs = None"
  then have "find (\<lambda>(name, r). role_matches r gs) (roles p) = None"
    by (auto simp: get_role_unfold split: option.splits)
  then have "\<not> role_matches r gs" if "(n, r) \<in> set (roles p)" for n r
    using that by (auto simp: find_None_iff)
  then show "\<forall>name. \<not> holds_role p gs name"
    using assms by (auto simp: holds_role_def hm_get_eq_Some)
next
  assume "\<forall>name. \<not> holds_role p gs name"
  with get_role_Some [OF assms] show "get_role_for_groups p gs = None"
    by (metis not_Some_eq)
qed

lemma get_role_priority:
  "get_role_for_groups p gs =
     (if holds_role p gs ''ebpf-admin'' then Some ''ebpf-admin''
      else if holds_role p gs ''ebpf-net'' then Some ''ebpf-net''
      else if holds_role p gs ''ebpf'' then Some ''ebpf''
      else map_option fst (find (\<lambda>(name, r). role_matches r gs) (roles p)))"
  by (simp add: get_role_unfold priority_roles_def)

section \<open>Bitmaps\<close>

text \<open>The two shapes the three bitmap functions are built from.\<close>

definition names_bitmap :: "(string \<Rightarrow> u32 option) \<Rightarrow> string list \<Rightarrow> u32" where
  "names_bitmap to_bit names =
     (if ''any'' \<in> set names then 0xFFFFFFFF else set_bits to_bit names 0)"

definition capped_bitmap :: "(string \<Rightarrow> u32 option) \<Rightarrow> string list \<Rightarrow> string list option \<Rightarrow> u32" where
  "capped_bitmap to_bit names cap =
     (if ''any'' \<in> set names then 0xFFFFFFFF
      else case cap of
             Some c \<Rightarrow> set_bits to_bit names 0 AND names_bitmap to_bit c
           | None \<Rightarrow> set_bits to_bit names 0)"

lemma prog_types_bitmap_capped:
  "prog_types_bitmap p r = capped_bitmap prog_type_to_bit (keys (prog_types r))
     (map_option (\<lambda>s. keys (sp_prog_types s)) (system_policy (config p)))"
  by (simp add: prog_types_bitmap_def capped_bitmap_def names_bitmap_def contains_key_iff Let_def
      split: option.splits)

lemma map_types_bitmap_capped:
  "map_types_bitmap p r = capped_bitmap map_type_to_bit (keys (map_types r))
     (map_option (\<lambda>s. keys (sp_map_types s)) (system_policy (config p)))"
  by (simp add: map_types_bitmap_def capped_bitmap_def names_bitmap_def contains_key_iff Let_def
      split: option.splits)

lemma commands_bitmap_capped:
  "commands_bitmap p r = capped_bitmap command_to_bit (commands r)
     (map_option sp_commands (system_policy (config p)))"
  by (simp add: commands_bitmap_def capped_bitmap_def names_bitmap_def list_ex_iff Let_def
      split: option.splits)

lemmas bitmaps_capped = prog_types_bitmap_capped map_types_bitmap_capped commands_bitmap_capped

locale name_bits =
  fixes to_bit :: "string \<Rightarrow> u32 option"
  assumes in_range: "to_bit n = Some b \<Longrightarrow> unat b < 32"
begin

lemma bit_set_bits:
  "bit (set_bits to_bit names v) k \<longleftrightarrow>
     bit v k \<or> (\<exists>n b. n \<in> set names \<and> to_bit n = Some b \<and> unat b = k)"
proof (induction names arbitrary: v)
  case Nil
  then show ?case by simp
next
  case (Cons m names)
  show ?case
  proof (cases "to_bit m")
    case None
    with Cons.IH show ?thesis by auto
  next
    case (Some b)
    with in_range have "unat b < 32" .
    with Some Cons.IH show ?thesis
      by (auto simp: bit_or_iff bit_shl1)
  qed
qed

lemma bit_names_bitmap:
  assumes "to_bit n = Some b" and "n \<in> granted names"
  shows "bit (names_bitmap to_bit names) (unat b)"
proof (cases "''any'' \<in> set names")
  case True
  with in_range [OF assms(1)] show ?thesis
    unfolding names_bitmap_def by (simp only: if_True bit_ones)
next
  case False
  with assms show ?thesis
    by (auto simp: names_bitmap_def granted_def bit_set_bits)
qed

lemma bit_capped_bitmap:
  assumes "''any'' \<notin> set names"
  shows "bit (capped_bitmap to_bit names cap) k \<longleftrightarrow>
     (\<exists>n b. n \<in> set names \<and> to_bit n = Some b \<and> unat b = k) \<and>
     (\<forall>c. cap = Some c \<longrightarrow> ''any'' \<notin> set c \<longrightarrow>
        (\<exists>n b. n \<in> set c \<and> to_bit n = Some b \<and> unat b = k))"
proof (cases cap)
  case None
  with assms show ?thesis
    by (simp add: capped_bitmap_def bit_set_bits)
next
  case (Some c)
  have "bit (names_bitmap to_bit c) k \<longleftrightarrow>
      (if ''any'' \<in> set c then k < 32 else (\<exists>n b. n \<in> set c \<and> to_bit n = Some b \<and> unat b = k))"
    unfolding names_bitmap_def
    by (cases "''any'' \<in> set c") (simp_all only: if_True if_False bit_ones bit_set_bits, simp)
  with Some assms show ?thesis
    by (auto simp: capped_bitmap_def bit_and_iff bit_set_bits dest: in_range)
qed

lemma capped_bitmap_complete:
  assumes "to_bit n = Some b" and "n \<in> granted names"
    and "\<And>c. cap = Some c \<Longrightarrow> n \<in> granted c"
  shows "bit (capped_bitmap to_bit names cap) (unat b)"
proof (cases "''any'' \<in> set names")
  case True
  with in_range [OF assms(1)] show ?thesis
    unfolding capped_bitmap_def by (simp only: if_True bit_ones)
next
  case False
  with assms show ?thesis
    by (auto simp: bit_capped_bitmap granted_def split: if_splits)
qed

lemma capped_bitmap_cong:
  assumes "set names = set names'" and "map_option set cap = map_option set cap'"
  shows "capped_bitmap to_bit names cap = capped_bitmap to_bit names' cap'"
proof (cases "''any'' \<in> set names")
  case True
  with assms(1) show ?thesis
    by (simp add: capped_bitmap_def)
next
  case False
  have "bit (capped_bitmap to_bit names cap) k \<longleftrightarrow> bit (capped_bitmap to_bit names' cap') k" for k
    using False assms by (cases cap; cases cap') (simp_all add: bit_capped_bitmap)
  then show ?thesis
    by (simp add: bit_eq_iff)
qed

end

locale inj_name_bits = name_bits +
  assumes inj: "to_bit n = Some b \<Longrightarrow> to_bit n' = Some b \<Longrightarrow> n = n'"
begin

lemma capped_bitmap_exact:
  assumes "to_bit n = Some b" and "''any'' \<notin> set names"
  shows "bit (capped_bitmap to_bit names cap) (unat b) \<longleftrightarrow>
     n \<in> set names \<and> (\<forall>c. cap = Some c \<longrightarrow> n \<in> granted c)"
proof -
  have "(\<exists>n' b'. n' \<in> set xs \<and> to_bit n' = Some b' \<and> unat b' = unat b) \<longleftrightarrow> n \<in> set xs" for xs
    using assms(1) inj by (auto simp: unsigned_word_eqI) (metis inj word_unat_eq_iff)
  with assms(2) show ?thesis
    by (auto simp: bit_capped_bitmap granted_def)
qed

end

lemma arms_in_range:
  assumes "list_all (\<lambda>(n, b). unat b < 32) arms" and "map_of arms n = Some (b :: u32)"
  shows "unat b < 32"
  using map_of_SomeD [OF assms(2)] assms(1) by (auto simp: list_all_iff)

lemma arms_inj:
  assumes "distinct (map snd arms)" and "map_of arms n = Some b" and "map_of arms n' = Some b"
  shows "n = n'"
  using assms(1) map_of_SomeD [OF assms(2)] map_of_SomeD [OF assms(3)]
  by (metis eq_key_imp_eq_value in_set_conv_nth distinct_map inj_onD prod.sel(2) snd_conv Pair_inject)

interpretation prog_bits: name_bits prog_type_to_bit
proof
  have "list_all (\<lambda>(n, b). unat b < 32) prog_type_arms"
    by (simp add: prog_type_arms_def)
  then show "prog_type_to_bit n = Some b \<Longrightarrow> unat b < 32" for n b
    by (simp add: prog_type_to_bit_def arms_in_range)
qed

interpretation map_bits: inj_name_bits map_type_to_bit
proof
  have "list_all (\<lambda>(n, b). unat b < 32) map_type_arms" "distinct (map snd map_type_arms)"
    by (simp_all add: map_type_arms_def)
  then show "map_type_to_bit n = Some b \<Longrightarrow> unat b < 32"
    and "map_type_to_bit n = Some b \<Longrightarrow> map_type_to_bit n' = Some b \<Longrightarrow> n = n'" for n n' b
    by (simp_all add: map_type_to_bit_def arms_in_range arms_inj)
qed

interpretation command_bits: inj_name_bits command_to_bit
proof
  have "list_all (\<lambda>(n, b). unat b < 32) command_arms" "distinct (map snd command_arms)"
    by (simp_all add: command_arms_def)
  then show "command_to_bit n = Some b \<Longrightarrow> unat b < 32"
    and "command_to_bit n = Some b \<Longrightarrow> command_to_bit n' = Some b \<Longrightarrow> n = n'" for n n' b
    by (simp_all add: command_to_bit_def arms_in_range arms_inj)
qed

section \<open>Properties of the permission checks\<close>

text \<open>
  C8: the three permission checks compute the intersection of the role's permissions and the
  system policy: a command, a program type with an operation, or a map type with an operation is
  allowed exactly when it lies in both sets.
\<close>

theorem policy_checks_are_intersection:
  "(is_command_allowed p r c \<longleftrightarrow> c \<in> granted (commands r) \<inter> system_commands p) \<and>
   (is_prog_op_allowed p r t op \<longleftrightarrow>
      (t, op) \<in> granted_ops (prog_types r) \<inter> system_prog_ops p) \<and>
   (is_map_op_allowed p r t op \<longleftrightarrow>
      (t, op) \<in> granted_ops (map_types r) \<inter> system_map_ops p)"
  by (simp only: checks_iff simp_thms)

lemma within_ops_mono:
  "within_ops progs maps req \<Longrightarrow> progs \<subseteq> progs' \<Longrightarrow> maps \<subseteq> maps' \<Longrightarrow> within_ops progs' maps' req"
  by (cases req) auto

text \<open>
  No role exceeds the system policy. A proxy request that is allowed needs a command and a
  type operation that the system policy itself grants, and it would also be allowed with the
  system policy removed.
\<close>

theorem policy_system_caps_requests:
  assumes "is_allowed p name req" and "system_policy (config p) = Some s"
  shows "needs_command req \<in> granted (sp_commands s) \<and>
     within_ops (granted_ops (sp_prog_types s)) (granted_ops (sp_map_types s)) req \<and>
     is_allowed (p\<lparr>config := (config p)\<lparr>system_policy := None\<rparr>\<rparr>) name req"
proof -
  let ?q = "p\<lparr>config := (config p)\<lparr>system_policy := None\<rparr>\<rparr>"
  from assms(1) obtain r where r: "hm_get (roles p) name = Some r"
    and c: "needs_command req \<in> granted (commands r) \<inter> system_commands p"
    and w: "within_ops (granted_ops (prog_types r) \<inter> system_prog_ops p)
        (granted_ops (map_types r) \<inter> system_map_ops p) req"
    by (auto simp: is_allowed_iff)
  have sys: "system_commands p = granted (sp_commands s)"
    "system_prog_ops p = granted_ops (sp_prog_types s)"
    "system_map_ops p = granted_ops (sp_map_types s)"
    using assms(2) by (simp_all add: system_commands_def system_prog_ops_def system_map_ops_def)
  have "system_commands ?q = UNIV" "system_prog_ops ?q = UNIV" "system_map_ops ?q = UNIV"
    "roles ?q = roles p"
    by (simp_all add: system_commands_def system_prog_ops_def system_map_ops_def roles_def)
  with r c within_ops_mono [OF w Int_lower1 Int_lower1] have "is_allowed ?q name req"
    by (simp add: is_allowed_iff)
  with c sys within_ops_mono [OF w Int_lower2 Int_lower2] show ?thesis
    by simp
qed

definition test_policy :: Policy where
  "test_policy =
     \<lparr>config =
       \<lparr>system_policy = Some
          \<lparr>sp_commands = [''PROG_LOAD'', ''MAP_CREATE''],
           sp_prog_types = [(''kprobe'', [''load'', ''attach''])],
           sp_map_types = [(''hash'', [''create'', ''read''])]\<rparr>,
        config_roles =
          [(''test'',
            \<lparr>description = None, groups = [''test''],
             commands = [''PROG_LOAD'', ''MAP_CREATE'', ''LINK_CREATE''],
             prog_types = [(''kprobe'', [''load'', ''attach'', ''detach'']), (''xdp'', [''load''])],
             map_types = [(''hash'', [''create'', ''read'', ''write'']), (''array'', [''create''])]\<rparr>)]\<rparr>\<rparr>"

theorem policy_system_caps_requests_witness:
  "is_allowed (test_policy\<lparr>config := (config test_policy)\<lparr>system_policy := None\<rparr>\<rparr>) ''test''
     (CreateMap ''hash'' ''m'' 4 8 16)"
proof -
  have "is_allowed test_policy ''test'' (CreateMap ''hash'' ''m'' 4 8 16)"
    by (simp add: test_policy_def is_allowed_def is_command_allowed_def is_map_op_allowed_def
        check_type_op_def hm_get_def)
  moreover have "system_policy (config test_policy) = Some
      \<lparr>sp_commands = [''PROG_LOAD'', ''MAP_CREATE''],
       sp_prog_types = [(''kprobe'', [''load'', ''attach''])],
       sp_map_types = [(''hash'', [''create'', ''read''])]\<rparr>"
    by (simp add: test_policy_def)
  ultimately show ?thesis
    using policy_system_caps_requests by blast
qed

text \<open>
  An entry \<open>any\<close> in a table of types decides alone. Once it is present the entries of single
  types have no effect, so adding it can take permissions away.
\<close>

theorem policy_any_entry_decides_alone:
  "check_type_op (hm_insert ''any'' ops m) t op \<longleftrightarrow> op \<in> granted ops"
  by (simp add: check_type_op_def hm_get_insert list_ex_granted)

section \<open>Properties of role resolution\<close>

text \<open>
  C23: role resolution is sound and complete. It returns only a role that exists and that lists one
  of the user's groups, and it returns nothing exactly when no such role exists.
\<close>

theorem role_resolution_sound_complete:
  assumes "hm_wf (roles p)"
  shows "(get_role_for_groups p gs = Some name \<longrightarrow>
      (\<exists>r. hm_get (roles p) name = Some r \<and> set (groups r) \<inter> set gs \<noteq> {})) \<and>
    (get_role_for_groups p gs = None \<longleftrightarrow>
      (\<forall>n r. hm_get (roles p) n = Some r \<longrightarrow> set (groups r) \<inter> set gs = {}))"
  using get_role_Some [OF assms] get_role_None [OF assms]
  by (simp add: holds_role_def role_matches_def)

theorem role_resolution_sound_complete_witness:
  "hm_wf (roles test_policy) \<and> get_role_for_groups test_policy [''users''] = None"
proof -
  have wf: "hm_wf (roles test_policy)"
    by (simp add: test_policy_def roles_def hm_wf_def)
  have "\<forall>n r. hm_get (roles test_policy) n = Some r \<longrightarrow> set (groups r) \<inter> set [''users''] = {}"
    by (simp add: test_policy_def roles_def hm_get_def)
  with wf role_resolution_sound_complete [OF wf, of "[''users'']"] show ?thesis
    by blast
qed

text \<open>
  C24: a user who holds well-known roles gets the most powerful of them, in the order
  \<open>ebpf-admin\<close>, \<open>ebpf-net\<close>, \<open>ebpf\<close>, and then the order in which the hash map of roles is
  iterated does not matter.
\<close>

theorem role_resolution_priority:
  assumes "hm_wf (roles p)" and "mset (roles q) = mset (roles p)"
    and "\<exists>n\<in>set priority_roles. holds_role p gs n"
  shows "get_role_for_groups q gs =
     (if holds_role p gs ''ebpf-admin'' then Some ''ebpf-admin''
      else if holds_role p gs ''ebpf-net'' then Some ''ebpf-net''
      else Some ''ebpf'')"
proof -
  have "holds_role q gs n = holds_role p gs n" for n
    using hm_get_perm [OF assms(1) assms(2) [symmetric]] by (simp add: holds_role_def)
  with assms(3) show ?thesis
    by (auto simp: get_role_priority priority_roles_def)
qed

definition two_roles :: "Policy" where
  "two_roles =
     \<lparr>config = \<lparr>system_policy = None, config_roles =
        [(''ebpf'', \<lparr>description = None, groups = [''dev''], commands = [], prog_types = [],
            map_types = []\<rparr>),
         (''ebpf-net'', \<lparr>description = None, groups = [''dev''], commands = [], prog_types = [],
            map_types = []\<rparr>)]\<rparr>\<rparr>"

theorem role_resolution_priority_witness:
  "get_role_for_groups two_roles [''dev''] = Some ''ebpf-net''"
proof -
  have wf: "hm_wf (roles two_roles)"
    by (simp add: two_roles_def roles_def hm_wf_def)
  have holds: "holds_role two_roles [''dev''] n \<longleftrightarrow> n = ''ebpf'' \<or> n = ''ebpf-net''" for n
    by (auto simp: holds_role_def two_roles_def roles_def hm_get_def role_matches_def)
  have "\<exists>n\<in>set priority_roles. holds_role two_roles [''dev''] n"
    by (simp add: holds priority_roles_def)
  from role_resolution_priority [OF wf refl this] show ?thesis
    by (simp add: holds)
qed

text \<open>
  Beyond the well-known roles the choice is not determined by the policy: with two custom roles
  for the same group, the role a user gets depends on the order in which the hash map of roles is
  iterated.
\<close>

theorem custom_role_choice_by_iteration:
  "\<exists>p q gs. hm_wf (roles p) \<and> mset (roles q) = mset (roles p) \<and>
     get_role_for_groups p gs = Some ''ops'' \<and> get_role_for_groups q gs = Some ''dev''"
proof -
  let ?role = "\<lparr>description = None, groups = [''staff''], commands = [], prog_types = [],
      map_types = []\<rparr>"
  let ?policy = "\<lambda>rs. \<lparr>config = \<lparr>system_policy = None, config_roles = rs\<rparr>\<rparr>"
  let ?p = "?policy [(''ops'', ?role), (''dev'', ?role)]"
  let ?q = "?policy [(''dev'', ?role), (''ops'', ?role)]"
  have "hm_wf (roles ?p)" "mset (roles ?q) = mset (roles ?p)"
    by (simp_all add: roles_def hm_wf_def)
  moreover have "get_role_for_groups ?p [''staff''] = Some ''ops''"
    "get_role_for_groups ?q [''staff''] = Some ''dev''"
    by (simp_all add: get_role_for_groups_def priority_roles_def roles_def hm_get_def)
  ultimately show ?thesis by blast
qed

section \<open>Properties of the bitmaps\<close>

lemma granted_ops_key: "(t, op) \<in> granted_ops m \<Longrightarrow> t \<in> granted (keys m)"
  by (auto simp: granted_ops_def granted_def dest: hm_get_keys split: if_splits)

lemma bitmaps_cover:
  "is_command_allowed p r c \<Longrightarrow> command_to_bit c = Some b \<Longrightarrow> bit (commands_bitmap p r) (unat b)"
  "is_prog_op_allowed p r t op \<Longrightarrow> prog_type_to_bit t = Some b \<Longrightarrow>
     bit (prog_types_bitmap p r) (unat b)"
  "is_map_op_allowed p r t op \<Longrightarrow> map_type_to_bit t = Some b \<Longrightarrow>
     bit (map_types_bitmap p r) (unat b)"
proof -
  assume "is_command_allowed p r c" "command_to_bit c = Some b"
  then show "bit (commands_bitmap p r) (unat b)"
    unfolding commands_bitmap_capped
    by (intro command_bits.capped_bitmap_complete)
      (auto simp: is_command_allowed_iff system_commands_def)
next
  assume "is_prog_op_allowed p r t op" "prog_type_to_bit t = Some b"
  then show "bit (prog_types_bitmap p r) (unat b)"
    unfolding prog_types_bitmap_capped
    by (intro prog_bits.capped_bitmap_complete)
      (auto simp: is_prog_op_allowed_iff system_prog_ops_def dest: granted_ops_key)
next
  assume "is_map_op_allowed p r t op" "map_type_to_bit t = Some b"
  then show "bit (map_types_bitmap p r) (unat b)"
    unfolding map_types_bitmap_capped
    by (intro map_bits.capped_bitmap_complete)
      (auto simp: is_map_op_allowed_iff system_map_ops_def dest: granted_ops_key)
qed

text \<open>
  The bitmaps never lose a permission. Whatever the checks allow and has a bit position is set
  in the bitmap of its dimension, for every role and system policy.
\<close>

theorem policy_bitmaps_complete:
  "(is_command_allowed p r c \<longrightarrow> command_to_bit c = Some b \<longrightarrow>
      bit (commands_bitmap p r) (unat b)) \<and>
   (is_prog_op_allowed p r t op \<longrightarrow> prog_type_to_bit t = Some b \<longrightarrow>
      bit (prog_types_bitmap p r) (unat b)) \<and>
   (is_map_op_allowed p r t op \<longrightarrow> map_type_to_bit t = Some b \<longrightarrow>
      bit (map_types_bitmap p r) (unat b))"
  using bitmaps_cover by blast

theorem policy_bitmaps_complete_witness:
  "bit (map_types_bitmap test_policy (the (hm_get (roles test_policy) ''test''))) 1"
proof -
  let ?r = "the (hm_get (roles test_policy) ''test'')"
  have "is_map_op_allowed test_policy ?r ''hash'' ''read''"
    by (simp add: test_policy_def roles_def is_map_op_allowed_def check_type_op_def hm_get_def)
  moreover have "map_type_to_bit ''hash'' = Some 1"
    by (simp add: map_type_to_bit_def map_type_arms_def)
  ultimately show ?thesis
    using policy_bitmaps_complete [of test_policy ?r "[]" 1 "''hash''" "''read''"] by simp
qed

lemma bit_commands_bitmap:
  assumes "''any'' \<notin> set (commands r)" and "command_to_bit c = Some b"
  shows "bit (commands_bitmap p r) (unat b) \<longleftrightarrow> is_command_allowed p r c"
  using assms
  by (auto simp: commands_bitmap_capped command_bits.capped_bitmap_exact is_command_allowed_iff
      granted_def system_commands_def split: option.splits)

text \<open>
  For a role that does not use the wildcard, the command bitmap is exact: the bit of a command
  is set if and only if the command is allowed under the intersection with the system policy.
\<close>

theorem commands_bitmap_exact:
  assumes "''any'' \<notin> set (commands r)" and "command_to_bit c = Some b"
  shows "bit (commands_bitmap p r) (unat b) \<longleftrightarrow> is_command_allowed p r c"
  using assms by (rule bit_commands_bitmap)

theorem commands_bitmap_exact_witness:
  "\<not> bit (commands_bitmap test_policy (the (hm_get (roles test_policy) ''test''))) 28"
proof -
  let ?r = "the (hm_get (roles test_policy) ''test'')"
  have "''any'' \<notin> set (commands ?r)" "\<not> is_command_allowed test_policy ?r ''LINK_CREATE''"
    by (simp_all add: test_policy_def roles_def hm_get_def is_command_allowed_def)
  moreover have "command_to_bit ''LINK_CREATE'' = Some 28"
    by (simp add: command_to_bit_def command_arms_def)
  ultimately show ?thesis
    using commands_bitmap_exact [of ?r "''LINK_CREATE''" 28 test_policy] by simp
qed

text \<open>
  C25: for a role without the wildcard, the bit of a map type is set if and only if the role lists
  the type and the system policy, if there is one, lists it or has the wildcard. For program types
  the same holds up to names that share a kernel type (\<open>kprobe\<close> and \<open>uprobe\<close>, for example).
\<close>

theorem type_bitmaps_exact:
  "(''any'' \<notin> set (keys (map_types r)) \<longrightarrow> map_type_to_bit t = Some b \<longrightarrow>
      (bit (map_types_bitmap p r) (unat b) \<longleftrightarrow>
         contains_key (map_types r) t \<and>
         (\<forall>s. system_policy (config p) = Some s \<longrightarrow>
            contains_key (sp_map_types s) ''any'' \<or> contains_key (sp_map_types s) t))) \<and>
   (''any'' \<notin> set (keys (prog_types r)) \<longrightarrow> prog_type_to_bit t = Some b \<longrightarrow>
      (bit (prog_types_bitmap p r) (unat b) \<longleftrightarrow>
         (\<exists>t'. contains_key (prog_types r) t' \<and> prog_type_to_bit t' = Some b) \<and>
         (\<forall>s. system_policy (config p) = Some s \<longrightarrow>
            contains_key (sp_prog_types s) ''any'' \<or>
            (\<exists>t'. contains_key (sp_prog_types s) t' \<and> prog_type_to_bit t' = Some b))))"
proof (intro conjI impI)
  assume "''any'' \<notin> set (keys (map_types r))" "map_type_to_bit t = Some b"
  then show "bit (map_types_bitmap p r) (unat b) \<longleftrightarrow>
      contains_key (map_types r) t \<and>
      (\<forall>s. system_policy (config p) = Some s \<longrightarrow>
         contains_key (sp_map_types s) ''any'' \<or> contains_key (sp_map_types s) t)"
    by (auto simp: map_types_bitmap_capped map_bits.capped_bitmap_exact granted_def
        contains_key_iff split: if_splits)
next
  assume any: "''any'' \<notin> set (keys (prog_types r))" and t: "prog_type_to_bit t = Some b"
  have "(\<exists>n b'. n \<in> set xs \<and> prog_type_to_bit n = Some b' \<and> unat b' = unat b) \<longleftrightarrow>
      (\<exists>n. n \<in> set xs \<and> prog_type_to_bit n = Some b)" for xs
    by (metis word_unat_eq_iff)
  then show "bit (prog_types_bitmap p r) (unat b) \<longleftrightarrow>
      (\<exists>t'. contains_key (prog_types r) t' \<and> prog_type_to_bit t' = Some b) \<and>
      (\<forall>s. system_policy (config p) = Some s \<longrightarrow>
         contains_key (sp_prog_types s) ''any'' \<or>
         (\<exists>t'. contains_key (sp_prog_types s) t' \<and> prog_type_to_bit t' = Some b))"
    using any
    by (auto simp: prog_types_bitmap_capped prog_bits.bit_capped_bitmap contains_key_iff)
qed

theorem type_bitmaps_exact_witness:
  "\<not> bit (prog_types_bitmap test_policy (the (hm_get (roles test_policy) ''test''))) 6"
proof -
  let ?r = "the (hm_get (roles test_policy) ''test'')"
  have bit6: "prog_type_to_bit ''xdp'' = Some 6" and kprobe: "prog_type_to_bit ''kprobe'' = Some 2"
    by (simp_all add: prog_type_to_bit_def prog_type_arms_def)
  have "''any'' \<notin> set (keys (prog_types ?r))"
    by (simp add: test_policy_def roles_def hm_get_def keys_def)
  with bit6 have "bit (prog_types_bitmap test_policy ?r) (unat (6 :: u32)) \<longleftrightarrow>
      (\<exists>t'. contains_key (prog_types ?r) t' \<and> prog_type_to_bit t' = Some 6) \<and>
      (\<forall>s. system_policy (config test_policy) = Some s \<longrightarrow>
         contains_key (sp_prog_types s) ''any'' \<or>
         (\<exists>t'. contains_key (sp_prog_types s) t' \<and> prog_type_to_bit t' = Some 6))"
    using type_bitmaps_exact [of ?r "''xdp''" 6 test_policy] by blast
  with kprobe show ?thesis
    by (simp add: test_policy_def contains_key_def hm_get_def)
qed

text \<open>
  A role with the wildcard gets the full bitmap whatever the system policy says: the
  intersection with the system policy is skipped in all three bitmap functions.
\<close>

theorem wildcard_bitmaps_ignore_system:
  "(''any'' \<in> set (commands r) \<longrightarrow> commands_bitmap p r = 0xFFFFFFFF) \<and>
   (contains_key (prog_types r) ''any'' \<longrightarrow> prog_types_bitmap p r = 0xFFFFFFFF) \<and>
   (contains_key (map_types r) ''any'' \<longrightarrow> map_types_bitmap p r = 0xFFFFFFFF)"
  by (simp add: bitmaps_capped capped_bitmap_def contains_key_iff)

definition wildcard_role :: Role where
  "wildcard_role =
     \<lparr>description = None, groups = [''wheel''], commands = [''any''],
      prog_types = [(''any'', [''any''])], map_types = [(''any'', [''any''])]\<rparr>"

theorem wildcard_bitmaps_ignore_system_witness:
  "prog_types_bitmap test_policy wildcard_role = 0xFFFFFFFF \<and>
   \<not> is_prog_op_allowed test_policy wildcard_role ''lsm'' ''load''"
proof -
  have "contains_key (prog_types wildcard_role) ''any''"
    by (simp add: wildcard_role_def contains_key_def hm_get_def)
  moreover have "\<not> is_prog_op_allowed test_policy wildcard_role ''lsm'' ''load''"
    by (simp add: test_policy_def wildcard_role_def is_prog_op_allowed_def check_type_op_def
        hm_get_def)
  ultimately show ?thesis
    using wildcard_bitmaps_ignore_system [of wildcard_role test_policy] by blast
qed

text \<open>
  The type bitmaps look at the names of the types only. Replacing every list of operations by
  the empty list changes no bitmap, although it leaves the role without a single permitted
  operation.
\<close>

theorem type_bitmaps_ignore_operations:
  fixes r :: Role
  defines "drop_ops \<equiv> map (\<lambda>(t, ops). (t, [] :: string list))"
  defines "r' \<equiv> r\<lparr>prog_types := drop_ops (prog_types r), map_types := drop_ops (map_types r)\<rparr>"
  shows "prog_types_bitmap p r' = prog_types_bitmap p r \<and>
     map_types_bitmap p r' = map_types_bitmap p r \<and>
     \<not> is_prog_op_allowed p r' t op \<and> \<not> is_map_op_allowed p r' t op"
proof -
  have keys: "keys (drop_ops m) = keys m" for m
    by (simp add: keys_def drop_ops_def case_prod_beta)
  have get: "hm_get (drop_ops m) k = map_option (\<lambda>_. []) (hm_get m k)" for m k
    unfolding hm_get_def drop_ops_def by (induction m) auto
  have "check_type_op (drop_ops m) t op = False" for m
    by (simp add: check_type_op_def get split: option.splits)
  then show ?thesis
    by (simp add: bitmaps_capped keys is_prog_op_allowed_def is_map_op_allowed_def r'_def)
qed

text \<open>
  The bitmaps do not depend on the order in which the hash maps of a role or of the system
  policy are iterated.
\<close>

theorem type_bitmaps_order_independent:
  assumes "mset (prog_types r') = mset (prog_types r)" "mset (map_types r') = mset (map_types r)"
    and "rel_option (\<lambda>s' s. mset (sp_prog_types s') = mset (sp_prog_types s) \<and>
           mset (sp_map_types s') = mset (sp_map_types s))
         (system_policy (config p')) (system_policy (config p))"
  shows "prog_types_bitmap p' r' = prog_types_bitmap p r \<and>
     map_types_bitmap p' r' = map_types_bitmap p r"
  using assms keys_perm [OF assms(1)] keys_perm [OF assms(2)]
  by (cases "system_policy (config p')"; cases "system_policy (config p)")
    (auto simp: bitmaps_capped intro!: prog_bits.capped_bitmap_cong map_bits.capped_bitmap_cong
      dest: keys_perm)

theorem type_bitmaps_order_independent_witness:
  "prog_types_bitmap two_roles
     (wildcard_role\<lparr>prog_types := [(''kprobe'', []), (''xdp'', [])], map_types := []\<rparr>) =
   prog_types_bitmap two_roles
     (wildcard_role\<lparr>prog_types := [(''xdp'', []), (''kprobe'', [])], map_types := []\<rparr>)"
  using type_bitmaps_order_independent
    [of "wildcard_role\<lparr>prog_types := [(''kprobe'', []), (''xdp'', [])], map_types := []\<rparr>"
        "wildcard_role\<lparr>prog_types := [(''xdp'', []), (''kprobe'', [])], map_types := []\<rparr>"
        two_roles two_roles]
  by (simp add: two_roles_def)

end
