(* ===== verification/Policy_Order.thy ===== *)
theory Policy_Order
  imports Lsm_Hooks Policy_Semantics
begin

text \<open>
  When is one policy no more permissive than another. Entries of the policy map are ordered by what
  they permit, and the order is exactly the one the three LSM programs realise; bitmaps of a role
  shrink when the role or the system policy loses names. The checks of the engine do not have this
  property for types, since an entry for \<open>any\<close> hides the entries beside it.
\<close>

section \<open>The order of policy entries\<close>

text \<open>The flags and bitmaps under which an entry refuses every call.\<close>

definition permits_nothing :: "'a PolicyValue_scheme \<Rightarrow> bool" where
  "permits_nothing v \<longleftrightarrow>
     bit (flags v) 1 \<or>
     \<not> bit (flags v) 0 \<and> allowed_cmds v = 0 \<and> allowed_prog_types v = 0 \<and> allowed_map_types v = 0"

instantiation PolicyValue_ext :: (type) preorder
begin

definition less_eq_PolicyValue_ext :: "'a PolicyValue_scheme \<Rightarrow> 'a PolicyValue_scheme \<Rightarrow> bool" where
  "less_eq_PolicyValue_ext v w \<longleftrightarrow>
     permits_nothing v \<or>
     \<not> bit (flags w) 1 \<and>
       (bit (flags w) 0 \<or>
        \<not> bit (flags v) 0 \<and> bitmap_le (allowed_cmds v) (allowed_cmds w) \<and>
          bitmap_le (allowed_prog_types v) (allowed_prog_types w) \<and>
          bitmap_le (allowed_map_types v) (allowed_map_types w))"

definition less_PolicyValue_ext :: "'a PolicyValue_scheme \<Rightarrow> 'a PolicyValue_scheme \<Rightarrow> bool" where
  "less_PolicyValue_ext v w \<longleftrightarrow> v \<le> w \<and> \<not> w \<le> v"

instance
proof
  fix u v w :: "'a PolicyValue_scheme"
  show "v < w \<longleftrightarrow> v \<le> w \<and> \<not> w \<le> v" by (rule less_PolicyValue_ext_def)
  show "v \<le> v" by (auto simp: less_eq_PolicyValue_ext_def permits_nothing_def)
  assume uv: "u \<le> v" and vw: "v \<le> w"
  show "u \<le> w"
  proof (cases "permits_nothing u")
    case False
    have zero: "bitmap_le b 0 \<Longrightarrow> b = 0" for b
      by (simp add: bitmap_le_def)
    have "\<not> permits_nothing v"
      using False uv zero unfolding less_eq_PolicyValue_ext_def permits_nothing_def by metis
    moreover have "bitmap_le a c" if "bitmap_le a b" "bitmap_le b c" for a b c
      using that unfolding bitmap_le_iff by blast
    ultimately show ?thesis
      using False uv vw unfolding less_eq_PolicyValue_ext_def by blast
  qed (simp add: less_eq_PolicyValue_ext_def)
qed

end

section \<open>The order is the one the programs realise\<close>

definition permits_no_more :: "(PolicyValue \<Rightarrow> u32) \<Rightarrow> PolicyValue \<Rightarrow> PolicyValue \<Rightarrow> bool" where
  "permits_no_more bitmap v w \<longleftrightarrow>
     (\<forall>n. entry_permits v (bitmap v) n \<longrightarrow> entry_permits w (bitmap w) n)"

lemma permits_no_more_iff:
  "permits_no_more bitmap v w \<longleftrightarrow>
     bit (flags v) 1 \<or> \<not> bit (flags v) 0 \<and> bitmap v = 0 \<or>
     \<not> bit (flags w) 1 \<and>
       (bit (flags w) 0 \<or> \<not> bit (flags v) 0 \<and> bitmap_le (bitmap v) (bitmap w))"
proof (cases "bit (flags v) 1 \<or> bit (flags v) 0")
  case True
  then show ?thesis
    unfolding permits_no_more_def entry_permits_def by (auto dest: spec [of _ None] split: option.splits)
next
  case False
  have number: "\<exists>m :: u32. unat m = n" if "bit (x :: u32) n" for n x
    using u32_bit_less [OF that] by (intro exI [of _ "word_of_nat n"]) (simp add: unat_of_nat)
  have le: "bitmap_le x y \<longleftrightarrow> (\<forall>m :: u32. unat m < 32 \<and> bit x (unat m) \<longrightarrow> bit y (unat m))" for x y :: u32
  proof -
    have "bit y n" if all: "\<forall>m :: u32. unat m < 32 \<and> bit x (unat m) \<longrightarrow> bit y (unat m)" and b: "bit x n" for n
    proof -
      obtain m :: u32 where "unat m = n"
        using number [OF b] by blast
      with all b u32_bit_less [OF b] show ?thesis by auto
    qed
    then show ?thesis
      unfolding bitmap_le_iff by blast
  qed
  have zero: "x = 0 \<longleftrightarrow> (\<forall>m :: u32. \<not> (unat m < 32 \<and> bit x (unat m)))" for x :: u32
    using le [of x 0] by (auto simp: bitmap_le_def)
  from False show ?thesis
    unfolding permits_no_more_def entry_permits_def le zero by (auto split: option.splits)
qed

lemma less_eq_permits_no_more:
  "v \<le> w \<longleftrightarrow> permits_no_more allowed_cmds v w \<and> permits_no_more allowed_prog_types v w \<and>
     permits_no_more allowed_map_types v w"
proof -
  have "bitmap_le 0 b" for b
    by (simp add: bitmap_le_def)
  then show ?thesis
    unfolding permits_no_more_iff less_eq_PolicyValue_ext_def permits_nothing_def by auto
qed

context lsm_hook
begin

lemma single_entry_allows_iff:
  "fst (hook (Inr u) [\<lparr>userns_id = u\<rparr> \<mapsto> v] ctx) = 0 \<longleftrightarrow>
     arg_kernel ctx \<noteq> 0 \<or> entry_permits v (bitmap v) (subject ctx)"
  by (simp add: allows_iff hook_permits_def)

lemma entry_permits_no_more_iff:
  assumes "\<And>n. \<exists>ctx. arg_kernel ctx = 0 \<and> subject ctx = Some n"
  shows "(\<forall>ctx. fst (hook (Inr u) [\<lparr>userns_id = u\<rparr> \<mapsto> v] ctx) = 0 \<longrightarrow>
       fst (hook (Inr u) [\<lparr>userns_id = u\<rparr> \<mapsto> w] ctx) = 0) \<longleftrightarrow> permits_no_more bitmap v w"
    (is "?hooks \<longleftrightarrow> _")
proof
  assume hooks: ?hooks
  have "entry_permits w (bitmap w) (Some n)" if "entry_permits v (bitmap v) (Some n)" for n
    using hooks assms [of n] that unfolding single_entry_allows_iff by metis
  moreover have "entry_permits x bm None \<longleftrightarrow> entry_permits x bm (Some 32)" for x bm
    by (simp add: entry_permits_def)
  ultimately show "permits_no_more bitmap v w"
    unfolding permits_no_more_def by (metis option.exhaust)
qed (simp add: single_entry_allows_iff permits_no_more_def)

end

lemma entry_order_hooks:
  "v \<le> w \<longleftrightarrow>
     (\<forall>hook\<in>{bpf_rbac_bpf, bpf_rbac_prog_load, bpf_rbac_map_create}. \<forall>ctx.
        fst (hook (Inr u) [\<lparr>userns_id = u\<rparr> \<mapsto> v] ctx) = 0 \<longrightarrow>
        fst (hook (Inr u) [\<lparr>userns_id = u\<rparr> \<mapsto> w] ctx) = 0)"
proof -
  have "\<exists>ctx :: lsm_context. arg_kernel ctx = 0 \<and> arg_attr ctx = Some n" for n
    by (rule exI [of _ "\<lparr>arg_cmd = 0, arg_attr = Some n, arg_kernel = 0\<rparr>"]) simp
  moreover have "\<exists>ctx :: lsm_context. arg_kernel ctx = 0 \<and> Some (arg_cmd ctx) = Some n" for n
    by (rule exI [of _ "\<lparr>arg_cmd = n, arg_attr = None, arg_kernel = 0\<rparr>"]) simp
  ultimately show ?thesis
    by (simp add: less_eq_permits_no_more bpf_hook.entry_permits_no_more_iff
        prog_load_hook.entry_permits_no_more_iff map_create_hook.entry_permits_no_more_iff)
qed

text \<open>
  C17: the order of policy entries is full abstraction for the LSM programs. One entry is at most as
  permissive as another, by their flags and three bitmaps, exactly if every call that any of the three
  programs lets a namespace with the first entry make is also let through with the second. The bitmap
  of attach types plays no part in it.
\<close>

theorem lsm_entry_order_exact:
  "v \<le> w \<longleftrightarrow>
     (\<forall>hook\<in>{bpf_rbac_bpf, bpf_rbac_prog_load, bpf_rbac_map_create}. \<forall>ctx.
        fst (hook (Inr u) [\<lparr>userns_id = u\<rparr> \<mapsto> v] ctx) = 0 \<longrightarrow>
        fst (hook (Inr u) [\<lparr>userns_id = u\<rparr> \<mapsto> w] ctx) = 0)"
  by (rule entry_order_hooks)

theorem lsm_entry_order_exact_witness:
  "PolicyValue_empty < PolicyValue_allow_all"
proof -
  let ?ctx = "\<lparr>arg_cmd = 0, arg_attr = Some 0, arg_kernel = 0\<rparr>"
  have "fst (bpf_rbac_bpf (Inr 0) [\<lparr>userns_id = 0\<rparr> \<mapsto> PolicyValue_allow_all] ?ctx) = 0"
    "fst (bpf_rbac_bpf (Inr 0) [\<lparr>userns_id = 0\<rparr> \<mapsto> PolicyValue_empty] ?ctx) \<noteq> 0"
    by (simp_all add: bpf_hook.single_entry_allows_iff entry_permits_def PolicyValue_allow_all_def
        PolicyValue_empty_def)
  then have "\<not> PolicyValue_allow_all \<le> PolicyValue_empty"
    using lsm_entry_order_exact [of PolicyValue_allow_all PolicyValue_empty 0] by blast
  moreover have "PolicyValue_empty \<le> PolicyValue_allow_all"
    by (simp add: less_eq_PolicyValue_ext_def permits_nothing_def PolicyValue_empty_def)
  ultimately show ?thesis
    by (simp add: less_le_not_le)
qed

section \<open>Tighter policies\<close>

text \<open>The entry of the policy map that holds a role's bitmaps.\<close>

definition role_entry :: "Policy \<Rightarrow> Role \<Rightarrow> PolicyValue" where
  "role_entry p r = PolicyValue_empty\<lparr>allowed_cmds := commands_bitmap p r,
     allowed_prog_types := prog_types_bitmap p r, allowed_map_types := map_types_bitmap p r\<rparr>"

lemma role_entry_flags: "flags (role_entry p r) = 0"
  by (simp add: role_entry_def PolicyValue_empty_def)

text \<open>A role or a system policy that lists no name the other does not list.\<close>

definition role_narrower :: "Role \<Rightarrow> Role \<Rightarrow> bool" where
  "role_narrower r r' \<longleftrightarrow>
     set (commands r) \<subseteq> set (commands r') \<and> set (keys (prog_types r)) \<subseteq> set (keys (prog_types r')) \<and>
     set (keys (map_types r)) \<subseteq> set (keys (map_types r'))"

definition system_narrower :: "Policy \<Rightarrow> Policy \<Rightarrow> bool" where
  "system_narrower p p' =
     (case system_policy (config p') of
        None \<Rightarrow> True
      | Some s' \<Rightarrow>
          (case system_policy (config p) of
             None \<Rightarrow> False
           | Some s \<Rightarrow>
               set (sp_commands s) \<subseteq> set (sp_commands s') \<and>
               set (keys (sp_prog_types s)) \<subseteq> set (keys (sp_prog_types s')) \<and>
               set (keys (sp_map_types s)) \<subseteq> set (keys (sp_map_types s'))))"

context name_bits
begin

lemma capped_bitmap_mono:
  assumes "set names \<subseteq> set names'"
    and "\<And>c'. cap' = Some c' \<Longrightarrow> \<exists>c. cap = Some c \<and> set c \<subseteq> set c'"
  shows "bitmap_le (capped_bitmap to_bit names cap) (capped_bitmap to_bit names' cap')"
proof (cases "''any'' \<in> set names'")
  case True
  then show ?thesis
    unfolding capped_bitmap_def by (simp only: if_True bitmap_le_ones)
next
  case False
  with assms(1) have "''any'' \<notin> set names" by blast
  with False assms show ?thesis
    unfolding bitmap_le_iff by (auto simp: bit_capped_bitmap; metis subsetD)
qed

end

lemma role_entry_mono:
  assumes "role_narrower r r'" and "system_narrower p p'"
  shows "role_entry p r \<le> role_entry p' r'"
proof -
  have "bitmap_le (commands_bitmap p r) (commands_bitmap p' r')"
    unfolding bitmaps_capped using assms
    by (intro command_bits.capped_bitmap_mono)
      (auto simp: role_narrower_def system_narrower_def split: option.splits)
  moreover have "bitmap_le (prog_types_bitmap p r) (prog_types_bitmap p' r')"
    unfolding bitmaps_capped using assms
    by (intro prog_bits.capped_bitmap_mono)
      (auto simp: role_narrower_def system_narrower_def split: option.splits)
  moreover have "bitmap_le (map_types_bitmap p r) (map_types_bitmap p' r')"
    unfolding bitmaps_capped using assms
    by (intro map_bits.capped_bitmap_mono)
      (auto simp: role_narrower_def system_narrower_def split: option.splits)
  ultimately show ?thesis
    unfolding less_eq_PolicyValue_ext_def
    by (simp add: role_entry_flags) (simp add: role_entry_def PolicyValue_empty_def)
qed

text \<open>
  C18: taking names away never lets more through in the kernel. If a role and the system policy list no
  command and no type that another role and system policy do not list, then whatever a program lets a
  namespace do whose entry holds the first role's bitmaps, it also lets it do with the second's.
\<close>

theorem lsm_policy_narrowing:
  assumes "role_narrower r r'" and "system_narrower p p'"
    and "hook \<in> {bpf_rbac_bpf, bpf_rbac_prog_load, bpf_rbac_map_create}"
    and "fst (hook (Inr u) [\<lparr>userns_id = u\<rparr> \<mapsto> role_entry p r] ctx) = 0"
  shows "fst (hook (Inr u) [\<lparr>userns_id = u\<rparr> \<mapsto> role_entry p' r'] ctx) = 0"
  using role_entry_mono [OF assms(1,2)] assms(3,4) entry_order_hooks [of "role_entry p r" _ u] by blast

definition narrow_role :: Role where
  "narrow_role = \<lparr>description = None, groups = [''ebpf''], commands = [''MAP_CREATE''], prog_types = [],
     map_types = []\<rparr>"

definition open_policy :: Policy where
  "open_policy = \<lparr>config = \<lparr>system_policy = None, config_roles = [(''ebpf'', narrow_role)]\<rparr>\<rparr>"

definition capped_policy :: Policy where
  "capped_policy = \<lparr>config = \<lparr>system_policy = Some \<lparr>sp_commands = [''MAP_CREATE''], sp_prog_types = [],
     sp_map_types = []\<rparr>, config_roles = [(''ebpf'', narrow_role)]\<rparr>\<rparr>"

theorem lsm_policy_narrowing_witness:
  "fst (bpf_rbac_bpf (Inr 7) [\<lparr>userns_id = 7\<rparr> \<mapsto> role_entry open_policy narrow_role]
     \<lparr>arg_cmd = 0, arg_attr = None, arg_kernel = 0\<rparr>) = 0"
proof (rule lsm_policy_narrowing [of narrow_role narrow_role capped_policy open_policy])
  show "role_narrower narrow_role narrow_role" "system_narrower capped_policy open_policy"
    by (simp_all add: role_narrower_def system_narrower_def open_policy_def)
  have "bit (commands_bitmap capped_policy narrow_role) 0"
    by code_simp
  then show "fst (bpf_rbac_bpf (Inr 7) [\<lparr>userns_id = 7\<rparr> \<mapsto> role_entry capped_policy narrow_role]
      \<lparr>arg_cmd = 0, arg_attr = None, arg_kernel = 0\<rparr>) = 0"
    by (simp add: bpf_hook.single_entry_allows_iff entry_permits_def role_entry_flags)
      (simp add: role_entry_def)
qed simp

section \<open>Wildcard entries hide their neighbours\<close>

definition without_any :: "type_ops \<Rightarrow> type_ops" where
  "without_any m = filter (\<lambda>(k, _). k \<noteq> ''any'') m"

lemma hm_get_without_any: "t \<noteq> ''any'' \<Longrightarrow> hm_get (without_any m) t = hm_get m t"
  "hm_get (without_any m) ''any'' = None"
  by (induction m) (auto simp: without_any_def hm_get_def)



end
