(* ===== verification/Bit_Positions.thy ===== *)
theory Bit_Positions
  imports Policy_Engine
begin

text \<open>
  The bit positions of the policy engine against the constants of the shared crate, which the eBPF
  side uses.
\<close>

text \<open>Lower-case conversion of ASCII letters.\<close>

definition lower :: "string \<Rightarrow> string" where
  "lower = map (\<lambda>c. case map_of (zip ''ABCDEFGHIJKLMNOPQRSTUVWXYZ'' ''abcdefghijklmnopqrstuvwxyz'') c of
                      Some l \<Rightarrow> l | None \<Rightarrow> c)"

lemma prog_types_match:
  "list_all (\<lambda>(name, v). prog_type_to_bit (lower name) = Some v) common_prog_types"
  by (simp add: common_prog_types_def lower_def prog_type_to_bit_def prog_type_arms_def)

lemma map_types_match:
  "list_all (\<lambda>(name, v). map_type_to_bit (lower name) = Some v) common_map_types"
  by (simp add: common_map_types_def lower_def map_type_to_bit_def map_type_arms_def)

lemma commands_match:
  "list_all (\<lambda>(name, v). command_to_bit name = (if name = ''TOKEN_CREATE'' then None else Some v))
     common_commands"
  by (simp add: common_commands_def command_to_bit_def command_arms_def)

text \<open>
  The engine and the eBPF programs agree on bit positions. Every program and map type constant
  of the shared crate has the position that the engine gives to its lower-case name, and every
  command constant the position of its name, except \<open>TOKEN_CREATE\<close>, which has no position at all.
\<close>

theorem bit_positions_match_common:
  "(\<forall>(name, v) \<in> set common_prog_types. prog_type_to_bit (lower name) = Some v) \<and>
   (\<forall>(name, v) \<in> set common_map_types. map_type_to_bit (lower name) = Some v) \<and>
   (\<forall>(name, v) \<in> set common_commands.
      command_to_bit name = (if name = ''TOKEN_CREATE'' then None else Some v))"
  using prog_types_match map_types_match commands_match by (simp add: list_all_iff)

theorem bit_positions_match_common_witness:
  "(''RINGBUF'', 27) \<in> set common_map_types \<and> map_type_to_bit (lower ''RINGBUF'') = Some 27"
proof -
  have "(''RINGBUF'', 27) \<in> set common_map_types"
    by (simp add: common_map_types_def)
  with bit_positions_match_common show ?thesis
    by blast
qed

end
