(* ===== verification/Byte_Words.thy ===== *)
theory Byte_Words
  imports Rbac_Prelude
begin

text \<open>
  Integers as little-endian bytes of fixed width, as messages and the entries of eBPF maps hold them
  on the targets the sources are built for.
\<close>

section \<open>Little-endian integers\<close>

fun le_bytes :: "nat \<Rightarrow> nat \<Rightarrow> u8 list" where
  "le_bytes 0 v = []"
| "le_bytes (Suc n) v = of_nat (v mod 256) # le_bytes n (v div 256)"

fun le_value :: "u8 list \<Rightarrow> nat" where
  "le_value [] = 0"
| "le_value (b # bs) = unat b + 256 * le_value bs"

lemma length_le_bytes [simp]: "length (le_bytes n v) = n"
  by (induction n arbitrary: v) simp_all

lemma le_value_le_bytes: "v < 256 ^ n \<Longrightarrow> le_value (le_bytes n v) = v"
proof (induction n arbitrary: v)
  case 0
  then show ?case by simp
next
  case (Suc n)
  then have "v div 256 < 256 ^ n"
    by (intro less_mult_imp_div_less) simp
  with Suc.IH show ?case
    by (simp add: unat_of_nat)
qed

lemma le_value_less: "le_value bs < 256 ^ length bs"
proof (induction bs)
  case (Cons b bs)
  have "unat b < 256"
    using unsigned_less [of b, where ?'a = nat] by simp
  with Cons show ?case by simp
qed simp

lemma le_bytes_le_value: "length bs = n \<Longrightarrow> le_bytes n (le_value bs) = bs"
proof (induction bs arbitrary: n)
  case (Cons b bs)
  have "unat b < 256"
    using unsigned_less [of b, where ?'a = nat] by simp
  then have "(unat b + 256 * le_value bs) mod 256 = unat b" "(unat b + 256 * le_value bs) div 256 = le_value bs"
    by simp_all
  with Cons show ?case by (cases n) simp_all
qed simp

text \<open>The bytes of a word.\<close>

definition u32_bytes :: "u32 \<Rightarrow> u8 list" where
  "u32_bytes w = le_bytes 4 (unat w)"

definition u32_of_bytes :: "u8 list \<Rightarrow> u32" where
  "u32_of_bytes bs = of_nat (le_value bs)"

definition u64_bytes :: "u64 \<Rightarrow> u8 list" where
  "u64_bytes w = le_bytes 8 (unat w)"

definition u64_of_bytes :: "u8 list \<Rightarrow> u64" where
  "u64_of_bytes bs = of_nat (le_value bs)"

lemma length_word_bytes [simp]: "length (u32_bytes w) = 4" "length (u64_bytes v) = 8"
  by (simp_all add: u32_bytes_def u64_bytes_def)

lemma word_of_word_bytes [simp]: "u32_of_bytes (u32_bytes w) = w" "u64_of_bytes (u64_bytes v) = v"
proof -
  have "unat w < 256 ^ 4" "unat v < 256 ^ 8"
    using unsigned_less [of w, where ?'a = nat] unsigned_less [of v, where ?'a = nat] by simp_all
  then show "u32_of_bytes (u32_bytes w) = w" "u64_of_bytes (u64_bytes v) = v"
    by (simp_all add: u32_of_bytes_def u32_bytes_def u64_of_bytes_def u64_bytes_def le_value_le_bytes)
qed

lemma word_bytes_of_word [simp]:
  "length bs = 4 \<Longrightarrow> u32_bytes (u32_of_bytes bs) = bs"
  "length bs = 8 \<Longrightarrow> u64_bytes (u64_of_bytes bs) = bs"
  using le_value_less [of bs]
  by (simp_all add: u32_of_bytes_def u32_bytes_def u64_of_bytes_def u64_bytes_def unat_of_nat
      le_bytes_le_value)

lemma u64_bytes_inject [simp]: "u64_bytes v = u64_bytes w \<longleftrightarrow> v = w"
  by (metis word_of_word_bytes(2))

section \<open>Structs\<close>

text \<open>
  The bytes of a \<open>repr(C)\<close> struct, given the alignment and the bytes of each field in the order of their
  declarations: a field is preceded by the padding its alignment asks for, and the struct is followed
  by the padding up to a multiple of its own alignment, the largest of its fields. Padding is zeroed.
\<close>

fun place_fields :: "nat \<Rightarrow> (nat \<times> u8 list) list \<Rightarrow> u8 list" where
  "place_fields off [] = []"
| "place_fields off ((al, bs) # fs) =
     (let start = (off + al - 1) div al * al
      in replicate (start - off) 0 @ bs @ place_fields (start + length bs) fs)"

definition struct_bytes :: "(nat \<times> u8 list) list \<Rightarrow> u8 list" where
  "struct_bytes fs =
     (let body = place_fields 0 fs; al = fold max (map fst fs) 1
      in body @ replicate ((length body + al - 1) div al * al - length body) 0)"

text \<open>The fields of a struct as they are found at their offsets.\<close>

definition u32_at :: "u8 list \<Rightarrow> nat \<Rightarrow> u32" where
  "u32_at bs off = u32_of_bytes (take 4 (drop off bs))"

text \<open>The layout of the bytes is the layout of the sizes.\<close>

end
