(* ===== verification/Policy_Map.thy ===== *)
theory Policy_Map
  imports Lsm_Hooks Byte_Words
begin

text \<open>
  The policy map as the kernel holds it: a hash map of bytes with a bounded number of entries. The
  \<open>repr(C)\<close> layout of \<open>PolicyKey\<close> and \<open>PolicyValue\<close> is what user space and the LSM programs share. The
  kernel's map operations are the record \<open>map_calls\<close>, their documented behaviour the locale
  \<open>bpf_hash_map\<close>; typed access to the map refines the finite function the LSM programs are modelled on.
  The administration of the map is the one of \<open>tests/integration.rs\<close>, the only code that fills it.
\<close>

section \<open>Layout of keys and values\<close>

text \<open>The fields in the order of their declarations, with the alignment of their types.\<close>

definition PolicyKey_bytes :: "PolicyKey \<Rightarrow> u8 list" where
  "PolicyKey_bytes k = struct_bytes [(8, u64_bytes (userns_id k))]"

definition PolicyValue_bytes :: "PolicyValue \<Rightarrow> u8 list" where
  "PolicyValue_bytes v = struct_bytes
     [(4, u32_bytes (allowed_cmds v)),
      (4, u32_bytes (allowed_prog_types v)),
      (4, u32_bytes (allowed_map_types v)),
      (4, u32_bytes (allowed_attach_types v)),
      (4, u32_bytes (flags v)),
      (4, concat (map u32_bytes (reserved v)))]"

text \<open>
  An eBPF program gets a pointer to the bytes of the entry and reads the fields of \<open>PolicyValue\<close> at the
  offsets that \<open>repr(C)\<close> gives them: the sizes and alignments are those of five \<open>u32\<close> and of \<open>[u32; 3]\<close>.
\<close>

definition PolicyValue_layout :: "(nat \<times> nat) list" where
  "PolicyValue_layout = [(4, 4), (4, 4), (4, 4), (4, 4), (4, 4), (3 * 4, 4)]"

definition PolicyValue_of_bytes :: "u8 list \<Rightarrow> PolicyValue" where
  "PolicyValue_of_bytes bs =
     (let offset = (\<lambda>i. field_offsets 0 PolicyValue_layout ! i)
      in \<lparr>allowed_cmds = u32_at bs (offset 0), allowed_prog_types = u32_at bs (offset 1),
          allowed_map_types = u32_at bs (offset 2), allowed_attach_types = u32_at bs (offset 3),
          flags = u32_at bs (offset 4), reserved = map (\<lambda>j. u32_at bs (offset 5 + 4 * j)) [0..<3]\<rparr>)"

text \<open>The type of \<open>_reserved\<close> is an array of three words.\<close>

definition PolicyValue_wf :: "PolicyValue \<Rightarrow> bool" where
  "PolicyValue_wf v \<longleftrightarrow> length (reserved v) = 3"

lemma PolicyKey_bytes_flat: "PolicyKey_bytes k = u64_bytes (userns_id k)"
  by (simp add: PolicyKey_bytes_def struct_bytes_def)

lemma PolicyKey_bytes_inject [simp]: "PolicyKey_bytes k = PolicyKey_bytes k' \<longleftrightarrow> k = k'"
  by (cases k; cases k') (simp add: PolicyKey_bytes_flat)

lemma length3: "length xs = 3 \<longleftrightarrow> (\<exists>a b c. xs = [a, b, c])"
  by (auto simp: numeral_3_eq_3 length_Suc_conv)

lemma PolicyValue_offsets: "field_offsets 0 PolicyValue_layout = [0, 4, 8, 12, 16, 20]"
  by (simp add: PolicyValue_layout_def)

lemma PolicyValue_bytes_back:
  assumes "PolicyValue_wf v"
  shows "PolicyValue_of_bytes (PolicyValue_bytes v) = v"
  using assms
  by (cases v)
    (auto simp: PolicyValue_wf_def length3 PolicyValue_of_bytes_def PolicyValue_bytes_def struct_bytes_def
      PolicyValue_offsets u32_at_def upt_rec)

lemma PolicyValue_of_bytes_wf [simp]: "PolicyValue_wf (PolicyValue_of_bytes bs)"
  by (simp add: PolicyValue_wf_def PolicyValue_of_bytes_def Let_def)

lemma PolicyValue_constructors_wf [simp]:
  "PolicyValue_wf PolicyValue_empty" "PolicyValue_wf PolicyValue_allow_all"
  by (simp_all add: PolicyValue_wf_def PolicyValue_empty_def PolicyValue_allow_all_def)

section \<open>The kernel's map\<close>

record 's map_calls =
  map_update :: "'s \<Rightarrow> u8 list \<Rightarrow> u8 list \<Rightarrow> 's result"
  map_lookup :: "'s \<Rightarrow> u8 list \<Rightarrow> u8 list option"
  map_delete :: "'s \<Rightarrow> u8 list \<Rightarrow> 's result"

text \<open>
  A map of type \<open>BPF_MAP_TYPE_HASH\<close>: an update adds or replaces an entry, and fails when it would add
  one to a full map; a deletion fails when there is nothing to delete.
\<close>

locale bpf_hash_map =
  fixes calls :: "'s map_calls" and max_entries :: nat
  assumes finite_entries: "finite (dom (map_lookup calls s))"
    and update_done: "k \<in> dom (map_lookup calls s) \<or> card (dom (map_lookup calls s)) < max_entries \<Longrightarrow>
        \<exists>s'. map_update calls s k v = Inr s' \<and> map_lookup calls s' = (map_lookup calls s)(k \<mapsto> v)"
    and update_full: "k \<notin> dom (map_lookup calls s) \<Longrightarrow> max_entries \<le> card (dom (map_lookup calls s)) \<Longrightarrow>
        \<exists>e. map_update calls s k v = Inl e"
    and delete_done: "k \<in> dom (map_lookup calls s) \<Longrightarrow>
        \<exists>s'. map_delete calls s k = Inr s' \<and> map_lookup calls s' = (map_lookup calls s)(k := None)"
    and delete_missing: "k \<notin> dom (map_lookup calls s) \<Longrightarrow> \<exists>e. map_delete calls s k = Inl e"

text \<open>The typed view both sides have of the map.\<close>

definition policy_insert :: "'s map_calls \<Rightarrow> 's \<Rightarrow> PolicyKey \<Rightarrow> PolicyValue \<Rightarrow> 's result" where
  "policy_insert calls s k v = map_update calls s (PolicyKey_bytes k) (PolicyValue_bytes v)"

definition policy_remove :: "'s map_calls \<Rightarrow> 's \<Rightarrow> PolicyKey \<Rightarrow> 's result" where
  "policy_remove calls s k = map_delete calls s (PolicyKey_bytes k)"

definition POLICY_MAP :: "'s map_calls \<Rightarrow> 's \<Rightarrow> policy_map" where
  "POLICY_MAP calls s k = map_option PolicyValue_of_bytes (map_lookup calls s (PolicyKey_bytes k))"

definition MAP_ENTRIES :: nat where
  "MAP_ENTRIES = unat MAX_POLICY_ENTRIES"

context bpf_hash_map
begin

lemma view_finite: "finite (dom (POLICY_MAP calls s))"
  and view_card: "card (dom (POLICY_MAP calls s)) \<le> card (dom (map_lookup calls s))"
proof -
  have img: "PolicyKey_bytes ` dom (POLICY_MAP calls s) \<subseteq> dom (map_lookup calls s)"
    by (auto simp: POLICY_MAP_def)
  have inj: "inj_on PolicyKey_bytes (dom (POLICY_MAP calls s))"
    by (simp add: inj_on_def)
  show "finite (dom (POLICY_MAP calls s))"
    by (rule inj_on_finite [OF inj img finite_entries])
  show "card (dom (POLICY_MAP calls s)) \<le> card (dom (map_lookup calls s))"
    by (rule card_inj_on_le [OF inj img finite_entries])
qed

lemma insert_lookup:
  assumes "policy_insert calls s k v = Inr s'"
  shows "map_lookup calls s' = (map_lookup calls s)(PolicyKey_bytes k \<mapsto> PolicyValue_bytes v)"
    and "PolicyKey_bytes k \<in> dom (map_lookup calls s) \<or> card (dom (map_lookup calls s)) < max_entries"
proof -
  show room: "PolicyKey_bytes k \<in> dom (map_lookup calls s) \<or> card (dom (map_lookup calls s)) < max_entries"
    using update_full [of "PolicyKey_bytes k" s "PolicyValue_bytes v"] assms
    by (fastforce simp: policy_insert_def not_less)
  from update_done [OF this] assms
  show "map_lookup calls s' = (map_lookup calls s)(PolicyKey_bytes k \<mapsto> PolicyValue_bytes v)"
    by (metis Inr_inject policy_insert_def)
qed

lemma insert_result:
  assumes "policy_insert calls s k v = Inr s'" and "PolicyValue_wf v"
  shows "POLICY_MAP calls s' = (POLICY_MAP calls s)(k \<mapsto> v)"
  using assms(2) by (auto simp: POLICY_MAP_def PolicyValue_bytes_back insert_lookup(1) [OF assms(1)])

lemma insert_card:
  assumes "policy_insert calls s k v = Inr s'"
  shows "card (dom (map_lookup calls s')) =
     card (dom (map_lookup calls s)) + (if POLICY_MAP calls s k = None then 1 else 0)"
  using insert_lookup(1) [OF assms] finite_entries [of s]
  by (auto simp: card_insert_if POLICY_MAP_def domIff)

lemma remove_lookup:
  assumes "policy_remove calls s k = Inr s'"
  shows "map_lookup calls s' = (map_lookup calls s)(PolicyKey_bytes k := None)"
    and "PolicyKey_bytes k \<in> dom (map_lookup calls s)"
proof -
  show present: "PolicyKey_bytes k \<in> dom (map_lookup calls s)"
    using delete_missing [of "PolicyKey_bytes k" s] assms by (fastforce simp: policy_remove_def)
  from delete_done [OF this] assms
  show "map_lookup calls s' = (map_lookup calls s)(PolicyKey_bytes k := None)"
    by (metis Inr_inject policy_remove_def)
qed

lemma remove_result:
  assumes "policy_remove calls s k = Inr s'"
  shows "POLICY_MAP calls s' = (POLICY_MAP calls s)(k := None) \<and> POLICY_MAP calls s k \<noteq> None"
  using remove_lookup [OF assms] by (auto simp: POLICY_MAP_def)

lemma insert_room:
  assumes "card (dom (map_lookup calls s)) < max_entries"
  shows "\<exists>s'. policy_insert calls s k v = Inr s'"
  using update_done [of "PolicyKey_bytes k" s "PolicyValue_bytes v"] assms
  by (auto simp: policy_insert_def)

lemma insert_present:
  assumes "POLICY_MAP calls s k \<noteq> None"
  shows "\<exists>s'. policy_insert calls s k v = Inr s'"
  using assms update_done [of "PolicyKey_bytes k" s "PolicyValue_bytes v"]
  by (auto simp: POLICY_MAP_def policy_insert_def)

lemma remove_present:
  assumes "POLICY_MAP calls s k \<noteq> None"
  shows "\<exists>s'. policy_remove calls s k = Inr s'"
  using assms delete_done [of "PolicyKey_bytes k" s] by (auto simp: POLICY_MAP_def policy_remove_def)

end

section \<open>Administration of the map\<close>

datatype map_op = InsertEntry PolicyKey PolicyValue | RemoveEntry PolicyKey

fun map_admin :: "'s map_calls \<Rightarrow> map_op \<Rightarrow> 's \<Rightarrow> 's result" where
  "map_admin calls (InsertEntry k v) s = policy_insert calls s k v"
| "map_admin calls (RemoveEntry k) s = policy_remove calls s k"

fun run_admin :: "'s map_calls \<Rightarrow> map_op list \<Rightarrow> 's \<Rightarrow> 's result" where
  "run_admin calls [] s = Inr s"
| "run_admin calls (p # ops) s = and_then (map_admin calls p s) (run_admin calls ops)"

text \<open>What the operations mean for the policy.\<close>

fun op_meaning :: "map_op \<Rightarrow> policy_map \<Rightarrow> policy_map" where
  "op_meaning (InsertEntry k v) m = m(k \<mapsto> v)"
| "op_meaning (RemoveEntry k) m = m(k := None)"

fun op_wf :: "map_op \<Rightarrow> bool" where
  "op_wf (InsertEntry k v) = PolicyValue_wf v"
| "op_wf (RemoveEntry k) = True"

context bpf_hash_map
begin

lemma admin_view: "map_admin calls p s = Inr s' \<Longrightarrow> op_wf p \<Longrightarrow> POLICY_MAP calls s' = op_meaning p (POLICY_MAP calls s)"
  by (cases p) (auto simp: insert_result dest: remove_result)

lemma run_admin_view:
  "run_admin calls ops s = Inr s' \<Longrightarrow> list_all op_wf ops \<Longrightarrow>
     POLICY_MAP calls s' = fold op_meaning ops (POLICY_MAP calls s)"
  by (induction ops arbitrary: s) (auto simp: admin_view)

lemma admin_bounded:
  assumes "map_admin calls p s = Inr s'" and "card (dom (map_lookup calls s)) \<le> max_entries"
  shows "card (dom (map_lookup calls s')) \<le> max_entries"
proof (cases p)
  case (InsertEntry k v)
  with assms(1) have ins: "policy_insert calls s k v = Inr s'" by simp
  from insert_card [OF ins] insert_lookup(2) [OF ins] assms(2) show ?thesis
    by (auto simp: POLICY_MAP_def domIff split: if_splits)
next
  case (RemoveEntry k)
  with assms(1) have "policy_remove calls s k = Inr s'" by simp
  from remove_lookup(1) [OF this]
  have "dom (map_lookup calls s') \<subseteq> dom (map_lookup calls s)"
    by (auto split: if_splits)
  from card_mono [OF finite_entries this] assms(2) show ?thesis
    by simp
qed

lemma run_admin_bounded:
  "run_admin calls ops s = Inr s' \<Longrightarrow> card (dom (map_lookup calls s)) \<le> max_entries \<Longrightarrow>
     card (dom (map_lookup calls s')) \<le> max_entries"
  by (induction ops arbitrary: s) (auto dest: admin_bounded)

lemma insert_full:
  assumes "max_entries \<le> card (dom (POLICY_MAP calls s))" and "POLICY_MAP calls s k = None"
  shows "\<exists>e. policy_insert calls s k v = Inl e"
  using assms view_card [of s] update_full [of "PolicyKey_bytes k" s "PolicyValue_bytes v"]
  by (auto simp: policy_insert_def POLICY_MAP_def)

end

section \<open>A reference implementation of the kernel's map\<close>

definition hash_table :: "nat \<Rightarrow> (u8 list \<times> u8 list) list map_calls" where
  "hash_table n =
     \<lparr>map_update = (\<lambda>s k v.
        if k \<in> set (map fst s) \<or> length (remdups (map fst s)) < n then Inr (AList.update k v s)
        else Inl (Msg ''Argument list too long (os error 7)'')),
      map_lookup = map_of,
      map_delete = (\<lambda>s k.
        if k \<in> set (map fst s) then Inr (AList.delete k s)
        else Inl (Msg ''No such file or directory (os error 2)''))\<rparr>"

interpretation table_map: bpf_hash_map "hash_table n" n for n
proof unfold_locales
  have dom: "dom (map_of s) = set (map fst s)" for s :: "(u8 list \<times> u8 list) list"
    by (simp add: dom_map_of_conv_image_fst)
  then have card: "card (dom (map_of s)) = length (remdups (map fst s))" for s :: "(u8 list \<times> u8 list) list"
    by (simp add: length_remdups_card_conv)
  fix s :: "(u8 list \<times> u8 list) list" and k v
  show "finite (dom (map_lookup (hash_table n) s))"
    by (simp add: hash_table_def finite_dom_map_of)
  show "\<exists>s'. map_update (hash_table n) s k v = Inr s' \<and>
      map_lookup (hash_table n) s' = (map_lookup (hash_table n) s)(k \<mapsto> v)"
    if "k \<in> dom (map_lookup (hash_table n) s) \<or> card (dom (map_lookup (hash_table n) s)) < n"
    using that by (simp add: hash_table_def card, simp add: dom update_conv')
  show "\<exists>e. map_update (hash_table n) s k v = Inl e"
    if "k \<notin> dom (map_lookup (hash_table n) s)" "n \<le> card (dom (map_lookup (hash_table n) s))"
    using that by (simp add: hash_table_def card, simp add: dom)
  show "\<exists>s'. map_delete (hash_table n) s k = Inr s' \<and>
      map_lookup (hash_table n) s' = (map_lookup (hash_table n) s)(k := None)"
    if "k \<in> dom (map_lookup (hash_table n) s)"
    using that by (simp add: hash_table_def dom delete_conv')
  show "\<exists>e. map_delete (hash_table n) s k = Inl e" if "k \<notin> dom (map_lookup (hash_table n) s)"
    using that by (simp add: hash_table_def dom)
qed

section \<open>Properties of the map\<close>

text \<open>
  The bytes in the kernel implement the policy. After any sequence of successful insertions and
  removals of entries, the policy that the LSM programs read through the bytes is the one the sequence
  describes, each namespace having the entry of its last operation, and the map never holds more than
  1024 entries.
\<close>

theorem policy_map_refines:
  assumes "bpf_hash_map calls MAP_ENTRIES" and "dom (map_lookup calls s) = {}"
    and "run_admin calls ops s = Inr s'" and "list_all op_wf ops"
  shows "POLICY_MAP calls s' = fold op_meaning ops Map.empty \<and>
     card (dom (POLICY_MAP calls s')) \<le> 1024"
proof -
  have "POLICY_MAP calls s = Map.empty"
    using assms(2) by (auto simp: POLICY_MAP_def)
  with bpf_hash_map.run_admin_view [OF assms(1,3,4)]
  have "POLICY_MAP calls s' = fold op_meaning ops Map.empty" by simp
  moreover have "card (dom (map_lookup calls s')) \<le> MAP_ENTRIES"
    using assms(2) by (intro bpf_hash_map.run_admin_bounded [OF assms(1,3)]) simp
  ultimately show ?thesis
    using bpf_hash_map.view_card [OF assms(1), of s'] by (simp add: MAP_ENTRIES_def MAX_POLICY_ENTRIES_def)
qed

text \<open>
  C15: a full map fails open. When the map holds entries for 1024 namespaces, the entry for a further
  namespace is refused, whatever it says, and all three LSM programs let every call of that namespace
  through.
\<close>

theorem policy_map_full_fails_open:
  assumes "bpf_hash_map calls MAP_ENTRIES" and "card (dom (POLICY_MAP calls s)) = 1024"
    and "\<lparr>userns_id = u\<rparr> \<notin> dom (POLICY_MAP calls s)"
  shows "(\<exists>e. policy_insert calls s \<lparr>userns_id = u\<rparr> v = Inl e) \<and>
     bpf_rbac_bpf (Inr u) (POLICY_MAP calls s) ctx = (0, []) \<and>
     bpf_rbac_prog_load (Inr u) (POLICY_MAP calls s) ctx = (0, []) \<and>
     bpf_rbac_map_create (Inr u) (POLICY_MAP calls s) ctx = (0, [])"
proof -
  have none: "POLICY_MAP calls s \<lparr>userns_id = u\<rparr> = None"
    using assms(3) by blast
  have "\<exists>e. policy_insert calls s \<lparr>userns_id = u\<rparr> v = Inl e"
    by (rule bpf_hash_map.insert_full [OF assms(1) _ none])
      (simp add: assms(2) MAP_ENTRIES_def MAX_POLICY_ENTRIES_def)
  with none show ?thesis
    by (cases "arg_kernel ctx = 0")
      (simp_all add: bpf_hook.unmanaged prog_load_hook.unmanaged map_create_hook.unmanaged
        bpf_hook.from_kernel prog_load_hook.from_kernel map_create_hook.from_kernel)
qed

theorem policy_map_refines_witness:
  "\<exists>s'. run_admin (hash_table MAP_ENTRIES)
       [InsertEntry \<lparr>userns_id = 7\<rparr> PolicyValue_allow_all, InsertEntry \<lparr>userns_id = 7\<rparr> PolicyValue_empty] [] =
       Inr s' \<and>
     POLICY_MAP (hash_table MAP_ENTRIES) s' = [\<lparr>userns_id = 7\<rparr> \<mapsto> PolicyValue_empty]"
proof -
  let ?ops = "[InsertEntry \<lparr>userns_id = 7\<rparr> PolicyValue_allow_all, InsertEntry \<lparr>userns_id = 7\<rparr> PolicyValue_empty]"
  have "\<exists>s'. run_admin (hash_table MAP_ENTRIES) ?ops [] = Inr s'"
    by (simp add: hash_table_def policy_insert_def MAP_ENTRIES_def MAX_POLICY_ENTRIES_def)
  then obtain s' where s': "run_admin (hash_table MAP_ENTRIES) ?ops [] = Inr s'" by blast
  have "dom (map_lookup (hash_table MAP_ENTRIES) []) = {}"
    by (simp add: hash_table_def)
  from policy_map_refines [OF table_map.bpf_hash_map_axioms this s'] have
    "POLICY_MAP (hash_table MAP_ENTRIES) s' = [\<lparr>userns_id = 7\<rparr> \<mapsto> PolicyValue_empty]"
    by simp
  with s' show ?thesis by blast
qed

text \<open>A full table: 1024 entries.\<close>

definition full_table :: "(u8 list \<times> u8 list) list" where
  "full_table = map (\<lambda>i. (u64_bytes (word_of_nat i), PolicyValue_bytes PolicyValue_empty)) [0..<1024]"

lemma full_table_dom:
  "dom (POLICY_MAP (hash_table MAP_ENTRIES) full_table) = (\<lambda>i. \<lparr>userns_id = word_of_nat i\<rparr>) ` {..<1024}"
proof -
  have keys: "fst ` set full_table = (\<lambda>i. u64_bytes (word_of_nat i)) ` {..<1024}"
    unfolding full_table_def set_map image_image by (simp add: lessThan_atLeast0)
  have "k \<in> dom (POLICY_MAP (hash_table MAP_ENTRIES) full_table) \<longleftrightarrow> PolicyKey_bytes k \<in> fst ` set full_table"
    for k
    unfolding domIff POLICY_MAP_def hash_table_def by (simp add: map_of_eq_None_iff)
  then have "k \<in> dom (POLICY_MAP (hash_table MAP_ENTRIES) full_table) \<longleftrightarrow>
      k \<in> (\<lambda>i. \<lparr>userns_id = word_of_nat i\<rparr>) ` {..<1024}" for k
    unfolding keys by (cases k) (auto simp: PolicyKey_bytes_flat)
  then show ?thesis by blast
qed

theorem policy_map_full_fails_open_witness:
  "(\<exists>e. policy_insert (hash_table MAP_ENTRIES) full_table \<lparr>userns_id = 5000\<rparr>
      (PolicyValue_empty\<lparr>flags := POLICY_FLAG_DENY_ALL\<rparr>) = Inl e) \<and>
   bpf_rbac_bpf (Inr 5000) (POLICY_MAP (hash_table MAP_ENTRIES) full_table)
     \<lparr>arg_cmd = 5, arg_attr = None, arg_kernel = 0\<rparr> = (0, [])"
proof -
  have nat: "unat (word_of_nat i :: u64) = i" if "i < 1024" for i
    using that by (simp add: unat_of_nat)
  have "inj_on (\<lambda>i. \<lparr>userns_id = word_of_nat i\<rparr>) {..<1024}"
    using nat by (auto simp: inj_on_def) (metis nat)
  then have "card (dom (POLICY_MAP (hash_table MAP_ENTRIES) full_table)) = 1024"
    unfolding full_table_dom by (simp add: card_image)
  moreover have "\<lparr>userns_id = 5000\<rparr> \<notin> dom (POLICY_MAP (hash_table MAP_ENTRIES) full_table)"
  proof
    assume "\<lparr>userns_id = 5000\<rparr> \<in> dom (POLICY_MAP (hash_table MAP_ENTRIES) full_table)"
    then obtain i where "i < 1024" "(5000 :: u64) = word_of_nat i"
      unfolding full_table_dom by auto
    with nat [of i] have "unat (5000 :: u64) < 1024"
      by simp
    then show False by simp
  qed
  ultimately show ?thesis
    using policy_map_full_fails_open [OF table_map.bpf_hash_map_axioms] by blast
qed

section \<open>The test that fills the map\<close>

text \<open>\<open>expect\<close> and \<open>assert!\<close>: a panic is an error.\<close>

definition expect :: "string \<Rightarrow> 'a result \<Rightarrow> 'a result" where
  "expect msg r = (case r of Inl e \<Rightarrow> Inl (Msg (msg @ '': '' @ to_string e)) | Inr x \<Rightarrow> Inr x)"

definition policy_get :: "'s map_calls \<Rightarrow> 's \<Rightarrow> PolicyKey \<Rightarrow> PolicyValue result" where
  "policy_get calls s k =
     (case POLICY_MAP calls s k of
        None \<Rightarrow> Inl (Msg ''the given key is not present in the map'')
      | Some v \<Rightarrow> Inr v)"

definition test_value :: PolicyValue where
  "test_value = \<lparr>allowed_cmds = 0x1F, allowed_prog_types = 0x24, allowed_map_types = 0x06,
     allowed_attach_types = 0, flags = 0, reserved = replicate 3 0\<rparr>"

definition deny_value :: PolicyValue where
  "deny_value = \<lparr>allowed_cmds = 0, allowed_prog_types = 0, allowed_map_types = 0,
     allowed_attach_types = 0, flags = POLICY_FLAG_DENY_ALL, reserved = replicate 3 0\<rparr>"

definition test_policy_map_population :: "'s map_calls \<Rightarrow> 's \<Rightarrow> 's result" where
  "test_policy_map_population calls s0 =
     (let key = \<lparr>userns_id = 12345\<rparr>; deny_key = \<lparr>userns_id = 99999\<rparr> in
      and_then (expect ''Failed to insert policy entry'' (policy_insert calls s0 key test_value)) (\<lambda>s1.
      and_then (expect ''Failed to get policy entry'' (policy_get calls s1 key)) (\<lambda>retrieved.
      if allowed_cmds retrieved \<noteq> 0x1F \<or> allowed_prog_types retrieved \<noteq> 0x24 \<or>
         allowed_map_types retrieved \<noteq> 0x06 \<or> flags retrieved \<noteq> 0
      then Inl (Msg ''assertion failed'')
      else
      and_then (expect ''Failed to insert deny policy'' (policy_insert calls s1 deny_key deny_value)) (\<lambda>s2.
      and_then (expect ''Failed to get deny entry'' (policy_get calls s2 deny_key)) (\<lambda>retrieved.
      if flags retrieved AND POLICY_FLAG_DENY_ALL \<noteq> POLICY_FLAG_DENY_ALL
      then Inl (Msg ''assertion failed'')
      else
      and_then (expect ''Failed to remove policy entry'' (policy_remove calls s2 key)) (\<lambda>s3.
      expect ''Failed to remove deny entry'' (policy_remove calls s3 deny_key)))))))"

lemma expect_simps [simp]: "expect msg (Inr x) = Inr x"
  by (simp add: expect_def)

text \<open>
  The test that fills the policy map passes on every kernel whose map has room for two more
  entries, and leaves the policy without the two namespaces it uses.
\<close>

theorem policy_map_test_passes:
  assumes "bpf_hash_map calls MAP_ENTRIES" and "card (dom (map_lookup calls s)) + 2 \<le> MAP_ENTRIES"
  shows "\<exists>s'. test_policy_map_population calls s = Inr s' \<and>
     POLICY_MAP calls s' = (POLICY_MAP calls s)(\<lparr>userns_id = 12345\<rparr> := None, \<lparr>userns_id = 99999\<rparr> := None)"
proof -
  let ?k = "\<lparr>userns_id = 12345\<rparr> :: PolicyKey" and ?d = "\<lparr>userns_id = 99999\<rparr> :: PolicyKey"
  have wf: "PolicyValue_wf test_value" "PolicyValue_wf deny_value"
    by (simp_all add: PolicyValue_wf_def test_value_def deny_value_def)
  obtain s1 where i1: "policy_insert calls s ?k test_value = Inr s1"
    using bpf_hash_map.insert_room [OF assms(1)] assms(2) by fastforce
  note v1 = bpf_hash_map.insert_result [OF assms(1) i1 wf(1)]
  have "card (dom (map_lookup calls s1)) < MAP_ENTRIES"
    using bpf_hash_map.insert_card [OF assms(1) i1] assms(2) by (simp split: if_splits)
  then obtain s2 where i2: "policy_insert calls s1 ?d deny_value = Inr s2"
    using bpf_hash_map.insert_room [OF assms(1)] by blast
  note v2 = bpf_hash_map.insert_result [OF assms(1) i2 wf(2)]
  obtain s3 where r3: "policy_remove calls s2 ?k = Inr s3"
    using bpf_hash_map.remove_present [OF assms(1), of s2 ?k] by (auto simp: v2 v1)
  note v3 = bpf_hash_map.remove_result [OF assms(1) r3]
  obtain s4 where r4: "policy_remove calls s3 ?d = Inr s4"
    using bpf_hash_map.remove_present [OF assms(1), of s3 ?d] by (auto simp: v3 v2 v1)
  have "test_policy_map_population calls s = Inr s4"
    unfolding test_policy_map_population_def Let_def
    by (simp add: i1 i2 r3 r4 policy_get_def v1 v2) (simp add: test_value_def deny_value_def)
  moreover have "POLICY_MAP calls s4 = (POLICY_MAP calls s)(?k := None, ?d := None)"
    using bpf_hash_map.remove_result [OF assms(1) r4] v3 by (simp add: v2 v1 fun_upd_twist)
  ultimately show ?thesis by blast
qed

theorem policy_map_test_passes_witness:
  "\<exists>s'. test_policy_map_population (hash_table MAP_ENTRIES) [] = Inr s' \<and>
     POLICY_MAP (hash_table MAP_ENTRIES) s' = Map.empty"
proof -
  have "card (dom (map_lookup (hash_table MAP_ENTRIES) [])) + 2 \<le> MAP_ENTRIES"
    "POLICY_MAP (hash_table MAP_ENTRIES) [] = Map.empty"
    by (auto simp: hash_table_def MAP_ENTRIES_def MAX_POLICY_ENTRIES_def POLICY_MAP_def)
  with policy_map_test_passes [OF table_map.bpf_hash_map_axioms this(1)] show ?thesis
    by simp
qed

end
