(* ===== verification/Lsm_Enforcement.thy ===== *)
theory Lsm_Enforcement
  imports Policy_Map
begin

text \<open>
  The kernel side as one system: the three LSM programs of \<open>bpf-rbacd-ebpf\<close> on the policy map they
  share with user space, under any sequence of calls from processes and administrations of the map,
  failing ones included. The system refines an abstract machine that keeps the policy as a finite
  function and judges single bits, and in it the last administration of a namespace decides its calls.
\<close>

section \<open>The system\<close>

datatype lsm_program = Bpf | ProgLoad | MapCreate

text \<open>
  An event is an operation on the map, or the call of a hook by a process: the outcome of resolving
  its user namespace, and the context.
\<close>

datatype lsm_event =
    Administer map_op
  | Invoke lsm_program "i64 + u64" lsm_context

datatype lsm_answer = Administered bool | Answered i32

fun invoke_program :: "lsm_program \<Rightarrow> i64 + u64 \<Rightarrow> policy_map \<Rightarrow> lsm_context \<Rightarrow> i32 \<times> lsm_log list" where
  "invoke_program Bpf = bpf_rbac_bpf"
| "invoke_program ProgLoad = bpf_rbac_prog_load"
| "invoke_program MapCreate = bpf_rbac_map_create"

text \<open>The programs as the source compiles them.\<close>

fun compiled_program :: "lsm_program \<Rightarrow> policy_map \<Rightarrow> lsm_context \<Rightarrow> i32 \<times> lsm_log list" where
  "compiled_program Bpf = compiled_bpf"
| "compiled_program ProgLoad = compiled_prog_load"
| "compiled_program MapCreate = compiled_map_create"

fun lsm_step :: "'s map_calls \<Rightarrow> lsm_event \<Rightarrow> 's \<Rightarrow> lsm_answer \<times> 's" where
  "lsm_step calls (Administer p) s =
     (case map_admin calls p s of
        Inl _ \<Rightarrow> (Administered False, s)
      | Inr s' \<Rightarrow> (Administered True, s'))"
| "lsm_step calls (Invoke prog userns ctx) s =
     (Answered (fst (invoke_program prog userns (POLICY_MAP calls s) ctx)), s)"

section \<open>What the system does\<close>

text \<open>The part of an entry a program looks at, and the number of its bit.\<close>

fun program_bitmap :: "lsm_program \<Rightarrow> PolicyValue \<Rightarrow> u32" where
  "program_bitmap Bpf = allowed_cmds"
| "program_bitmap ProgLoad = allowed_prog_types"
| "program_bitmap MapCreate = allowed_map_types"

fun program_subject :: "lsm_program \<Rightarrow> lsm_context \<Rightarrow> u32 option" where
  "program_subject Bpf ctx = Some (arg_cmd ctx)"
| "program_subject ProgLoad ctx = arg_attr ctx"
| "program_subject MapCreate ctx = arg_attr ctx"

text \<open>
  The abstract machine: its state is the policy, a map of at most \<open>n\<close> namespaces, and a call is
  answered by the decision on single bits.
\<close>

fun policy_step :: "nat \<Rightarrow> lsm_event \<Rightarrow> policy_map \<Rightarrow> lsm_answer \<times> policy_map" where
  "policy_step n (Administer (InsertEntry k v)) m =
     (if k \<in> dom m \<or> card (dom m) < n then (Administered True, m(k \<mapsto> v)) else (Administered False, m))"
| "policy_step n (Administer (RemoveEntry k)) m = (Administered (k \<in> dom m), m(k := None))"
| "policy_step n (Invoke prog userns ctx) m =
     (Answered (if hook_permits userns m (program_bitmap prog) (program_subject prog ctx) (arg_kernel ctx \<noteq> 0)
        then 0 else - 1), m)"

fun event_wf :: "lsm_event \<Rightarrow> bool" where
  "event_wf (Administer p) = op_wf p"
| "event_wf (Invoke prog userns ctx) = True"

text \<open>The map holds nothing but the entries of the policy.\<close>

definition represents :: "'s map_calls \<Rightarrow> 's \<Rightarrow> policy_map \<Rightarrow> bool" where
  "represents calls s m \<longleftrightarrow>
     POLICY_MAP calls s = m \<and> dom (map_lookup calls s) = PolicyKey_bytes ` dom m"

lemma invoke_refines:
  "fst (invoke_program prog userns m ctx) =
     (if hook_permits userns m (program_bitmap prog) (program_subject prog ctx) (arg_kernel ctx \<noteq> 0)
      then 0 else - 1)"
  by (cases prog) (simp_all add: bpf_hook.refines prog_load_hook.refines map_create_hook.refines)

lemma compiled_program_entry_0:
  assumes "m' \<lparr>userns_id = 0\<rparr> = m \<lparr>userns_id = 0\<rparr>"
  shows "compiled_program prog m' ctx = compiled_program prog m ctx"
  using bpf_hook.own_entry_decides [of m' 0 m] prog_load_hook.own_entry_decides [of m' 0 m]
    map_create_hook.own_entry_decides [of m' 0 m] assms
  by (cases prog)
    (simp_all add: compiled_bpf_def compiled_prog_load_def compiled_map_create_def get_current_userns_id_def)

context bpf_hash_map
begin

lemma represents_card: "represents calls s m \<Longrightarrow> card (dom (map_lookup calls s)) = card (dom m)"
  by (simp add: represents_def card_image inj_on_def)

lemma represents_key: "represents calls s m \<Longrightarrow> PolicyKey_bytes k \<in> dom (map_lookup calls s) \<longleftrightarrow> k \<in> dom m"
  by (auto simp: represents_def image_iff)

lemma insert_refines:
  assumes "represents calls s m" and "PolicyValue_wf v"
  shows "if k \<in> dom m \<or> card (dom m) < max_entries
     then \<exists>s'. policy_insert calls s k v = Inr s' \<and> represents calls s' (m(k \<mapsto> v))
     else \<exists>e. policy_insert calls s k v = Inl e"
proof (cases "k \<in> dom m \<or> card (dom m) < max_entries")
  case True
  then obtain s' where s': "policy_insert calls s k v = Inr s'"
    using update_done [of "PolicyKey_bytes k" s "PolicyValue_bytes v"] represents_key [OF assms(1)]
      represents_card [OF assms(1)]
    by (auto simp: policy_insert_def)
  with insert_result [OF s' assms(2)] insert_lookup(1) [OF s'] assms(1) True show ?thesis
    by (auto simp: represents_def)
next
  case False
  with update_full [of "PolicyKey_bytes k" s "PolicyValue_bytes v"] represents_key [OF assms(1)]
    represents_card [OF assms(1)] show ?thesis
    by (simp add: policy_insert_def)
qed

lemma remove_refines:
  assumes "represents calls s m"
  shows "if k \<in> dom m then \<exists>s'. policy_remove calls s k = Inr s' \<and> represents calls s' (m(k := None))
     else \<exists>e. policy_remove calls s k = Inl e"
proof (cases "k \<in> dom m")
  case True
  then obtain s' where s': "policy_remove calls s k = Inr s'"
    using remove_present [of s k] assms by (auto simp: represents_def)
  with remove_result [OF s'] remove_lookup(1) [OF s'] assms True show ?thesis
    by (auto simp: represents_def)
next
  case False
  with delete_missing [of "PolicyKey_bytes k" s] represents_key [OF assms] show ?thesis
    by (simp add: policy_remove_def)
qed

end

sublocale bpf_hash_map \<subseteq> lsm_refinement:
  machine_refinement "lsm_step calls" "policy_step max_entries" "represents calls" event_wf
proof unfold_locales
  fix s m e
  assume rel: "represents calls s m" and wf: "event_wf e"
  have "fst (lsm_step calls e s) = fst (policy_step max_entries e m) \<and>
      represents calls (snd (lsm_step calls e s)) (snd (policy_step max_entries e m))"
  proof (cases "(max_entries, e, m)" rule: policy_step.cases)
    case (1 n k v m)
    with insert_refines [OF rel, of v k] rel wf show ?thesis
      by (auto split: if_splits)
  next
    case (2 n k m)
    with remove_refines [OF rel, of k] rel show ?thesis
      by (auto simp: fun_upd_idem domIff split: if_splits)
  next
    case (3 n prog userns ctx m)
    with rel show ?thesis
      by (simp add: invoke_refines represents_def)
  qed
  then show "fst (lsm_step calls e s) = fst (policy_step max_entries e m)"
    "represents calls (snd (lsm_step calls e s)) (snd (policy_step max_entries e m))"
    by blast+
qed

context bpf_hash_map
begin

lemma lsm_run_refines:
  "represents calls s m \<Longrightarrow> list_all event_wf es \<Longrightarrow>
     fst (run_machine (lsm_step calls) es s) = fst (run_machine (policy_step max_entries) es m) \<and>
     represents calls (snd (run_machine (lsm_step calls) es s)) (snd (run_machine (policy_step max_entries) es m))"
  by (rule lsm_refinement.run_related)

end

interpretation table_lsm:
  machine_refinement "lsm_step (hash_table n)" "policy_step n" "represents (hash_table n)" event_wf for n
  by (rule table_map.lsm_refinement.machine_refinement_axioms)

text \<open>
  C6: the kernel side is the policy machine. Starting from an empty policy map, every sequence of map
  operations and of calls from processes is answered by the three LSM programs on the kernel's map of
  bytes as by a machine that holds the policy as a finite function of at most 1024 namespaces: the
  same operations fail, and the same calls are refused.
\<close>

theorem lsm_system_refines_policy:
  assumes "bpf_hash_map calls MAP_ENTRIES" and "dom (map_lookup calls s) = {}" and "list_all event_wf es"
  shows "fst (run_machine (lsm_step calls) es s) = fst (run_machine (policy_step 1024) es Map.empty) \<and>
     POLICY_MAP calls (snd (run_machine (lsm_step calls) es s)) =
       snd (run_machine (policy_step 1024) es Map.empty)"
proof -
  have "represents calls s Map.empty"
    using assms(2) by (auto simp: represents_def POLICY_MAP_def)
  from bpf_hash_map.lsm_run_refines [OF assms(1) this assms(3)] show ?thesis
    by (simp add: represents_def MAP_ENTRIES_def MAX_POLICY_ENTRIES_def)
qed

theorem lsm_system_refines_policy_witness:
  "fst (run_machine (lsm_step (hash_table MAP_ENTRIES))
     [Administer (RemoveEntry \<lparr>userns_id = 7\<rparr>),
      Administer (InsertEntry \<lparr>userns_id = 7\<rparr> PolicyValue_empty),
      Invoke Bpf (Inr 7) \<lparr>arg_cmd = 5, arg_attr = None, arg_kernel = 0\<rparr>,
      Invoke Bpf (Inr 8) \<lparr>arg_cmd = 5, arg_attr = None, arg_kernel = 0\<rparr>] []) =
   [Administered False, Administered True, Answered (- 1), Answered 0]"
  (is "fst (run_machine _ ?es []) = _")
proof -
  have "dom (map_lookup (hash_table MAP_ENTRIES) []) = {}" "list_all event_wf ?es"
    by (simp_all add: hash_table_def)
  from lsm_system_refines_policy [OF table_map.bpf_hash_map_axioms this]
  have "fst (run_machine (lsm_step (hash_table MAP_ENTRIES)) ?es []) =
      fst (run_machine (policy_step 1024) ?es Map.empty)"
    by (rule conjunct1)
  also have "\<dots> = [Administered False, Administered True, Answered (- 1), Answered 0]"
    by (simp add: hook_permits_def entry_permits_def PolicyValue_empty_def)
  finally show ?thesis .
qed

section \<open>The last administration decides\<close>

fun op_key :: "map_op \<Rightarrow> PolicyKey" where
  "op_key (InsertEntry k v) = k"
| "op_key (RemoveEntry k) = k"

fun op_value :: "map_op \<Rightarrow> PolicyValue option" where
  "op_value (InsertEntry k v) = Some v"
| "op_value (RemoveEntry k) = None"

fun spares :: "PolicyKey \<Rightarrow> lsm_event \<Rightarrow> bool" where
  "spares k (Administer p) \<longleftrightarrow> op_key p \<noteq> k"
| "spares k (Invoke prog userns ctx) \<longleftrightarrow> True"

context bpf_hash_map
begin

lemma admin_entry:
  "map_admin calls p s = Inr s' \<Longrightarrow> op_wf p \<Longrightarrow> POLICY_MAP calls s' (op_key p) = op_value p"
  by (cases p) (auto simp: insert_result dest: remove_result)

lemma admin_other:
  assumes "map_admin calls p s = Inr s'" and "op_key p \<noteq> k"
  shows "POLICY_MAP calls s' k = POLICY_MAP calls s k"
  using assms by (cases p) (auto simp: POLICY_MAP_def dest: insert_lookup(1) remove_lookup(1))

lemma step_spares: "spares k e \<Longrightarrow> POLICY_MAP calls (snd (lsm_step calls e s)) k = POLICY_MAP calls s k"
  by (cases e) (auto simp: admin_other split: sum.splits)

lemma run_spares:
  "list_all (spares k) es \<Longrightarrow>
     POLICY_MAP calls (snd (run_machine (lsm_step calls) es s)) k = POLICY_MAP calls s k"
  by (induction es arbitrary: s) (simp_all add: step_spares)

end

text \<open>
  C7: what an administration of a namespace does. After an entry was inserted, and until the namespace
  is administered again, the LSM programs judge every call that the resolver attributes to the
  namespace by this entry alone, whatever is done to the entries of other namespaces and whoever calls
  in between. After an entry was removed they let every such call pass: removal opens the namespace,
  where \<open>docs/DESIGN.md\<close> expects denial. The resolver of the source attributes every call to namespace
  0. So the programs as they are compiled answer every call after the administration of any other
  namespace as they did before it, as long as namespace 0 is not administered either.
\<close>

theorem last_administration_decides:
  assumes "bpf_hash_map calls n" and "map_admin calls p s = Inr s'" and "op_wf p"
    and "op_key p = \<lparr>userns_id = u\<rparr>" and "list_all (spares \<lparr>userns_id = u\<rparr>) es"
    and "s'' = snd (run_machine (lsm_step calls) es s')"
  shows "fst (lsm_step calls (Invoke prog (Inr u) ctx) s'') =
     Answered
       (if arg_kernel ctx \<noteq> 0 \<or>
           (case op_value p of
              None \<Rightarrow> True
            | Some v \<Rightarrow> entry_permits v (program_bitmap prog v) (program_subject prog ctx))
        then 0 else - 1) \<and>
     (u \<noteq> 0 \<and> list_all (spares \<lparr>userns_id = 0\<rparr>) es \<longrightarrow>
        compiled_program prog (POLICY_MAP calls s'') ctx = compiled_program prog (POLICY_MAP calls s) ctx)"
proof (intro conjI impI)
  have "POLICY_MAP calls s'' \<lparr>userns_id = u\<rparr> = op_value p"
    using bpf_hash_map.run_spares [OF assms(1,5), of s'] bpf_hash_map.admin_entry [OF assms(1-3)]
      assms(4,6) by simp
  then show "fst (lsm_step calls (Invoke prog (Inr u) ctx) s'') = Answered
       (if arg_kernel ctx \<noteq> 0 \<or>
           (case op_value p of
              None \<Rightarrow> True
            | Some v \<Rightarrow> entry_permits v (program_bitmap prog v) (program_subject prog ctx))
        then 0 else - 1)"
    by (simp add: invoke_refines hook_permits_def)
  assume other: "u \<noteq> 0 \<and> list_all (spares \<lparr>userns_id = 0\<rparr>) es"
  then have "op_key p \<noteq> \<lparr>userns_id = 0\<rparr>"
    using assms(4) by simp
  with other show "compiled_program prog (POLICY_MAP calls s'') ctx = compiled_program prog (POLICY_MAP calls s) ctx"
    using bpf_hash_map.run_spares [OF assms(1), of "\<lparr>userns_id = 0\<rparr>" es s']
      bpf_hash_map.admin_other [OF assms(1,2)] assms(6)
    by (intro compiled_program_entry_0) simp
qed

theorem last_administration_decides_witness:
  "\<exists>s' s''. policy_insert (hash_table MAP_ENTRIES) [] \<lparr>userns_id = 7\<rparr> deny_value = Inr s' \<and>
     s'' = snd (run_machine (lsm_step (hash_table MAP_ENTRIES))
       [Administer (InsertEntry \<lparr>userns_id = 8\<rparr> PolicyValue_allow_all),
        Invoke Bpf (Inr 8) \<lparr>arg_cmd = 0, arg_attr = Some 1, arg_kernel = 0\<rparr>] s') \<and>
     fst (lsm_step (hash_table MAP_ENTRIES)
       (Invoke MapCreate (Inr 7) \<lparr>arg_cmd = 0, arg_attr = Some 1, arg_kernel = 0\<rparr>) s'') = Answered (- 1) \<and>
     compiled_program MapCreate (POLICY_MAP (hash_table MAP_ENTRIES) s'')
       \<lparr>arg_cmd = 0, arg_attr = Some 1, arg_kernel = 0\<rparr> = (0, [])"
proof -
  let ?ctx = "\<lparr>arg_cmd = 0, arg_attr = Some 1, arg_kernel = 0\<rparr>"
  let ?es = "[Administer (InsertEntry \<lparr>userns_id = 8\<rparr> PolicyValue_allow_all), Invoke Bpf (Inr 8) ?ctx]"
  obtain s' where s': "policy_insert (hash_table MAP_ENTRIES) [] \<lparr>userns_id = 7\<rparr> deny_value = Inr s'"
    by (simp add: hash_table_def policy_insert_def MAP_ENTRIES_def MAX_POLICY_ENTRIES_def)
  define s'' where "s'' = snd (run_machine (lsm_step (hash_table MAP_ENTRIES)) ?es s')"
  from s' have admin: "map_admin (hash_table MAP_ENTRIES) (InsertEntry \<lparr>userns_id = 7\<rparr> deny_value) [] = Inr s'"
    by simp
  have wf: "op_wf (InsertEntry \<lparr>userns_id = 7\<rparr> deny_value)"
    "op_key (InsertEntry \<lparr>userns_id = 7\<rparr> deny_value) = \<lparr>userns_id = 7\<rparr>"
    "list_all (spares \<lparr>userns_id = 7\<rparr>) ?es" "list_all (spares \<lparr>userns_id = 0\<rparr>) ?es"
    by (simp_all add: deny_value_def PolicyValue_wf_def)
  have "\<not> entry_permits deny_value bm subj" for bm subj
    by (simp add: deny_value_def entry_permits_def POLICY_FLAG_DENY_ALL_def)
  moreover have "compiled_program MapCreate (POLICY_MAP (hash_table MAP_ENTRIES) []) ?ctx = (0, [])"
    by (simp add: compiled_map_create_def get_current_userns_id_def map_create_hook.unmanaged POLICY_MAP_def
        hash_table_def)
  ultimately have "fst (lsm_step (hash_table MAP_ENTRIES) (Invoke MapCreate (Inr 7) ?ctx) s'') = Answered (- 1) \<and>
      compiled_program MapCreate (POLICY_MAP (hash_table MAP_ENTRIES) s'') ?ctx = (0, [])"
    using last_administration_decides [OF table_map.bpf_hash_map_axioms admin wf(1-3) s''_def,
        of MapCreate ?ctx] wf(4)
    by (simp del: lsm_step.simps compiled_program.simps)
  with s' s''_def show ?thesis by blast
qed

end
