(* ===== verification/Rust_Text.thy ===== *)
theory Rust_Text
  imports Rbac_Prelude
begin

text \<open>
  The text operations of the Rust standard library that the sources use: decimal and hexadecimal
  formatting of integers, \<open>str::parse::<u32>\<close>, \<open>lines\<close>, \<open>split_whitespace\<close> and substring search,
  on strings as lists of UTF-8 bytes, with the facts the components need of them (round trips,
  alphabets, lengths).
\<close>

section \<open>Digits\<close>

function digits_of :: "nat \<Rightarrow> nat \<Rightarrow> nat list" where
  "digits_of base n =
     (if base < 2 \<or> n < base then [n] else digits_of base (n div base) @ [n mod base])"
  by pat_completeness auto
termination
  by (relation "measure snd") auto

declare digits_of.simps [simp del]

definition number_of_digits :: "nat \<Rightarrow> nat list \<Rightarrow> nat" where
  "number_of_digits base ds = foldl (\<lambda>acc d. acc * base + d) 0 ds"

lemma number_of_digits_snoc [simp]:
  "number_of_digits base (ds @ [d]) = number_of_digits base ds * base + d"
  by (simp add: number_of_digits_def)

lemma number_of_digits_of: "number_of_digits base (digits_of base n) = n"
proof (induction base n rule: digits_of.induct)
  case (1 base n)
  show ?case
  proof (cases "base < 2 \<or> n < base")
    case True
    then show ?thesis
      by (subst digits_of.simps) (auto simp: number_of_digits_def)
  next
    case False
    with 1 show ?thesis
      by (subst digits_of.simps) simp
  qed
qed

lemma digits_of_less:
  assumes "2 \<le> base"
  shows "d \<in> set (digits_of base n) \<Longrightarrow> d < base"
  using assms
proof (induction base n rule: digits_of.induct)
  case (1 base n)
  show ?case
  proof (cases "n < base")
    case True
    then have "digits_of base n = [n]"
      by (subst digits_of.simps) simp
    with 1 True show ?thesis
      by simp
  next
    case False
    with 1 have "digits_of base n = digits_of base (n div base) @ [n mod base]"
      by (subst digits_of.simps) simp
    with 1 False show ?thesis
      by auto
  qed
qed

lemma digits_of_ne [simp]: "digits_of base n \<noteq> []"
  by (subst digits_of.simps) simp

lemma length_digits_of:
  assumes "2 \<le> base" and "n < base ^ Suc k"
  shows "length (digits_of base n) \<le> Suc k"
  using assms(2)
proof (induction k arbitrary: n)
  case 0
  then show ?case
    by (subst digits_of.simps) simp
next
  case (Suc k)
  show ?case
  proof (cases "n < base")
    case True
    then show ?thesis
      by (subst digits_of.simps) simp
  next
    case False
    have "n div base < base ^ Suc k"
      using Suc.prems assms(1) by (intro less_mult_imp_div_less) (simp add: ac_simps)
    from Suc.IH [OF this] False show ?thesis
      by (subst digits_of.simps) simp
  qed
qed

definition digit_char :: "nat \<Rightarrow> char" where
  "digit_char d = (if d < 10 then char_of (48 + d) else char_of (87 + d))"

definition to_digit :: "nat \<Rightarrow> char \<Rightarrow> nat option" where
  "to_digit base c =
     (let b = of_char c :: nat;
          d = (if 48 \<le> b \<and> b \<le> 57 then Some (b - 48)
               else if 97 \<le> b \<and> b \<le> 122 then Some (b - 87)
               else if 65 \<le> b \<and> b \<le> 90 then Some (b - 55) else None)
      in case d of Some v \<Rightarrow> if v < base then Some v else None | None \<Rightarrow> None)"

lemma of_char_digit_char:
  "d < 36 \<Longrightarrow> (of_char (digit_char d) :: nat) = (if d < 10 then 48 + d else 87 + d)"
  by (simp add: digit_char_def)

lemma to_digit_digit_char [simp]: "d < base \<Longrightarrow> base \<le> 36 \<Longrightarrow> to_digit base (digit_char d) = Some d"
  by (auto simp: to_digit_def of_char_digit_char Let_def)

section \<open>Formatting and parsing integers\<close>

definition show_nat :: "nat \<Rightarrow> string" where
  "show_nat n = map digit_char (digits_of 10 n)"

definition show_u32 :: "u32 \<Rightarrow> string" where
  "show_u32 w = show_nat (unat w)"

definition show_i32 :: "i32 \<Rightarrow> string" where
  "show_i32 w = (if sint w < 0 then CHR ''-'' # show_nat (nat (- sint w)) else show_nat (nat (sint w)))"

text \<open>The format \<open>{:#x}\<close>.\<close>

definition show_hex :: "u32 \<Rightarrow> string" where
  "show_hex w = ''0x'' @ map digit_char (digits_of 16 (unat w))"

fun parse_digits :: "nat \<Rightarrow> nat \<Rightarrow> string \<Rightarrow> nat option" where
  "parse_digits base acc [] = Some acc"
| "parse_digits base acc (c # cs) =
     (case to_digit base c of
        None \<Rightarrow> None
      | Some d \<Rightarrow> if acc * base + d < 2 ^ 32 then parse_digits base (acc * base + d) cs else None)"

definition from_str_radix :: "nat \<Rightarrow> string \<Rightarrow> u32 option" where
  "from_str_radix base s =
     (let digits = (case s of c # cs \<Rightarrow> if c = CHR ''+'' then cs else s | [] \<Rightarrow> [])
      in if digits = [] then None else map_option of_nat (parse_digits base 0 digits))"

definition parse_u32 :: "string \<Rightarrow> u32 option" where
  "parse_u32 s = from_str_radix 10 s"

lemma parse_digits_bound: "parse_digits base acc cs = Some n \<Longrightarrow> acc < 2 ^ 32 \<Longrightarrow> n < 2 ^ 32"
  by (induction base acc cs rule: parse_digits.induct) (auto split: option.splits if_splits)

lemma parse_digits_map:
  assumes "2 \<le> base" and "base \<le> 36"
  shows "(\<forall>d\<in>set ds. d < base) \<Longrightarrow> foldl (\<lambda>acc d. acc * base + d) acc ds < 2 ^ 32 \<Longrightarrow>
    parse_digits base acc (map digit_char ds) = Some (foldl (\<lambda>acc d. acc * base + d) acc ds)"
proof (induction ds arbitrary: acc)
  case Nil
  then show ?case by simp
next
  case (Cons d ds)
  have mono: "a \<le> foldl (\<lambda>acc d. acc * base + d) a xs" for a and xs :: "nat list"
  proof (induction xs arbitrary: a)
    case Nil
    show ?case by simp
  next
    case (Cons x xs)
    have "a \<le> a * base + x"
      using assms(1) by (metis le_add1 le_trans mult_le_mono2 nat_mult_1_right one_le_numeral)
    also have "\<dots> \<le> foldl (\<lambda>acc d. acc * base + d) (a * base + x) xs"
      by (rule Cons.IH)
    finally show ?case by simp
  qed
  have "acc * base + d < 2 ^ 32"
    using Cons.prems(2) mono [of "acc * base + d" ds] by simp
  with Cons assms show ?case
    by simp
qed

lemma from_str_radix_digits:
  assumes "2 \<le> base" and "base \<le> 36"
  shows "from_str_radix base (map digit_char (digits_of base (unat (w :: u32)))) = Some w"
proof -
  let ?ds = "digits_of base (unat w)"
  have less: "\<forall>d\<in>set ?ds. d < base"
    using digits_of_less [OF assms(1)] by blast
  obtain d ds where ds: "?ds = d # ds"
    by (cases ?ds) simp_all
  with less assms have "(of_char (digit_char d) :: nat) \<noteq> 43"
    by (simp add: of_char_digit_char)
  then have "digit_char d \<noteq> CHR ''+''"
    by auto
  moreover have "parse_digits base 0 (map digit_char ?ds) = Some (unat w)"
    using parse_digits_map [OF assms less, of 0] number_of_digits_of [of base "unat w"]
      unsigned_less [of w, where ?'a = nat]
    by (simp add: number_of_digits_def)
  ultimately show ?thesis
    using ds by (simp add: from_str_radix_def)
qed

lemma parse_show_u32: "parse_u32 (show_u32 w) = Some w"
  by (simp add: parse_u32_def show_u32_def show_nat_def from_str_radix_digits)

lemma length_show_hex: "length (show_hex w) \<le> 10"
proof -
  have "unat w < 16 ^ Suc 7"
    using unsigned_less [of w, where ?'a = nat] by simp
  with length_digits_of [of 16 "unat w" 7] show ?thesis
    by (simp add: show_hex_def)
qed

section \<open>Splitting text\<close>

text \<open>\<open>str::lines\<close>: a line ends at \<open>\n\<close>, a \<open>\r\<close> right before it is dropped.\<close>

definition strip_cr :: "string \<Rightarrow> string" where
  "strip_cr cur = (case cur of r # rest \<Rightarrow> if r = CHR 0x0D then rest else cur | [] \<Rightarrow> [])"

fun lines_from :: "string \<Rightarrow> string \<Rightarrow> string list" where
  "lines_from cur [] = (if cur = [] then [] else [rev cur])"
| "lines_from cur (c # cs) =
     (if c = CHR 0x0A then rev (strip_cr cur) # lines_from [] cs else lines_from (c # cur) cs)"

definition rust_lines :: "string \<Rightarrow> string list" where
  "rust_lines s = lines_from [] s"

text \<open>
  The number of bytes of the white space character at the front of a string, 0 if there is none:
  the ASCII ones and the two- and three-byte encodings of the Unicode property White\_Space.
\<close>

definition ws_len :: "string \<Rightarrow> nat" where
  "ws_len s =
     (let b = map (of_char :: char \<Rightarrow> nat) (take 3 s)
      in if take 1 b \<in> {[9], [10], [11], [12], [13], [32]} then 1
         else if take 2 b \<in> {[0xC2, 0x85], [0xC2, 0xA0]} then 2
         else if b \<in> {[0xE1, 0x9A, 0x80], [0xE2, 0x80, 0x80], [0xE2, 0x80, 0x81],
             [0xE2, 0x80, 0x82], [0xE2, 0x80, 0x83], [0xE2, 0x80, 0x84], [0xE2, 0x80, 0x85],
             [0xE2, 0x80, 0x86], [0xE2, 0x80, 0x87], [0xE2, 0x80, 0x88], [0xE2, 0x80, 0x89],
             [0xE2, 0x80, 0x8A], [0xE2, 0x80, 0xA8], [0xE2, 0x80, 0xA9], [0xE2, 0x80, 0xAF],
             [0xE2, 0x81, 0x9F], [0xE3, 0x80, 0x80]} then 3
         else 0)"

function words_from :: "string \<Rightarrow> string \<Rightarrow> string list" where
  "words_from cur [] = (if cur = [] then [] else [rev cur])"
| "words_from cur (c # cs) =
     (if 0 < ws_len (c # cs)
      then (if cur = [] then [] else [rev cur]) @ words_from [] (drop (ws_len (c # cs) - 1) cs)
      else words_from (c # cur) cs)"
  by pat_completeness auto
termination
  by (relation "measure (\<lambda>(cur, s). length s)") auto

definition split_whitespace :: "string \<Rightarrow> string list" where
  "split_whitespace s = words_from [] s"

definition ascii_space :: "char \<Rightarrow> bool" where
  "ascii_space c \<longleftrightarrow> (of_char c :: nat) \<in> {9, 10, 11, 12, 13, 32}"

lemma ws_len_ascii: "ascii_space c \<Longrightarrow> ws_len (c # cs) = 1"
  by (auto simp: ws_len_def ascii_space_def Let_def)

lemma words_from_no_space:
  assumes "\<forall>c\<in>set cur. \<not> ascii_space c" and "w \<in> set (words_from cur s)"
  shows "\<forall>c\<in>set w. \<not> ascii_space c"
  using assms
proof (induction cur s rule: words_from.induct)
  case (1 cur)
  then show ?case by (auto split: if_splits)
next
  case (2 cur c cs)
  show ?case
  proof (cases "0 < ws_len (c # cs)")
    case True
    with "2.prems"(2) have "w = rev cur \<or> w \<in> set (words_from [] (drop (ws_len (c # cs) - 1) cs))"
      by (auto split: if_splits)
    with "2.IH"(1) [OF True] "2.prems"(1) show ?thesis by auto
  next
    case False
    then have "\<not> ascii_space c"
      using ws_len_ascii [of c cs] by auto
    with "2.prems"(1) have "\<forall>x\<in>set (c # cur). \<not> ascii_space x" by simp
    moreover from False "2.prems"(2) have "w \<in> set (words_from (c # cur) cs)" by simp
    ultimately show ?thesis by (rule "2.IH"(2) [OF False])
  qed
qed

lemma split_whitespace_no_space:
  "w \<in> set (split_whitespace s) \<Longrightarrow> c \<in> set w \<Longrightarrow> \<not> ascii_space c"
  using words_from_no_space [of "[]" w s] by (auto simp: split_whitespace_def)

text \<open>Splitting at every occurrence of a character, and searching for a substring.\<close>

fun split_char :: "char \<Rightarrow> string \<Rightarrow> string list" where
  "split_char d [] = [[]]"
| "split_char d (c # cs) =
     (if c = d then [] # split_char d cs
      else case split_char d cs of w # ws \<Rightarrow> (c # w) # ws | [] \<Rightarrow> [[c]])"

lemma split_char_no_sep: "d \<notin> set w \<Longrightarrow> split_char d w = [w]"
  by (induction w) auto

lemma split_char_append: "d \<notin> set w \<Longrightarrow> split_char d (w @ d # s) = w # split_char d s"
  by (induction w) auto

fun str_contains :: "string \<Rightarrow> string \<Rightarrow> bool" where
  "str_contains [] pat \<longleftrightarrow> pat = []"
| "str_contains (c # cs) pat \<longleftrightarrow> take (length pat) (c # cs) = pat \<or> str_contains cs pat"

lemma str_contains_iff: "str_contains s pat \<longleftrightarrow> (\<exists>u v. s = u @ pat @ v)"
proof (induction s)
  case Nil
  then show ?case by auto
next
  case (Cons c cs)
  have "take (length pat) (c # cs) = pat \<longleftrightarrow> (\<exists>v. c # cs = pat @ v)"
    by (metis append_eq_conv_conj append_take_drop_id)
  with Cons show ?case
    by (auto simp: Cons_eq_append_conv)
qed

lemma str_contains_append: "str_contains a pat \<Longrightarrow> str_contains (a @ b) pat"
  by (metis append.assoc str_contains_iff)

lemma str_contains_append2: "str_contains b pat \<Longrightarrow> str_contains (a @ b) pat"
  by (metis append.assoc str_contains_iff)

text \<open>A match does not cross a character that the pattern does not have.\<close>

lemma str_contains_sep:
  assumes "c \<notin> set pat"
  shows "str_contains (a @ c # b) pat \<longleftrightarrow> str_contains a pat \<or> str_contains b pat"
proof
  assume "str_contains (a @ c # b) pat"
  then obtain u v where eq: "a @ c # b = u @ pat @ v"
    by (auto simp: str_contains_iff)
  then consider us where "a = u @ us" "us @ c # b = pat @ v"
    | us where "u = a @ us" "c # b = us @ pat @ v"
    by (auto simp: append_eq_append_conv2)
  then show "str_contains a pat \<or> str_contains b pat"
  proof cases
    case 1
    from 1(2) assms obtain w where "us = pat @ w"
      by (auto simp: append_eq_append_conv2 Cons_eq_append_conv)
    with 1(1) show ?thesis
      by (auto simp: str_contains_iff)
  next
    case 2
    with assms show ?thesis
      by (cases us; cases pat) (auto simp: str_contains_iff Cons_eq_append_conv)
  qed
next
  assume "str_contains a pat \<or> str_contains b pat"
  then show "str_contains (a @ c # b) pat"
    using str_contains_append [of a pat "c # b"] str_contains_append2 [of b pat "a @ [c]"] by auto
qed

lemma str_contains_lacks: "c \<in> set pat \<Longrightarrow> c \<notin> set s \<Longrightarrow> \<not> str_contains s pat"
  by (auto simp: str_contains_iff)

text \<open>Text without white space or control characters, and what the splitting functions do on it.\<close>

definition graphic :: "string \<Rightarrow> bool" where
  "graphic s \<longleftrightarrow> s \<noteq> [] \<and> (\<forall>c\<in>set s. 33 \<le> (of_char c :: nat) \<and> (of_char c :: nat) \<le> 126)"

lemma ws_len_graphic: "33 \<le> (of_char c :: nat) \<Longrightarrow> (of_char c :: nat) \<le> 126 \<Longrightarrow> ws_len (c # s) = 0"
  by (auto simp: ws_len_def Let_def)

lemma words_from_graphic:
  "\<forall>c\<in>set w. 33 \<le> (of_char c :: nat) \<and> (of_char c :: nat) \<le> 126 \<Longrightarrow>
     words_from cur (w @ s) = words_from (rev w @ cur) s"
  by (induction w arbitrary: cur) (simp_all add: ws_len_graphic)

lemma words_from_space: "words_from cur (CHR '' '' # s) = (if cur = [] then [] else [rev cur]) @ words_from [] s"
  by (simp add: ws_len_ascii ascii_space_def)

lemma split_whitespace_step:
  assumes "graphic w"
  shows "split_whitespace (w @ CHR '' '' # s) = w # split_whitespace s"
  using assms words_from_graphic [of w "[]" "CHR '' '' # s"]
  by (simp add: split_whitespace_def words_from_space graphic_def del: words_from.simps)

definition plain_line :: "string \<Rightarrow> bool" where
  "plain_line l \<longleftrightarrow> CHR 0x0A \<notin> set l \<and> (l = [] \<or> last l \<noteq> CHR 0x0D)"

lemma lines_from_plain:
  "CHR 0x0A \<notin> set l \<Longrightarrow>
     lines_from cur (l @ CHR 0x0A # s) = rev (strip_cr (rev l @ cur)) # lines_from [] s"
  by (induction l arbitrary: cur) auto

lemma rust_lines_unlines:
  "\<forall>l\<in>set ls. plain_line l \<Longrightarrow> rust_lines (concat (map (\<lambda>l. l @ [CHR 0x0A]) ls)) = ls"
proof (induction ls)
  case Nil
  show ?case by (simp add: rust_lines_def)
next
  case (Cons l ls)
  then have "CHR 0x0A \<notin> set l" and last: "l = [] \<or> last l \<noteq> CHR 0x0D"
    by (auto simp: plain_line_def)
  from last have "rev (strip_cr (rev l)) = l"
    by (cases l rule: rev_cases) (auto simp: strip_cr_def)
  with Cons \<open>CHR 0x0A \<notin> set l\<close> show ?case
    using lines_from_plain [of l "[]" "concat (map (\<lambda>l. l @ [CHR 0x0A]) ls)"]
    by (simp add: rust_lines_def)
qed

lemma show_hex_no_char:
  assumes "\<And>d. d < 16 \<Longrightarrow> digit_char d \<noteq> c" and "c \<noteq> CHR ''x''" and "c \<noteq> CHR ''0''"
  shows "c \<notin> set (show_hex w)"
  using assms digits_of_less [of 16 _ "unat w"] by (fastforce simp: show_hex_def)

lemma comma_not_in_show_hex: "CHR '','' \<notin> set (show_hex w)"
proof (rule show_hex_no_char)
  fix d :: nat
  assume "d < 16"
  then have "(of_char (digit_char d) :: nat) \<noteq> 44"
    by (simp add: of_char_digit_char)
  then show "digit_char d \<noteq> CHR '',''"
    by auto
qed simp_all

lemma digit_char_code:
  "d < 10 \<Longrightarrow> 48 \<le> (of_char (digit_char d) :: nat) \<and> (of_char (digit_char d) :: nat) \<le> 57"
  by (simp add: of_char_digit_char)

lemma show_nat_digits: "c \<in> set (show_nat n) \<Longrightarrow> 48 \<le> (of_char c :: nat) \<and> (of_char c :: nat) \<le> 57"
  using digits_of_less [of 10 _ n] digit_char_code by (auto simp: show_nat_def)

lemma show_nat_snoc: "\<exists>ds. show_nat n = ds @ [digit_char (n mod 10)]"
  by (subst show_nat_def, subst digits_of.simps) auto

section \<open>Bytes\<close>

definition as_bytes :: "string \<Rightarrow> u8 list" where
  "as_bytes s = map (\<lambda>c. of_nat (of_char c)) s"

definition from_bytes :: "u8 list \<Rightarrow> string" where
  "from_bytes bs = map (\<lambda>b. char_of (unat b)) bs"

lemma from_bytes_as_bytes [simp]: "from_bytes (as_bytes s) = s"
proof -
  have "unat (of_nat (of_char c) :: u8) = of_char c" for c
    using of_char_mod_256 [of c, where ?'a = nat] by (simp add: unat_of_nat)
  then show ?thesis
    by (simp add: from_bytes_def as_bytes_def comp_def)
qed

lemma length_as_bytes [simp]: "length (as_bytes s) = length s"
  by (simp add: as_bytes_def)

end
