(* ===== verification/Namespace_Delegation.thy ===== *)
theory Namespace_Delegation
  imports Rust_Text
begin

text \<open>
  Namespace delegation, \<open>src/namespace.rs\<close>: the mount options of a delegated bpffs, and the walk
  into a target's user and mount namespace and back. The kernel is the record \<open>ns_calls\<close> of the
  system calls the code makes, over the part of the state the code changes (\<open>ns_world\<close>); what
  the code relies on is the locale \<open>linux_namespaces\<close>.
\<close>

section \<open>Delegation options\<close>

record TargetNamespace =
  target_pid :: u32
  target_userns_id :: u64

record DelegationOpts =
  delegate_cmds :: u32
  delegate_progs :: u32
  delegate_maps :: u32
  delegate_attachs :: u32

definition DelegationOpts_allow_all :: DelegationOpts where
  "DelegationOpts_allow_all =
     \<lparr>delegate_cmds = 0xFFFFFFFF, delegate_progs = 0xFFFFFFFF, delegate_maps = 0xFFFFFFFF,
      delegate_attachs = 0xFFFFFFFF\<rparr>"

definition from_bitmaps :: "u32 \<Rightarrow> u32 \<Rightarrow> u32 \<Rightarrow> u32 \<Rightarrow> DelegationOpts" where
  "from_bitmaps cmds progs maps attachs =
     \<lparr>delegate_cmds = cmds, delegate_progs = progs, delegate_maps = maps,
      delegate_attachs = attachs\<rparr>"

definition to_mount_data :: "DelegationOpts \<Rightarrow> string" where
  "to_mount_data self =
     ''delegate_cmds='' @ show_hex (delegate_cmds self) @
     '',delegate_progs='' @ show_hex (delegate_progs self) @
     '',delegate_maps='' @ show_hex (delegate_maps self) @
     '',delegate_attachs='' @ show_hex (delegate_attachs self)"

section \<open>The kernel as the code sees it\<close>

text \<open>
  \<open>ns_world\<close> is the namespace context of the calling thread and the file systems mounted in any
  namespace, the latest first. A superblock records the user namespace it was mounted from. An
  open namespace file is the inode of its namespace.
\<close>

record fs_mount =
  mounted_in :: u64
  mounted_at :: string
  fs_type :: "string option"
  s_user_ns :: u64
  fs_data :: "string option"

record ns_world =
  user_ns :: u64
  mnt_ns :: u64
  mounts :: "fs_mount list"

datatype clone_flag = CLONE_NEWUSER | CLONE_NEWNS

datatype ms_flag = MS_NOSUID | MS_NODEV | MS_NOEXEC | MS_RELATIME

record mount_args =
  mount_source :: "string option"
  mount_target :: string
  mount_fstype :: "string option"
  mount_flags :: "ms_flag list"
  mount_data :: "string option"

record ns_calls =
  sys_open :: "ns_world \<Rightarrow> string \<Rightarrow> u64 result"
  sys_stat_ino :: "ns_world \<Rightarrow> string \<Rightarrow> u64 result"
  sys_setns :: "ns_world \<Rightarrow> u64 \<Rightarrow> clone_flag \<Rightarrow> ns_world result"
  sys_mount :: "ns_world \<Rightarrow> mount_args \<Rightarrow> ns_world result"
  sys_umount :: "ns_world \<Rightarrow> string \<Rightarrow> ns_world result"

section \<open>Operations\<close>

definition from_pid :: "ns_calls \<Rightarrow> ns_world \<Rightarrow> u32 \<Rightarrow> TargetNamespace result" where
  "from_pid k w pid =
     (let userns_path = ''/proc/'' @ show_u32 pid @ ''/ns/user''
      in case with_context (''Failed to stat '' @ userns_path) (sys_stat_ino k w userns_path) of
           Inl e \<Rightarrow> Inl e
         | Inr ino \<Rightarrow> Inr \<lparr>target_pid = pid, target_userns_id = ino\<rparr>)"

definition open_ns_fd :: "ns_calls \<Rightarrow> ns_world \<Rightarrow> string \<Rightarrow> string \<Rightarrow> u64 result" where
  "open_ns_fd k w pid_or_self ns_type =
     (let path = ''/proc/'' @ pid_or_self @ ''/ns/'' @ ns_type
      in with_context (''Failed to open '' @ path) (sys_open k w path))"

text \<open>\<open>let _ = setns(..)\<close>: the result is dropped.\<close>

definition setns_ignoring :: "ns_calls \<Rightarrow> ns_world \<Rightarrow> u64 \<Rightarrow> clone_flag \<Rightarrow> ns_world" where
  "setns_ignoring k w f flag = (case sys_setns k w f flag of Inl _ \<Rightarrow> w | Inr w' \<Rightarrow> w')"

definition delegation_mount :: "string \<Rightarrow> DelegationOpts \<Rightarrow> mount_args" where
  "delegation_mount path opts =
     \<lparr>mount_source = Some ''bpf'', mount_target = path, mount_fstype = Some ''bpf'',
      mount_flags = [MS_NOSUID, MS_NODEV, MS_NOEXEC, MS_RELATIME],
      mount_data = Some (to_mount_data opts)\<rparr>"

definition delegate_bpf_to_namespace ::
    "ns_calls \<Rightarrow> TargetNamespace \<Rightarrow> string \<Rightarrow> DelegationOpts \<Rightarrow> ns_world \<Rightarrow> unit result \<times> ns_world"
  where
  "delegate_bpf_to_namespace k tgt mount_path opts w =
     (case open_ns_fd k w ''self'' ''user'' of Inl e \<Rightarrow> (Inl e, w) | Inr self_userns \<Rightarrow>
     (case open_ns_fd k w ''self'' ''mnt'' of Inl e \<Rightarrow> (Inl e, w) | Inr self_mntns \<Rightarrow>
     (case open_ns_fd k w (show_u32 (target_pid tgt)) ''user'' of Inl e \<Rightarrow> (Inl e, w) | Inr target_userns \<Rightarrow>
     (case open_ns_fd k w (show_u32 (target_pid tgt)) ''mnt'' of Inl e \<Rightarrow> (Inl e, w) | Inr target_mntns \<Rightarrow>
     (case with_context ''Failed to enter target user namespace''
             (sys_setns k w target_userns CLONE_NEWUSER) of Inl e \<Rightarrow> (Inl e, w) | Inr w1 \<Rightarrow>
     (case with_context ''Failed to enter target mount namespace''
             (sys_setns k w1 target_mntns CLONE_NEWNS) of Inl e \<Rightarrow> (Inl e, w1) | Inr w2 \<Rightarrow>
        let mounted = with_context ''Failed to mount bpffs in target namespace''
              (sys_mount k w2 (delegation_mount mount_path opts));
            w3 = (case mounted of Inl _ \<Rightarrow> w2 | Inr w' \<Rightarrow> w');
            w4 = setns_ignoring k w3 self_userns CLONE_NEWUSER;
            w5 = setns_ignoring k w4 self_mntns CLONE_NEWNS
        in (map_sum id (\<lambda>_. ()) mounted, w5)))))))"

definition revoke_bpf_delegation ::
    "ns_calls \<Rightarrow> TargetNamespace \<Rightarrow> string \<Rightarrow> ns_world \<Rightarrow> unit result \<times> ns_world" where
  "revoke_bpf_delegation k tgt mount_path w =
     (case open_ns_fd k w ''self'' ''user'' of Inl e \<Rightarrow> (Inl e, w) | Inr self_userns \<Rightarrow>
     (case open_ns_fd k w ''self'' ''mnt'' of Inl e \<Rightarrow> (Inl e, w) | Inr self_mntns \<Rightarrow>
     (case open_ns_fd k w (show_u32 (target_pid tgt)) ''user'' of Inl e \<Rightarrow> (Inl e, w) | Inr target_userns \<Rightarrow>
     (case open_ns_fd k w (show_u32 (target_pid tgt)) ''mnt'' of Inl e \<Rightarrow> (Inl e, w) | Inr target_mntns \<Rightarrow>
     (case with_context ''Failed to enter target user namespace''
             (sys_setns k w target_userns CLONE_NEWUSER) of Inl e \<Rightarrow> (Inl e, w) | Inr w1 \<Rightarrow>
     (case with_context ''Failed to enter target mount namespace''
             (sys_setns k w1 target_mntns CLONE_NEWNS) of Inl e \<Rightarrow> (Inl e, w1) | Inr w2 \<Rightarrow>
        let unmounted = with_context ''Failed to unmount bpffs'' (sys_umount k w2 mount_path);
            w3 = (case unmounted of Inl _ \<Rightarrow> w2 | Inr w' \<Rightarrow> w');
            w4 = setns_ignoring k w3 self_userns CLONE_NEWUSER;
            w5 = setns_ignoring k w4 self_mntns CLONE_NEWNS
        in (map_sum id (\<lambda>_. ()) unmounted, w5)))))))"

definition is_bpffs_mounted :: "(string \<Rightarrow> string result) \<Rightarrow> string \<Rightarrow> bool" where
  "is_bpffs_mounted read_to_string path =
     (case read_to_string ''/proc/mounts'' of
        Inr contents \<Rightarrow>
          list_ex (\<lambda>line. let parts = split_whitespace line
             in 3 \<le> length parts \<and> parts ! 1 = path \<and> parts ! 2 = ''bpf'') (rust_lines contents)
      | Inl _ \<Rightarrow> False)"

section \<open>What the code relies on\<close>

text \<open>\<open>umount\<close> takes the topmost file system at a path of the caller's mount namespace away.\<close>

fun unmount_top :: "u64 \<Rightarrow> string \<Rightarrow> fs_mount list \<Rightarrow> fs_mount list" where
  "unmount_top ns path [] = []"
| "unmount_top ns path (m # ms) =
     (if mounted_in m = ns \<and> mounted_at m = path then ms else m # unmount_top ns path ms)"

locale linux_namespaces =
  fixes k :: ns_calls
  assumes open_self_user: "sys_open k w ''/proc/self/ns/user'' = Inr f \<Longrightarrow> f = user_ns w"
    and open_self_mnt: "sys_open k w ''/proc/self/ns/mnt'' = Inr f \<Longrightarrow> f = mnt_ns w"
    and setns_user: "sys_setns k w f CLONE_NEWUSER = Inr w' \<Longrightarrow> w' = w\<lparr>user_ns := f\<rparr>"
    and setns_mnt: "sys_setns k w f CLONE_NEWNS = Inr w' \<Longrightarrow> w' = w\<lparr>mnt_ns := f\<rparr>"
    and mount_adds: "sys_mount k w a = Inr w' \<Longrightarrow>
        w' = w\<lparr>mounts := \<lparr>mounted_in = mnt_ns w, mounted_at = mount_target a,
          fs_type = mount_fstype a, s_user_ns = user_ns w, fs_data = mount_data a\<rparr> # mounts w\<rparr>"
    and umount_removes: "sys_umount k w path = Inr w' \<Longrightarrow>
        w' = w\<lparr>mounts := unmount_top (mnt_ns w) path (mounts w)\<rparr>"

text \<open>
  The part both operations share: entering the target with the way back kept open (the error and
  the context it leaves the thread in, or the two saved namespaces and the context inside), and
  going back.
\<close>

definition enter_target ::
    "ns_calls \<Rightarrow> TargetNamespace \<Rightarrow> ns_world \<Rightarrow> (anyhow \<times> ns_world) + (u64 \<times> u64 \<times> ns_world)" where
  "enter_target k tgt w =
     (case open_ns_fd k w ''self'' ''user'' of Inl e \<Rightarrow> Inl (e, w) | Inr su \<Rightarrow>
     (case open_ns_fd k w ''self'' ''mnt'' of Inl e \<Rightarrow> Inl (e, w) | Inr sm \<Rightarrow>
     (case open_ns_fd k w (show_u32 (target_pid tgt)) ''user'' of Inl e \<Rightarrow> Inl (e, w) | Inr tu \<Rightarrow>
     (case open_ns_fd k w (show_u32 (target_pid tgt)) ''mnt'' of Inl e \<Rightarrow> Inl (e, w) | Inr tm \<Rightarrow>
     (case with_context ''Failed to enter target user namespace''
             (sys_setns k w tu CLONE_NEWUSER) of Inl e \<Rightarrow> Inl (e, w) | Inr w1 \<Rightarrow>
     (case with_context ''Failed to enter target mount namespace''
             (sys_setns k w1 tm CLONE_NEWNS) of Inl e \<Rightarrow> Inl (e, w1) | Inr w2 \<Rightarrow>
        Inr (su, sm, w2)))))))"

definition leave_target :: "ns_calls \<Rightarrow> u64 \<Rightarrow> u64 \<Rightarrow> ns_world \<Rightarrow> ns_world" where
  "leave_target k su sm w =
     setns_ignoring k (setns_ignoring k w su CLONE_NEWUSER) sm CLONE_NEWNS"

lemma delegate_by_entering:
  "delegate_bpf_to_namespace k tgt path opts w =
     (case enter_target k tgt w of
        Inl (e, w') \<Rightarrow> (Inl e, w')
      | Inr (su, sm, w2) \<Rightarrow>
          (case sys_mount k w2 (delegation_mount path opts) of
             Inl e \<Rightarrow> (Inl (Context ''Failed to mount bpffs in target namespace'' e),
                        leave_target k su sm w2)
           | Inr w3 \<Rightarrow> (Inr (), leave_target k su sm w3)))"
  unfolding delegate_bpf_to_namespace_def enter_target_def leave_target_def
  by (auto simp: Let_def split: sum.splits)

lemma revoke_by_entering:
  "revoke_bpf_delegation k tgt path w =
     (case enter_target k tgt w of
        Inl (e, w') \<Rightarrow> (Inl e, w')
      | Inr (su, sm, w2) \<Rightarrow>
          (case sys_umount k w2 path of
             Inl e \<Rightarrow> (Inl (Context ''Failed to unmount bpffs'' e), leave_target k su sm w2)
           | Inr w3 \<Rightarrow> (Inr (), leave_target k su sm w3)))"
  unfolding revoke_bpf_delegation_def enter_target_def leave_target_def
  by (auto simp: Let_def split: sum.splits)

text \<open>The namespace files of the target process.\<close>

definition target_ns :: "ns_calls \<Rightarrow> ns_world \<Rightarrow> TargetNamespace \<Rightarrow> string \<Rightarrow> u64 option" where
  "target_ns k w tgt ns_type =
     (case sys_open k w (''/proc/'' @ show_u32 (target_pid tgt) @ ''/ns/'' @ ns_type) of
        Inl _ \<Rightarrow> None | Inr f \<Rightarrow> Some f)"

context linux_namespaces
begin

lemma enter_target_Inr:
  assumes "enter_target k tgt w = Inr (su, sm, w2)"
  shows "su = user_ns w \<and> sm = mnt_ns w \<and>
     (\<exists>tu tm. target_ns k w tgt ''user'' = Some tu \<and> target_ns k w tgt ''mnt'' = Some tm \<and>
        w2 = w\<lparr>user_ns := tu, mnt_ns := tm\<rparr>)"
  using assms
  by (auto simp: enter_target_def open_ns_fd_def target_ns_def Let_def
      dest: open_self_user open_self_mnt setns_user setns_mnt split: sum.splits)

lemma leave_target_mounts: "mounts (leave_target k su sm w) = mounts w"
  by (auto simp: leave_target_def setns_ignoring_def dest!: setns_user setns_mnt
      split: sum.splits)

lemma delegate_mounts:
  assumes "delegate_bpf_to_namespace k tgt path opts w = (Inr (), w')"
  shows "\<exists>tu tm. target_ns k w tgt ''user'' = Some tu \<and> target_ns k w tgt ''mnt'' = Some tm \<and>
     mounts w' = \<lparr>mounted_in = tm, mounted_at = path, fs_type = Some ''bpf'', s_user_ns = tu,
       fs_data = Some (to_mount_data opts)\<rparr> # mounts w"
proof -
  from assms obtain su sm w2 w3 where enter: "enter_target k tgt w = Inr (su, sm, w2)"
    and mount: "sys_mount k w2 (delegation_mount path opts) = Inr w3"
    and w': "w' = leave_target k su sm w3"
    by (auto simp: delegate_by_entering split: sum.splits)
  from enter_target_Inr [OF enter] mount_adds [OF mount] leave_target_mounts [of su sm w3] w'
  show ?thesis
    by (auto simp: delegation_mount_def)
qed

lemma revoke_unmounts:
  assumes "revoke_bpf_delegation k tgt path w = (Inr (), w')"
  shows "\<exists>tm. target_ns k w tgt ''mnt'' = Some tm \<and> mounts w' = unmount_top tm path (mounts w)"
proof -
  from assms obtain su sm v v' where enter: "enter_target k tgt w = Inr (su, sm, v)"
    and umount: "sys_umount k v path = Inr v'" and w': "w' = leave_target k su sm v'"
    by (auto simp: revoke_by_entering split: sum.splits)
  from enter_target_Inr [OF enter] umount_removes [OF umount] leave_target_mounts [of su sm v'] w'
  show ?thesis
    by auto
qed

end

text \<open>
  Joining a user namespace needs privileges in it, so that a thread can join descendants of its own
  user namespace only (\<open>setns(2)\<close>); \<open>below\<close> is this order.
\<close>

locale userns_hierarchy = linux_namespaces +
  fixes below :: "u64 \<Rightarrow> u64 \<Rightarrow> bool"
  assumes below_asym: "below a c \<Longrightarrow> \<not> below c a"
    and join_below: "sys_setns k w f CLONE_NEWUSER = Inr w' \<Longrightarrow> below f (user_ns w)"
begin

lemma enter_target_below:
  assumes "enter_target k tgt w = Inr (su, sm, w2)"
  shows "below (user_ns w2) (user_ns w)"
proof -
  from assms obtain tu tm w1 where "sys_setns k w tu CLONE_NEWUSER = Inr w1"
    "sys_setns k w1 tm CLONE_NEWNS = Inr w2"
    by (auto simp: enter_target_def Let_def split: sum.splits)
  then show ?thesis
    using join_below setns_user setns_mnt by fastforce
qed

lemma leave_target_stays:
  assumes "below (user_ns w) su"
  shows "user_ns (leave_target k su sm w) = user_ns w"
proof -
  obtain e where "sys_setns k w su CLONE_NEWUSER = Inl e"
    using below_asym [OF assms] join_below by (cases "sys_setns k w su CLONE_NEWUSER") auto
  then show ?thesis
    by (auto simp: leave_target_def setns_ignoring_def dest!: setns_mnt split: sum.splits)
qed

lemma stranded:
  assumes "enter_target k tgt w = Inr (su, sm, w2)" and "user_ns w3 = user_ns w2"
  shows "target_ns k w tgt ''user'' = Some (user_ns (leave_target k su sm w3))"
    and "user_ns (leave_target k su sm w3) \<noteq> user_ns w"
proof -
  have below: "below (user_ns w2) su"
    using enter_target_below [OF assms(1)] enter_target_Inr [OF assms(1)] by simp
  then have "user_ns (leave_target k su sm w3) = user_ns w2"
    using leave_target_stays assms(2) by metis
  then show "target_ns k w tgt ''user'' = Some (user_ns (leave_target k su sm w3))"
    "user_ns (leave_target k su sm w3) \<noteq> user_ns w"
    using enter_target_Inr [OF assms(1)] below below_asym [OF below] by auto
qed

lemma delegate_strands:
  assumes "delegate_bpf_to_namespace k tgt path opts w = (Inr (), w')"
  shows "target_ns k w tgt ''user'' = Some (user_ns w') \<and> user_ns w' \<noteq> user_ns w"
proof -
  from assms obtain su sm w2 w3 where enter: "enter_target k tgt w = Inr (su, sm, w2)"
    and mount: "sys_mount k w2 (delegation_mount path opts) = Inr w3"
    and w': "w' = leave_target k su sm w3"
    by (auto simp: delegate_by_entering split: sum.splits)
  from mount_adds [OF mount] have "user_ns w3 = user_ns w2"
    by simp
  from stranded [OF enter this] w' show ?thesis by simp
qed

lemma revoke_strands:
  assumes "revoke_bpf_delegation k tgt path w = (Inr (), w')"
  shows "target_ns k w tgt ''user'' = Some (user_ns w') \<and> user_ns w' \<noteq> user_ns w"
proof -
  from assms obtain su sm w2 w3 where enter: "enter_target k tgt w = Inr (su, sm, w2)"
    and umount: "sys_umount k w2 path = Inr w3" and w': "w' = leave_target k su sm w3"
    by (auto simp: revoke_by_entering split: sum.splits)
  from umount_removes [OF umount] have "user_ns w3 = user_ns w2"
    by simp
  from stranded [OF enter this] w' show ?thesis by simp
qed

lemma delegate_only_below:
  assumes "delegate_bpf_to_namespace k tgt path opts w = (Inr (), w')"
  shows "\<exists>tu. target_ns k w tgt ''user'' = Some tu \<and> below tu (user_ns w)"
proof -
  from assms obtain su sm w2 where enter: "enter_target k tgt w = Inr (su, sm, w2)"
    by (auto simp: delegate_by_entering split: sum.splits)
  from enter_target_below [OF enter] enter_target_Inr [OF enter] show ?thesis
    by auto
qed

end

text \<open>
  A kernel given by tables: the namespace files of other processes, the mount namespaces it refuses
  to enter, and which user namespace is below which. It satisfies the contract for any tables.
\<close>

definition table_calls ::
    "(string \<times> u64) list \<Rightarrow> u64 list \<Rightarrow> (u64 \<times> u64) list \<Rightarrow> ns_calls" where
  "table_calls files refused tree =
     (let get = (\<lambda>w path.
            if path = ''/proc/self/ns/user'' then Inr (user_ns w)
            else if path = ''/proc/self/ns/mnt'' then Inr (mnt_ns w)
            else case map_of files path of Some f \<Rightarrow> Inr f | None \<Rightarrow> Inl (Msg ''ENOENT''))
      in \<lparr>sys_open = get, sys_stat_ino = get,
          sys_setns = (\<lambda>w f flag. (case flag of
              CLONE_NEWUSER \<Rightarrow> if (f, user_ns w) \<in> set tree then Inr (w\<lparr>user_ns := f\<rparr>)
                else Inl (Msg ''EPERM'')
            | CLONE_NEWNS \<Rightarrow> if f \<in> set refused then Inl (Msg ''EPERM'')
                else Inr (w\<lparr>mnt_ns := f\<rparr>))),
          sys_mount = (\<lambda>w a. Inr (w\<lparr>mounts := \<lparr>mounted_in = mnt_ns w, mounted_at = mount_target a,
            fs_type = mount_fstype a, s_user_ns = user_ns w, fs_data = mount_data a\<rparr> # mounts w\<rparr>)),
          sys_umount = (\<lambda>w path.
            if \<exists>m\<in>set (mounts w). mounted_in m = mnt_ns w \<and> mounted_at m = path
            then Inr (w\<lparr>mounts := unmount_top (mnt_ns w) path (mounts w)\<rparr>)
            else Inl (Msg ''EINVAL''))\<rparr>)"

lemma table_calls_simps:
  "sys_open (table_calls files refused tree) w path =
     (if path = ''/proc/self/ns/user'' then Inr (user_ns w)
      else if path = ''/proc/self/ns/mnt'' then Inr (mnt_ns w)
      else case map_of files path of Some f \<Rightarrow> Inr f | None \<Rightarrow> Inl (Msg ''ENOENT''))"
  "sys_setns (table_calls files refused tree) w f flag =
     (case flag of
              CLONE_NEWUSER \<Rightarrow> if (f, user_ns w) \<in> set tree then Inr (w\<lparr>user_ns := f\<rparr>)
                else Inl (Msg ''EPERM'')
            | CLONE_NEWNS \<Rightarrow> if f \<in> set refused then Inl (Msg ''EPERM'')
                else Inr (w\<lparr>mnt_ns := f\<rparr>))"
  by (simp_all add: table_calls_def Let_def)

interpretation table_kernel: linux_namespaces "table_calls files refused tree" for files refused tree
  by unfold_locales (auto simp: table_calls_def Let_def split: if_splits)

definition container_tree :: "(u64 \<times> u64) list" where
  "container_tree = [(10, 1), (11, 1)]"

interpretation container_kernel:
  userns_hierarchy "table_calls files refused container_tree" "\<lambda>a c. (a, c) \<in> set container_tree"
  for files refused
  by unfold_locales
    (auto simp: container_tree_def table_calls_simps split: if_splits)

section \<open>Properties of delegation and revocation\<close>

text \<open>
  C20: a successful delegation mounts exactly one bpffs, at the requested path of the target's mount
  namespace, owned by the target's user namespace (so that tokens can be created from inside), and
  with the requested delegation options.
\<close>

theorem delegation_mounts_in_target:
  assumes "linux_namespaces k" and "delegate_bpf_to_namespace k tgt path opts w = (Inr (), w')"
  shows "\<exists>tu tm. target_ns k w tgt ''user'' = Some tu \<and> target_ns k w tgt ''mnt'' = Some tm \<and>
     mounts w' = \<lparr>mounted_in = tm, mounted_at = path, fs_type = Some ''bpf'', s_user_ns = tu,
       fs_data = Some (to_mount_data opts)\<rparr> # mounts w"
  using assms by (rule linux_namespaces.delegate_mounts)

abbreviation (input) host_world :: ns_world where
  "host_world \<equiv> \<lparr>user_ns = 1, mnt_ns = 2, mounts = []\<rparr>"

definition container_files :: "(string \<times> u64) list" where
  "container_files = [(''/proc/7/ns/user'', 10), (''/proc/7/ns/mnt'', 20),
     (''/proc/8/ns/user'', 11), (''/proc/8/ns/mnt'', 21)]"

lemma show_u32_7: "show_u32 7 = ''7''" and show_u32_8: "show_u32 8 = ''8''"
  by code_simp+

lemma container_target:
  "target_ns (table_calls container_files refused container_tree) w \<lparr>target_pid = 7, target_userns_id = 10\<rparr> ''user'' = Some 10"
  "target_ns (table_calls container_files refused container_tree) w \<lparr>target_pid = 7, target_userns_id = 10\<rparr> ''mnt'' = Some 20"
  by (simp_all add: target_ns_def table_calls_def container_files_def show_u32_7 Let_def)

lemma container_below: "(10, 1) \<in> set container_tree"
  by (simp add: container_tree_def)

lemma second_target:
  "target_ns (table_calls container_files refused container_tree) w
     \<lparr>target_pid = 8, target_userns_id = 11\<rparr> ''user'' = Some 11"
  by (simp add: target_ns_def table_calls_def container_files_def show_u32_8 Let_def)

lemma delegate_in_container:
  "delegate_bpf_to_namespace (table_calls container_files [2] container_tree)
     \<lparr>target_pid = 7, target_userns_id = 10\<rparr> ''/b'' opts host_world =
   (Inr (), \<lparr>user_ns = 10, mnt_ns = 20, mounts =
      [\<lparr>mounted_in = 20, mounted_at = ''/b'', fs_type = Some ''bpf'', s_user_ns = 10,
        fs_data = Some (to_mount_data opts)\<rparr>]\<rparr>)"
  by (simp add: delegate_bpf_to_namespace_def open_ns_fd_def setns_ignoring_def table_calls_def
      container_files_def container_tree_def show_u32_7 delegation_mount_def Let_def)

theorem delegation_mounts_in_target_witness:
  "\<exists>tu tm w'. delegate_bpf_to_namespace (table_calls container_files [2] container_tree)
       \<lparr>target_pid = 7, target_userns_id = 10\<rparr> ''/b'' DelegationOpts_allow_all host_world = (Inr (), w') \<and>
     target_ns (table_calls container_files [2] container_tree) host_world
       \<lparr>target_pid = 7, target_userns_id = 10\<rparr> ''user'' = Some tu \<and>
     s_user_ns (hd (mounts w')) = tu \<and> mounted_in (hd (mounts w')) = tm"
  using delegation_mounts_in_target [OF table_kernel.linux_namespaces_axioms delegate_in_container]
    delegate_in_container [of DelegationOpts_allow_all]
  by force

text \<open>
  C22: the way back is closed. On Linux a thread can only join user namespaces below its own, so the
  calls that should restore the context fail unnoticed: a successful delegation or revocation leaves
  the thread in the target's user namespace, not in its own, and the same thread can then delegate
  to no target outside the first one's user namespace.
\<close>

theorem delegation_strands_thread:
  assumes "userns_hierarchy k below"
  shows "(delegate_bpf_to_namespace k tgt path opts w = (Inr (), w') \<longrightarrow>
       target_ns k w tgt ''user'' = Some (user_ns w') \<and> user_ns w' \<noteq> user_ns w) \<and>
     (revoke_bpf_delegation k tgt path w = (Inr (), w') \<longrightarrow>
       target_ns k w tgt ''user'' = Some (user_ns w') \<and> user_ns w' \<noteq> user_ns w) \<and>
     (delegate_bpf_to_namespace k tgt path opts w = (Inr (), w') \<and>
       target_ns k w' tgt2 ''user'' = Some tu2 \<and>
       \<not> (\<exists>tu. target_ns k w tgt ''user'' = Some tu \<and> below tu2 tu) \<longrightarrow>
       fst (delegate_bpf_to_namespace k tgt2 path2 opts2 w') \<noteq> Inr ())"
proof (intro conjI impI)
  note strands = userns_hierarchy.delegate_strands [OF assms]
  assume two: "delegate_bpf_to_namespace k tgt path opts w = (Inr (), w') \<and>
      target_ns k w' tgt2 ''user'' = Some tu2 \<and>
      \<not> (\<exists>tu. target_ns k w tgt ''user'' = Some tu \<and> below tu2 tu)"
  show "fst (delegate_bpf_to_namespace k tgt2 path2 opts2 w') \<noteq> Inr ()"
  proof
    assume "fst (delegate_bpf_to_namespace k tgt2 path2 opts2 w') = Inr ()"
    then obtain w2 where "delegate_bpf_to_namespace k tgt2 path2 opts2 w' = (Inr (), w2)"
      by (cases "delegate_bpf_to_namespace k tgt2 path2 opts2 w'") simp
    from userns_hierarchy.delegate_only_below [OF assms this] two strands show False
      by auto
  qed
qed (use userns_hierarchy.delegate_strands [OF assms] userns_hierarchy.revoke_strands [OF assms]
     in blast)+

theorem delegation_strands_thread_witness:
  "\<exists>w'. delegate_bpf_to_namespace (table_calls container_files [2] container_tree)
       \<lparr>target_pid = 7, target_userns_id = 10\<rparr> ''/b'' DelegationOpts_allow_all host_world = (Inr (), w') \<and>
     user_ns w' = 10 \<and>
     fst (delegate_bpf_to_namespace (table_calls container_files [2] container_tree)
       \<lparr>target_pid = 8, target_userns_id = 11\<rparr> ''/b'' DelegationOpts_allow_all w') \<noteq> Inr ()"
proof -
  let ?k = "table_calls container_files [2] container_tree"
  have "(11, 10) \<notin> set container_tree"
    by (simp add: container_tree_def)
  then have "\<not> (\<exists>tu. target_ns ?k host_world \<lparr>target_pid = 7, target_userns_id = 10\<rparr> ''user'' = Some tu \<and>
      (11, tu) \<in> set container_tree)"
    by (simp add: container_target)
  then show ?thesis
    using delegation_strands_thread [OF container_kernel.userns_hierarchy_axioms,
        of container_files "[2]" "\<lparr>target_pid = 7, target_userns_id = 10\<rparr>" "''/b''"
        DelegationOpts_allow_all host_world _ "\<lparr>target_pid = 8, target_userns_id = 11\<rparr>" 11
        "''/b''" DelegationOpts_allow_all]
      delegate_in_container [of DelegationOpts_allow_all] second_target
    by (simp add: container_target)
qed

text \<open>
  C16: if the target's user namespace can be entered but not its mount namespace, delegation and
  revocation return an error and leave the thread inside the target's user namespace: the early
  return skips the way back.
\<close>

theorem failed_entry_strands_thread:
  assumes "linux_namespaces k"
    and "sys_open k w ''/proc/self/ns/user'' = Inr su" "sys_open k w ''/proc/self/ns/mnt'' = Inr sm"
    and "target_ns k w tgt ''user'' = Some tu" "target_ns k w tgt ''mnt'' = Some tm"
    and "sys_setns k w tu CLONE_NEWUSER = Inr w1" "sys_setns k w1 tm CLONE_NEWNS = Inl e"
  shows "delegate_bpf_to_namespace k tgt path opts w =
      (Inl (Context ''Failed to enter target mount namespace'' e), w\<lparr>user_ns := tu\<rparr>) \<and>
    revoke_bpf_delegation k tgt path w =
      (Inl (Context ''Failed to enter target mount namespace'' e), w\<lparr>user_ns := tu\<rparr>)"
proof -
  have "enter_target k tgt w =
      Inl (Context ''Failed to enter target mount namespace'' e, w1)"
    using assms(2-)
    by (auto simp: enter_target_def open_ns_fd_def target_ns_def Let_def split: sum.splits)
  with linux_namespaces.setns_user [OF assms(1,6)] show ?thesis
    by (simp add: delegate_by_entering revoke_by_entering)
qed

theorem failed_entry_strands_thread_witness:
  "user_ns (snd (delegate_bpf_to_namespace (table_calls container_files [20] container_tree)
     \<lparr>target_pid = 7, target_userns_id = 10\<rparr> ''/b'' DelegationOpts_allow_all host_world)) = 10"
  using failed_entry_strands_thread
    [OF table_kernel.linux_namespaces_axioms, of container_files "[20]" container_tree host_world 1 2
      "\<lparr>target_pid = 7, target_userns_id = 10\<rparr>" 10 20 "host_world\<lparr>user_ns := 10\<rparr>" "Msg ''EPERM''"
      "''/b''" DelegationOpts_allow_all]
  by (simp add: container_target container_below table_calls_simps)

text \<open>
  C29: a revocation that succeeds undoes the delegation before it. Assume that delegating to a target
  and then revoking from it have both succeeded, that the mounts are the same when the revocation
  starts as when the delegation ended, and that the target's mount namespace is still the one it was.
  Then the mounts are afterwards as they were before the delegation. The revoking thread need not be
  the delegating one; nothing is said of a revocation that fails, as that of a thread does that its own
  delegation has left inside the target.
\<close>

theorem revocation_undoes_delegation:
  assumes "linux_namespaces k"
    and "delegate_bpf_to_namespace k tgt path opts w = (Inr (), w1)"
    and "mounts v = mounts w1" and "target_ns k v tgt ''mnt'' = target_ns k w tgt ''mnt''"
    and "revoke_bpf_delegation k tgt path v = (Inr (), v')"
  shows "mounts v' = mounts w"
  using linux_namespaces.delegate_mounts [OF assms(1,2)]
    linux_namespaces.revoke_unmounts [OF assms(1,5)] assms(3,4)
  by auto

theorem revocation_undoes_delegation_witness:
  "\<exists>w1 v'. delegate_bpf_to_namespace (table_calls container_files [2] container_tree)
      \<lparr>target_pid = 7, target_userns_id = 10\<rparr> ''/b'' DelegationOpts_allow_all host_world = (Inr (), w1) \<and>
     revoke_bpf_delegation (table_calls container_files [2] container_tree)
      \<lparr>target_pid = 7, target_userns_id = 10\<rparr> ''/b'' (host_world\<lparr>mounts := mounts w1\<rparr>) = (Inr (), v') \<and>
     mounts v' = []"
proof -
  let ?k = "table_calls container_files [2] container_tree"
    and ?t = "\<lparr>target_pid = 7, target_userns_id = 10\<rparr>"
  obtain w1 where d: "delegate_bpf_to_namespace ?k ?t ''/b'' DelegationOpts_allow_all host_world
      = (Inr (), w1)" and w1: "mounts w1 \<noteq> []"
      "mounted_in (hd (mounts w1)) = 20" "mounted_at (hd (mounts w1)) = ''/b''"
    by (simp add: delegate_in_container)
  let ?v = "host_world\<lparr>mounts := mounts w1\<rparr>"
  have "fst (revoke_bpf_delegation ?k ?t ''/b'' ?v) = Inr ()"
    using w1 by (simp add: revoke_bpf_delegation_def open_ns_fd_def setns_ignoring_def
        table_calls_def container_files_def container_tree_def show_u32_7 Let_def) (metis hd_in_set)
  then obtain v' where r: "revoke_bpf_delegation ?k ?t ''/b'' ?v = (Inr (), v')"
    by (cases "revoke_bpf_delegation ?k ?t ''/b'' ?v") simp
  have "mounts v' = mounts host_world"
    by (rule revocation_undoes_delegation [OF table_kernel.linux_namespaces_axioms d _ _ r])
      (simp_all add: container_target)
  with d r show ?thesis by simp
qed

section \<open>Properties of the mount options\<close>

text \<open>
  Reading one option back out of the mount data: the value after \<open>key=0x\<close> in the list separated by
  commas.
\<close>

definition mount_option :: "string \<Rightarrow> string \<Rightarrow> u32 option" where
  "mount_option key data =
     (case find (\<lambda>opt. take (length key + 3) opt = key @ ''=0x'') (split_char CHR '','' data) of
        None \<Rightarrow> None
      | Some opt \<Rightarrow> from_str_radix 16 (drop (length key + 3) opt))"

lemma mount_data_fields:
  "split_char CHR '','' (to_mount_data opts) =
     [''delegate_cmds='' @ show_hex (delegate_cmds opts),
      ''delegate_progs='' @ show_hex (delegate_progs opts),
      ''delegate_maps='' @ show_hex (delegate_maps opts),
      ''delegate_attachs='' @ show_hex (delegate_attachs opts)]"
proof -
  have no_comma: "CHR '','' \<notin> set (''delegate_cmds='' @ show_hex w)"
    "CHR '','' \<notin> set (''delegate_progs='' @ show_hex w)"
    "CHR '','' \<notin> set (''delegate_maps='' @ show_hex w)"
    "CHR '','' \<notin> set (''delegate_attachs='' @ show_hex w)" for w
    by (simp_all add: comma_not_in_show_hex)
  have "to_mount_data opts =
      (''delegate_cmds='' @ show_hex (delegate_cmds opts)) @ CHR '','' #
      (''delegate_progs='' @ show_hex (delegate_progs opts)) @ CHR '','' #
      (''delegate_maps='' @ show_hex (delegate_maps opts)) @ CHR '','' #
      (''delegate_attachs='' @ show_hex (delegate_attachs opts))"
    by (simp add: to_mount_data_def)
  then show ?thesis
    by (simp only: split_char_append [OF no_comma(1)] split_char_append [OF no_comma(2)]
        split_char_append [OF no_comma(3)] split_char_no_sep [OF no_comma(4)])
qed

lemma mount_option_to_mount_data:
  "mount_option ''delegate_cmds'' (to_mount_data opts) = Some (delegate_cmds opts)"
  "mount_option ''delegate_progs'' (to_mount_data opts) = Some (delegate_progs opts)"
  "mount_option ''delegate_maps'' (to_mount_data opts) = Some (delegate_maps opts)"
  "mount_option ''delegate_attachs'' (to_mount_data opts) = Some (delegate_attachs opts)"
proof -
  have read: "from_str_radix 16 (drop 2 (show_hex w)) = Some w" for w
    by (simp add: show_hex_def from_str_radix_digits)
  show "mount_option ''delegate_cmds'' (to_mount_data opts) = Some (delegate_cmds opts)"
    "mount_option ''delegate_progs'' (to_mount_data opts) = Some (delegate_progs opts)"
    "mount_option ''delegate_maps'' (to_mount_data opts) = Some (delegate_maps opts)"
    "mount_option ''delegate_attachs'' (to_mount_data opts) = Some (delegate_attachs opts)"
    unfolding mount_option_def mount_data_fields
    using read [of "delegate_cmds opts"] read [of "delegate_progs opts"]
      read [of "delegate_maps opts"] read [of "delegate_attachs opts"]
    by (simp_all add: show_hex_def)
qed

text \<open>
  C28: the mount data carries the four bitmaps without loss: each \<open>delegate_*\<close> option reads back as
  the bitmap it was made from, and the whole string stays within 103 bytes.
\<close>

theorem mount_data_round_trip:
  "mount_option ''delegate_cmds'' (to_mount_data opts) = Some (delegate_cmds opts) \<and>
   mount_option ''delegate_progs'' (to_mount_data opts) = Some (delegate_progs opts) \<and>
   mount_option ''delegate_maps'' (to_mount_data opts) = Some (delegate_maps opts) \<and>
   mount_option ''delegate_attachs'' (to_mount_data opts) = Some (delegate_attachs opts) \<and>
   length (to_mount_data opts) \<le> 103"
  using mount_option_to_mount_data length_show_hex [of "delegate_cmds opts"]
    length_show_hex [of "delegate_progs opts"] length_show_hex [of "delegate_maps opts"]
    length_show_hex [of "delegate_attachs opts"]
  by (simp add: to_mount_data_def)

section \<open>Properties of mount detection\<close>

text \<open>
  A bpffs listed in \<open>/proc/mounts\<close> is found at its path, if the path is plain text.
\<close>

theorem bpffs_mount_detected:
  assumes "read_to_string ''/proc/mounts'' =
      Inr (concat (map (\<lambda>l. l @ [CHR 0x0A]) (before @ (dev @ '' '' @ path @ '' bpf '' @ rest) # after)))"
    and "\<forall>l\<in>set (before @ (dev @ '' '' @ path @ '' bpf '' @ rest) # after). plain_line l"
    and "graphic dev" "graphic path"
  shows "is_bpffs_mounted read_to_string path"
proof -
  let ?line = "dev @ '' '' @ path @ '' bpf '' @ rest"
  have words: "split_whitespace ?line = dev # path # ''bpf'' # split_whitespace rest"
    using split_whitespace_step [OF assms(3), of "path @ '' bpf '' @ rest"]
      split_whitespace_step [OF assms(4), of "''bpf '' @ rest"]
      split_whitespace_step [of "''bpf''" rest]
    by (simp add: graphic_def)
  have "is_bpffs_mounted read_to_string path \<longleftrightarrow>
      list_ex (\<lambda>line. let parts = split_whitespace line
        in 3 \<le> length parts \<and> parts ! 1 = path \<and> parts ! 2 = ''bpf'') (before @ ?line # after)"
    unfolding is_bpffs_mounted_def assms(1) sum.case rust_lines_unlines [OF assms(2)] ..
  then show ?thesis
    using words by (auto simp: list_ex_iff intro!: bexI [of _ ?line])
qed

theorem bpffs_mount_detected_witness:
  "is_bpffs_mounted (\<lambda>_. Inr (''bpf /sys/fs/bpf bpf rw 0 0'' @ [CHR 0x0A])) ''/sys/fs/bpf''"
  using bpffs_mount_detected [of "\<lambda>_. Inr (''bpf /sys/fs/bpf bpf rw 0 0'' @ [CHR 0x0A])" "[]" "''bpf''"
      "''/sys/fs/bpf''" "''rw 0 0''" "[]"]
  by (simp add: plain_line_def graphic_def)

text \<open>
  A path that contains white space is never reported as mounted, whatever is mounted there:
  the lines of \<open>/proc/mounts\<close> are split at white space and never unescaped.
\<close>

theorem bpffs_at_spaced_path_missed:
  assumes "c \<in> set path" and "ascii_space c"
  shows "\<not> is_bpffs_mounted read_to_string path"
proof
  assume "is_bpffs_mounted read_to_string path"
  then obtain line where "3 \<le> length (split_whitespace line)" "split_whitespace line ! 1 = path"
    by (auto simp: is_bpffs_mounted_def list_ex_iff Let_def split: sum.splits)
  then have "path \<in> set (split_whitespace line)"
    by (metis nth_mem numeral_3_eq_3 Suc_le_lessD Suc_lessD less_trans_Suc One_nat_def le_trans lessI)
  with assms show False
    using split_whitespace_no_space by blast
qed

theorem bpffs_at_spaced_path_missed_witness:
  "\<not> is_bpffs_mounted (\<lambda>_. Inr (''bpf /a'' @ [CHR 0x5C] @ ''040b bpf rw 0 0'')) ''/a b''"
  by (rule bpffs_at_spaced_path_missed [of "CHR '' ''"]) (simp_all add: ascii_space_def)

end
