(* ===== verification/Delegation_Limits.thy ===== *)
theory Delegation_Limits
  imports Namespace_Delegation
begin

text \<open>
  What Linux lets the walk of \<open>src/namespace.rs\<close> into another user namespace achieve. A process with
  several threads may not change its user namespace at all (\<open>setns(2)\<close>), and the \<open>delegate_*\<close> options
  of a bpffs may be set only with \<open>CAP_SYS_ADMIN\<close> in the initial user namespace, which a thread
  that has entered the target's no longer has.
\<close>

section \<open>The kernel's rules\<close>

definition delegation_options :: "string list" where
  "delegation_options = [''delegate_cmds'', ''delegate_progs'', ''delegate_maps'', ''delegate_attachs'']"

text \<open>The options of a mount that ask for a delegation.\<close>

definition asks_delegation :: "mount_args \<Rightarrow> bool" where
  "asks_delegation a =
     (mount_fstype a = Some ''bpf'' \<and>
      (case mount_data a of
         None \<Rightarrow> False
       | Some data \<Rightarrow>
           list_ex (\<lambda>key. case mount_option key data of None \<Rightarrow> False | Some bits \<Rightarrow> bits \<noteq> 0)
             delegation_options))"

locale delegation_rules = userns_hierarchy +
  fixes init_ns :: u64 and threads :: nat
  assumes init_top: "\<not> below init_ns c"
    and join_alone: "sys_setns k w f CLONE_NEWUSER = Inr w' \<Longrightarrow> threads = 1"
    and delegate_from_init: "sys_mount k w a = Inr w' \<Longrightarrow> asks_delegation a \<Longrightarrow> user_ns w = init_ns"

lemma asks_delegation_iff: "asks_delegation (delegation_mount path opts) \<longleftrightarrow> opts \<noteq> from_bitmaps 0 0 0 0"
  by (cases opts)
    (auto simp: asks_delegation_def delegation_options_def delegation_mount_def from_bitmaps_def
      mount_option_to_mount_data)

context delegation_rules
begin

lemma enter_target_alone: "enter_target k tgt w = Inr r \<Longrightarrow> threads = 1"
  by (auto simp: enter_target_def Let_def dest: join_alone split: sum.splits)

lemma inside_not_init: "enter_target k tgt w = Inr (su, sm, w2) \<Longrightarrow> user_ns w2 \<noteq> init_ns"
  using enter_target_below init_top by metis

lemma enter_target_keeps_mounts:
  "enter_target k tgt w = Inl (e, w') \<Longrightarrow> mounts w' = mounts w"
  by (auto simp: enter_target_def Let_def dest: setns_user split: sum.splits)

lemma delegate_refused:
  assumes "opts \<noteq> from_bitmaps 0 0 0 0 \<or> threads \<noteq> 1"
  shows "\<exists>e w'. delegate_bpf_to_namespace k tgt path opts w = (Inl e, w') \<and> mounts w' = mounts w"
proof (cases "enter_target k tgt w")
  case (Inl r)
  then show ?thesis
    using enter_target_keeps_mounts [of tgt w] by (cases r) (simp add: delegate_by_entering)
next
  case (Inr r)
  then obtain su sm w2 where enter: "enter_target k tgt w = Inr (su, sm, w2)"
    by (cases r) auto
  have "opts \<noteq> from_bitmaps 0 0 0 0"
    using assms enter_target_alone [OF enter] by blast
  then obtain e where "sys_mount k w2 (delegation_mount path opts) = Inl e"
    using delegate_from_init [of w2 "delegation_mount path opts"] inside_not_init [OF enter] asks_delegation_iff
    by (cases "sys_mount k w2 (delegation_mount path opts)") auto
  with enter enter_target_Inr [OF enter] show ?thesis
    by (auto simp: delegate_by_entering leave_target_mounts)
qed

lemma revoke_refused:
  assumes "threads \<noteq> 1"
  shows "\<exists>e w'. revoke_bpf_delegation k tgt path w = (Inl e, w') \<and> mounts w' = mounts w"
proof (cases "enter_target k tgt w")
  case (Inl r)
  then show ?thesis
    using enter_target_keeps_mounts [of tgt w] by (cases r) (simp add: revoke_by_entering)
next
  case (Inr r)
  with enter_target_alone assms show ?thesis by blast
qed

end

section \<open>A kernel with these rules\<close>

definition strict_calls ::
    "nat \<Rightarrow> u64 \<Rightarrow> (string \<times> u64) list \<Rightarrow> u64 list \<Rightarrow> (u64 \<times> u64) list \<Rightarrow> ns_calls" where
  "strict_calls n init files refused tree =
     (let k = table_calls files refused tree in
      k\<lparr>sys_setns := (\<lambda>w f flag.
          if flag = CLONE_NEWUSER \<and> n \<noteq> 1 then Inl (Msg ''EINVAL'') else sys_setns k w f flag),
        sys_mount := (\<lambda>w a.
          if asks_delegation a \<and> user_ns w \<noteq> init then Inl (Msg ''EPERM'') else sys_mount k w a)\<rparr>)"

interpretation strict_kernel:
  delegation_rules "strict_calls n 1 files refused container_tree" "\<lambda>a c. (a, c) \<in> set container_tree" 1 n
  for n files refused
  by unfold_locales
    (auto simp: strict_calls_def table_calls_def container_tree_def Let_def split: if_splits)

section \<open>What can be delegated\<close>

text \<open>
  C21: nothing is ever delegated. On a kernel with Linux's rules every delegation of any command, program
  type, map type or attach type fails and mounts nothing, since the mount is made from inside the
  target's user namespace; and in a process with more than one thread, which a program with an
  asynchronous runtime is, every delegation and every revocation fails.
\<close>

theorem delegation_always_refused:
  assumes "delegation_rules k below init_ns threads"
  shows "(opts \<noteq> from_bitmaps 0 0 0 0 \<or> threads \<noteq> 1 \<longrightarrow>
       (\<exists>e w'. delegate_bpf_to_namespace k tgt path opts w = (Inl e, w') \<and> mounts w' = mounts w)) \<and>
     (threads \<noteq> 1 \<longrightarrow>
       (\<exists>e w'. revoke_bpf_delegation k tgt path w = (Inl e, w') \<and> mounts w' = mounts w))"
  using delegation_rules.delegate_refused [OF assms] delegation_rules.revoke_refused [OF assms]
  by blast

theorem delegation_always_refused_witness:
  "\<exists>e w'. delegate_bpf_to_namespace (strict_calls 1 1 container_files [] container_tree)
     \<lparr>target_pid = 7, target_userns_id = 10\<rparr> ''/b'' DelegationOpts_allow_all host_world = (Inl e, w') \<and>
     mounts w' = []"
proof -
  have "DelegationOpts_allow_all \<noteq> from_bitmaps 0 0 0 0"
    by (simp add: DelegationOpts_allow_all_def from_bitmaps_def)
  with delegation_always_refused [OF strict_kernel.delegation_rules_axioms, of DelegationOpts_allow_all 1
      container_files "[]" "\<lparr>target_pid = 7, target_userns_id = 10\<rparr>" "''/b''" host_world]
  show ?thesis by simp
qed

end
