(* ===== verification/Default_Policy.thy ===== *)
theory Default_Policy
  imports Policy_Semantics
begin

text \<open>
  The built-in policy of \<open>src/policy.rs\<close> (\<open>impl Default for Policy\<close>), used when no configuration
  file can be loaded, and the shipped \<open>config/policy.yaml\<close> as the configuration it denotes. The
  decisions of the built-in policy on every possible proxy request are computed once and for all.
\<close>

section \<open>The built-in policy\<close>

definition default_ebpf_progs :: type_ops where
  "default_ebpf_progs =
     (let m = [];
          m = hm_insert ''kprobe'' [''load'', ''attach''] m;
          m = hm_insert ''uprobe'' [''load'', ''attach''] m;
          m = hm_insert ''tracepoint'' [''load'', ''attach''] m;
          m = hm_insert ''perf_event'' [''load'', ''attach''] m;
          m = hm_insert ''raw_tracepoint'' [''load'', ''attach''] m
      in m)"

definition default_ebpf_maps :: type_ops where
  "default_ebpf_maps =
     (let m = [];
          m = hm_insert ''hash'' [''create'', ''read'', ''write''] m;
          m = hm_insert ''array'' [''create'', ''read'', ''write''] m;
          m = hm_insert ''perf_event_array'' [''create'', ''read''] m;
          m = hm_insert ''ringbuf'' [''create'', ''read''] m
      in m)"

definition default_ebpf_role :: Role where
  "default_ebpf_role =
     \<lparr>description = Some ''Tracing workloads'', groups = [''ebpf''],
      commands = [''PROG_LOAD'', ''MAP_CREATE'', ''MAP_LOOKUP_ELEM'', ''MAP_UPDATE_ELEM'',
        ''LINK_CREATE'', ''BTF_LOAD''],
      prog_types = default_ebpf_progs, map_types = default_ebpf_maps\<rparr>"

definition default_net_progs :: type_ops where
  "default_net_progs =
     (let m = [];
          m = hm_insert ''xdp'' [''load'', ''attach'', ''detach''] m;
          m = hm_insert ''sched_cls'' [''load'', ''attach'', ''detach''] m;
          m = hm_insert ''socket_filter'' [''load'', ''attach''] m
      in m)"

definition default_net_maps :: type_ops where
  "default_net_maps =
     (let m = [];
          m = hm_insert ''hash'' [''create'', ''read'', ''write''] m;
          m = hm_insert ''array'' [''create'', ''read'', ''write''] m;
          m = hm_insert ''devmap'' [''create'', ''read'', ''write''] m;
          m = hm_insert ''lru_hash'' [''create'', ''read'', ''write''] m
      in m)"

definition default_net_role :: Role where
  "default_net_role =
     \<lparr>description = Some ''Networking workloads'', groups = [''ebpf-net''],
      commands = [''PROG_LOAD'', ''MAP_CREATE'', ''MAP_LOOKUP_ELEM'', ''MAP_UPDATE_ELEM'',
        ''LINK_CREATE'', ''PROG_ATTACH'', ''BTF_LOAD''],
      prog_types = default_net_progs, map_types = default_net_maps\<rparr>"

definition default_admin_role :: Role where
  "default_admin_role =
     \<lparr>description = Some ''Full BPF access'', groups = [''ebpf-admin''],
      commands = [''any''],
      prog_types = hm_insert ''any'' [''any''] [], map_types = hm_insert ''any'' [''any''] []\<rparr>"

definition Policy_default :: Policy where
  "Policy_default =
     (let rs = [];
          rs = hm_insert ''ebpf'' default_ebpf_role rs;
          rs = hm_insert ''ebpf-net'' default_net_role rs;
          rs = hm_insert ''ebpf-admin'' default_admin_role rs
      in \<lparr>config = \<lparr>system_policy = None, config_roles = rs\<rparr>\<rparr>)"

section \<open>The shipped configuration\<close>

definition shipped_system :: SystemPolicy where
  "shipped_system =
     \<lparr>sp_commands = [''PROG_LOAD'', ''MAP_CREATE'', ''MAP_LOOKUP_ELEM'', ''MAP_UPDATE_ELEM'',
        ''MAP_DELETE_ELEM'', ''MAP_GET_NEXT_KEY'', ''LINK_CREATE'', ''OBJ_PIN'', ''OBJ_GET'',
        ''OBJ_GET_INFO_BY_FD'', ''BTF_LOAD'', ''PROG_ATTACH'', ''PROG_DETACH''],
      sp_prog_types = [(''kprobe'', [''load'', ''attach'', ''detach'']), (''kretprobe'',
        [''load'', ''attach'', ''detach'']), (''uprobe'', [''load'', ''attach'', ''detach'']),
        (''uretprobe'', [''load'', ''attach'', ''detach'']), (''tracepoint'', [''load'',
        ''attach'', ''detach'']), (''raw_tracepoint'', [''load'', ''attach'', ''detach'']),
        (''perf_event'', [''load'', ''attach'', ''detach'']), (''fentry'', [''load'',
        ''attach'', ''detach'']), (''fexit'', [''load'', ''attach'', ''detach'']), (''xdp'',
        [''load'', ''attach'', ''detach'']), (''sched_cls'', [''load'', ''attach'',
        ''detach'']), (''sched_act'', [''load'', ''attach'', ''detach'']), (''socket_filter'',
        [''load'', ''attach'', ''detach'']), (''sk_skb'', [''load'', ''attach'']), (''sk_msg'',
        [''load'', ''attach'']), (''sock_ops'', [''load'', ''attach''])],
      sp_map_types = [(''hash'', [''create'', ''read'', ''write'']), (''percpu_hash'',
        [''create'', ''read'', ''write'']), (''array'', [''create'', ''read'', ''write'']),
        (''percpu_array'', [''create'', ''read'', ''write'']), (''perf_event_array'',
        [''create'', ''read'']), (''ringbuf'', [''create'', ''read'']), (''stack_trace'',
        [''create'', ''read'']), (''lru_hash'', [''create'', ''read'', ''write'']),
        (''lru_percpu_hash'', [''create'', ''read'', ''write'']), (''devmap'', [''create'',
        ''read'', ''write'']), (''devmap_hash'', [''create'', ''read'', ''write'']),
        (''cpumap'', [''create'', ''read'', ''write'']), (''xskmap'', [''create'', ''read'',
        ''write'']), (''sockmap'', [''create'', ''read'', ''write'']), (''sockhash'',
        [''create'', ''read'', ''write''])]\<rparr>"

definition shipped_tracing_role :: Role where
  "shipped_tracing_role =
     \<lparr>description = Some ''Tracing and observability programs'', groups = [''ebpf''],
      commands = [''PROG_LOAD'', ''MAP_CREATE'', ''MAP_LOOKUP_ELEM'', ''MAP_UPDATE_ELEM'',
        ''MAP_DELETE_ELEM'', ''MAP_GET_NEXT_KEY'', ''LINK_CREATE'', ''OBJ_PIN'', ''OBJ_GET'',
        ''OBJ_GET_INFO_BY_FD'', ''BTF_LOAD''],
      prog_types = [(''kprobe'', [''load'', ''attach'']), (''kretprobe'', [''load'',
        ''attach'']), (''uprobe'', [''load'', ''attach'']), (''uretprobe'', [''load'',
        ''attach'']), (''tracepoint'', [''load'', ''attach'']), (''raw_tracepoint'', [''load'',
        ''attach'']), (''perf_event'', [''load'', ''attach'']), (''fentry'', [''load'',
        ''attach'']), (''fexit'', [''load'', ''attach''])],
      map_types = [(''hash'', [''create'', ''read'', ''write'']), (''percpu_hash'', [''create'',
        ''read'', ''write'']), (''array'', [''create'', ''read'', ''write'']),
        (''percpu_array'', [''create'', ''read'', ''write'']), (''perf_event_array'',
        [''create'', ''read'']), (''ringbuf'', [''create'', ''read'']), (''stack_trace'',
        [''create'', ''read''])]\<rparr>"

definition shipped_net_role :: Role where
  "shipped_net_role =
     \<lparr>description = Some ''Networking programs'', groups = [''ebpf-net''],
      commands = [''PROG_LOAD'', ''MAP_CREATE'', ''MAP_LOOKUP_ELEM'', ''MAP_UPDATE_ELEM'',
        ''MAP_DELETE_ELEM'', ''MAP_GET_NEXT_KEY'', ''LINK_CREATE'', ''OBJ_PIN'', ''OBJ_GET'',
        ''OBJ_GET_INFO_BY_FD'', ''BTF_LOAD'', ''PROG_ATTACH'', ''PROG_DETACH''],
      prog_types = [(''xdp'', [''load'', ''attach'', ''detach'']), (''sched_cls'', [''load'',
        ''attach'', ''detach'']), (''sched_act'', [''load'', ''attach'', ''detach'']),
        (''socket_filter'', [''load'', ''attach'']), (''sk_skb'', [''load'', ''attach'']),
        (''sk_msg'', [''load'', ''attach'']), (''sock_ops'', [''load'', ''attach''])],
      map_types = [(''hash'', [''create'', ''read'', ''write'']), (''percpu_hash'', [''create'',
        ''read'', ''write'']), (''array'', [''create'', ''read'', ''write'']),
        (''percpu_array'', [''create'', ''read'', ''write'']), (''lru_hash'', [''create'',
        ''read'', ''write'']), (''lru_percpu_hash'', [''create'', ''read'', ''write'']),
        (''devmap'', [''create'', ''read'', ''write'']), (''devmap_hash'', [''create'',
        ''read'', ''write'']), (''cpumap'', [''create'', ''read'', ''write'']), (''xskmap'',
        [''create'', ''read'', ''write'']), (''sockmap'', [''create'', ''read'', ''write'']),
        (''sockhash'', [''create'', ''read'', ''write''])]\<rparr>"

definition shipped_admin_role :: Role where
  "shipped_admin_role =
     \<lparr>description = Some ''Full BPF access for administrators'', groups = [''ebpf-admin'', ''wheel''],
      commands = [''any''],
      prog_types = [(''any'', [''any''])],
      map_types = [(''any'', [''any''])]\<rparr>"

definition shipped_policy :: Policy where
  "shipped_policy =
     \<lparr>config = \<lparr>system_policy = Some shipped_system,
        config_roles = [(''ebpf'', shipped_tracing_role), (''ebpf-net'', shipped_net_role),
          (''ebpf-admin'', shipped_admin_role)]\<rparr>\<rparr>"

lemma default_tables:
  "hm_get default_ebpf_progs t =
     (if t \<in> {''kprobe'', ''uprobe'', ''tracepoint'', ''perf_event'', ''raw_tracepoint''}
      then Some [''load'', ''attach''] else None)"
  "hm_get default_ebpf_maps t =
     (if t \<in> {''hash'', ''array''} then Some [''create'', ''read'', ''write'']
      else if t \<in> {''perf_event_array'', ''ringbuf''} then Some [''create'', ''read''] else None)"
  "hm_get default_net_progs t =
     (if t \<in> {''xdp'', ''sched_cls''} then Some [''load'', ''attach'', ''detach'']
      else if t = ''socket_filter'' then Some [''load'', ''attach''] else None)"
  "hm_get default_net_maps t =
     (if t \<in> {''hash'', ''array'', ''devmap'', ''lru_hash''}
      then Some [''create'', ''read'', ''write''] else None)"
  by (auto simp: default_ebpf_progs_def default_ebpf_maps_def default_net_progs_def
      default_net_maps_def Let_def hm_get_insert) (simp_all add: hm_get_def)

lemma default_roles:
  "hm_get (roles Policy_default) n =
     (if n = ''ebpf'' then Some default_ebpf_role
      else if n = ''ebpf-net'' then Some default_net_role
      else if n = ''ebpf-admin'' then Some default_admin_role else None)"
  by (auto simp: Policy_default_def roles_def Let_def hm_get_insert) (simp add: hm_get_def)

lemma default_no_system [simp]:
  "system_commands Policy_default = UNIV" "system_prog_ops Policy_default = UNIV"
  "system_map_ops Policy_default = UNIV"
  by (simp_all add: Policy_default_def system_commands_def system_prog_ops_def system_map_ops_def
      Let_def)

lemma default_wf: "hm_wf (roles Policy_default)"
  by (simp add: Policy_default_def roles_def Let_def)

lemma granted_ops_no_any:
  "hm_get m ''any'' = None \<Longrightarrow> (t, op) \<in> granted_ops m \<longleftrightarrow>
     (\<exists>ops. hm_get m t = Some ops \<and> op \<in> granted ops)"
  using contains_key_iff [of m "''any''"] by (simp add: granted_ops_def contains_key_def)

lemma granted_admin:
  "granted (commands default_admin_role) = UNIV"
  "granted_ops (prog_types default_admin_role) = UNIV"
  "granted_ops (map_types default_admin_role) = UNIV"
  by (simp_all add: default_admin_role_def granted_def granted_ops_def keys_def hm_insert_def
      hm_get_def)

lemma default_tracing_creates_hash:
  "is_allowed Policy_default ''ebpf'' (CreateMap ''hash'' name ks vs me)"
  by (simp add: is_allowed_iff default_roles default_ebpf_role_def granted_def granted_ops_no_any
      default_tables)

lemma default_tracing_creates:
  "t \<in> {''hash'', ''array''} \<Longrightarrow> is_allowed Policy_default ''ebpf'' (CreateMap t name ks vs me)"
  by (auto simp: is_allowed_iff default_roles default_ebpf_role_def granted_def granted_ops_no_any
      default_tables)

lemma default_tracing_no_devmap:
  "\<not> is_allowed Policy_default ''ebpf'' (CreateMap ''devmap'' name ks vs me)"
  by (simp add: is_allowed_iff default_roles default_ebpf_role_def granted_def granted_ops_no_any
      default_tables)

text \<open>
  C27: the built-in policy, decided for every request. The tracing role may load five program types
  and create four map types and may not attach; the networking role may load and attach three
  program types and create four map types; the administrator may do everything; any other role
  name is refused.
\<close>

theorem default_policy_decisions:
  "is_allowed Policy_default name req \<longleftrightarrow>
     name = ''ebpf-admin'' \<or>
     (name = ''ebpf'' \<and>
       (case req of
          LoadProgram t _ _ \<Rightarrow>
            t \<in> {''kprobe'', ''uprobe'', ''tracepoint'', ''perf_event'', ''raw_tracepoint''}
        | CreateMap t _ _ _ _ \<Rightarrow> t \<in> {''hash'', ''array'', ''perf_event_array'', ''ringbuf''}
        | Attach _ _ _ \<Rightarrow> False)) \<or>
     (name = ''ebpf-net'' \<and>
       (case req of
          LoadProgram t _ _ \<Rightarrow> t \<in> {''xdp'', ''sched_cls'', ''socket_filter''}
        | CreateMap t _ _ _ _ \<Rightarrow> t \<in> {''hash'', ''array'', ''devmap'', ''lru_hash''}
        | Attach t _ _ \<Rightarrow> t \<in> {''xdp'', ''sched_cls'', ''socket_filter''}))"
proof -
  have admin: "is_allowed Policy_default ''ebpf-admin'' req"
    by (cases req) (simp_all add: is_allowed_iff default_roles granted_admin)
  have ebpf: "is_allowed Policy_default ''ebpf'' req \<longleftrightarrow>
      (case req of
          LoadProgram t _ _ \<Rightarrow>
            t \<in> {''kprobe'', ''uprobe'', ''tracepoint'', ''perf_event'', ''raw_tracepoint''}
        | CreateMap t _ _ _ _ \<Rightarrow> t \<in> {''hash'', ''array'', ''perf_event_array'', ''ringbuf''}
        | Attach _ _ _ \<Rightarrow> False)"
    by (cases req) (simp_all add: is_allowed_iff default_roles default_ebpf_role_def granted_def
        granted_ops_no_any default_tables)
  have net: "is_allowed Policy_default ''ebpf-net'' req \<longleftrightarrow>
      (case req of
          LoadProgram t _ _ \<Rightarrow> t \<in> {''xdp'', ''sched_cls'', ''socket_filter''}
        | CreateMap t _ _ _ _ \<Rightarrow> t \<in> {''hash'', ''array'', ''devmap'', ''lru_hash''}
        | Attach t _ _ \<Rightarrow> t \<in> {''xdp'', ''sched_cls'', ''socket_filter''})"
    by (cases req) (simp_all add: is_allowed_iff default_roles default_net_role_def granted_def
        granted_ops_no_any default_tables)
  show ?thesis
  proof (cases "name \<in> {''ebpf'', ''ebpf-net'', ''ebpf-admin''}")
    case True
    with admin ebpf net show ?thesis by fastforce
  next
    case False
    then show ?thesis by (simp add: is_allowed_iff default_roles)
  qed
qed

lemma default_role_for_groups:
  "get_role_for_groups Policy_default gs =
     (if ''ebpf-admin'' \<in> set gs then Some ''ebpf-admin''
      else if ''ebpf-net'' \<in> set gs then Some ''ebpf-net''
      else if ''ebpf'' \<in> set gs then Some ''ebpf'' else None)"
proof -
  have holds: "holds_role Policy_default gs n \<longleftrightarrow>
      n \<in> {''ebpf'', ''ebpf-net'', ''ebpf-admin''} \<and> n \<in> set gs" for n
    by (auto simp: holds_role_def default_roles role_matches_def default_ebpf_role_def
        default_net_role_def default_admin_role_def)
  show ?thesis
  proof (cases "get_role_for_groups Policy_default gs")
    case None
    then show ?thesis
      using get_role_None [OF default_wf, of gs] by (auto simp: holds)
  next
    case (Some n)
    with get_role_Some [OF default_wf] have "holds_role Policy_default gs n" .
    then show ?thesis
      by (auto simp: get_role_priority holds)
  qed
qed

text \<open>
  Under the built-in policy a user gets a role exactly through the group of the same name, and
  the most powerful one that applies.
\<close>

theorem default_policy_roles:
  "get_role_for_groups Policy_default gs =
     (if ''ebpf-admin'' \<in> set gs then Some ''ebpf-admin''
      else if ''ebpf-net'' \<in> set gs then Some ''ebpf-net''
      else if ''ebpf'' \<in> set gs then Some ''ebpf'' else None)"
  by (rule default_role_for_groups)

text \<open>
  The bitmaps of the built-in roles, as numbers. These are the values that reach the kernel.
\<close>

theorem default_policy_bitmaps:
  "commands_bitmap Policy_default default_ebpf_role = 0x10040027 \<and>
   prog_types_bitmap Policy_default default_ebpf_role = 0x000200A4 \<and>
   map_types_bitmap Policy_default default_ebpf_role = 0x08000016 \<and>
   commands_bitmap Policy_default default_net_role = 0x10040127 \<and>
   prog_types_bitmap Policy_default default_net_role = 0x0000004A \<and>
   map_types_bitmap Policy_default default_net_role = 0x00004206 \<and>
   commands_bitmap Policy_default default_admin_role = 0xFFFFFFFF \<and>
   prog_types_bitmap Policy_default default_admin_role = 0xFFFFFFFF \<and>
   map_types_bitmap Policy_default default_admin_role = 0xFFFFFFFF"
proof (intro conjI)
  show "commands_bitmap Policy_default default_ebpf_role = 0x10040027"
    by code_simp
  show "prog_types_bitmap Policy_default default_ebpf_role = 0x000200A4"
    by code_simp
  show "map_types_bitmap Policy_default default_ebpf_role = 0x08000016"
    by code_simp
  show "commands_bitmap Policy_default default_net_role = 0x10040127"
    by code_simp
  show "prog_types_bitmap Policy_default default_net_role = 0x0000004A"
    by code_simp
  show "map_types_bitmap Policy_default default_net_role = 0x00004206"
    by code_simp
  show "commands_bitmap Policy_default default_admin_role = 0xFFFFFFFF"
    by code_simp
  show "prog_types_bitmap Policy_default default_admin_role = 0xFFFFFFFF"
    by code_simp
  show "map_types_bitmap Policy_default default_admin_role = 0xFFFFFFFF"
    by code_simp
qed

text \<open>
  C38: with the shipped configuration the administrator's bitmaps exceed the system policy. The
  checks of the engine refuse loading an LSM program and the command \<open>PROG_TEST_RUN\<close>, which the
  system policy does not list, but the bitmaps meant for the kernel grant both.
\<close>

theorem shipped_admin_bitmaps_exceed_system:
  "hm_get (roles shipped_policy) ''ebpf-admin'' = Some shipped_admin_role \<and>
   \<not> is_prog_op_allowed shipped_policy shipped_admin_role ''lsm'' ''load'' \<and>
   prog_type_to_bit ''lsm'' = Some 29 \<and>
   bit (prog_types_bitmap shipped_policy shipped_admin_role) 29 \<and>
   \<not> is_command_allowed shipped_policy shipped_admin_role ''PROG_TEST_RUN'' \<and>
   command_to_bit ''PROG_TEST_RUN'' = Some 10 \<and>
   bit (commands_bitmap shipped_policy shipped_admin_role) 10"
proof (intro conjI)
  have "prog_types_bitmap shipped_policy shipped_admin_role = 0xFFFFFFFF"
    "commands_bitmap shipped_policy shipped_admin_role = 0xFFFFFFFF"
    by (simp_all add: bitmaps_capped capped_bitmap_def shipped_admin_role_def keys_def)
  then show "bit (prog_types_bitmap shipped_policy shipped_admin_role) 29"
    "bit (commands_bitmap shipped_policy shipped_admin_role) 10"
    by (simp_all only: bit_ones)
  show "\<not> is_prog_op_allowed shipped_policy shipped_admin_role ''lsm'' ''load''"
    by (simp add: is_prog_op_allowed_def check_type_op_def hm_get_def shipped_policy_def
        shipped_system_def)
  show "\<not> is_command_allowed shipped_policy shipped_admin_role ''PROG_TEST_RUN''"
    by (simp add: is_command_allowed_def shipped_policy_def shipped_system_def)
qed (simp_all add: shipped_policy_def roles_def hm_get_def prog_type_to_bit_def prog_type_arms_def
    command_to_bit_def command_arms_def)

end
