(* ===== verification/Proxy_Daemon.thy ===== *)
theory Proxy_Daemon
  imports Default_Policy Rust_Text
begin

text \<open>
  The daemon of \<open>src/main.rs\<close> in proxy mode: identifying a client by its socket credentials,
  resolving its role, deciding its request, executing it and answering. The C library, the kernel
  and the socket are the records \<open>host\<close> and \<open>connection\<close>; the serializer is the record \<open>codec\<close>.
  The effects of a handler are its list of \<open>effect\<close>s and the daemon's table of open descriptors.
\<close>

section \<open>Environment\<close>

record passwd_entry =
  pw_name :: string
  pw_gid :: u32

text \<open>The attribute block of \<open>BPF_MAP_CREATE\<close> that \<open>create_bpf_map\<close> fills.\<close>

record BpfAttr =
  attr_map_type :: u32
  attr_key_size :: u32
  attr_value_size :: u32
  attr_max_entries :: u32
  attr_map_flags :: u32
  attr_inner_map_fd :: u32
  attr_numa_node :: u32
  attr_map_name :: "u8 list"
  attr_map_ifindex :: u32
  attr_btf_fd :: u32
  attr_btf_key_type_id :: u32
  attr_btf_value_type_id :: u32
  attr_btf_vmlinux_value_type_id :: u32
  attr_map_extra :: u64

record host =
  user_from_uid :: "u32 \<Rightarrow> passwd_entry option result"
  group_from_gid :: "u32 \<Rightarrow> string option result"
  getgrouplist :: "string \<Rightarrow> u32 \<Rightarrow> u32 list result"
  sys_bpf :: "i32 list \<Rightarrow> i32 \<Rightarrow> BpfAttr \<Rightarrow> nat \<Rightarrow> i64 \<times> i32 list"
  last_os_error :: string
  debug_str :: "string \<Rightarrow> string"

text \<open>
  \<open>sys_bpf\<close> maps the daemon's open descriptors and the arguments of the system call to its return
  value and the descriptors open afterwards. \<open>debug_str\<close> is \<open>{:?}\<close> on \<open>str\<close>.

  A connection answers each operation on the socket once: the conversions, the credentials, the
  bytes one \<open>read\<close> into a buffer of the given size returns, and whether sending succeeds. The operations
  that are awaited need not return: a client may keep its connection open and send nothing, or not take
  the answer off a full buffer (\<open>read_returns\<close>, \<open>write_returns\<close>). The other fields say what an
  operation returns when it does.
\<close>

record connection =
  into_std :: "unit result"
  peer_uid :: "u32 result"
  set_nonblocking :: "unit result"
  from_std :: "unit result"
  read_bytes :: "nat \<Rightarrow> u8 list result"
  sendmsg :: "unit result"
  write_all :: "unit result"
  read_returns :: bool
  write_returns :: bool

record codec =
  ser_request :: "Request \<Rightarrow> u8 list result"
  de_request :: "u8 list \<Rightarrow> Request result"
  ser_response :: "Response \<Rightarrow> u8 list result"
  de_response :: "u8 list \<Rightarrow> Response result"

datatype effect =
    BpfCall i32 BpfAttr
  | SendFd i32 "u8 list"
  | WriteAll "u8 list"

section \<open>Groups of a user\<close>

fun add_groups :: "host \<Rightarrow> u32 list \<Rightarrow> string list \<Rightarrow> string list" where
  "add_groups h [] gs = gs"
| "add_groups h (gid # gids) gs =
     add_groups h gids
       (case group_from_gid h gid of
          Inr (Some name) \<Rightarrow> if name \<in> set gs then gs else gs @ [name]
        | _ \<Rightarrow> gs)"

definition get_user_groups :: "host \<Rightarrow> u32 \<Rightarrow> string list result" where
  "get_user_groups h uid =
     (case user_from_uid h uid of
        Inl e \<Rightarrow> Inl e
      | Inr None \<Rightarrow> Inl (Msg ''User not found'')
      | Inr (Some user) \<Rightarrow>
          (let gs = (case group_from_gid h (pw_gid user) of
                       Inr (Some name) \<Rightarrow> [name] | _ \<Rightarrow> [])
           in if CHR 0x00 \<in> set (pw_name user)
              then Inl (Msg (''nul byte found in provided data at position: '' @
                show_nat (length (takeWhile (\<lambda>c. c \<noteq> CHR 0x00) (pw_name user)))))
              else (case getgrouplist h (pw_name user) (pw_gid user) of
                      Inr group_list \<Rightarrow> Inr (add_groups h group_list gs)
                    | Inl _ \<Rightarrow> Inr gs)))"

section \<open>Execution\<close>

definition supported_map_types :: "(string \<times> u32) list" where
  "supported_map_types =
     [(''hash'', 1), (''array'', 2), (''perf_event_array'', 4), (''lru_hash'', 9),
      (''ringbuf'', 27)]"

definition map_name_bytes :: "string \<Rightarrow> u8 list" where
  "map_name_bytes name =
     (let name_bytes = replicate 16 0;
          bytes = as_bytes name;
          len = min (length bytes) 15
      in take len bytes @ drop len name_bytes)"

text \<open>\<open>size_of\<close> from the sizes and alignments of the fields.\<close>

definition BpfAttr_size :: nat where
  "BpfAttr_size =
     (let end_off = layout_end 0 (replicate 7 (4, 4) @ [(16, 1)] @ replicate 5 (4, 4) @ [(8, 8)])
      in (end_off + 8 - 1) div 8 * 8)"

definition create_bpf_map ::
    "host \<Rightarrow> string \<Rightarrow> string \<Rightarrow> u32 \<Rightarrow> u32 \<Rightarrow> u32 \<Rightarrow> i32 list \<Rightarrow>
     i32 result \<times> i32 list \<times> effect list" where
  "create_bpf_map h mtype name ksize vsize entries fds =
     (case map_of supported_map_types mtype of
        None \<Rightarrow> (Inl (Msg (''Unsupported map type: '' @ mtype)), fds, [])
      | Some map_type_num \<Rightarrow>
          (let attr = \<lparr>attr_map_type = map_type_num, attr_key_size = ksize,
                 attr_value_size = vsize, attr_max_entries = entries, attr_map_flags = 0,
                 attr_inner_map_fd = 0, attr_numa_node = 0, attr_map_name = map_name_bytes name,
                 attr_map_ifindex = 0, attr_btf_fd = 0, attr_btf_key_type_id = 0,
                 attr_btf_value_type_id = 0, attr_btf_vmlinux_value_type_id = 0,
                 attr_map_extra = 0\<rparr>;
               (fd, fds') = sys_bpf h fds 0 attr BpfAttr_size
           in if sint fd < 0
              then (Inl (Msg (''BPF_MAP_CREATE failed: '' @ last_os_error h)), fds', [BpfCall 0 attr])
              else (Inr (word_of_int (sint fd)), fds', [BpfCall 0 attr])))"

definition execute_bpf ::
    "host \<Rightarrow> Request \<Rightarrow> i32 list \<Rightarrow> i32 result \<times> i32 list \<times> effect list" where
  "execute_bpf h request fds =
     (case request of
        CreateMap mtype name ksize vsize entries \<Rightarrow>
          create_bpf_map h mtype name ksize vsize entries fds
      | LoadProgram _ _ _ \<Rightarrow> (Inl (Msg ''Program loading not implemented in demo''), fds, [])
      | Attach _ _ _ \<Rightarrow> (Inl (Msg ''Attach not implemented in demo''), fds, []))"

section \<open>The client handler\<close>

text \<open>\<open>{:?}\<close> on a request, as derived.\<close>

definition debug_request :: "host \<Rightarrow> Request \<Rightarrow> string" where
  "debug_request h request =
     (case request of
        LoadProgram t path name \<Rightarrow>
          ''LoadProgram { prog_type: '' @ debug_str h t @ '', object_path: '' @ debug_str h path @
          '', program_name: '' @ debug_str h name @ '' }''
      | CreateMap t name ks vs me \<Rightarrow>
          ''CreateMap { map_type: '' @ debug_str h t @ '', name: '' @ debug_str h name @
          '', key_size: '' @ show_u32 ks @ '', value_size: '' @ show_u32 vs @
          '', max_entries: '' @ show_u32 me @ '' }''
      | Attach t f tgt \<Rightarrow>
          ''Attach { attach_type: '' @ debug_str h t @ '', prog_fd: '' @ show_i32 f @
          '', target: '' @ debug_str h tgt @ '' }'')"

text \<open>Lines 64 to 83: who is connected, and with which role.\<close>

definition authenticate :: "host \<Rightarrow> connection \<Rightarrow> Policy \<Rightarrow> string option result" where
  "authenticate h conn policy =
     (case into_std conn of Inl e \<Rightarrow> Inl e | Inr _ \<Rightarrow>
     (case peer_uid conn of Inl e \<Rightarrow> Inl e | Inr uid \<Rightarrow>
     (case get_user_groups h uid of Inl e \<Rightarrow> Inl e | Inr gs \<Rightarrow>
        let role = get_role_for_groups policy gs in
     (case set_nonblocking conn of Inl e \<Rightarrow> Inl e | Inr _ \<Rightarrow>
     (case from_std conn of Inl e \<Rightarrow> Inl e | Inr _ \<Rightarrow> Inr role)))))"

text \<open>Lines 86 to 92: the request, or \<open>None\<close> if the client sent nothing.\<close>

definition read_request :: "codec \<Rightarrow> connection \<Rightarrow> Request option result" where
  "read_request b conn =
     (case read_bytes conn 4096 of
        Inl e \<Rightarrow> Inl e
      | Inr buf \<Rightarrow>
          if length buf = 0 then Inr None
          else (case de_request b buf of Inl e \<Rightarrow> Inl e | Inr request \<Rightarrow> Inr (Some request)))"

text \<open>Lines 96 to 121: authorization and execution.\<close>

definition decide ::
    "host \<Rightarrow> Policy \<Rightarrow> string option \<Rightarrow> Request \<Rightarrow> i32 list \<Rightarrow> Response \<times> i32 list \<times> effect list" where
  "decide h policy role request fds =
     (case role of
        Some role_name \<Rightarrow>
          if is_allowed policy role_name request
          then (case execute_bpf h request fds of
                  (Inr fd, fds', effs) \<Rightarrow> (Success (Some fd), fds', effs)
                | (Inl e, fds', effs) \<Rightarrow> (Error (to_string e), fds', effs))
          else (Denied (''Role '' @ [CHR 0x27] @ role_name @ [CHR 0x27] @ '' not allowed for '' @
                  debug_request h request), fds, [])
      | None \<Rightarrow> (Denied ''User not in any BPF RBAC group'', fds, []))"

text \<open>Lines 125 to 134 and \<open>send_fd_with_data\<close>: the answer.\<close>

definition send_fd_with_data :: "connection \<Rightarrow> i32 \<Rightarrow> u8 list \<Rightarrow> unit result \<times> effect list" where
  "send_fd_with_data conn fd data = (sendmsg conn, [SendFd fd data])"

definition reply :: "codec \<Rightarrow> connection \<Rightarrow> Response \<Rightarrow> unit result \<times> effect list" where
  "reply b conn response =
     (case response of
        Success (Some fd) \<Rightarrow>
          (case ser_response b response of
             Inl e \<Rightarrow> (Inl e, [])
           | Inr bytes \<Rightarrow> send_fd_with_data conn fd bytes)
      | _ \<Rightarrow>
          (case ser_response b response of
             Inl e \<Rightarrow> (Inl e, [])
           | Inr bytes \<Rightarrow> (write_all conn, [WriteAll bytes])))"

text \<open>The handler of a client whose awaited operations return; the others are treated with the tasks.\<close>

definition handle_client ::
    "host \<Rightarrow> codec \<Rightarrow> connection \<Rightarrow> Policy \<Rightarrow> i32 list \<Rightarrow> unit result \<times> i32 list \<times> effect list" where
  "handle_client h b conn policy fds =
     (case authenticate h conn policy of
        Inl e \<Rightarrow> (Inl e, fds, [])
      | Inr role \<Rightarrow>
          (case read_request b conn of
             Inl e \<Rightarrow> (Inl e, fds, [])
           | Inr None \<Rightarrow> (Inr (), fds, [])
           | Inr (Some request) \<Rightarrow>
               (let (response, fds', effs) = decide h policy role request fds;
                    (result, effs') = reply b conn response
                in (result, fds', effs @ effs'))))"

section \<open>Start-up\<close>

definition load_or_default ::
    "(string \<Rightarrow> string result) \<Rightarrow> (string \<Rightarrow> PolicyConfig result) \<Rightarrow> Policy" where
  "load_or_default read_to_string from_str =
     (case Policy_load read_to_string from_str ''/etc/bpf-rbac/policy.yaml'' of
        Inr policy \<Rightarrow> policy
      | Inl _ \<Rightarrow> Policy_default)"

section \<open>What the handler relies on\<close>

text \<open>
  \<open>bpf(2)\<close> opens a new descriptor when it succeeds and none when it fails; it closes none.
\<close>

locale bpf_kernel =
  fixes h :: host
  assumes bpf_fails: "sys_bpf h fds cmd attr n = (r, fds') \<Longrightarrow> sint r < 0 \<Longrightarrow> fds' = fds"
    and bpf_opens: "sys_bpf h fds cmd attr n = (r, fds') \<Longrightarrow> 0 \<le> sint r \<Longrightarrow>
        fds' = word_of_int (sint r) # fds \<and> word_of_int (sint r) \<notin> set fds"

text \<open>The serializer reads back what it wrote.\<close>

locale wire_codec =
  fixes b :: codec
  assumes request_back: "ser_request b req = Inr bytes \<Longrightarrow> de_request b bytes = Inr req"
    and response_back: "ser_response b resp = Inr bytes \<Longrightarrow> de_response b bytes = Inr resp"

section \<open>Facts on the parts of the handler\<close>

lemma create_bpf_map_effect:
  assumes "create_bpf_map h t name ks vs me fds = (r, fds', effs)" and "e \<in> set effs"
  shows "\<exists>attr n. e = BpfCall 0 attr \<and> map_of supported_map_types t = Some n \<and>
     attr_map_type attr = n \<and> attr_key_size attr = ks \<and> attr_value_size attr = vs \<and>
     attr_max_entries attr = me \<and> attr_map_name attr = map_name_bytes name"
  using assms
  by (auto simp: create_bpf_map_def Let_def split: option.splits prod.splits if_splits)

lemma execute_bpf_effect:
  assumes "execute_bpf h req fds = (r, fds', effs)" and "e \<in> set effs"
  shows "\<exists>t name ks vs me attr n. req = CreateMap t name ks vs me \<and> e = BpfCall 0 attr \<and>
     map_of supported_map_types t = Some n \<and> attr_map_type attr = n \<and> attr_key_size attr = ks \<and>
     attr_value_size attr = vs \<and> attr_max_entries attr = me \<and>
     attr_map_name attr = map_name_bytes name"
  using assms create_bpf_map_effect
  by (cases req) (fastforce simp: execute_bpf_def)+

lemma decide_effect:
  assumes "decide h p role req fds = (resp, fds', effs)" and "effs \<noteq> [] \<or> fds' \<noteq> fds"
  shows "\<exists>name r. role = Some name \<and> is_allowed p name req \<and> execute_bpf h req fds = (r, fds', effs)"
  using assms by (auto simp: decide_def split: option.splits if_splits prod.splits sum.splits)

lemma reply_effects:
  "reply b conn resp = (r, effs) \<Longrightarrow>
     effs = (case ser_response b resp of
        Inl _ \<Rightarrow> []
      | Inr bytes \<Rightarrow> (case resp of Success (Some fd) \<Rightarrow> [SendFd fd bytes] | _ \<Rightarrow> [WriteAll bytes]))"
  by (auto simp: reply_def send_fd_with_data_def split: Response.splits option.splits sum.splits)

lemma handle_client_cases:
  obtains (early) r where "handle_client h b conn p fds = (r, fds, [])"
  | (served) role req resp fds' effs r effs' where
      "authenticate h conn p = Inr role" "read_request b conn = Inr (Some req)"
      "decide h p role req fds = (resp, fds', effs)" "reply b conn resp = (r, effs')"
      "handle_client h b conn p fds = (r, fds', effs @ effs')"
proof (cases "\<exists>role req. authenticate h conn p = Inr role \<and> read_request b conn = Inr (Some req)")
  case True
  then obtain role req where a: "authenticate h conn p = Inr role"
    and q: "read_request b conn = Inr (Some req)"
    by blast
  obtain resp fds' effs where d: "decide h p role req fds = (resp, fds', effs)"
    by (cases "decide h p role req fds")
  obtain r effs' where t: "reply b conn resp = (r, effs')"
    by (cases "reply b conn resp")
  from served [OF a q d t] a q d t show thesis
    by (simp add: handle_client_def)
next
  case False
  then have "\<exists>r. handle_client h b conn p fds = (r, fds, [])"
    by (auto simp: handle_client_def split: sum.splits option.splits)
  with early show thesis by blast
qed

lemma authenticate_role:
  assumes "authenticate h conn p = Inr role"
  shows "\<exists>uid gs. peer_uid conn = Inr uid \<and> get_user_groups h uid = Inr gs \<and>
     role = get_role_for_groups p gs"
  using assms by (auto simp: authenticate_def Let_def split: sum.splits)

lemma add_groups_set:
  "set (add_groups h gids gs) = set gs \<union> {n. \<exists>gid\<in>set gids. group_from_gid h gid = Inr (Some n)}"
  by (induction gids arbitrary: gs) (auto split: sum.splits option.splits)

lemma add_groups_distinct: "distinct gs \<Longrightarrow> distinct (add_groups h gids gs)"
  by (induction gids arbitrary: gs) (auto split: sum.splits option.splits)

end
