(* ===== verification/Bincode_Format.thy ===== *)
theory Bincode_Format
  imports Proxy_Daemon Byte_Words
begin

text \<open>
  A codec that satisfies the contract \<open>wire_codec\<close>: the documented default format of bincode 1
  (little-endian integers of fixed width, a \<open>u32\<close> variant index for an enum, a \<open>u64\<close> length before
  the bytes of a string, one byte before an \<open>Option\<close>; trailing bytes are ignored). The handlers do
  not depend on it; it shows that the contract can be met and gives the examples concrete messages.
\<close>

section \<open>Reading\<close>

type_synonym 'a reader = "u8 list \<Rightarrow> ('a \<times> u8 list) option"

definition read_nat :: "nat \<Rightarrow> nat reader" where
  "read_nat n bs = (if length bs < n then None else Some (le_value (take n bs), drop n bs))"

definition read_word :: "u32 reader" where
  "read_word bs = map_option (\<lambda>(v, rest). (of_nat v, rest)) (read_nat 4 bs)"

definition read_string :: "string reader" where
  "read_string bs =
     (case read_nat 8 bs of
        None \<Rightarrow> None
      | Some (n, rest) \<Rightarrow>
          if length rest < n then None else Some (from_bytes (take n rest), drop n rest))"

definition write_word :: "u32 \<Rightarrow> u8 list" where
  "write_word w = le_bytes 4 (unat w)"

definition write_string :: "string \<Rightarrow> u8 list" where
  "write_string s = le_bytes 8 (length s) @ as_bytes s"

lemma read_nat_le_bytes: "v < 256 ^ n \<Longrightarrow> read_nat n (le_bytes n v @ rest) = Some (v, rest)"
  by (simp add: read_nat_def le_value_le_bytes)

lemma read_word_write [simp]: "read_word (write_word w @ rest) = Some (w, rest)"
proof -
  have "unat w < 256 ^ 4"
    using unsigned_less [of w, where ?'a = nat] by simp
  then show ?thesis
    by (simp add: read_word_def write_word_def read_nat_le_bytes)
qed

lemma read_string_write [simp]:
  "length s < 2 ^ 64 \<Longrightarrow> read_string (write_string s @ rest) = Some (s, rest)"
  by (simp add: read_string_def write_string_def read_nat_le_bytes)

section \<open>The messages\<close>

fun request_strings :: "Request \<Rightarrow> string list" where
  "request_strings (LoadProgram t path name) = [t, path, name]"
| "request_strings (CreateMap t name _ _ _) = [t, name]"
| "request_strings (Attach t _ tgt) = [t, tgt]"

fun write_request :: "Request \<Rightarrow> u8 list" where
  "write_request (LoadProgram t path name) =
     write_word 0 @ write_string t @ write_string path @ write_string name"
| "write_request (CreateMap t name ks vs me) =
     write_word 1 @ write_string t @ write_string name @ write_word ks @ write_word vs @ write_word me"
| "write_request (Attach t f tgt) =
     write_word 2 @ write_string t @ write_word f @ write_string tgt"

definition read_request_bytes :: "u8 list \<Rightarrow> Request option" where
  "read_request_bytes bs =
     (case read_word bs of None \<Rightarrow> None | Some (tag, bs) \<Rightarrow>
      if tag = 0 then
        (case read_string bs of None \<Rightarrow> None | Some (t, bs) \<Rightarrow>
        (case read_string bs of None \<Rightarrow> None | Some (path, bs) \<Rightarrow>
        (case read_string bs of None \<Rightarrow> None | Some (name, bs) \<Rightarrow> Some (LoadProgram t path name))))
      else if tag = 1 then
        (case read_string bs of None \<Rightarrow> None | Some (t, bs) \<Rightarrow>
        (case read_string bs of None \<Rightarrow> None | Some (name, bs) \<Rightarrow>
        (case read_word bs of None \<Rightarrow> None | Some (ks, bs) \<Rightarrow>
        (case read_word bs of None \<Rightarrow> None | Some (vs, bs) \<Rightarrow>
        (case read_word bs of None \<Rightarrow> None | Some (me, bs) \<Rightarrow> Some (CreateMap t name ks vs me))))))
      else if tag = 2 then
        (case read_string bs of None \<Rightarrow> None | Some (t, bs) \<Rightarrow>
        (case read_word bs of None \<Rightarrow> None | Some (f, bs) \<Rightarrow>
        (case read_string bs of None \<Rightarrow> None | Some (tgt, bs) \<Rightarrow> Some (Attach t f tgt))))
      else None)"

fun response_strings :: "Response \<Rightarrow> string list" where
  "response_strings (Success _) = []"
| "response_strings (Denied s) = [s]"
| "response_strings (Error s) = [s]"

fun write_response :: "Response \<Rightarrow> u8 list" where
  "write_response (Success None) = write_word 0 @ [0]"
| "write_response (Success (Some f)) = write_word 0 @ [1] @ write_word f"
| "write_response (Denied s) = write_word 1 @ write_string s"
| "write_response (Error s) = write_word 2 @ write_string s"

definition read_response_bytes :: "u8 list \<Rightarrow> Response option" where
  "read_response_bytes bs =
     (case read_word bs of None \<Rightarrow> None | Some (tag, bs) \<Rightarrow>
      if tag = 0 then
        (case bs of
           t # bs \<Rightarrow> if t = 0 then Some (Success None)
                     else if t = 1 then map_option (\<lambda>(f, _). Success (Some f)) (read_word bs)
                     else None
         | [] \<Rightarrow> None)
      else if tag = 1 then map_option (\<lambda>(s, _). Denied s) (read_string bs)
      else if tag = 2 then map_option (\<lambda>(s, _). Error s) (read_string bs)
      else None)"

lemma read_request_write:
  "\<forall>s\<in>set (request_strings req). length s < 2 ^ 64 \<Longrightarrow>
     read_request_bytes (write_request req @ rest) = Some req"
  by (cases req) (simp_all add: read_request_bytes_def)

lemma read_response_write:
  "\<forall>s\<in>set (response_strings resp). length s < 2 ^ 64 \<Longrightarrow>
     read_response_bytes (write_response resp @ rest) = Some resp"
  by (cases resp rule: write_response.cases) (simp_all add: read_response_bytes_def)

definition of_option :: "string \<Rightarrow> 'a option \<Rightarrow> 'a result" where
  "of_option msg x = (case x of Some y \<Rightarrow> Inr y | None \<Rightarrow> Inl (Msg msg))"

definition bincode :: codec where
  "bincode =
     \<lparr>ser_request = (\<lambda>req. if list_all (\<lambda>s. length s < 2 ^ 64) (request_strings req)
        then Inr (write_request req) else Inl (Msg ''SizeLimit'')),
      de_request = (\<lambda>bs. of_option ''InvalidEncoding'' (read_request_bytes bs)),
      ser_response = (\<lambda>resp. if list_all (\<lambda>s. length s < 2 ^ 64) (response_strings resp)
        then Inr (write_response resp) else Inl (Msg ''SizeLimit'')),
      de_response = (\<lambda>bs. of_option ''InvalidEncoding'' (read_response_bytes bs))\<rparr>"

interpretation bincode: wire_codec bincode
proof
  show "de_request bincode bytes = Inr req" if "ser_request bincode req = Inr bytes" for req bytes
    using that read_request_write [of req "[]"]
    by (auto simp: bincode_def list_all_iff of_option_def split: if_splits)
  show "de_response bincode bytes = Inr resp" if "ser_response bincode resp = Inr bytes" for resp bytes
    using that read_response_write [of resp "[]"]
    by (auto simp: bincode_def list_all_iff of_option_def split: if_splits)
qed

end
