(* ===== verification/Proxy_Mediation.thy ===== *)
theory Proxy_Mediation
  imports Bincode_Format
begin

text \<open>
  What the proxy daemon guarantees: every system call it makes for a client is authorised, a
  refused client causes none, the descriptor a client receives was created for it, and what the
  daemon keeps open. The examples run the handler on a small host with the built-in policy.
\<close>

section \<open>A host for the examples\<close>

text \<open>
  A small host: one user with a tracing group, and a kernel that hands out the lowest free
  descriptor up to a limit.
\<close>

definition demo_bpf :: "i32 list \<Rightarrow> i32 \<Rightarrow> BpfAttr \<Rightarrow> nat \<Rightarrow> i64 \<times> i32 list" where
  "demo_bpf fds cmd attr n =
     (case find (\<lambda>fd. fd \<notin> set fds) [3, 4, 5, 6, 7] of
        Some fd \<Rightarrow> (word_of_int (sint fd), fd # fds)
      | None \<Rightarrow> (- 1, fds))"

definition demo_host :: host where
  "demo_host =
     \<lparr>user_from_uid = (\<lambda>uid. if uid = 1000 then Inr (Some \<lparr>pw_name = ''alice'', pw_gid = 100\<rparr>)
        else Inr None),
      group_from_gid = (\<lambda>gid. if gid = 100 then Inr (Some ''users'')
        else if gid = 200 then Inr (Some ''ebpf'') else Inr None),
      getgrouplist = (\<lambda>_ gid. Inr [gid, 200]),
      sys_bpf = demo_bpf,
      last_os_error = ''Too many open files (os error 24)'',
      debug_str = (\<lambda>s. [CHR 0x22] @ s @ [CHR 0x22])\<rparr>"

interpretation demo_kernel: bpf_kernel demo_host
proof
  fix fds :: "i32 list" and cmd :: i32 and attr :: BpfAttr and n :: nat and r :: i64
    and fds' :: "i32 list"
  assume call: "sys_bpf demo_host fds cmd attr n = (r, fds')"
  show "fds' = fds" if "sint r < 0"
    using call that
    by (auto simp: demo_host_def demo_bpf_def split: option.splits if_splits)
  show "fds' = word_of_int (sint r) # fds \<and> word_of_int (sint r) \<notin> set fds" if "0 \<le> sint r"
    using call that
    by (auto simp: demo_host_def demo_bpf_def split: option.splits if_splits)
qed

definition demo_conn :: "Request \<Rightarrow> connection" where
  "demo_conn req =
     \<lparr>into_std = Inr (), peer_uid = Inr 1000, set_nonblocking = Inr (), from_std = Inr (),
      read_bytes = (\<lambda>n. Inr (take n (write_request req))), sendmsg = Inr (), write_all = Inr (),
      read_returns = True, write_returns = True\<rparr>"

definition demo_request :: Request where
  "demo_request = CreateMap ''hash'' ''m'' 4 8 16"

lemma length_demo_request: "length (write_request demo_request) = 37"
  by (simp add: demo_request_def write_word_def write_string_def)

lemma demo_authenticate: "authenticate demo_host (demo_conn req) Policy_default = Inr (Some ''ebpf'')"
  by (simp add: authenticate_def demo_conn_def demo_host_def get_user_groups_def
      default_role_for_groups)

lemma demo_read: "read_request bincode (demo_conn demo_request) = Inr (Some demo_request)"
proof -
  have "write_request demo_request \<noteq> []"
    using length_demo_request by auto
  moreover have "de_request bincode (write_request demo_request) = Inr demo_request"
    by (rule bincode.request_back) (simp add: bincode_def demo_request_def)
  ultimately show ?thesis
    by (simp add: read_request_def demo_conn_def length_demo_request)
qed

lemma demo_decide:
  "\<exists>attr. decide demo_host Policy_default (Some ''ebpf'') demo_request [] =
     (Success (Some 3), [3], [BpfCall 0 attr])"
  using default_tracing_creates_hash
  by (simp add: decide_def demo_request_def execute_bpf_def create_bpf_map_def demo_host_def
      demo_bpf_def supported_map_types_def Let_def)

lemma demo_decide_second:
  "\<exists>attr. decide demo_host Policy_default (Some ''ebpf'') demo_request [3] =
     (Success (Some 4), [4, 3], [BpfCall 0 attr])"
  using default_tracing_creates_hash
  by (simp add: decide_def demo_request_def execute_bpf_def create_bpf_map_def demo_host_def
      demo_bpf_def supported_map_types_def Let_def)

lemma demo_handle:
  "\<exists>attr bytes. handle_client demo_host bincode (demo_conn demo_request) Policy_default [] =
     (Inr (), [3], [BpfCall 0 attr, SendFd 3 bytes])"
proof -
  obtain attr where "decide demo_host Policy_default (Some ''ebpf'') demo_request [] =
      (Success (Some 3), [3], [BpfCall 0 attr])"
    using demo_decide by blast
  then show ?thesis
    by (simp add: handle_client_def demo_authenticate demo_read reply_def)
      (simp add: bincode_def demo_conn_def send_fd_with_data_def)
qed

section \<open>Authorisation\<close>

text \<open>
  A \<open>bpf()\<close> call is authorised for a connection if the kernel reports a user for it whose groups
  give a role, the bytes read from it are a request to create a map, the policy allows that role to
  make this request, and the call creates exactly that map.
\<close>

definition authorised :: "host \<Rightarrow> codec \<Rightarrow> Policy \<Rightarrow> connection \<Rightarrow> i32 \<Rightarrow> BpfAttr \<Rightarrow> bool" where
  "authorised h b p conn cmd attr \<longleftrightarrow>
     (\<exists>uid gs role buf t name ks vs me.
        peer_uid conn = Inr uid \<and> get_user_groups h uid = Inr gs \<and>
        get_role_for_groups p gs = Some role \<and>
        read_bytes conn 4096 = Inr buf \<and> de_request b buf = Inr (CreateMap t name ks vs me) \<and>
        is_allowed p role (CreateMap t name ks vs me) \<and>
        cmd = 0 \<and> map_of supported_map_types t = Some (attr_map_type attr) \<and>
        attr_key_size attr = ks \<and> attr_value_size attr = vs \<and> attr_max_entries attr = me \<and>
        attr_map_name attr = map_name_bytes name)"

lemma handle_client_authorised:
  assumes "handle_client h b conn p fds = (r, fds', effs)" and "BpfCall cmd attr \<in> set effs"
  shows "authorised h b p conn cmd attr"
proof (cases rule: handle_client_cases [of h b conn p fds])
  case (early r')
  with assms show ?thesis by simp
next
  case (served role req resp fds1 effs1 r1 effs2)
  have "BpfCall cmd attr \<notin> set effs2"
    using reply_effects [OF served(4)]
    by (auto split: sum.splits Response.splits option.splits)
  with served(5) assms have call: "BpfCall cmd attr \<in> set effs1"
    by simp
  then have "effs1 \<noteq> []" by auto
  with decide_effect [OF served(3)] obtain name r2 where role: "role = Some name"
    and allowed: "is_allowed p name req" and exec: "execute_bpf h req fds = (r2, fds1, effs1)"
    by blast
  obtain uid gs where "peer_uid conn = Inr uid" "get_user_groups h uid = Inr gs"
    "role = get_role_for_groups p gs"
    using authenticate_role [OF served(1)] by blast
  moreover obtain buf where "read_bytes conn 4096 = Inr buf" "de_request b buf = Inr req"
    using served(2) by (auto simp: read_request_def split: sum.splits if_splits)
  ultimately show ?thesis
    using role allowed execute_bpf_effect [OF exec call] unfolding authorised_def by fastforce
qed

text \<open>
  Complete mediation. Every \<open>bpf()\<close> call the handler makes is a \<open>BPF_MAP_CREATE\<close> that the
  client asked for in the request it sent, on behalf of a client whose kernel-reported user has a
  role, through its groups, that the policy allows to make this request; the attributes passed to
  the kernel are those of the request.
\<close>

theorem daemon_complete_mediation:
  assumes "handle_client h b conn p fds = (r, fds', effs)" and "BpfCall cmd attr \<in> set effs"
  shows "\<exists>uid gs role buf t name ks vs me.
     peer_uid conn = Inr uid \<and> get_user_groups h uid = Inr gs \<and>
     get_role_for_groups p gs = Some role \<and>
     read_bytes conn 4096 = Inr buf \<and> de_request b buf = Inr (CreateMap t name ks vs me) \<and>
     is_allowed p role (CreateMap t name ks vs me) \<and>
     cmd = 0 \<and> map_of supported_map_types t = Some (attr_map_type attr) \<and>
     attr_key_size attr = ks \<and> attr_value_size attr = vs \<and> attr_max_entries attr = me \<and>
     attr_map_name attr = map_name_bytes name"
  using handle_client_authorised [OF assms] unfolding authorised_def .

theorem daemon_complete_mediation_witness:
  "\<exists>attr. is_allowed Policy_default ''ebpf'' demo_request \<and> attr_key_size attr = 4 \<and>
     BpfCall 0 attr \<in> set (snd (snd (handle_client demo_host bincode (demo_conn demo_request)
       Policy_default [])))"
proof -
  obtain attr bytes where run: "handle_client demo_host bincode (demo_conn demo_request)
      Policy_default [] = (Inr (), [3], [BpfCall 0 attr, SendFd 3 bytes])"
    using demo_handle by blast
  have "de_request bincode (write_request demo_request) = Inr demo_request"
    by (rule bincode.request_back) (simp add: bincode_def demo_request_def)
  moreover have "read_bytes (demo_conn demo_request) 4096 = Inr (write_request demo_request)"
    by (simp add: demo_conn_def length_demo_request)
  ultimately show ?thesis
    using daemon_complete_mediation [OF run, of 0 attr] run default_tracing_creates_hash
    by (auto simp: demo_request_def)
qed

text \<open>
  A refused client changes nothing. If the client has no role, or its role is not allowed to
  make the request, the handler makes no system call, opens no descriptor, and answers \<open>Denied\<close>.
\<close>

theorem daemon_refusal_is_inert:
  assumes "authenticate h conn p = Inr role" and "read_request b conn = Inr (Some req)"
    and "\<forall>name. role = Some name \<longrightarrow> \<not> is_allowed p name req"
  shows "\<exists>reason. handle_client h b conn p fds =
     (fst (reply b conn (Denied reason)), fds, snd (reply b conn (Denied reason)))"
proof -
  obtain reason where "decide h p role req fds = (Denied reason, fds, [])"
    using assms(3) by (cases role) (simp_all add: decide_def)
  with assms(1,2) have "handle_client h b conn p fds =
      (fst (reply b conn (Denied reason)), fds, snd (reply b conn (Denied reason)))"
    by (simp add: handle_client_def split: prod.splits)
  then show ?thesis ..
qed

theorem daemon_refusal_is_inert_witness:
  "\<exists>reason. handle_client demo_host bincode
       ((demo_conn demo_request)\<lparr>peer_uid := Inr 1000\<rparr>)
       (Policy_default\<lparr>config := \<lparr>system_policy = None, config_roles = []\<rparr>\<rparr>) [5] =
     (fst (reply bincode (demo_conn demo_request) (Denied reason)), [5],
      snd (reply bincode (demo_conn demo_request) (Denied reason)))"
proof -
  let ?p = "Policy_default\<lparr>config := \<lparr>system_policy = None, config_roles = []\<rparr>\<rparr>"
  let ?c = "(demo_conn demo_request)\<lparr>peer_uid := Inr 1000\<rparr>"
  have c: "?c = demo_conn demo_request"
    by (simp add: demo_conn_def)
  have "authenticate demo_host ?c ?p = Inr None"
    by (simp add: authenticate_def demo_conn_def demo_host_def get_user_groups_def
        get_role_for_groups_def priority_roles_def hm_get_def)
  moreover have "read_request bincode ?c = Inr (Some demo_request)"
    using demo_read c by simp
  ultimately show ?thesis
    using daemon_refusal_is_inert [of demo_host ?c ?p None bincode demo_request "[5]"] c by simp
qed

section \<open>Descriptors\<close>

context bpf_kernel
begin

lemma create_bpf_map_fds:
  "create_bpf_map h t name ks vs me fds = (r, fds', effs) \<Longrightarrow>
     (case r of Inr fd \<Rightarrow> fds' = fd # fds \<and> fd \<notin> set fds | Inl _ \<Rightarrow> fds' = fds)"
  by (auto simp: create_bpf_map_def Let_def not_less split: option.splits prod.splits if_splits
      dest: bpf_fails bpf_opens)

lemma decide_fds:
  assumes "decide h p role req fds = (resp, fds', effs)"
  shows "case resp of Success (Some fd) \<Rightarrow> fds' = fd # fds \<and> fd \<notin> set fds | _ \<Rightarrow> fds' = fds"
proof (cases req)
  case (CreateMap t name ks vs me)
  obtain r fds1 effs1 where c: "create_bpf_map h t name ks vs me fds = (r, fds1, effs1)"
    by (cases "create_bpf_map h t name ks vs me fds")
  from create_bpf_map_fds [OF c] assms c CreateMap show ?thesis
    by (auto simp: decide_def execute_bpf_def split: option.splits if_splits sum.splits)
qed (use assms in \<open>auto simp: decide_def execute_bpf_def split: option.splits if_splits\<close>)

lemma handle_client_fds:
  assumes "handle_client h b conn p fds = (r, fds', effs)"
  shows "fds' = fds \<or> (\<exists>fd. fds' = fd # fds \<and> fd \<notin> set fds)"
    and "SendFd fd bytes \<in> set effs \<Longrightarrow> fds' = fd # fds \<and> fd \<notin> set fds"
proof -
  show "fds' = fds \<or> (\<exists>fd. fds' = fd # fds \<and> fd \<notin> set fds)"
  proof (cases rule: handle_client_cases [of h b conn p fds])
    case (served role req resp fds1 effs1 r1 effs2)
    with assms decide_fds [OF served(3)] show ?thesis
      by (auto split: Response.splits option.splits)
  qed (use assms in simp)
  show "fds' = fd # fds \<and> fd \<notin> set fds" if send: "SendFd fd bytes \<in> set effs"
  proof (cases rule: handle_client_cases [of h b conn p fds])
    case (served role req resp fds1 effs1 r1 effs2)
    have "SendFd fd bytes \<notin> set effs1"
      using decide_effect [OF served(3)] execute_bpf_effect by fastforce
    with served(5) assms send have "SendFd fd bytes \<in> set effs2"
      by simp
    with reply_effects [OF served(4)] have "resp = Success (Some fd)"
      by (auto split: sum.splits Response.splits option.splits)
    with decide_fds [OF served(3)] served(5) assms show ?thesis
      by simp
  qed (use assms that in simp)
qed

end

text \<open>
  The descriptor sent to a client is the one that was opened for its request: it was not open
  in the daemon before. Afterwards it stays open in the daemon, for no branch of the handler closes
  a descriptor.
\<close>

theorem daemon_sends_fresh_descriptor:
  assumes "bpf_kernel h" and "handle_client h b conn p fds = (r, fds', effs)"
    and "SendFd fd bytes \<in> set effs"
  shows "fd \<notin> set fds \<and> fds' = fd # fds"
  using bpf_kernel.handle_client_fds(2) [OF assms] by simp

theorem daemon_sends_fresh_descriptor_witness:
  "\<exists>bytes. SendFd 3 bytes \<in> set (snd (snd (handle_client demo_host bincode
      (demo_conn demo_request) Policy_default []))) \<and>
    fst (snd (handle_client demo_host bincode (demo_conn demo_request) Policy_default [])) = 3 # []"
proof -
  obtain attr bytes where run: "handle_client demo_host bincode (demo_conn demo_request)
      Policy_default [] = (Inr (), [3], [BpfCall 0 attr, SendFd 3 bytes])"
    using demo_handle by blast
  with daemon_sends_fresh_descriptor [OF demo_kernel.bpf_kernel_axioms run, of 3 bytes] show ?thesis
    by simp
qed

text \<open>Serving one client after the other.\<close>

fun serve_clients ::
    "host \<Rightarrow> codec \<Rightarrow> Policy \<Rightarrow> connection list \<Rightarrow> i32 list \<Rightarrow> i32 list \<times> effect list" where
  "serve_clients h b p [] fds = (fds, [])"
| "serve_clients h b p (conn # conns) fds =
     (let (r, fds', effs) = handle_client h b conn p fds;
          (fds'', effs') = serve_clients h b p conns fds'
      in (fds'', effs @ effs'))"

definition is_send :: "effect \<Rightarrow> bool" where
  "is_send e = (case e of SendFd _ _ \<Rightarrow> True | _ \<Rightarrow> False)"

lemma handle_client_leak:
  assumes "bpf_kernel h" and "handle_client h b conn p fds = (r, fds', effs)"
  shows "length (filter is_send effs) + length fds \<le> length fds'"
proof (cases rule: handle_client_cases [of h b conn p fds])
  case (early r')
  with assms show ?thesis by simp
next
  case (served role req resp fds1 effs1 r1 effs2)
  have none: "filter is_send effs1 = []"
    using decide_effect [OF served(3)] execute_bpf_effect
    by (fastforce simp: filter_empty_conv is_send_def)
  have "length (filter is_send effs2) \<le> 1"
    using reply_effects [OF served(4)] by (auto split: sum.splits Response.splits option.splits)
  moreover have "length fds' = length fds + 1" if "filter is_send effs2 \<noteq> []"
  proof -
    from that obtain e where "e \<in> set effs2" "is_send e"
      by (auto simp: filter_empty_conv)
    moreover from \<open>is_send e\<close> obtain fd bytes where "e = SendFd fd bytes"
      by (cases e) (auto simp: is_send_def)
    ultimately have "SendFd fd bytes \<in> set effs2"
      by simp
    with served(5) assms(2) have "SendFd fd bytes \<in> set effs"
      by simp
    from bpf_kernel.handle_client_fds(2) [OF assms this] show ?thesis
      by simp
  qed
  moreover have "length fds \<le> length fds'"
    using bpf_kernel.handle_client_fds(1) [OF assms] by auto
  ultimately show ?thesis
    using none served(5) assms(2) by (cases "filter is_send effs2") auto
qed

text \<open>
  Descriptors pile up. However many clients the daemon serves, it keeps at least one open
  descriptor for every descriptor it has ever sent.
\<close>

theorem daemon_descriptors_accumulate:
  assumes "bpf_kernel h" and "serve_clients h b p conns fds = (fds', effs)"
  shows "length fds + length (filter is_send effs) \<le> length fds'"
  using assms(2)
proof (induction conns arbitrary: fds fds' effs)
  case Nil
  then show ?case by simp
next
  case (Cons conn conns)
  obtain r fds1 effs1 where one: "handle_client h b conn p fds = (r, fds1, effs1)"
    by (cases "handle_client h b conn p fds")
  obtain fds2 effs2 where rest: "serve_clients h b p conns fds1 = (fds2, effs2)"
    by (cases "serve_clients h b p conns fds1")
  from Cons.IH [OF rest] have "length fds1 + length (filter is_send effs2) \<le> length fds2" .
  with handle_client_leak [OF assms(1) one] Cons.prems one rest show ?case
    by auto
qed

theorem daemon_descriptors_accumulate_witness:
  "\<exists>fds' effs. serve_clients demo_host bincode Policy_default [demo_conn demo_request] [] = (fds', effs) \<and>
     length (filter is_send effs) = 1 \<and> 1 \<le> length fds'"
proof -
  obtain attr bytes where "handle_client demo_host bincode (demo_conn demo_request)
      Policy_default [] = (Inr (), [3], [BpfCall 0 attr, SendFd 3 bytes])"
    using demo_handle by blast
  then have run: "serve_clients demo_host bincode Policy_default [demo_conn demo_request] [] =
      ([3], [BpfCall 0 attr, SendFd 3 bytes])"
    by simp
  from daemon_descriptors_accumulate [OF demo_kernel.bpf_kernel_axioms run] run show ?thesis
    by (simp add: is_send_def)
qed

section \<open>Requests\<close>

text \<open>
  The name of a created map fits the kernel's field: 16 bytes, terminated by a zero byte, with
  the name's own bytes in front, up to 15 of them.
\<close>

theorem map_name_terminated:
  "length (map_name_bytes name) = 16 \<and> last (map_name_bytes name) = 0 \<and>
   take (min (length name) 15) (map_name_bytes name) = take 15 (as_bytes name)"
proof -
  have "map_name_bytes name =
      take (min (length name) 15) (as_bytes name) @ replicate (16 - min (length name) 15) 0"
    by (simp add: map_name_bytes_def Let_def)
  then show ?thesis
    by (simp add: min_def)
qed

text \<open>
  The map type numbers the daemon passes to the kernel are those the policy engine uses as bit
  positions, and the attribute block has the 72 bytes of the C layout.
\<close>

theorem daemon_map_types_match_engine:
  "(\<forall>(t, n) \<in> set supported_map_types. map_type_to_bit t = Some n) \<and> BpfAttr_size = 72"
proof
  show "\<forall>(t, n) \<in> set supported_map_types. map_type_to_bit t = Some n"
    by (simp add: supported_map_types_def map_type_to_bit_def map_type_arms_def)
  show "BpfAttr_size = 72"
    by code_simp
qed

theorem daemon_map_types_match_engine_witness:
  "map_type_to_bit ''ringbuf'' = Some 27"
  using daemon_map_types_match_engine by (simp add: supported_map_types_def)

text \<open>
  A file that cannot be read or parsed does not make the daemon refuse requests: it runs with
  the built-in policy, under which administrators may do everything.
\<close>

theorem daemon_falls_back_to_default:
  assumes "\<forall>c. read_to_string ''/etc/bpf-rbac/policy.yaml'' = Inr c \<longrightarrow> (\<exists>e. from_str c = Inl e)"
  shows "load_or_default read_to_string from_str = Policy_default \<and>
     is_allowed (load_or_default read_to_string from_str) ''ebpf-admin'' req"
proof -
  have "load_or_default read_to_string from_str = Policy_default"
    using assms by (auto simp: load_or_default_def Policy_load_def split: sum.splits)
  moreover have "is_allowed Policy_default ''ebpf-admin'' req"
    by (cases req) (simp_all add: is_allowed_iff default_roles granted_admin)
  ultimately show ?thesis
    by simp
qed

theorem daemon_falls_back_to_default_witness:
  "is_allowed (load_or_default (\<lambda>_. Inr ''roles: ['') (\<lambda>_. Inl (Msg ''parse error''))) ''ebpf-admin''
     demo_request"
  using daemon_falls_back_to_default
    [of "\<lambda>_. Inr ''roles: [''" "\<lambda>_. Inl (Msg ''parse error'')" demo_request]
  by auto

text \<open>
  The groups of a user are exactly the resolvable names of its primary group and of the groups
  the system lists for it, each once.
\<close>

theorem user_groups_exact:
  assumes "user_from_uid h uid = Inr (Some u)" and "CHR 0x00 \<notin> set (pw_name u)"
    and "getgrouplist h (pw_name u) (pw_gid u) = Inr gids"
  shows "\<exists>gs. get_user_groups h uid = Inr gs \<and> distinct gs \<and>
     set gs = {n. \<exists>gid \<in> insert (pw_gid u) (set gids). group_from_gid h gid = Inr (Some n)}"
proof -
  let ?gs = "case group_from_gid h (pw_gid u) of Inr (Some name) \<Rightarrow> [name] | _ \<Rightarrow> []"
  have "get_user_groups h uid = Inr (add_groups h gids ?gs)"
    using assms by (simp add: get_user_groups_def Let_def)
  moreover have "distinct (add_groups h gids ?gs)"
    by (rule add_groups_distinct) (simp split: sum.splits option.splits)
  moreover have "set (add_groups h gids ?gs) =
      {n. \<exists>gid \<in> insert (pw_gid u) (set gids). group_from_gid h gid = Inr (Some n)}"
    unfolding add_groups_set by (auto split: sum.splits option.splits)
  ultimately show ?thesis
    by blast
qed

theorem user_groups_exact_witness:
  "\<exists>gs. get_user_groups demo_host 1000 = Inr gs \<and> distinct gs"
  using user_groups_exact [of demo_host 1000 "\<lparr>pw_name = ''alice'', pw_gid = 100\<rparr>" "[100, 200]"]
  by (auto simp: demo_host_def)

end
