(* ===== verification/Proxy_Sessions.thy ===== *)
theory Proxy_Sessions
  imports Proxy_Mediation
begin

text \<open>
  The start-up and the accept loop of \<open>main\<close> in \<open>src/main.rs\<close>. Every accepted connection is a task of
  its own; the tasks share the policy, which no task changes, and the daemon's open descriptors. A
  state of the daemon is a list of tasks, each in one of the phases of \<open>handle_client\<close>, the open
  descriptors, and the log of effects with the task that caused each. The runtime has several
  threads, so any task may take its next step at any time: a step is one phase, and the system calls
  of a phase are those the kernel serialises. A task whose client keeps it waiting for a read or a write
  makes no step.
\<close>

section \<open>Start-up\<close>

record startup_host =
  remove_file :: "string \<Rightarrow> unit result"
  bind_socket :: "string \<Rightarrow> unit result"
  set_permissions :: "string \<Rightarrow> nat \<Rightarrow> unit result"

datatype startup_effect = RemoveFile string | BindSocket string | SetMode string nat

definition SOCKET_PATH :: string where
  "SOCKET_PATH = ''/run/bpf-rbac.sock''"

text \<open>\<open>main\<close> up to the loop: the policy the loop runs with, or the error \<open>main\<close> returns.\<close>

definition daemon_startup ::
    "(string \<Rightarrow> string result) \<Rightarrow> (string \<Rightarrow> PolicyConfig result) \<Rightarrow> startup_host \<Rightarrow>
     Policy result \<times> startup_effect list" where
  "daemon_startup read_to_string from_str sh =
     (let policy = load_or_default read_to_string from_str;
          effs = [RemoveFile SOCKET_PATH, BindSocket SOCKET_PATH]
      in case with_context ''Failed to bind socket'' (bind_socket sh SOCKET_PATH) of
           Inl e \<Rightarrow> (Inl e, effs)
         | Inr _ \<Rightarrow>
             (case set_permissions sh SOCKET_PATH 511 of
                Inl e \<Rightarrow> (Inl e, effs @ [SetMode SOCKET_PATH 511])
              | Inr _ \<Rightarrow> (Inr policy, effs @ [SetMode SOCKET_PATH 511])))"

section \<open>Tasks\<close>

datatype phase =
    Accepted
  | Authenticated "string option"
  | Received "string option" Request
  | Decided Response
  | Finished "unit result"

record task =
  conn :: connection
  phase :: phase

text \<open>
  The task waits at an \<open>await\<close> of \<open>handle_client\<close> that does not return: reading the request, or writing
  an answer without a descriptor. An answer with a descriptor is sent by a system call that does not
  block.
\<close>

definition held :: "codec \<Rightarrow> task \<Rightarrow> bool" where
  "held b t =
     (case phase t of
        Authenticated _ \<Rightarrow> \<not> read_returns (conn t)
      | Decided response \<Rightarrow>
          (case response of
             Success (Some _) \<Rightarrow> False
           | _ \<Rightarrow> (case ser_response b response of Inl _ \<Rightarrow> False | Inr _ \<Rightarrow> \<not> write_returns (conn t)))
      | _ \<Rightarrow> False)"

text \<open>One phase of \<open>handle_client\<close>, up to the next \<open>await\<close>; a task that is held is left as it is.\<close>

definition task_advance ::
    "host \<Rightarrow> codec \<Rightarrow> Policy \<Rightarrow> task \<Rightarrow> i32 list \<Rightarrow> task \<times> i32 list \<times> effect list" where
  "task_advance h b policy t fds =
     (case phase t of
        Accepted \<Rightarrow>
          (case authenticate h (conn t) policy of
             Inl e \<Rightarrow> (t\<lparr>phase := Finished (Inl e)\<rparr>, fds, [])
           | Inr role \<Rightarrow> (t\<lparr>phase := Authenticated role\<rparr>, fds, []))
      | Authenticated role \<Rightarrow>
          (case read_request b (conn t) of
             Inl e \<Rightarrow> (t\<lparr>phase := Finished (Inl e)\<rparr>, fds, [])
           | Inr None \<Rightarrow> (t\<lparr>phase := Finished (Inr ())\<rparr>, fds, [])
           | Inr (Some request) \<Rightarrow> (t\<lparr>phase := Received role request\<rparr>, fds, []))
      | Received role request \<Rightarrow>
          (let (response, fds', effs) = decide h policy role request fds
           in (t\<lparr>phase := Decided response\<rparr>, fds', effs))
      | Decided response \<Rightarrow>
          (let (result, effs) = reply b (conn t) response
           in (t\<lparr>phase := Finished result\<rparr>, fds, effs))
      | Finished _ \<Rightarrow> (t, fds, []))"

definition task_step ::
    "host \<Rightarrow> codec \<Rightarrow> Policy \<Rightarrow> task \<Rightarrow> i32 list \<Rightarrow> task \<times> i32 list \<times> effect list" where
  "task_step h b policy t fds = (if held b t then (t, fds, []) else task_advance h b policy t fds)"

lemma task_step_free: "\<not> held b t \<Longrightarrow> task_step h b policy t fds = task_advance h b policy t fds"
  by (simp add: task_step_def)

definition is_finished :: "task \<Rightarrow> bool" where
  "is_finished t = (case phase t of Finished _ \<Rightarrow> True | _ \<Rightarrow> False)"

section \<open>The daemon\<close>

text \<open>
  \<open>open_fds\<close> are the descriptors of the maps the daemon has created. Its sockets and standard streams
  are not among them: no operation of the model refers to them, and they only lower the number of map
  descriptors that fit into its process.
\<close>

record daemon =
  tasks :: "task list"
  open_fds :: "i32 list"
  effect_log :: "(nat \<times> effect) list"

definition daemon_init :: daemon where
  "daemon_init = \<lparr>tasks = [], open_fds = [], effect_log = []\<rparr>"

text \<open>The body of the loop, on the outcome of \<open>accept\<close>.\<close>

definition accept_client :: "connection result \<Rightarrow> daemon \<Rightarrow> daemon" where
  "accept_client r s =
     (case r of
        Inr c \<Rightarrow> s\<lparr>tasks := tasks s @ [\<lparr>conn = c, phase = Accepted\<rparr>]\<rparr>
      | Inl _ \<Rightarrow> s)"

definition run_task :: "host \<Rightarrow> codec \<Rightarrow> Policy \<Rightarrow> nat \<Rightarrow> daemon \<Rightarrow> daemon" where
  "run_task h b policy i s =
     (let (t', fds', effs) = task_step h b policy (tasks s ! i) (open_fds s)
      in s\<lparr>tasks := (tasks s)[i := t'], open_fds := fds',
          effect_log := effect_log s @ map (Pair i) effs\<rparr>)"

inductive daemon_step :: "host \<Rightarrow> codec \<Rightarrow> Policy \<Rightarrow> daemon \<Rightarrow> daemon \<Rightarrow> bool"
  for h :: host and b :: codec and policy :: Policy where
  accept: "daemon_step h b policy s (accept_client r s)"
| run: "i < length (tasks s) \<Longrightarrow> \<not> is_finished (tasks s ! i) \<Longrightarrow> \<not> held b (tasks s ! i) \<Longrightarrow>
     daemon_step h b policy s (run_task h b policy i s)"

inductive_cases daemon_stepE [elim]: "daemon_step h b policy s s'"

abbreviation daemon_reachable :: "host \<Rightarrow> codec \<Rightarrow> Policy \<Rightarrow> daemon \<Rightarrow> bool" where
  "daemon_reachable h b policy \<equiv> (daemon_step h b policy)\<^sup>*\<^sup>* daemon_init"

definition task_effects :: "nat \<Rightarrow> daemon \<Rightarrow> effect list" where
  "task_effects i s = map snd (filter (\<lambda>(j, _). j = i) (effect_log s))"

section \<open>Every schedule is a sequential service\<close>

text \<open>
  Where a task stands relative to the handler run alone: not decided yet, with nothing done; or
  with the outcome of the handler run with the descriptors \<open>fds\<close>, of which a last part may still
  have to be carried out.
\<close>

definition undecided :: "host \<Rightarrow> codec \<Rightarrow> Policy \<Rightarrow> task \<Rightarrow> effect list \<Rightarrow> bool" where
  "undecided h b policy t effs =
     (effs = [] \<and>
      (case phase t of
         Accepted \<Rightarrow> True
       | Authenticated role \<Rightarrow> authenticate h (conn t) policy = Inr role
       | Received role request \<Rightarrow>
           authenticate h (conn t) policy = Inr role \<and> read_request b (conn t) = Inr (Some request)
       | _ \<Rightarrow> False))"

definition served_with ::
    "host \<Rightarrow> codec \<Rightarrow> Policy \<Rightarrow> i32 list \<Rightarrow> task \<Rightarrow> effect list \<Rightarrow> bool" where
  "served_with h b policy fds t effs =
     (case handle_client h b (conn t) policy fds of
        (r, fds', all) \<Rightarrow>
          (case phase t of
             Finished r' \<Rightarrow> r' = r \<and> effs = all
           | Decided resp \<Rightarrow> fst (reply b (conn t) resp) = r \<and>
               effs @ snd (reply b (conn t) resp) = all
           | _ \<Rightarrow> False))"

lemma task_advance_undecided:
  assumes "undecided h b p t effs" and "task_advance h b p t fds = (t', fds', effs')"
  shows "conn t' = conn t \<and>
     (undecided h b p t' (effs @ effs') \<and> fds' = fds \<or>
      served_with h b p fds t' (effs @ effs') \<and>
        fds' = fst (snd (handle_client h b (conn t) p fds)))"
proof (cases "phase t")
  case Accepted
  with assms show ?thesis
    by (auto simp: undecided_def served_with_def task_advance_def handle_client_def split: sum.splits)
next
  case (Authenticated role)
  with assms show ?thesis
    by (auto simp: undecided_def served_with_def task_advance_def handle_client_def
        split: sum.splits option.splits)
next
  case (Received role req)
  obtain resp fds1 effs1 where "decide h p role req fds = (resp, fds1, effs1)"
    by (cases "decide h p role req fds")
  with Received assms show ?thesis
    by (auto simp: undecided_def served_with_def task_advance_def handle_client_def split: prod.splits)
qed (use assms in \<open>auto simp: undecided_def\<close>)

lemma task_step_undecided:
  assumes "undecided h b p t effs" and "task_step h b p t fds = (t', fds', effs')"
  shows "conn t' = conn t \<and>
     (undecided h b p t' (effs @ effs') \<and> fds' = fds \<or>
      served_with h b p fds t' (effs @ effs') \<and>
        fds' = fst (snd (handle_client h b (conn t) p fds)))"
  using assms task_advance_undecided [OF assms(1)] by (auto simp: task_step_def split: if_splits)

lemma task_step_served:
  assumes "served_with h b p fds0 t effs" and "task_step h b p t fds = (t', fds', effs')"
  shows "conn t' = conn t \<and> served_with h b p fds0 t' (effs @ effs') \<and> fds' = fds"
  using assms
  by (auto simp: served_with_def task_step_def task_advance_def split: if_splits phase.splits prod.splits)

definition conns_at :: "daemon \<Rightarrow> nat list \<Rightarrow> connection list" where
  "conns_at s ids = map (\<lambda>i. conn (tasks s ! i)) ids"

definition fds_after :: "host \<Rightarrow> codec \<Rightarrow> Policy \<Rightarrow> connection list \<Rightarrow> i32 list" where
  "fds_after h b policy conns = fst (serve_clients h b policy conns [])"

lemma fst_serve_clients_snoc:
  "fst (serve_clients h b p (cs @ [c]) fds) =
     fst (snd (handle_client h b c p (fst (serve_clients h b p cs fds))))"
  by (induction cs arbitrary: fds) (auto simp: split_beta)

lemma fds_after_Nil [simp]: "fds_after h b p [] = []"
  by (simp add: fds_after_def)

lemma fds_after_snoc [simp]:
  "fds_after h b p (cs @ [c]) = fst (snd (handle_client h b c p (fds_after h b p cs)))"
  by (simp add: fds_after_def fst_serve_clients_snoc)

lemma conns_at_simps [simp]:
  "conns_at s [] = []"
  "conns_at s (i # ids) = conn (tasks s ! i) # conns_at s ids"
  by (simp_all add: conns_at_def)

lemma conns_at_append [simp]: "conns_at s (xs @ ys) = conns_at s xs @ conns_at s ys"
  by (simp add: conns_at_def)

text \<open>The invariant: the decided tasks, in the order of their decisions, were served one by one.\<close>

definition serial_order :: "host \<Rightarrow> codec \<Rightarrow> Policy \<Rightarrow> daemon \<Rightarrow> nat list \<Rightarrow> bool" where
  "serial_order h b policy s ids \<longleftrightarrow>
     distinct ids \<and> (\<forall>i\<in>set ids. i < length (tasks s)) \<and>
     open_fds s = fds_after h b policy (conns_at s ids) \<and>
     (\<forall>k<length ids. served_with h b policy (fds_after h b policy (conns_at s (take k ids)))
        (tasks s ! (ids ! k)) (task_effects (ids ! k) s)) \<and>
     (\<forall>i<length (tasks s). i \<notin> set ids \<longrightarrow> undecided h b policy (tasks s ! i) (task_effects i s)) \<and>
     (\<forall>(i, e)\<in>set (effect_log s). i < length (tasks s))"

definition serial :: "host \<Rightarrow> codec \<Rightarrow> Policy \<Rightarrow> daemon \<Rightarrow> bool" where
  "serial h b policy s \<longleftrightarrow> (\<exists>ids. serial_order h b policy s ids)"

lemma task_effects_run_task:
  assumes "task_step h b p (tasks s ! i) (open_fds s) = (t', fds', effs)"
  shows "task_effects j (run_task h b p i s) =
     (if j = i then task_effects i s @ effs else task_effects j s)"
  using assms by (auto simp: task_effects_def run_task_def filter_map comp_def)

lemma task_effects_outside:
  "\<forall>(i, e)\<in>set (effect_log s). i < length (tasks s) \<Longrightarrow> length (tasks s) \<le> j \<Longrightarrow>
     task_effects j s = []"
  by (auto simp: task_effects_def filter_empty_conv)

lemma conns_at_cong:
  "(\<And>i. i \<in> set ids \<Longrightarrow> conn (tasks s' ! i) = conn (tasks s ! i)) \<Longrightarrow> conns_at s' ids = conns_at s ids"
  by (simp add: conns_at_def)

lemma accept_client_fields:
  "tasks (accept_client (Inr c) s) = tasks s @ [\<lparr>conn = c, phase = Accepted\<rparr>]"
  "open_fds (accept_client (Inr c) s) = open_fds s"
  "effect_log (accept_client (Inr c) s) = effect_log s"
  "task_effects i (accept_client (Inr c) s) = task_effects i s"
  by (simp_all add: accept_client_def task_effects_def)

lemma serial_accept:
  assumes "serial_order h b p s ids"
  shows "serial_order h b p (accept_client r s) ids"
proof (cases r)
  case (Inr c)
  have same: "conns_at (accept_client (Inr c) s) xs = conns_at s xs" if "set xs \<subseteq> set ids" for xs
    using that assms
    by (intro conns_at_cong) (auto simp: accept_client_fields nth_append serial_order_def)
  have "task_effects (length (tasks s)) s = []"
    using assms by (intro task_effects_outside) (auto simp: serial_order_def)
  with assms Inr show ?thesis
    unfolding serial_order_def
    by (auto simp: same set_take_subset accept_client_fields nth_append undecided_def less_Suc_eq)
qed (use assms in \<open>simp add: accept_client_def\<close>)

lemma run_task_fields:
  assumes "task_step h b p (tasks s ! i) (open_fds s) = (t', fds', effs)"
  shows "tasks (run_task h b p i s) = (tasks s)[i := t']"
    and "open_fds (run_task h b p i s) = fds'"
    and "effect_log (run_task h b p i s) = effect_log s @ map (Pair i) effs"
  using assms by (simp_all add: run_task_def)

lemma nth_list_update_if: "xs[i := x] ! j = (if j = i \<and> i < length xs then x else xs ! j)"
  by (cases "i < length xs") (auto simp: nth_list_update list_update_beyond)

lemma conns_at_run_task:
  assumes "task_step h b p (tasks s ! i) (open_fds s) = (t', fds', effs)"
    and "conn t' = conn (tasks s ! i)"
  shows "conns_at (run_task h b p i s) xs = conns_at s xs"
  using assms(2) by (intro conns_at_cong) (simp add: run_task_fields [OF assms(1)] nth_list_update_if)

lemma serial_run_decided:
  assumes "serial_order h b p s ids" and "i \<in> set ids"
  shows "serial_order h b p (run_task h b p i s) ids"
proof -
  obtain t' fds' effs where step: "task_step h b p (tasks s ! i) (open_fds s) = (t', fds', effs)"
    by (cases "task_step h b p (tasks s ! i) (open_fds s)")
  obtain k where k: "k < length ids" "ids ! k = i"
    using assms(2) by (auto simp: in_set_conv_nth)
  from k assms(1) have "served_with h b p (fds_after h b p (conns_at s (take k ids)))
      (tasks s ! i) (task_effects i s)"
    by (auto simp: serial_order_def)
  from task_step_served [OF this step] have new: "conn t' = conn (tasks s ! i)" "fds' = open_fds s"
    and served: "served_with h b p (fds_after h b p (conns_at s (take k ids))) t'
      (task_effects i s @ effs)"
    by auto
  have idx: "k' = k" if "k' < length ids" "ids ! k' = i" for k'
    using that k assms(1) by (auto simp: serial_order_def nth_eq_iff_index_eq)
  show ?thesis
    using assms new(2) served
    unfolding serial_order_def conns_at_run_task [OF step new(1)] run_task_fields [OF step]
      task_effects_run_task [OF step]
    by (auto simp: nth_list_update_if dest: idx)
qed

lemma serial_run_undecided:
  assumes "serial_order h b p s ids" and "i \<notin> set ids" and "i < length (tasks s)"
  shows "serial h b p (run_task h b p i s)"
proof -
  obtain t' fds' effs where step: "task_step h b p (tasks s ! i) (open_fds s) = (t', fds', effs)"
    by (cases "task_step h b p (tasks s ! i) (open_fds s)")
  from assms have "undecided h b p (tasks s ! i) (task_effects i s)"
    by (auto simp: serial_order_def)
  from task_step_undecided [OF this step] have new: "conn t' = conn (tasks s ! i)"
    and or: "undecided h b p t' (task_effects i s @ effs) \<and> fds' = open_fds s \<or>
      served_with h b p (open_fds s) t' (task_effects i s @ effs) \<and>
        fds' = fst (snd (handle_client h b (conn (tasks s ! i)) p (open_fds s)))"
    by auto
  note fields = conns_at_run_task [OF step new] run_task_fields [OF step]
    task_effects_run_task [OF step]
  from or show ?thesis
  proof
    assume "undecided h b p t' (task_effects i s @ effs) \<and> fds' = open_fds s"
    then have "serial_order h b p (run_task h b p i s) ids"
      using assms unfolding serial_order_def fields by (auto simp: nth_list_update_if)
    then show ?thesis unfolding serial_def by blast
  next
    assume "served_with h b p (open_fds s) t' (task_effects i s @ effs) \<and>
        fds' = fst (snd (handle_client h b (conn (tasks s ! i)) p (open_fds s)))"
    then have "serial_order h b p (run_task h b p i s) (ids @ [i])"
      using assms unfolding serial_order_def fields
      by (auto simp: nth_list_update_if nth_append less_Suc_eq)
    then show ?thesis unfolding serial_def by blast
  qed
qed

interpretation schedules: step_invariant "daemon_step h b p" daemon_init "serial h b p" for h b p
proof
  show "serial h b p daemon_init"
    by (auto simp: serial_def serial_order_def daemon_init_def conns_at_def intro: exI [of _ "[]"])
  show "serial h b p s'" if "daemon_step h b p s s'" "serial h b p s" for s s'
    using that serial_accept serial_run_decided serial_run_undecided
    unfolding serial_def [of h b p s] by (elim daemon_stepE exE) (metis serial_def)+
qed

section \<open>What holds of every schedule\<close>

lemma reachable_serial_order:
  assumes "daemon_reachable h b p s"
  obtains ids where "serial_order h b p s ids"
  using schedules.reachable_invariant [OF assms] by (auto simp: serial_def)

lemma undecided_not_finished: "undecided h b p t effs \<Longrightarrow> \<not> is_finished t"
  by (simp add: undecided_def is_finished_def split: phase.splits)

lemma serial_order_decided:
  assumes "serial_order h b p s ids" and "i < length (tasks s)"
    and "\<not> undecided h b p (tasks s ! i) (task_effects i s)"
  obtains k where "k < length ids" "ids ! k = i"
    "served_with h b p (fds_after h b p (conns_at s (take k ids))) (tasks s ! i) (task_effects i s)"
proof -
  from assms have "i \<in> set ids"
    by (auto simp: serial_order_def)
  with assms(1) that show thesis
    by (auto simp: serial_order_def in_set_conv_nth)
qed

lemma serial_order_logged:
  assumes "serial_order h b p s ids" and "(i, e) \<in> set (effect_log s)"
  obtains k r fds' effs where "k < length ids" "ids ! k = i" "i < length (tasks s)"
    "handle_client h b (conn (tasks s ! i)) p (fds_after h b p (conns_at s (take k ids))) =
       (r, fds', effs)" "e \<in> set effs"
proof -
  from assms have i: "i < length (tasks s)"
    by (auto simp: serial_order_def)
  have eff: "e \<in> set (task_effects i s)"
    using assms(2) by (force simp: task_effects_def)
  then have "\<not> undecided h b p (tasks s ! i) (task_effects i s)"
    by (auto simp: undecided_def)
  from serial_order_decided [OF assms(1) i this] obtain k where k: "k < length ids" "ids ! k = i"
    and "served_with h b p (fds_after h b p (conns_at s (take k ids))) (tasks s ! i)
      (task_effects i s)" .
  with eff obtain r fds' effs where "handle_client h b (conn (tasks s ! i)) p
      (fds_after h b p (conns_at s (take k ids))) = (r, fds', effs)" "e \<in> set effs"
    by (auto simp: served_with_def split: prod.splits phase.splits)
  with that k i show thesis .
qed

text \<open>
  C2: the service is serialisable. However the tasks of concurrent clients are interleaved, there is
  an order of the clients whose outcome is determined, which include all that have been answered,
  such that the daemon's open descriptors and each answered client's result and effects are those of
  serving these clients one after the other in that order.
\<close>

theorem sessions_serialisable:
  assumes "daemon_reachable h b p s"
  shows "\<exists>ids. distinct ids \<and> set ids \<subseteq> {..<length (tasks s)} \<and>
     (\<forall>i<length (tasks s). is_finished (tasks s ! i) \<longrightarrow> i \<in> set ids) \<and>
     open_fds s = fst (serve_clients h b p (map (\<lambda>i. conn (tasks s ! i)) ids) []) \<and>
     (\<forall>k<length ids. \<forall>r. phase (tasks s ! (ids ! k)) = Finished r \<longrightarrow>
        (\<exists>fds'. handle_client h b (conn (tasks s ! (ids ! k))) p
           (fst (serve_clients h b p (map (\<lambda>i. conn (tasks s ! i)) (take k ids)) [])) =
           (r, fds', task_effects (ids ! k) s)))"
proof -
  obtain ids where ids: "serial_order h b p s ids"
    using assms by (rule reachable_serial_order)
  have "\<forall>i<length (tasks s). is_finished (tasks s ! i) \<longrightarrow> i \<in> set ids"
    using undecided_not_finished serial_order_decided [OF ids] by (metis nth_mem)
  moreover have "\<exists>fds'. handle_client h b (conn (tasks s ! (ids ! k))) p
      (fds_after h b p (conns_at s (take k ids))) = (r, fds', task_effects (ids ! k) s)"
    if "k < length ids" "phase (tasks s ! (ids ! k)) = Finished r" for k r
  proof -
    from ids that(1) have "served_with h b p (fds_after h b p (conns_at s (take k ids)))
        (tasks s ! (ids ! k)) (task_effects (ids ! k) s)"
      by (simp add: serial_order_def)
    with that(2) show ?thesis
      by (simp add: served_with_def split: prod.splits)
  qed
  moreover have "distinct ids" "set ids \<subseteq> {..<length (tasks s)}"
    "open_fds s = fds_after h b p (conns_at s ids)"
    using ids by (auto simp: serial_order_def)
  ultimately show ?thesis
    unfolding fds_after_def conns_at_def by blast
qed

text \<open>
  C1: complete mediation under concurrency. In every reachable state of the daemon, every call of
  \<open>bpf()\<close> ever made for a client is authorised for that client's own connection.
\<close>

theorem sessions_complete_mediation:
  assumes "daemon_reachable h b p s" and "(i, BpfCall cmd attr) \<in> set (effect_log s)"
  shows "i < length (tasks s) \<and> authorised h b p (conn (tasks s ! i)) cmd attr"
proof -
  obtain ids where ids: "serial_order h b p s ids"
    using assms(1) by (rule reachable_serial_order)
  from serial_order_logged [OF ids assms(2)] handle_client_authorised show ?thesis
    by metis
qed

lemma handle_client_keeps_fds:
  assumes "bpf_kernel h" and "fd \<in> set fds"
  shows "fd \<in> set (fst (snd (handle_client h b c p fds)))"
  using bpf_kernel.handle_client_fds(1) [OF assms(1), of b c p fds] assms(2)
  by (cases "handle_client h b c p fds") auto

lemma fds_after_keeps:
  assumes "bpf_kernel h" and "fd \<in> set (fds_after h b p cs)"
  shows "fd \<in> set (fds_after h b p (cs @ ds))"
proof (induction ds rule: rev_induct)
  case (snoc d ds)
  with handle_client_keeps_fds [OF assms(1)] show ?case
    by (simp flip: append_assoc)
qed (use assms in simp)

lemma serial_order_sent_before:
  assumes "bpf_kernel h" and "k < l" and "l < length ids"
    and "handle_client h b (conn (tasks s ! (ids ! k))) p (fds_after h b p (conns_at s (take k ids))) =
      (r, fds', effs)" and "SendFd fd bytes \<in> set effs"
  shows "fd \<in> set (fds_after h b p (conns_at s (take l ids)))"
proof -
  have "take l ids = take (Suc k) ids @ take (l - Suc k) (drop (Suc k) ids)"
    using assms(2) by (metis Suc_leI le_add_diff_inverse take_add)
  moreover have "take (Suc k) ids = take k ids @ [ids ! k]"
    using assms(2,3) by (simp add: take_Suc_conv_app_nth)
  moreover have "fd \<in> set (fds_after h b p (conns_at s (take k ids @ [ids ! k])))"
    using bpf_kernel.handle_client_fds(2) [OF assms(1,4,5)] assms(4) by simp
  ultimately show ?thesis
    using fds_after_keeps [OF assms(1)] by (metis conns_at_append)
qed

text \<open>
  C19: clients never share a descriptor. A descriptor is sent to at most one of the daemon's clients,
  however their tasks interleave.
\<close>

theorem sessions_descriptors_disjoint:
  assumes "bpf_kernel h" and "daemon_reachable h b p s"
    and "(i, SendFd fd bytes) \<in> set (effect_log s)" and "(j, SendFd fd bytes') \<in> set (effect_log s)"
  shows "i = j"
proof -
  obtain ids where ids: "serial_order h b p s ids"
    using assms(2) by (rule reachable_serial_order)
  obtain k r fds' effs where k: "k < length ids" "ids ! k = i"
    "handle_client h b (conn (tasks s ! i)) p (fds_after h b p (conns_at s (take k ids))) =
       (r, fds', effs)" "SendFd fd bytes \<in> set effs"
    using serial_order_logged [OF ids assms(3)] by metis
  obtain l r' fds'' effs' where l: "l < length ids" "ids ! l = j"
    "handle_client h b (conn (tasks s ! j)) p (fds_after h b p (conns_at s (take l ids))) =
       (r', fds'', effs')" "SendFd fd bytes' \<in> set effs'"
    using serial_order_logged [OF ids assms(4)] by metis
  have "fd \<notin> set (fds_after h b p (conns_at s (take k ids)))"
    "fd \<notin> set (fds_after h b p (conns_at s (take l ids)))"
    using bpf_kernel.handle_client_fds(2) [OF assms(1)] k(3,4) l(3,4) by blast+
  with serial_order_sent_before [OF assms(1)] k l have "k = l"
    by (metis linorder_neqE_nat)
  with k l show ?thesis by simp
qed

section \<open>Progress\<close>

definition phase_rank :: "phase \<Rightarrow> nat" where
  "phase_rank ph =
     (case ph of Accepted \<Rightarrow> 4 | Authenticated _ \<Rightarrow> 3 | Received _ _ \<Rightarrow> 2 | Decided _ \<Rightarrow> 1
      | Finished _ \<Rightarrow> 0)"

lemma phase_rank_le: "phase_rank ph \<le> 4"
  by (simp add: phase_rank_def split: phase.splits)

lemma finished_phase: "phase t = Finished r \<Longrightarrow> is_finished t"
  by (simp add: is_finished_def)

lemma is_finished_rank: "is_finished t \<longleftrightarrow> phase_rank (phase t) = 0"
  by (simp add: is_finished_def phase_rank_def split: phase.splits)

lemma held_not_finished: "held b t \<Longrightarrow> \<not> is_finished t"
  by (simp add: held_def is_finished_def split: phase.splits)

lemma task_step_conn: "task_step h b p t fds = (t', fds', effs) \<Longrightarrow> conn t' = conn t"
  by (auto simp: task_step_def task_advance_def
      split: if_splits phase.splits sum.splits option.splits prod.splits)

lemma task_advance_rank:
  "task_advance h b p t fds = (t', fds', effs) \<Longrightarrow>
     phase_rank (phase t') \<le> phase_rank (phase t) - 1"
  by (auto simp: task_advance_def phase_rank_def
      split: phase.splits sum.splits option.splits prod.splits)

lemma task_step_rank:
  "task_step h b p t fds = (t', fds', effs) \<Longrightarrow>
     phase_rank (phase t') \<le> phase_rank (phase t) - (if held b t then 0 else 1)"
  using task_advance_rank by (auto simp: task_step_def split: if_splits)

text \<open>A client that sends or hangs up, and takes its answer.\<close>

definition responsive :: "connection \<Rightarrow> bool" where
  "responsive c \<longleftrightarrow> read_returns c \<and> write_returns c"

lemma responsive_not_held: "responsive (conn t) \<Longrightarrow> \<not> held b t"
  by (simp add: responsive_def held_def split: phase.splits Response.splits option.splits sum.splits)

lemma length_tasks_run_task [simp]: "length (tasks (run_task h b p i s)) = length (tasks s)"
  by (simp add: run_task_def split: prod.splits)

lemma conn_run_task [simp]: "conn (tasks (run_task h b p i s) ! j) = conn (tasks s ! j)"
proof -
  obtain t' fds' effs where step: "task_step h b p (tasks s ! i) (open_fds s) = (t', fds', effs)"
    by (cases "task_step h b p (tasks s ! i) (open_fds s)")
  from task_step_conn [OF step] show ?thesis
    by (simp add: run_task_fields [OF step] nth_list_update_if)
qed

lemma fold_run_task_fields [simp]:
  "length (tasks (fold (run_task h b p) sched s)) = length (tasks s)"
  "conn (tasks (fold (run_task h b p) sched s) ! j) = conn (tasks s ! j)"
  by (induction sched arbitrary: s) simp_all

lemma run_task_rank:
  assumes "i < length (tasks s)" and "responsive (conn (tasks s ! j))"
  shows "phase_rank (phase (tasks (run_task h b p i s) ! j)) \<le>
     phase_rank (phase (tasks s ! j)) - (if j = i then 1 else 0)"
proof -
  obtain t' fds' effs where step: "task_step h b p (tasks s ! i) (open_fds s) = (t', fds', effs)"
    by (cases "task_step h b p (tasks s ! i) (open_fds s)")
  show ?thesis
  proof (cases "j = i")
    case True
    with task_step_rank [OF step] assms responsive_not_held [of "tasks s ! j"] show ?thesis
      by (simp add: run_task_fields [OF step])
  qed (simp add: run_task_fields [OF step])
qed

lemma fold_run_task_rank:
  assumes "\<forall>i\<in>set sched. i < length (tasks s)" and "responsive (conn (tasks s ! j))"
  shows "phase_rank (phase (tasks (fold (run_task h b p) sched s) ! j)) \<le>
     phase_rank (phase (tasks s ! j)) - count_list sched j"
  using assms
proof (induction sched arbitrary: s)
  case (Cons i sched)
  then have "phase_rank (phase (tasks (fold (run_task h b p) sched (run_task h b p i s)) ! j)) \<le>
      phase_rank (phase (tasks (run_task h b p i s) ! j)) - count_list sched j"
    by simp
  with run_task_rank [of i s j h b p] Cons.prems show ?case
    by (auto split: if_splits)
qed simp

lemma run_task_idle:
  "is_finished (tasks s ! i) \<or> held b (tasks s ! i) \<Longrightarrow> run_task h b p i s = s"
  by (cases "phase (tasks s ! i)")
    (auto simp: run_task_def task_step_def task_advance_def is_finished_def held_def)

lemma steps_run:
  assumes "(daemon_step h b p)\<^sup>*\<^sup>* s0 s" and "i < length (tasks s)"
  shows "(daemon_step h b p)\<^sup>*\<^sup>* s0 (run_task h b p i s)"
proof (cases "is_finished (tasks s ! i) \<or> held b (tasks s ! i)")
  case True
  with assms(1) show ?thesis by (simp add: run_task_idle)
next
  case False
  with assms show ?thesis by (meson run rtranclp.rtrancl_into_rtrancl)
qed

lemma steps_schedule:
  assumes "(daemon_step h b p)\<^sup>*\<^sup>* s0 s" and "\<forall>i\<in>set sched. i < length (tasks s)"
  shows "(daemon_step h b p)\<^sup>*\<^sup>* s0 (fold (run_task h b p) sched s)"
  using assms by (induction sched arbitrary: s) (simp_all add: steps_run)

text \<open>A finished task has done what the handler does, with the descriptors of the tasks decided before it.\<close>

lemma finished_in_order:
  assumes "serial_order h b p s ids" and "i < length (tasks s)" and "is_finished (tasks s ! i)"
  obtains k r fds' where "k < length ids" "ids ! k = i" "phase (tasks s ! i) = Finished r"
    "handle_client h b (conn (tasks s ! i)) p (fds_after h b p (conns_at s (take k ids))) =
       (r, fds', task_effects i s)"
proof -
  obtain k where k: "k < length ids" "ids ! k = i"
    and "served_with h b p (fds_after h b p (conns_at s (take k ids))) (tasks s ! i) (task_effects i s)"
    using serial_order_decided [OF assms(1,2)] undecided_not_finished assms(3) by metis
  with assms(3) that [OF k] show thesis
    by (auto simp: served_with_def is_finished_def split: prod.splits phase.splits)
qed

text \<open>The task of a client that neither sends nor hangs up.\<close>

definition silent_task :: "host \<Rightarrow> Policy \<Rightarrow> task \<Rightarrow> effect list \<Rightarrow> bool" where
  "silent_task h policy t effs \<longleftrightarrow>
     effs = [] \<and>
     (case phase t of
        Accepted \<Rightarrow> True
      | Authenticated _ \<Rightarrow> True
      | Finished _ \<Rightarrow> \<exists>e. authenticate h (conn t) policy = Inl e
      | _ \<Rightarrow> False)"

definition silent_wait :: "host \<Rightarrow> Policy \<Rightarrow> daemon \<Rightarrow> bool" where
  "silent_wait h policy s \<longleftrightarrow>
     (\<forall>(i, e)\<in>set (effect_log s). i < length (tasks s)) \<and>
     (\<forall>i<length (tasks s). \<not> read_returns (conn (tasks s ! i)) \<longrightarrow>
        silent_task h policy (tasks s ! i) (task_effects i s))"

lemma task_step_silent:
  assumes "silent_task h p t effs" and "\<not> read_returns (conn t)"
    and "task_step h b p t fds = (t', fds', effs')"
  shows "silent_task h p t' (effs @ effs')"
  using assms
  by (cases "phase t") (auto simp: silent_task_def task_step_def task_advance_def held_def split: sum.splits)

lemma accept_keeps_silent:
  assumes "silent_wait h p s"
  shows "silent_wait h p (accept_client r s)"
proof (cases r)
  case (Inr c)
  have "task_effects (length (tasks s)) s = []"
    using assms by (intro task_effects_outside) (auto simp: silent_wait_def)
  with assms Inr show ?thesis
    by (auto simp: silent_wait_def accept_client_fields nth_append less_Suc_eq silent_task_def)
qed (use assms in \<open>simp add: accept_client_def\<close>)

lemma run_keeps_silent:
  assumes "silent_wait h p s" and "i < length (tasks s)"
  shows "silent_wait h p (run_task h b p i s)"
proof -
  obtain t' fds' effs where step: "task_step h b p (tasks s ! i) (open_fds s) = (t', fds', effs)"
    by (cases "task_step h b p (tasks s ! i) (open_fds s)")
  have "silent_task h p t' (task_effects i s @ effs)" if "\<not> read_returns (conn (tasks s ! i))"
    using task_step_silent [OF _ that step] assms that by (auto simp: silent_wait_def)
  with assms task_step_conn [OF step] show ?thesis
    unfolding silent_wait_def run_task_fields [OF step] task_effects_run_task [OF step]
    by (auto simp: nth_list_update_if)
qed

interpretation silence: step_invariant "daemon_step h b p" daemon_init "silent_wait h p" for h b p
proof
  show "silent_wait h p daemon_init"
    by (simp add: silent_wait_def daemon_init_def)
  show "silent_wait h p s'" if "daemon_step h b p s s'" "silent_wait h p s" for s s'
    using that by (auto intro: accept_keeps_silent run_keeps_silent)
qed


section \<open>Two clients at once\<close>

lemma reachable_accept: "daemon_reachable h b p s \<Longrightarrow> daemon_reachable h b p (accept_client r s)"
  by (meson accept rtranclp.rtrancl_into_rtrancl)

definition demo_task :: "phase \<Rightarrow> task" where
  "demo_task ph = \<lparr>conn = demo_conn demo_request, phase = ph\<rparr>"

lemma demo_conn_returns: "read_returns (demo_conn req)" "write_returns (demo_conn req)"
  by (simp_all add: demo_conn_def)

lemma demo_task_steps:
  "task_step demo_host bincode Policy_default (demo_task Accepted) fds =
     (demo_task (Authenticated (Some ''ebpf'')), fds, [])"
  "task_step demo_host bincode Policy_default (demo_task (Authenticated role)) fds =
     (demo_task (Received role demo_request), fds, [])"
  "decide demo_host Policy_default role demo_request fds = (resp, fds', effs) \<Longrightarrow>
     task_step demo_host bincode Policy_default (demo_task (Received role demo_request)) fds =
       (demo_task (Decided resp), fds', effs)"
  "reply bincode (demo_conn demo_request) resp = (r, effs) \<Longrightarrow>
     task_step demo_host bincode Policy_default (demo_task (Decided resp)) fds =
       (demo_task (Finished r), fds, effs)"
  by (simp_all add: task_step_free responsive_not_held responsive_def demo_conn_returns demo_task_def)
    (simp_all add: task_advance_def demo_authenticate demo_read)

definition two_clients :: daemon where
  "two_clients = \<lparr>tasks = [demo_task Accepted, demo_task Accepted], open_fds = [], effect_log = []\<rparr>"

definition two_sessions :: daemon where
  "two_sessions =
     fold (run_task demo_host bincode Policy_default) [0, 1, 1, 0, 1, 0, 0, 1] two_clients"

lemma two_clients_reachable: "daemon_reachable demo_host bincode Policy_default two_clients"
proof -
  let ?c = "Inr (demo_conn demo_request)"
  have "two_clients = accept_client ?c (accept_client ?c daemon_init)"
    by (simp add: two_clients_def demo_task_def accept_client_def daemon_init_def)
  then show ?thesis
    using reachable_accept [OF reachable_accept [OF rtranclp.rtrancl_refl]] by metis
qed

lemma two_sessions_reachable: "daemon_reachable demo_host bincode Policy_default two_sessions"
  unfolding two_sessions_def
  by (rule steps_schedule [OF two_clients_reachable]) (simp add: two_clients_def)

lemma demo_reply:
  "\<exists>bytes. reply bincode (demo_conn demo_request) (Success (Some fd)) = (Inr (), [SendFd fd bytes])"
  by (simp add: reply_def send_fd_with_data_def bincode_def demo_conn_def)

lemma two_sessions_end:
  "\<exists>a1 a0 b0 b1. two_sessions =
     \<lparr>tasks = [demo_task (Finished (Inr ())), demo_task (Finished (Inr ()))], open_fds = [4, 3],
      effect_log = [(1, BpfCall 0 a1), (0, BpfCall 0 a0), (0, SendFd 4 b0), (1, SendFd 3 b1)]\<rparr>"
proof -
  obtain a1 where d1: "decide demo_host Policy_default (Some ''ebpf'') demo_request [] =
      (Success (Some 3), [3], [BpfCall 0 a1])"
    using demo_decide by blast
  obtain a0 where d0: "decide demo_host Policy_default (Some ''ebpf'') demo_request [3] =
      (Success (Some 4), [4, 3], [BpfCall 0 a0])"
    using demo_decide_second by blast
  obtain b0 where r0: "reply bincode (demo_conn demo_request) (Success (Some 4)) = (Inr (), [SendFd 4 b0])"
    using demo_reply by blast
  obtain b1 where r1: "reply bincode (demo_conn demo_request) (Success (Some 3)) = (Inr (), [SendFd 3 b1])"
    using demo_reply by blast
  show ?thesis
    by (simp add: two_sessions_def two_clients_def run_task_def demo_task_steps(1,2)
        demo_task_steps(3) [OF d0] demo_task_steps(3) [OF d1] demo_task_steps(4) [OF r0]
        demo_task_steps(4) [OF r1])
qed

lemma two_sessions_log:
  "\<exists>a1 a0 b0 b1. effect_log two_sessions =
     [(1, BpfCall 0 a1), (0, BpfCall 0 a0), (0, SendFd 4 b0), (1, SendFd 3 b1)]"
proof -
  from two_sessions_end show ?thesis
    by (elim exE) (drule arg_cong [of two_sessions _ effect_log], simp)
qed

lemma two_sessions_tasks: "tasks two_sessions = replicate 2 (demo_task (Finished (Inr ())))"
  using two_sessions_end by (elim exE) (drule arg_cong [of two_sessions _ tasks], simp add: numeral_2_eq_2)

theorem sessions_serialisable_witness:
  "\<exists>ids. distinct ids \<and> set ids \<subseteq> {..<length (tasks two_sessions)} \<and>
     open_fds two_sessions = fst (serve_clients demo_host bincode Policy_default
       (map (\<lambda>i. conn (tasks two_sessions ! i)) ids) [])"
  using sessions_serialisable [OF two_sessions_reachable] by blast

theorem sessions_complete_mediation_witness:
  "\<exists>attr. authorised demo_host bincode Policy_default (conn (tasks two_sessions ! 1)) 0 attr"
  using sessions_complete_mediation [OF two_sessions_reachable, of 1 0] two_sessions_log by force

theorem sessions_descriptors_disjoint_witness:
  "{i. \<exists>bytes. (i, SendFd 3 bytes) \<in> set (effect_log two_sessions)} = {1}"
proof -
  obtain bytes where sent: "(1, SendFd 3 bytes) \<in> set (effect_log two_sessions)"
    using two_sessions_log by force
  with sessions_descriptors_disjoint [OF demo_kernel.bpf_kernel_axioms two_sessions_reachable _ sent]
  show ?thesis by blast
qed

text \<open>A daemon with a client that never sends and one that does.\<close>

lemma authenticate_silent: "authenticate h (c\<lparr>read_returns := x\<rparr>) p = authenticate h c p"
  by (simp add: authenticate_def cong: sum.case_cong)

definition silent_conn :: connection where
  "silent_conn = (demo_conn demo_request)\<lparr>read_returns := False\<rparr>"

definition one_silent :: daemon where
  "one_silent = accept_client (Inr (demo_conn demo_request)) (accept_client (Inr silent_conn) daemon_init)"

definition silent_sessions :: daemon where
  "silent_sessions =
     fold (run_task demo_host bincode Policy_default) [0, 1, 1, 0, 1, 0, 0, 1] one_silent"


section \<open>Properties of the start-up\<close>

text \<open>
  The daemon serves only on a socket it has bound and opened to every user: it runs, with the
  loaded or the built-in policy, exactly if binding and setting the mode \<open>0777\<close> succeed; a socket file
  that cannot be removed is not an error of its own.
\<close>

theorem startup_serves_iff_bound:
  "fst (daemon_startup read_to_string from_str sh) = Inr policy \<longleftrightarrow>
     policy = load_or_default read_to_string from_str \<and>
     bind_socket sh SOCKET_PATH = Inr () \<and> set_permissions sh SOCKET_PATH 511 = Inr ()"
  by (cases "bind_socket sh SOCKET_PATH"; cases "set_permissions sh SOCKET_PATH 511")
    (auto simp: daemon_startup_def Let_def)

end
