(* ===== verification/Client_Library.thy ===== *)
theory Client_Library
  imports Proxy_Sessions
begin

text \<open>
  The client library of \<open>src/protocol.rs\<close> (module \<open>client\<close>): connecting to the daemon's socket,
  sending a request to create a map, and receiving the answer with its descriptor. The second part
  joins a client to the handler of the daemon by a stream socket and states what the client sees.
\<close>

section \<open>The client\<close>

text \<open>
  A received control message is a list of descriptors or of another kind. A stream answers a
  \<open>recvmsg\<close> into a buffer of a given size with bytes and control messages, depending on the bytes
  written before.
\<close>

datatype ControlMessageOwned = ScmRights "i32 list" | OtherCmsg

record UnixStream =
  stream_write_all :: "u8 list \<Rightarrow> unit result"
  stream_recvmsg :: "u8 list \<Rightarrow> nat \<Rightarrow> (u8 list \<times> ControlMessageOwned list) result"

record BpfRbacClient =
  stream :: UnixStream

definition client_SOCKET_PATH :: string where
  "client_SOCKET_PATH = ''/run/bpf-rbac.sock''"

definition client_connect :: "(string \<Rightarrow> UnixStream result) \<Rightarrow> BpfRbacClient result" where
  "client_connect connect =
     (case connect client_SOCKET_PATH of Inl e \<Rightarrow> Inl e | Inr st \<Rightarrow> Inr \<lparr>stream = st\<rparr>)"

fun received_fd :: "i32 option \<Rightarrow> ControlMessageOwned list \<Rightarrow> i32 option" where
  "received_fd fd [] = fd"
| "received_fd fd (ScmRights fds # cmsgs) =
     received_fd (case fds of f # _ \<Rightarrow> Some f | [] \<Rightarrow> fd) cmsgs"
| "received_fd fd (OtherCmsg # cmsgs) = received_fd fd cmsgs"

definition recv_response_with_fd ::
    "codec \<Rightarrow> BpfRbacClient \<Rightarrow> u8 list \<Rightarrow> (Response \<times> i32 option) result" where
  "recv_response_with_fd b client sent =
     (case stream_recvmsg (stream client) sent 4096 of
        Inl e \<Rightarrow> Inl e
      | Inr (bytes, cmsgs) \<Rightarrow>
          (case de_response b bytes of
             Inl e \<Rightarrow> Inl e
           | Inr response \<Rightarrow> Inr (response, received_fd None cmsgs)))"

definition client_create_map ::
    "codec \<Rightarrow> BpfRbacClient \<Rightarrow> string \<Rightarrow> string \<Rightarrow> u32 \<Rightarrow> u32 \<Rightarrow> u32 \<Rightarrow> i32 result" where
  "client_create_map b client mtype name ksize vsize entries =
     (case ser_request b (CreateMap mtype name ksize vsize entries) of
        Inl e \<Rightarrow> Inl e
      | Inr bytes \<Rightarrow>
     (case stream_write_all (stream client) bytes of
        Inl e \<Rightarrow> Inl e
      | Inr _ \<Rightarrow>
     (case recv_response_with_fd b client bytes of
        Inl e \<Rightarrow> Inl e
      | Inr (response, fd) \<Rightarrow>
     (case response of
        Success (Some _) \<Rightarrow>
          (case fd of Some f \<Rightarrow> Inr f | None \<Rightarrow> Inl (Msg ''Expected FD but none received''))
      | Success None \<Rightarrow> Inl (Msg ''No FD in response'')
      | Denied reason \<Rightarrow> Inl (Msg (''Denied: '' @ reason))
      | Error message \<Rightarrow> Inl (Msg (''Error: '' @ message))))))"

section \<open>A client joined to the daemon\<close>

text \<open>
  A socket pair: the daemon reads what the client wrote, up to the size of its buffer, and the
  kernel reports the client's user. The client receives what the handler sent, up to the size of its
  own buffer; a descriptor arrives as the number \<open>dup\<close> gives it in the client. A handler that sends
  nothing closes the connection, and the client reads no bytes.
\<close>

definition daemon_end :: "u32 \<Rightarrow> u8 list \<Rightarrow> connection" where
  "daemon_end uid sent =
     \<lparr>into_std = Inr (), peer_uid = Inr uid, set_nonblocking = Inr (), from_std = Inr (),
      read_bytes = (\<lambda>n. Inr (take n sent)), sendmsg = Inr (), write_all = Inr (),
      read_returns = True, write_returns = True\<rparr>"

fun delivered :: "(i32 \<Rightarrow> i32) \<Rightarrow> nat \<Rightarrow> effect list \<Rightarrow> u8 list \<times> ControlMessageOwned list" where
  "delivered dup n [] = ([], [])"
| "delivered dup n (BpfCall _ _ # effs) = delivered dup n effs"
| "delivered dup n (SendFd fd bytes # effs) = (take n bytes, [ScmRights [dup fd]])"
| "delivered dup n (WriteAll bytes # effs) = (take n bytes, [])"

definition client_end ::
    "host \<Rightarrow> codec \<Rightarrow> Policy \<Rightarrow> i32 list \<Rightarrow> u32 \<Rightarrow> (i32 \<Rightarrow> i32) \<Rightarrow> UnixStream" where
  "client_end h b policy fds uid dup =
     \<lparr>stream_write_all = (\<lambda>_. Inr ()),
      stream_recvmsg = (\<lambda>sent n. Inr (delivered dup n
        (snd (snd (handle_client h b (daemon_end uid sent) policy fds)))))\<rparr>"

definition client_verdict :: "(i32 \<Rightarrow> i32) \<Rightarrow> Response \<Rightarrow> i32 result" where
  "client_verdict dup resp =
     (case resp of
        Success (Some fd) \<Rightarrow> Inr (dup fd)
      | Success None \<Rightarrow> Inl (Msg ''No FD in response'')
      | Denied reason \<Rightarrow> Inl (Msg (''Denied: '' @ reason))
      | Error message \<Rightarrow> Inl (Msg (''Error: '' @ message)))"

text \<open>What the daemon decides for a user's request.\<close>

definition daemon_response ::
    "host \<Rightarrow> Policy \<Rightarrow> i32 list \<Rightarrow> string list \<Rightarrow> Request \<Rightarrow> Response" where
  "daemon_response h policy fds gs req =
     fst (decide h policy (get_role_for_groups policy gs) req fds)"

lemma daemon_end_simps [simp]:
  "peer_uid (daemon_end uid sent) = Inr uid" "into_std (daemon_end uid sent) = Inr ()"
  "set_nonblocking (daemon_end uid sent) = Inr ()" "from_std (daemon_end uid sent) = Inr ()"
  "read_bytes (daemon_end uid sent) n = Inr (take n sent)"
  "sendmsg (daemon_end uid sent) = Inr ()" "write_all (daemon_end uid sent) = Inr ()"
  by (simp_all add: daemon_end_def)

lemma delivered_reply:
  assumes "\<And>e. e \<in> set effs \<Longrightarrow> \<exists>cmd attr. e = BpfCall cmd attr"
  shows "delivered dup n (effs @ effs') = delivered dup n effs'"
  using assms by (induction effs) fastforce+

lemma daemon_end_delivers:
  assumes "get_user_groups h uid = Inr gs" and "sent \<noteq> []" and "length sent \<le> 4096"
    and "de_request b sent = Inr req"
    and "ser_response b (daemon_response h p fds gs req) = Inr bytes"
  shows "delivered dup n (snd (snd (handle_client h b (daemon_end uid sent) p fds))) =
     (take n bytes, case daemon_response h p fds gs req of
        Success (Some fd) \<Rightarrow> [ScmRights [dup fd]] | _ \<Rightarrow> [])"
proof -
  let ?role = "get_role_for_groups p gs"
  obtain resp fds' effs where d: "decide h p ?role req fds = (resp, fds', effs)"
    by (cases "decide h p ?role req fds")
  have auth: "authenticate h (daemon_end uid sent) p = Inr ?role"
    using assms(1) by (simp add: authenticate_def)
  have req: "read_request b (daemon_end uid sent) = Inr (Some req)"
    using assms(2-4) by (simp add: read_request_def)
  have "delivered dup n (effs @ effs') = delivered dup n effs'" for effs'
    using decide_effect [OF d] execute_bpf_effect by (intro delivered_reply) fastforce
  moreover from d have "daemon_response h p fds gs req = resp"
    by (simp add: daemon_response_def)
  ultimately show ?thesis
    using assms(5) auth req d
    by (auto simp: handle_client_def reply_def send_fd_with_data_def
        split: Response.splits option.splits)
qed

context wire_codec
begin

lemma joined_client_verdict:
  assumes "get_user_groups h uid = Inr gs"
    and "ser_request b (CreateMap t name ks vs me) = Inr sent" and "sent \<noteq> []"
    and "length sent \<le> 4096"
    and "ser_response b (daemon_response h p fds gs (CreateMap t name ks vs me)) = Inr bytes"
    and "length bytes \<le> 4096"
  shows "client_create_map b \<lparr>stream = client_end h b p fds uid dup\<rparr> t name ks vs me =
     client_verdict dup (daemon_response h p fds gs (CreateMap t name ks vs me))"
proof -
  let ?resp = "daemon_response h p fds gs (CreateMap t name ks vs me)"
  have "recv_response_with_fd b \<lparr>stream = client_end h b p fds uid dup\<rparr> sent =
      Inr (?resp, case ?resp of Success (Some fd) \<Rightarrow> Some (dup fd) | _ \<Rightarrow> None)"
    using daemon_end_delivers [OF assms(1,3,4) request_back [OF assms(2)] assms(5)] assms(6)
      response_back [OF assms(5)]
    by (simp add: recv_response_with_fd_def client_end_def split: Response.splits option.splits)
  with assms(2) show ?thesis
    by (simp add: client_create_map_def client_verdict_def client_end_def
        split: Response.splits option.splits)
qed

end

section \<open>End to end\<close>

text \<open>
  A client sees the daemon's decision. For a client that sends a request that fits the daemon's
  buffer and an answer that fits the client's, \<open>create_map\<close> returns the descriptor the daemon opened,
  as it arrives in the client, or the daemon's reason for refusing or failing.
\<close>

theorem client_sees_decision:
  assumes "wire_codec b" and "get_user_groups h uid = Inr gs"
    and "ser_request b (CreateMap t name ks vs me) = Inr sent" and "sent \<noteq> []"
    and "length sent \<le> 4096"
    and "ser_response b (daemon_response h p fds gs (CreateMap t name ks vs me)) = Inr bytes"
    and "length bytes \<le> 4096"
  shows "client_create_map b \<lparr>stream = client_end h b p fds uid dup\<rparr> t name ks vs me =
     (case daemon_response h p fds gs (CreateMap t name ks vs me) of
        Success (Some fd) \<Rightarrow> Inr (dup fd)
      | Success None \<Rightarrow> Inl (Msg ''No FD in response'')
      | Denied reason \<Rightarrow> Inl (Msg (''Denied: '' @ reason))
      | Error message \<Rightarrow> Inl (Msg (''Error: '' @ message)))"
  using wire_codec.joined_client_verdict [OF assms] by (simp add: client_verdict_def)

lemma demo_groups: "get_user_groups demo_host 1000 = Inr [''users'', ''ebpf'']"
  by (simp add: get_user_groups_def demo_host_def)

lemma demo_daemon_response:
  "daemon_response demo_host Policy_default [] [''users'', ''ebpf''] demo_request = Success (Some 3)"
proof -
  have "get_role_for_groups Policy_default [''users'', ''ebpf''] = Some ''ebpf''"
    by (simp add: default_role_for_groups)
  with demo_decide show ?thesis
    by (auto simp: daemon_response_def)
qed

lemma demo_serialised:
  "ser_request bincode demo_request = Inr (write_request demo_request)"
  "ser_response bincode (Success (Some fd)) = Inr (write_response (Success (Some fd)))"
  "length (write_response (Success (Some fd))) = 9"
  by (simp_all add: bincode_def demo_request_def write_word_def)

theorem client_sees_decision_witness:
  "client_create_map bincode
     \<lparr>stream = client_end demo_host bincode Policy_default [] 1000 (\<lambda>fd. fd + 4)\<rparr>
     ''hash'' ''m'' 4 8 16 = Inr 7"
proof -
  have "write_request demo_request \<noteq> []" "length (write_request demo_request) \<le> 4096"
    using length_demo_request by auto
  then show ?thesis
    using client_sees_decision [OF bincode.wire_codec_axioms demo_groups, of "''hash''" "''m''" 4 8 16
        "write_request demo_request" Policy_default "[]"
        "write_response (Success (Some 3))" "\<lambda>fd. fd + 4"]
      demo_serialised demo_daemon_response
    unfolding demo_request_def [symmetric] by simp
qed

text \<open>
  A client obtains a descriptor exactly if its user has a role, this role is allowed to make the
  request, and the kernel creates the map.
\<close>

theorem client_descriptor_iff_authorised:
  assumes "wire_codec b" and "get_user_groups h uid = Inr gs"
    and "ser_request b (CreateMap t name ks vs me) = Inr sent" and "sent \<noteq> []"
    and "length sent \<le> 4096"
    and "ser_response b (daemon_response h p fds gs (CreateMap t name ks vs me)) = Inr bytes"
    and "length bytes \<le> 4096"
  shows "(\<exists>fd. client_create_map b \<lparr>stream = client_end h b p fds uid dup\<rparr> t name ks vs me =
       Inr (dup fd)) \<longleftrightarrow>
     (\<exists>role fd. get_role_for_groups p gs = Some role \<and> is_allowed p role (CreateMap t name ks vs me) \<and>
        fst (create_bpf_map h t name ks vs me fds) = Inr fd)"
  using wire_codec.joined_client_verdict [OF assms, of dup]
  by (auto simp: client_verdict_def daemon_response_def decide_def execute_bpf_def
      split: Response.splits option.splits if_splits prod.splits sum.splits)

theorem client_descriptor_iff_authorised_witness:
  "\<exists>role fd. get_role_for_groups Policy_default [''users'', ''ebpf''] = Some role \<and>
     is_allowed Policy_default role demo_request \<and>
     fst (create_bpf_map demo_host ''hash'' ''m'' 4 8 16 []) = Inr fd"
proof -
  have "write_request demo_request \<noteq> []" "length (write_request demo_request) \<le> 4096"
    using length_demo_request by auto
  then show ?thesis
    using client_descriptor_iff_authorised [OF bincode.wire_codec_axioms demo_groups,
        of "''hash''" "''m''" 4 8 16 "write_request demo_request" Policy_default "[]"
        "write_response (Success (Some 3))" "\<lambda>fd. fd"]
      wire_codec.joined_client_verdict [OF bincode.wire_codec_axioms demo_groups,
        of "''hash''" "''m''" 4 8 16 "write_request demo_request" Policy_default "[]"
        "write_response (Success (Some 3))" "\<lambda>fd. fd"]
      demo_serialised demo_daemon_response
    unfolding demo_request_def [symmetric] by (simp add: client_verdict_def)
qed

section \<open>Messages larger than a buffer\<close>

text \<open>A serializer that does not read a message from a proper part of it.\<close>

locale strict_codec = wire_codec +
  assumes request_part: "ser_request b req = Inr bytes \<Longrightarrow> n < length bytes \<Longrightarrow>
      \<exists>e. de_request b (take n bytes) = Inl e"
    and response_part: "ser_response b resp = Inr bytes \<Longrightarrow> n < length bytes \<Longrightarrow>
      \<exists>e. de_response b (take n bytes) = Inl e"
begin

lemma oversized_request:
  assumes "ser_request b req = Inr sent" and "4096 < length sent"
  shows "\<exists>e. handle_client h b (daemon_end uid sent) p fds = (Inl e, fds, [])"
proof (cases "authenticate h (daemon_end uid sent) p")
  case (Inr role)
  obtain e where "de_request b (take 4096 sent) = Inl e"
    using request_part [OF assms] by blast
  with Inr assms(2) show ?thesis
    by (auto simp: handle_client_def read_request_def)
qed (simp add: handle_client_def)

lemma oversized_response:
  assumes "get_user_groups h uid = Inr gs"
    and "ser_request b (CreateMap t name ks vs me) = Inr sent" and "sent \<noteq> []"
    and "length sent \<le> 4096"
    and "ser_response b (daemon_response h p fds gs (CreateMap t name ks vs me)) = Inr bytes"
    and "4096 < length bytes"
  shows "\<exists>e. de_response b (take 4096 bytes) = Inl e \<and>
     client_create_map b \<lparr>stream = client_end h b p fds uid dup\<rparr> t name ks vs me = Inl e"
proof -
  obtain e where "de_response b (take 4096 bytes) = Inl e"
    using response_part [OF assms(5,6)] by blast
  moreover from this have "recv_response_with_fd b \<lparr>stream = client_end h b p fds uid dup\<rparr> sent = Inl e"
    using daemon_end_delivers [OF assms(1,3,4) request_back [OF assms(2)] assms(5)]
    by (simp add: recv_response_with_fd_def client_end_def)
  ultimately show ?thesis
    using assms(2) by (simp add: client_create_map_def client_end_def)
qed

end

lemma read_word_take:
  "read_word (take n (write_word w @ rest)) = (if n < 4 then None else Some (w, take (n - 4) rest))"
proof (cases "n < 4")
  case False
  then have "take n (write_word w @ rest) = write_word w @ take (n - 4) rest"
    by (simp add: write_word_def)
  with False show ?thesis by simp
qed (simp add: read_word_def read_nat_def write_word_def)

lemma read_string_take:
  assumes "length s < 2 ^ 64"
  shows "read_string (take n (write_string s @ rest)) =
     (if n < 8 + length s then None else Some (s, take (n - (8 + length s)) rest))"
proof (cases "n < 8 + length s")
  case True
  show ?thesis
  proof (cases "n < 8")
    case False
    then have "take n (write_string s @ rest) = le_bytes 8 (length s) @ take (n - 8) (as_bytes s @ rest)"
      by (simp add: write_string_def)
    with False True assms show ?thesis
      by (simp add: read_string_def read_nat_le_bytes)
  qed (simp add: read_string_def read_nat_def write_string_def)
next
  case False
  then have "take n (write_string s @ rest) = write_string s @ take (n - (8 + length s)) rest"
    by (simp add: write_string_def)
  with False assms show ?thesis by simp
qed

lemma length_write [simp]:
  "length (write_word w) = 4" "length (write_string s) = 8 + length s"
  by (simp_all add: write_word_def write_string_def)

lemmas take_rules = read_word_take read_string_take
  read_word_take [where rest = "[]", simplified] read_string_take [where rest = "[]", simplified]

lemma read_request_part:
  assumes "\<forall>s\<in>set (request_strings req). length s < 2 ^ 64" and "n < length (write_request req)"
  shows "read_request_bytes (take n (write_request req)) = None"
  using assms
  by (cases req) (simp_all add: read_request_bytes_def take_rules del: take_append split: if_splits)

lemma read_response_part:
  assumes "\<forall>s\<in>set (response_strings resp). length s < 2 ^ 64" and "n < length (write_response resp)"
  shows "read_response_bytes (take n (write_response resp)) = None"
proof (cases resp rule: write_response.cases)
  case 1
  with assms(2) show ?thesis
    by (simp add: read_response_bytes_def take_rules del: take_append)
next
  case (2 f)
  with assms(2) show ?thesis
    by (auto simp: read_response_bytes_def take_rules take_Cons' simp del: take_append)
qed (use assms in \<open>auto simp: read_response_bytes_def take_rules simp del: take_append\<close>)

interpretation strict_bincode: strict_codec bincode
proof
  show "\<exists>e. de_request bincode (take n bytes) = Inl e"
    if "ser_request bincode req = Inr bytes" "n < length bytes" for req bytes n
    using that read_request_part [of req n]
    by (auto simp: bincode_def list_all_iff of_option_def split: if_splits)
  show "\<exists>e. de_response bincode (take n bytes) = Inl e"
    if "ser_response bincode resp = Inr bytes" "n < length bytes" for resp bytes n
    using that read_response_part [of resp n]
    by (auto simp: bincode_def list_all_iff of_option_def split: if_splits)
qed

text \<open>
  C39: buffers of 4096 bytes bound the messages. A request whose encoding is longer is dropped by the
  daemon without a system call and without an answer; an answer whose encoding is longer, such as a
  denial that repeats a request with long names, reaches the client as a decoding error: the client
  does not learn that it was denied.
\<close>

theorem oversized_messages_lost:
  assumes "strict_codec b" and "get_user_groups h uid = Inr gs"
    and "ser_request b (CreateMap t name ks vs me) = Inr sent" and "sent \<noteq> []"
    and "ser_response b (daemon_response h p fds gs (CreateMap t name ks vs me)) = Inr bytes"
  shows "(4096 < length sent \<longrightarrow>
       (\<exists>e. handle_client h b (daemon_end uid sent) p fds = (Inl e, fds, []))) \<and>
     (length sent \<le> 4096 \<and> 4096 < length bytes \<longrightarrow>
       (\<exists>e. de_response b (take 4096 bytes) = Inl e \<and>
         client_create_map b \<lparr>stream = client_end h b p fds uid dup\<rparr> t name ks vs me = Inl e))"
  using strict_codec.oversized_request [OF assms(1,3)]
    strict_codec.oversized_response [OF assms(1-4) _ assms(5)] by blast

definition long_name :: string where
  "long_name = replicate 4040 CHR ''m''"

lemma long_name_denied:
  "\<exists>reason. daemon_response demo_host Policy_default [] [''users'', ''ebpf'']
       (CreateMap ''devmap'' long_name 4 8 16) = Denied reason \<and>
     4096 < length reason \<and> length reason < 2 ^ 64"
proof -
  let ?req = "CreateMap ''devmap'' long_name 4 8 16"
  have role: "get_role_for_groups Policy_default [''users'', ''ebpf''] = Some ''ebpf''"
    by (simp add: default_role_for_groups)
  have num: "show_u32 4 = ''4''" "show_u32 8 = ''8''" "show_u32 16 = ''16''"
    by code_simp+
  show ?thesis
    using role default_tracing_no_devmap
    by (simp add: daemon_response_def decide_def debug_request_def demo_host_def num long_name_def)
qed

theorem oversized_messages_lost_witness:
  "\<exists>e. client_create_map bincode
     \<lparr>stream = client_end demo_host bincode Policy_default [] 1000 (\<lambda>fd. fd)\<rparr>
     ''devmap'' long_name 4 8 16 = Inl e"
proof -
  let ?req = "CreateMap ''devmap'' long_name 4 8 16"
  obtain reason where reason: "daemon_response demo_host Policy_default [] [''users'', ''ebpf''] ?req =
      Denied reason" "4096 < length reason" "length reason < 2 ^ 64"
    using long_name_denied by blast
  have sent: "ser_request bincode ?req = Inr (write_request ?req)"
    by (simp add: bincode_def long_name_def)
  have len: "length (write_request ?req) = 4078"
    by (simp add: long_name_def)
  then have ne: "write_request ?req \<noteq> []"
    by (metis list.size(3) zero_neq_numeral)
  have "ser_response bincode (Denied reason) = Inr (write_response (Denied reason))"
    using reason(3) by (simp add: bincode_def)
  moreover have "4096 < length (write_response (Denied reason))"
    using reason(2) by simp
  ultimately show ?thesis
    using oversized_messages_lost [OF strict_bincode.strict_codec_axioms demo_groups sent ne,
        of Policy_default "[]" "write_response (Denied reason)" "\<lambda>fd. fd"] reason(1) len
    by auto
qed

end
