(* ===== verification/Client_Cli.thy ===== *)
theory Client_Cli
  imports Client_Library
begin

text \<open>
  The command-line client of \<open>src/bin/bpf-rbac.rs\<close>: the commands as \<open>clap\<close> hands them to \<open>main\<close>, the
  resolution of the arguments of \<open>create-map\<close>, given as flags or by position, and \<open>main\<close> with the
  lines it prints.
\<close>

section \<open>Commands and their arguments\<close>

datatype Commands =
    CreateMapCmd
      (arg_map_type: "string option") (arg_name: "string option") (arg_key_size: "u32 option")
      (arg_value_size: "u32 option") (arg_max_entries: "u32 option") (arg_positional: "string list")
  | Status

type_synonym map_args = "string \<times> string \<times> u32 \<times> u32 \<times> u32"

definition usage :: string where
  "usage =
     ''Missing required arguments.'' @ [CHR 0x0A, CHR 0x0A] @
     ''Usage:'' @ [CHR 0x0A] @
     ''  bpf-rbac create-map --type <TYPE> --name <NAME> --key-size <BYTES> --value-size <BYTES> [--max-entries <N>]'' @
     [CHR 0x0A] @
     ''  bpf-rbac create-map <type> <name> <key_size> <value_size> [max_entries]'' @
     [CHR 0x0A, CHR 0x0A] @
     ''Examples:'' @ [CHR 0x0A] @
     ''  bpf-rbac create-map --type hash --name my_counters --key-size 4 --value-size 8 --max-entries 1024'' @
     [CHR 0x0A] @
     ''  bpf-rbac create-map hash my_map 4 8 1024''"

text \<open>\<open>parse\<close> with the error message of the argument.\<close>

definition parse_arg :: "string \<Rightarrow> string \<Rightarrow> u32 result" where
  "parse_arg what s =
     (case parse_u32 s of
        Some v \<Rightarrow> Inr v
      | None \<Rightarrow> Inl (Msg (''invalid '' @ what @ '' '' @ [CHR 0x27] @ s @ [CHR 0x27] @
          '': expected a number'')))"

definition resolve_create_map_args ::
    "string option \<Rightarrow> string option \<Rightarrow> u32 option \<Rightarrow> u32 option \<Rightarrow> u32 option \<Rightarrow> string list \<Rightarrow>
     map_args result" where
  "resolve_create_map_args map_type name key_size value_size max_entries positional =
     (let has_flags = (map_type \<noteq> None \<or> name \<noteq> None \<or> key_size \<noteq> None \<or> value_size \<noteq> None)
      in if has_flags then
        (case map_type of None \<Rightarrow> Inl (Msg ''--type is required'') | Some map_type \<Rightarrow>
        (case name of None \<Rightarrow> Inl (Msg ''--name is required'') | Some name \<Rightarrow>
        (case key_size of None \<Rightarrow> Inl (Msg ''--key-size is required'') | Some key_size \<Rightarrow>
        (case value_size of None \<Rightarrow> Inl (Msg ''--value-size is required'') | Some value_size \<Rightarrow>
          Inr (map_type, name, key_size, value_size,
            case max_entries of Some n \<Rightarrow> n | None \<Rightarrow> 1024)))))
      else if 4 \<le> length positional then
        (case parse_arg ''key_size'' (positional ! 2) of Inl e \<Rightarrow> Inl e | Inr key_size \<Rightarrow>
        (case parse_arg ''value_size'' (positional ! 3) of Inl e \<Rightarrow> Inl e | Inr value_size \<Rightarrow>
        (case (if 4 < length positional then parse_arg ''max_entries'' (positional ! 4)
               else Inr 1024) of Inl e \<Rightarrow> Inl e | Inr max_entries \<Rightarrow>
          Inr (positional ! 0, positional ! 1, key_size, value_size, max_entries))))
      else Inl (Msg usage))"

section \<open>The program\<close>

text \<open>The two marks of the messages, in UTF-8.\<close>

definition check_mark :: string where "check_mark = [CHR 0xE2, CHR 0x9C, CHR 0x93]"
definition cross_mark :: string where "cross_mark = [CHR 0xE2, CHR 0x9C, CHR 0x97]"

text \<open>\<open>main\<close> returns its result and the lines it printed.\<close>

definition cli_main ::
    "codec \<Rightarrow> (string \<Rightarrow> UnixStream result) \<Rightarrow> Commands \<Rightarrow> unit result \<times> string list" where
  "cli_main b connect command =
     (case command of
        CreateMapCmd map_type name key_size value_size max_entries positional \<Rightarrow>
          (case resolve_create_map_args map_type name key_size value_size max_entries positional of
             Inl e \<Rightarrow> (Inl e, [])
           | Inr (map_type, name, key_size, value_size, max_entries) \<Rightarrow>
               (let out = [''Connecting to BPF RBAC daemon...''] in
                case client_connect connect of
                  Inl e \<Rightarrow> (Inl e, out)
                | Inr client \<Rightarrow>
                    (let out = out @
                       [''Requesting map creation:'',
                        ''  Type: '' @ map_type,
                        ''  Name: '' @ name,
                        ''  Key size: '' @ show_u32 key_size @ '' bytes'',
                        ''  Value size: '' @ show_u32 value_size @ '' bytes'',
                        ''  Max entries: '' @ show_u32 max_entries] in
                     case client_create_map b client map_type name key_size value_size max_entries of
                       Inl e \<Rightarrow> (Inl e, out)
                     | Inr fd \<Rightarrow>
                         (Inr (), out @
                           [[CHR 0x0A] @ check_mark @ '' Success! BPF map created with FD: '' @ show_i32 fd,
                            [CHR 0x0A] @ ''You can now use this FD to read/write map data.'']))))
      | Status \<Rightarrow>
          (case client_connect connect of
             Inr _ \<Rightarrow> (Inr (), [check_mark @ '' BPF RBAC daemon is running''])
           | Inl e \<Rightarrow> (Inr (), [cross_mark @ '' Daemon not available: '' @ to_string e])))"

section \<open>Properties\<close>

lemma parse_arg_show [simp]: "parse_arg what (show_u32 w) = Inr w"
  by (simp add: parse_arg_def parse_show_u32)

lemma parse_arg_Inr [simp]: "parse_arg what s = Inr v \<longleftrightarrow> parse_u32 s = Some v"
  by (simp add: parse_arg_def split: option.splits)

text \<open>
  The two ways to give the arguments agree: flags, with or without \<open>--max-entries\<close>, resolve to
  what the same values resolve to when they are printed and given by position.
\<close>

theorem cli_flags_agree_with_positions:
  "resolve_create_map_args (Some t) (Some name) (Some ks) (Some vs) me rest =
     Inr (t, name, ks, vs, case me of Some n \<Rightarrow> n | None \<Rightarrow> 1024) \<and>
   resolve_create_map_args None None None None any
       ([t, name, show_u32 ks, show_u32 vs] @ (case me of Some n \<Rightarrow> [show_u32 n] | None \<Rightarrow> [])) =
     resolve_create_map_args (Some t) (Some name) (Some ks) (Some vs) me rest"
  by (cases me) (simp_all add: resolve_create_map_args_def Let_def)

text \<open>
  When the arguments resolve. With one of the four flags, exactly if all four are given; without,
  exactly if there are four positions at least, and the sizes and the number of entries, if given,
  are decimal numbers of 32 bits. In the second case \<open>--max-entries\<close> is not looked at.
\<close>

theorem cli_arguments_resolve_iff:
  "resolve_create_map_args t name ks vs me pos = Inr (t', name', ks', vs', me') \<longleftrightarrow>
     (if t \<noteq> None \<or> name \<noteq> None \<or> ks \<noteq> None \<or> vs \<noteq> None
      then t = Some t' \<and> name = Some name' \<and> ks = Some ks' \<and> vs = Some vs' \<and>
        me' = (case me of Some n \<Rightarrow> n | None \<Rightarrow> 1024)
      else 4 \<le> length pos \<and> pos ! 0 = t' \<and> pos ! 1 = name' \<and> parse_u32 (pos ! 2) = Some ks' \<and>
        parse_u32 (pos ! 3) = Some vs' \<and>
        (if 4 < length pos then parse_u32 (pos ! 4) = Some me' else me' = 1024))"
  by (auto simp: resolve_create_map_args_def Let_def parse_arg_def split: option.splits sum.splits)

text \<open>
  \<open>--max-entries\<close> has no effect on its own: with positional arguments and none of the four other
  flags, the program does the same for every value of it, and requests 1024 entries if there is no
  fifth position.
\<close>

theorem cli_max_entries_ignored:
  "cli_main b connect (CreateMapCmd None None None None (Some n) pos) =
     cli_main b connect (CreateMapCmd None None None None None pos)"
  by (simp add: cli_main_def resolve_create_map_args_def)

end
