(* ===== verification/Xtask_Runner.thy ===== *)
theory Xtask_Runner
  imports Client_Cli
begin

text \<open>
  The task runner of \<open>xtask/src/main.rs\<close>: finding the workspace, building, cleaning, installing and
  testing. A command that is run is its list of words; the world answers it depending on the commands
  run before, and every function returns the commands run so far. What the functions print about
  their progress is left out. The shell script of the integration tests is given twice: as the text
  the runner hands to \<open>bash\<close>, and as a definition of what its test loop computes.
\<close>

section \<open>The world of the runner\<close>

type_synonym command_line = "string list"

record world =
  cmd_status :: "command_line list \<Rightarrow> command_line \<Rightarrow> bool result"
  cmd_output :: "command_line list \<Rightarrow> command_line \<Rightarrow> (bool \<times> string) result"
  path_exists :: "command_line list \<Rightarrow> string \<Rightarrow> bool"
  geteuid :: nat
  manifest_dir_var :: "string option"
  set_current_dir :: "string \<Rightarrow> unit result"

text \<open>
  \<open>cmd_status\<close> says whether the command exited with success, \<open>cmd_output\<close> also what it wrote to its
  standard output, decoded. \<open>Command::status\<close> with its context and the check of the status:
\<close>

definition run_checked ::
    "world \<Rightarrow> command_line \<Rightarrow> string \<Rightarrow> string \<Rightarrow> command_line list \<Rightarrow> unit result \<times> command_line list" where
  "run_checked w cmd context failure trace =
     (case with_context context (cmd_status w trace cmd) of
        Inl e \<Rightarrow> (Inl e, trace @ [cmd])
      | Inr ok \<Rightarrow> if \<not> ok then (Inl (Msg failure), trace @ [cmd]) else (Inr (), trace @ [cmd]))"

section \<open>The tasks\<close>

definition run_build :: "world \<Rightarrow> bool \<Rightarrow> command_line list \<Rightarrow> unit result \<times> command_line list" where
  "run_build w release trace =
     run_checked w ([''cargo'', ''build''] @ (if release then [''--release''] else []))
       ''Failed to run cargo build'' ''Build failed'' trace"

definition run_clean :: "world \<Rightarrow> command_line list \<Rightarrow> unit result \<times> command_line list" where
  "run_clean w trace =
     run_checked w [''cargo'', ''clean''] ''Failed to run cargo clean'' ''Clean failed'' trace"

definition install_cmd :: "string \<Rightarrow> command_line" where
  "install_cmd binary = [''sudo'', ''install'', ''-m'', ''755'', binary, ''/usr/local/bin/'']"

definition run_install :: "world \<Rightarrow> command_line list \<Rightarrow> unit result \<times> command_line list" where
  "run_install w trace =
     (case run_build w True trace of
        (Inl e, trace) \<Rightarrow> (Inl e, trace)
      | (Inr _, trace) \<Rightarrow>
          (let daemon = ''target/release/bpf-rbacd''; client = ''target/release/bpf-rbac'' in
           if \<not> path_exists w trace daemon
           then (Inl (Msg (''Daemon binary not found at '' @ daemon)), trace)
           else if \<not> path_exists w trace client
           then (Inl (Msg (''Client binary not found at '' @ client)), trace)
           else
             (case run_checked w (install_cmd daemon) ''Failed to install daemon''
                ''Failed to install daemon'' trace of
                (Inl e, trace) \<Rightarrow> (Inl e, trace)
              | (Inr _, trace) \<Rightarrow>
                  run_checked w (install_cmd client) ''Failed to install client''
                    ''Failed to install client'' trace)))"

definition integration_test_script :: "bool \<Rightarrow> string" where
  "integration_test_script verbose =
     (let log_level = (if verbose then ''info'' else ''warn'') in
      concat (map (\<lambda>line. line @ [CHR 0x0A])
       [''#!/bin/bash'',
        ''# Setup'',
        ''groupadd ebpf 2>/dev/null || true'',
        ''useradd -m -G ebpf xtask_user_ok 2>/dev/null || true'',
        ''useradd -m xtask_user_bad 2>/dev/null || true'',
        [],
        ''# Start daemon'',
        ''RUST_LOG='' @ log_level @ '' ./target/release/bpf-rbacd &'',
        ''DAEMON_PID=$!'',
        ''sleep 2'',
        [],
        ''PASSED=0'',
        ''FAILED=0'',
        [],
        ''run_test() {'',
        ''    local name=\"$1\"'',
        ''    local user=\"$2\"'',
        ''    local expected=\"$3\"'',
        ''    shift 3'',
        ''    '',
        ''    printf \"  [%s]: \" \"$name\"'',
        ''    OUTPUT=$(sudo -u \"$user\" ./target/release/bpf-rbac \"$@\" 2>&1) || true'',
        ''    '',
        ''    if [ \"$expected\" = \"pass\" ]; then'',
        ''        if echo \"$OUTPUT\" | grep -q \"Success\"; then'',
        ''            echo \"PASS\"'',
        ''            PASSED=$((PASSED+1))'',
        ''        else'',
        ''            echo \"FAIL\"'',
        ''            FAILED=$((FAILED+1))'',
        ''        fi'',
        ''    else'',
        ''        if echo \"$OUTPUT\" | grep -q \"Denied\"; then'',
        ''            echo \"PASS (denied)\"'',
        ''            PASSED=$((PASSED+1))'',
        ''        else'',
        ''            echo \"FAIL\"'',
        ''            FAILED=$((FAILED+1))'',
        ''        fi'',
        ''    fi'',
        ''}'',
        [],
        ''echo \"  Integration Tests:\"'',
        ''run_test \"allowed_hash_map\" \"xtask_user_ok\" \"pass\" create-map hash t1 4 8 100'',
        ''run_test \"allowed_array_map\" \"xtask_user_ok\" \"pass\" create-map array t2 4 8 100'',
        ''run_test \"denied_hash_map\" \"xtask_user_bad\" \"fail\" create-map hash t3 4 8 100'',
        ''run_test \"denied_array_map\" \"xtask_user_bad\" \"fail\" create-map array t4 4 8 100'',
        [],
        ''echo \"\"'',
        ''echo \"Results: $PASSED passed, $FAILED failed\"'',
        [],
        ''# Cleanup'',
        ''kill $DAEMON_PID 2>/dev/null || true'',
        ''pkill -f bpf-rbacd 2>/dev/null || true'',
        ''userdel -r xtask_user_ok 2>/dev/null || true'',
        ''userdel -r xtask_user_bad 2>/dev/null || true'',
        ''rm -f /run/bpf-rbac.sock 2>/dev/null || true'',
        [],
        ''# Exit with proper status'',
        ''[ $FAILED -eq 0 ]'']))"

text \<open>How \<open>run_tests\<close> reads the outcome of the integration tests.\<close>

definition tests_verdict :: "bool \<Rightarrow> string \<Rightarrow> unit result" where
  "tests_verdict success stdout =
     (if str_contains stdout ''0 failed'' then Inr ()
      else if \<not> success \<or> str_contains stdout ''failed'' then Inl (Msg ''Integration tests failed'')
      else Inr ())"

definition run_tests ::
    "world \<Rightarrow> bool \<Rightarrow> bool \<Rightarrow> command_line list \<Rightarrow> unit result \<times> command_line list" where
  "run_tests w sudo verbose trace =
     (if \<not> sudo \<and> geteuid w \<noteq> 0
      then (Inl (Msg ''Integration tests require root. Use --sudo=true or run as root.''), trace)
      else case run_build w True trace of
        (Inl e, trace) \<Rightarrow> (Inl e, trace)
      | (Inr _, trace) \<Rightarrow>
     (case run_checked w [''cargo'', ''test'', ''--lib''] ''Failed to run unit tests''
             ''Unit tests failed'' trace of
        (Inl e, trace) \<Rightarrow> (Inl e, trace)
      | (Inr _, trace) \<Rightarrow>
          (let cmd = (if sudo then [''sudo'', ''-E'', ''bash'', ''-c'', integration_test_script verbose]
                      else [''bash'', ''-c'', integration_test_script verbose]) in
           case with_context ''Failed to run integration tests'' (cmd_output w trace cmd) of
             Inl e \<Rightarrow> (Inl e, trace @ [cmd])
           | Inr (success, stdout) \<Rightarrow> (tests_verdict success stdout, trace @ [cmd]))))"

section \<open>The program\<close>

text \<open>
  \<open>Path::parent\<close> on Unix: trailing separators and \<open>.\<close> components do not count, the root has no
  parent, and the parent of a single component is the empty path.
\<close>

fun rtrim_path :: "string \<Rightarrow> string" where
  "rtrim_path [] = []"
| "rtrim_path (c # cs) =
     (if c = CHR ''/'' then (if cs = [] then [c] else rtrim_path cs)
      else if c = CHR ''.'' \<and> cs \<noteq> [] \<and> hd cs = CHR ''/'' then rtrim_path cs
      else c # cs)"

definition path_parent :: "string \<Rightarrow> string option" where
  "path_parent p =
     (let q = rtrim_path (rev p) in
      if q = [] \<or> q = ''/'' then None
      else Some (rev (rtrim_path (dropWhile (\<lambda>c. c \<noteq> CHR ''/'') q))))"

datatype XtaskCommands = Test bool bool | Build bool | Install | Clean

definition xtask_main :: "world \<Rightarrow> XtaskCommands \<Rightarrow> unit result \<times> command_line list" where
  "xtask_main w command =
     (let manifest_dir = (case manifest_dir_var w of Some d \<Rightarrow> d | None \<Rightarrow> ''.'');
          workspace_root = (case path_parent manifest_dir of Some d \<Rightarrow> d | None \<Rightarrow> ''.'')
      in case with_context ''Failed to change to workspace root''
           (set_current_dir w workspace_root) of
           Inl e \<Rightarrow> (Inl e, [])
         | Inr _ \<Rightarrow>
             (case command of
                Test sudo verbose \<Rightarrow> run_tests w sudo verbose []
              | Build release \<Rightarrow> run_build w release []
              | Install \<Rightarrow> run_install w []
              | Clean \<Rightarrow> run_clean w []))"

section \<open>The verdict on the integration tests\<close>

text \<open>The last line the script writes, with the numbers of passed and failed tests.\<close>

definition results_line :: "nat \<Rightarrow> nat \<Rightarrow> string" where
  "results_line p f =
     ''Results: '' @ show_nat p @ '' passed, '' @ show_nat f @ '' failed'' @ [CHR 0x0A]"

lemma not_digit_show_nat: "(of_char c :: nat) < 48 \<or> 57 < (of_char c :: nat) \<Longrightarrow> c \<notin> set (show_nat n)"
  using show_nat_digits by fastforce

lemma letter_not_in_show_nat [simp]:
  "CHR ''f'' \<notin> set (show_nat n)" "CHR ''a'' \<notin> set (show_nat n)"
  by (simp_all add: not_digit_show_nat)

lemma failed_count_contains:
  "str_contains ('' '' @ show_nat f @ '' failed'') ''0 failed'' \<longleftrightarrow> f mod 10 = 0"
proof
  assume "str_contains ('' '' @ show_nat f @ '' failed'') ''0 failed''"
  then obtain u v where eq: "'' '' @ show_nat f @ '' failed'' = u @ ''0 failed'' @ v"
    by (auto simp: str_contains_iff)
  have "CHR ''f'' \<notin> set ('' '' @ show_nat f @ '' '')" "CHR ''f'' \<notin> set ''ailed''"
    by simp_all
  from append_Cons_eq_iff [OF this, of "u @ ''0 ''" "''ailed'' @ v"] eq
  have "'' '' @ show_nat f @ '' '' = u @ ''0 ''"
    by simp
  then have "butlast ('' '' @ show_nat f @ '' '') = butlast (u @ ''0 '')"
    by (rule arg_cong)
  then have "'' '' @ show_nat f = u @ ''0''"
    by (simp add: butlast_append)
  then have "last ('' '' @ show_nat f) = CHR ''0''"
    by (simp only: last_snoc)
  moreover obtain ds where "show_nat f = ds @ [digit_char (f mod 10)]"
    using show_nat_snoc by blast
  ultimately have "digit_char (f mod 10) = CHR ''0''"
    by simp
  then have "(of_char (digit_char (f mod 10)) :: nat) = 48"
    by simp
  then show "f mod 10 = 0"
    by (simp add: of_char_digit_char)
next
  assume "f mod 10 = 0"
  moreover obtain ds where "show_nat f = ds @ [digit_char (f mod 10)]"
    using show_nat_snoc by blast
  moreover have "digit_char 0 = CHR ''0''"
    by code_simp
  ultimately have "'' '' @ show_nat f @ '' failed'' = ('' '' @ ds) @ ''0 failed'' @ []"
    by simp
  then show "str_contains ('' '' @ show_nat f @ '' failed'') ''0 failed''"
    using str_contains_iff by blast
qed

lemma results_line_contains:
  assumes "\<not> str_contains pre ''failed''"
  shows "str_contains (pre @ results_line p f) ''0 failed'' \<longleftrightarrow> f mod 10 = 0"
proof -
  have pre: "\<not> str_contains pre ''0 failed''"
    using assms str_contains_append2 [of "''failed''" "''failed''" "''0 ''"]
    by (auto simp: str_contains_iff) (metis append.assoc append_Cons append_Nil)
  have eq: "pre @ results_line p f =
      pre @ CHR ''R'' # ''esults'' @ CHR '':'' # ('' '' @ show_nat p @ '' passed'') @ CHR '','' #
        ('' '' @ show_nat f @ '' failed'') @ CHR 0x0A # []"
    by (simp add: results_line_def)
  have sep: "CHR ''R'' \<notin> set ''0 failed''" "CHR '':'' \<notin> set ''0 failed''"
    "CHR '','' \<notin> set ''0 failed''" "CHR 0x0A \<notin> set ''0 failed''"
    by simp_all
  have "str_contains (pre @ results_line p f) ''0 failed'' \<longleftrightarrow>
      str_contains pre ''0 failed'' \<or> str_contains ''esults'' ''0 failed'' \<or>
      str_contains ('' '' @ show_nat p @ '' passed'') ''0 failed'' \<or>
      str_contains ('' '' @ show_nat f @ '' failed'') ''0 failed'' \<or> str_contains [] ''0 failed''"
    unfolding eq by (simp only: sep [THEN str_contains_sep] disj_assoc)
  moreover have "\<not> str_contains ('' '' @ show_nat p @ '' passed'') ''0 failed''"
    by (rule str_contains_lacks [of "CHR ''f''"]) simp_all
  ultimately show ?thesis
    using pre failed_count_contains by simp
qed

lemma results_line_failed: "str_contains (pre @ results_line p f) ''failed''"
proof -
  have "pre @ results_line p f =
      (pre @ ''Results: '' @ show_nat p @ '' passed, '' @ show_nat f @ '' '') @ ''failed'' @ [CHR 0x0A]"
    by (simp add: results_line_def)
  then show ?thesis
    using str_contains_iff by blast
qed

text \<open>
  C40: the verdict on the integration tests. When the script's output ends with its result line and
  does not mention a failure before, the runner reports success exactly if the number of failed tests
  ends in the digit 0, whatever the script's exit status: the verdict is right for up to nine failing
  tests, and ten failing tests pass.
\<close>

theorem tests_verdict_by_last_digit:
  assumes "\<not> str_contains pre ''failed''"
  shows "tests_verdict success (pre @ results_line p f) = Inr () \<longleftrightarrow> f mod 10 = 0"
  using results_line_contains [OF assms, of p f] results_line_failed [of pre p f]
  by (simp add: tests_verdict_def)

theorem tests_verdict_by_last_digit_witness:
  "tests_verdict False (''  Integration Tests:'' @ results_line 0 10) = Inr () \<and>
   tests_verdict False (''  Integration Tests:'' @ results_line 1 3) \<noteq> Inr ()"
proof -
  have pre: "\<not> str_contains ''  Integration Tests:'' ''failed''"
    by simp
  show ?thesis
    using tests_verdict_by_last_digit [OF pre, of False 0 10]
      tests_verdict_by_last_digit [OF pre, of False 1 3]
    by simp
qed

section \<open>Properties of the tasks\<close>

lemma run_checked_cases:
  "run_checked w cmd c f trace = (r, trace') \<Longrightarrow>
     trace' = trace @ [cmd] \<and> (r = Inr () \<longleftrightarrow> cmd_status w trace cmd = Inr True)"
  by (auto simp: run_checked_def split: sum.splits if_splits)

lemma run_checked_Inr:
  "run_checked w cmd c f trace = (Inr (), trace') \<longleftrightarrow>
     cmd_status w trace cmd = Inr True \<and> trace' = trace @ [cmd]"
  by (auto simp: run_checked_def split: sum.splits if_splits)

text \<open>
  Installing. The runner reports success exactly if the release build succeeds, both binaries are
  there afterwards, and both are installed, first the daemon, then the client; it runs nothing else.
\<close>

theorem install_succeeds_iff:
  "run_install w [] = (Inr (), trace) \<longleftrightarrow>
     (let build = [''cargo'', ''build'', ''--release''];
          daemon = install_cmd ''target/release/bpf-rbacd'';
          client = install_cmd ''target/release/bpf-rbac''
      in trace = [build, daemon, client] \<and> cmd_status w [] build = Inr True \<and>
         path_exists w [build] ''target/release/bpf-rbacd'' \<and>
         path_exists w [build] ''target/release/bpf-rbac'' \<and>
         cmd_status w [build] daemon = Inr True \<and> cmd_status w [build, daemon] client = Inr True)"
  by (auto simp: run_install_def run_build_def Let_def run_checked_Inr split: prod.splits sum.splits
      dest!: run_checked_cases)

text \<open>
  The integration script, which creates users and runs the daemon with privileges, is only run
  when the runner may use \<open>sudo\<close> or is root, and after the release build and the unit tests
  succeeded; it is the last command.
\<close>

theorem script_runs_last:
  assumes "run_tests w sudo verbose [] = (r, trace)"
    and "integration_test_script verbose \<in> set (last trace)" and "trace \<noteq> []"
  shows "(sudo \<or> geteuid w = 0) \<and>
     (\<exists>cmd. trace = [[''cargo'', ''build'', ''--release''], [''cargo'', ''test'', ''--lib''], cmd] \<and>
        cmd_status w [] [''cargo'', ''build'', ''--release''] = Inr True \<and>
        cmd_status w [[''cargo'', ''build'', ''--release'']] [''cargo'', ''test'', ''--lib''] = Inr True)"
proof -
  have long: "integration_test_script verbose \<noteq> x" if "length x < 20" for x
  proof -
    have "20 < length (integration_test_script verbose)"
      by (simp add: integration_test_script_def Let_def)
    with that show ?thesis by auto
  qed
  show ?thesis
    using assms
    by (auto simp: run_tests_def run_build_def long Let_def split: if_splits prod.splits sum.splits
        dest!: run_checked_cases)
qed

lemma rtrim_path_id: "q = [] \<or> hd q \<notin> {CHR ''/'', CHR ''.''} \<Longrightarrow> rtrim_path q = q"
  by (cases q) simp_all

text \<open>
  Where the runner works. With the variable \<open>CARGO_MANIFEST_DIR\<close> set to the directory \<open>xtask\<close> of
  the workspace, as \<open>cargo\<close> does, it works in the workspace. Without the variable its default is of
  no use: the parent of \<open>.\<close> is the empty path, to which no process can change, and every task fails.
\<close>

theorem workspace_root_found:
  assumes "root \<noteq> []" and "last root \<notin> {CHR ''/'', CHR ''.''}" and "\<exists>e. set_current_dir w [] = Inl e"
  shows "path_parent (root @ ''/xtask'') = Some root \<and>
     (manifest_dir_var w = None \<longrightarrow>
       (\<exists>e. xtask_main w command = (Inl (Context ''Failed to change to workspace root'' e), [])))"
proof
  have "rtrim_path (rev root) = rev root"
    using assms(1,2) by (intro rtrim_path_id) (simp add: hd_rev)
  then show "path_parent (root @ ''/xtask'') = Some root"
    using assms(1) by (simp add: path_parent_def)
  show "manifest_dir_var w = None \<longrightarrow>
      (\<exists>e. xtask_main w command = (Inl (Context ''Failed to change to workspace root'' e), []))"
    using assms(3) by (auto simp: xtask_main_def path_parent_def Let_def)
qed

definition bare_world :: world where
  "bare_world = \<lparr>cmd_status = (\<lambda>_ _. Inr True), cmd_output = (\<lambda>_ _. Inr (True, [])),
     path_exists = (\<lambda>_ _. True), geteuid = 0, manifest_dir_var = None,
     set_current_dir = (\<lambda>d. if d = [] then Inl (Msg ''No such file or directory'') else Inr ())\<rparr>"

theorem workspace_root_found_witness:
  "path_parent ''/src/bpf-rbacd/xtask'' = Some ''/src/bpf-rbacd'' \<and>
   (\<exists>e. xtask_main bare_world (Build True) =
     (Inl (Context ''Failed to change to workspace root'' e), []))"
  using workspace_root_found [of "''/src/bpf-rbacd''" bare_world "Build True"]
  by (simp add: bare_world_def)

theorem script_runs_last_witness:
  "\<exists>cmd. snd (run_tests bare_world False True []) =
     [[''cargo'', ''build'', ''--release''], [''cargo'', ''test'', ''--lib''], cmd]"
proof -
  have run: "run_tests bare_world False True [] = (Inr (),
      [[''cargo'', ''build'', ''--release''], [''cargo'', ''test'', ''--lib''],
       [''bash'', ''-c'', integration_test_script True]])"
    by (simp add: run_tests_def run_build_def run_checked_def bare_world_def tests_verdict_def Let_def)
  show ?thesis
    using script_runs_last [OF run] run by simp
qed

end
