(* ===== verification/Integration_Script.thy ===== *)
theory Integration_Script
  imports Xtask_Runner
begin

text \<open>
  The test loop of the shell script in \<open>xtask/src/main.rs\<close> as a definition, run on the models of the
  command-line client, the client library and the daemon: under the built-in policy all four
  integration tests pass, and the runner reports success.
\<close>

section \<open>The script\<close>

record script_state =
  PASSED :: nat
  FAILED :: nat
  echoed :: string

text \<open>
  \<open>client\<close> stands for running \<open>bpf-rbac\<close> as a user with arguments: it gives the combined output and
  the daemon's descriptors afterwards. \<open>grep -q\<close> looks for a word without line breaks, so it is a
  substring search.
\<close>

definition run_test ::
    "(i32 list \<Rightarrow> string \<Rightarrow> string list \<Rightarrow> string \<times> i32 list) \<Rightarrow>
     string \<times> string \<times> string \<times> string list \<Rightarrow> script_state \<times> i32 list \<Rightarrow> script_state \<times> i32 list" where
  "run_test client test sd =
     (case test of (name, user, expected, args) \<Rightarrow>
      case sd of (st, fds) \<Rightarrow>
        (let (output, fds') = client fds user args;
             st = st\<lparr>echoed := echoed st @ ''  ['' @ name @ '']: ''\<rparr>;
             pass = (\<lambda>msg. st\<lparr>echoed := echoed st @ msg @ [CHR 0x0A], PASSED := PASSED st + 1\<rparr>);
             fail = st\<lparr>echoed := echoed st @ ''FAIL'' @ [CHR 0x0A], FAILED := FAILED st + 1\<rparr>
         in (if expected = ''pass''
             then (if str_contains output ''Success'' then pass ''PASS'' else fail)
             else (if str_contains output ''Denied'' then pass ''PASS (denied)'' else fail), fds')))"

definition script_tests :: "(string \<times> string \<times> string \<times> string list) list" where
  "script_tests =
     [(''allowed_hash_map'', ''xtask_user_ok'', ''pass'', [''hash'', ''t1'', ''4'', ''8'', ''100'']),
      (''allowed_array_map'', ''xtask_user_ok'', ''pass'', [''array'', ''t2'', ''4'', ''8'', ''100'']),
      (''denied_hash_map'', ''xtask_user_bad'', ''fail'', [''hash'', ''t3'', ''4'', ''8'', ''100'']),
      (''denied_array_map'', ''xtask_user_bad'', ''fail'', [''array'', ''t4'', ''4'', ''8'', ''100''])]"

text \<open>
  The number of failed tests and the output of the script. Its exit status is not modelled: it depends
  on which processes the script's clean-up kills, and the runner's verdict does not need it.
\<close>

definition script_run ::
    "(i32 list \<Rightarrow> string \<Rightarrow> string list \<Rightarrow> string \<times> i32 list) \<Rightarrow> i32 list \<Rightarrow> nat \<times> string" where
  "script_run client fds =
     (let st0 = \<lparr>PASSED = 0, FAILED = 0, echoed = ''  Integration Tests:'' @ [CHR 0x0A]\<rparr>;
          st = fst (fold (run_test client) script_tests (st0, fds))
      in (FAILED st, echoed st @ [CHR 0x0A] @ results_line (PASSED st) (FAILED st)))"

section \<open>The client of the script\<close>

text \<open>
  Running \<open>bpf-rbac create-map\<close> with positional arguments against the daemon: the lines it prints, the
  report of the error if \<open>main\<close> returns one, and the daemon's descriptors afterwards.
\<close>

definition client_process ::
    "host \<Rightarrow> codec \<Rightarrow> Policy \<Rightarrow> (string \<Rightarrow> u32) \<Rightarrow> (i32 \<Rightarrow> i32) \<Rightarrow>
     i32 list \<Rightarrow> string \<Rightarrow> string list \<Rightarrow> string \<times> string \<times> i32 list" where
  "client_process h b policy uid_of dup fds user args =
     (let st = client_end h b policy fds (uid_of user) dup;
          connect = (\<lambda>path. if path = SOCKET_PATH then Inr st
            else Inl (Msg ''No such file or directory (os error 2)''));
          (r, out) = cli_main b connect (CreateMapCmd None None None None None args);
          text = concat (map (\<lambda>l. l @ [CHR 0x0A]) out);
          report = (case r of Inr _ \<Rightarrow> [] | Inl e \<Rightarrow> ''Error: '' @ to_string e);
          fds' = (case resolve_create_map_args None None None None None args of
            Inl _ \<Rightarrow> fds
          | Inr (t, name, ks, vs, me) \<Rightarrow>
              (case ser_request b (CreateMap t name ks vs me) of
                 Inl _ \<Rightarrow> fds
               | Inr sent \<Rightarrow> fst (snd (handle_client h b (daemon_end (uid_of user) sent) policy fds))))
      in (text, report, fds'))"

text \<open>The script reads both streams together.\<close>

definition client_run ::
    "host \<Rightarrow> codec \<Rightarrow> Policy \<Rightarrow> (string \<Rightarrow> u32) \<Rightarrow> (i32 \<Rightarrow> i32) \<Rightarrow>
     i32 list \<Rightarrow> string \<Rightarrow> string list \<Rightarrow> string \<times> i32 list" where
  "client_run h b policy uid_of dup fds user args =
     (case client_process h b policy uid_of dup fds user args of
        (text, report, fds') \<Rightarrow> (text @ report, fds'))"

lemma script_numbers:
  "parse_u32 ''4'' = Some 4" "parse_u32 ''8'' = Some 8" "parse_u32 ''100'' = Some 100"
proof -
  have "show_u32 4 = ''4''" "show_u32 8 = ''8''" "show_u32 100 = ''100''"
    by code_simp+
  then show "parse_u32 ''4'' = Some 4" "parse_u32 ''8'' = Some 8" "parse_u32 ''100'' = Some 100"
    using parse_show_u32 [of 4] parse_show_u32 [of 8] parse_show_u32 [of 100] by simp_all
qed

lemma script_args:
  "resolve_create_map_args None None None None None [t, name, ''4'', ''8'', ''100''] =
     Inr (t, name, 4, 8, 100)"
  by (simp add: resolve_create_map_args_def parse_arg_def script_numbers)

lemma contains_in_line:
  assumes "l \<in> set ls" and "str_contains l pat"
  shows "str_contains (concat (map (\<lambda>l. l @ [CHR 0x0A]) ls) @ rest) pat"
proof -
  obtain xs ys where "ls = xs @ l # ys"
    using assms(1) by (meson split_list)
  moreover obtain u v where "l = u @ pat @ v"
    using assms(2) by (auto simp: str_contains_iff)
  ultimately have "concat (map (\<lambda>l. l @ [CHR 0x0A]) ls) @ rest =
      (concat (map (\<lambda>l. l @ [CHR 0x0A]) xs) @ u) @ pat @
        (v @ [CHR 0x0A] @ concat (map (\<lambda>l. l @ [CHR 0x0A]) ys) @ rest)"
    by simp
  then show ?thesis
    unfolding str_contains_iff by blast
qed

lemma success_line:
  "str_contains ([CHR 0x0A] @ check_mark @ '' Success! BPF map created with FD: '' @ show_i32 fd) ''Success''"
proof -
  have "[CHR 0x0A] @ check_mark @ '' Success! BPF map created with FD: '' @ show_i32 fd =
      ([CHR 0x0A] @ check_mark @ '' '') @ ''Success'' @ ''! BPF map created with FD: '' @ show_i32 fd"
    by simp
  then show ?thesis
    unfolding str_contains_iff by blast
qed

lemma client_process_success:
  assumes "client_create_map b \<lparr>stream = client_end h b p fds (uid_of user) dup\<rparr> t name 4 8 100 = Inr fd"
  shows "str_contains (fst (client_process h b p uid_of dup fds user [t, name, ''4'', ''8'', ''100'']))
    ''Success''"
proof -
  let ?connect = "\<lambda>path. if path = SOCKET_PATH then Inr (client_end h b p fds (uid_of user) dup)
      else Inl (Msg ''No such file or directory (os error 2)'')"
  let ?cmd = "CreateMapCmd None None None None None [t, name, ''4'', ''8'', ''100'']"
  obtain out where run: "cli_main b ?connect ?cmd = (Inr (), out)"
    and line: "([CHR 0x0A] @ check_mark @ '' Success! BPF map created with FD: '' @ show_i32 fd) \<in> set out"
    using assms
    by (simp add: cli_main_def script_args client_connect_def client_SOCKET_PATH_def
        SOCKET_PATH_def Let_def)
  from contains_in_line [OF line success_line, of "[]"] run show ?thesis
    by (simp add: client_process_def Let_def)
qed

lemma client_run_stdout:
  "str_contains (fst (client_process h b p uid_of dup fds user args)) pat \<Longrightarrow>
     str_contains (fst (client_run h b p uid_of dup fds user args)) pat"
  by (cases "client_process h b p uid_of dup fds user args") (simp add: client_run_def str_contains_append)

lemma client_run_error:
  assumes "client_create_map b \<lparr>stream = client_end h b p fds (uid_of user) dup\<rparr> t name 4 8 100 = Inl e"
    and "str_contains (to_string e) pat"
  shows "str_contains (fst (client_run h b p uid_of dup fds user [t, name, ''4'', ''8'', ''100''])) pat"
proof -
  let ?connect = "\<lambda>path. if path = SOCKET_PATH then Inr (client_end h b p fds (uid_of user) dup)
      else Inl (Msg ''No such file or directory (os error 2)'')"
  let ?cmd = "CreateMapCmd None None None None None [t, name, ''4'', ''8'', ''100'']"
  obtain out where "cli_main b ?connect ?cmd = (Inl e, out)"
    using assms(1)
    by (simp add: cli_main_def script_args client_connect_def client_SOCKET_PATH_def
        SOCKET_PATH_def Let_def)
  then have "\<exists>text. fst (client_run h b p uid_of dup fds user [t, name, ''4'', ''8'', ''100'']) =
      text @ to_string e"
    by (simp add: client_run_def client_process_def Let_def)
  then show ?thesis
    using str_contains_append2 [OF assms(2)] by auto
qed

section \<open>The tests on the model\<close>

lemma script_message_sizes:
  assumes "length t < 100" and "length name < 100"
  shows "ser_request bincode (CreateMap t name 4 8 100) = Inr (write_request (CreateMap t name 4 8 100))"
    and "write_request (CreateMap t name 4 8 100) \<noteq> []"
    and "length (write_request (CreateMap t name 4 8 100)) \<le> 4096"
proof -
  show "length (write_request (CreateMap t name 4 8 100)) \<le> 4096"
    using assms by simp
  have "4 \<le> length (write_request (CreateMap t name 4 8 100))"
    by simp
  then show "write_request (CreateMap t name 4 8 100) \<noteq> []"
    by (metis list.size(3) not_numeral_le_zero)
qed (use assms in \<open>simp add: bincode_def\<close>)

lemma allowed_test:
  assumes "get_user_groups h (uid_of user) = Inr gs" and "get_role_for_groups p gs = Some role"
    and "is_allowed p role (CreateMap t name 4 8 100)" and "t \<in> {''hash'', ''array''}"
    and "length name < 100" and kernel: "\<And>fds attr n. 0 \<le> sint (fst (sys_bpf h fds 0 attr n))"
  shows "str_contains (fst (client_process h bincode p uid_of dup fds user
     [t, name, ''4'', ''8'', ''100''])) ''Success''"
proof -
  let ?req = "CreateMap t name 4 8 100"
  obtain n where "map_of supported_map_types t = Some n"
    using assms(4) by (auto simp: supported_map_types_def)
  moreover have "\<not> sint (fst (sys_bpf h fds 0 attr n)) < 0" for attr n
    using kernel [of fds attr n] by simp
  ultimately have "\<exists>fd. fst (create_bpf_map h t name 4 8 100 fds) = Inr fd"
    by (simp add: create_bpf_map_def Let_def split_beta)
  then obtain fd where resp: "daemon_response h p fds gs ?req = Success (Some fd)"
    using assms(2,3)
    by (cases "create_bpf_map h t name 4 8 100 fds")
      (auto simp: daemon_response_def decide_def execute_bpf_def)
  have "length t < 100"
    using assms(4) by auto
  note sizes = script_message_sizes [OF this assms(5)]
  from bincode.joined_client_verdict [OF assms(1) sizes, of p fds
      "write_response (Success (Some fd))" dup] resp
  have "client_create_map bincode \<lparr>stream = client_end h bincode p fds (uid_of user) dup\<rparr> t name 4 8 100 =
      Inr (dup fd)"
    by (simp add: demo_serialised client_verdict_def del: write_response.simps)
  then show ?thesis
    by (rule client_process_success)
qed

lemma denied_test:
  assumes "get_user_groups h (uid_of user) = Inr gs" and "get_role_for_groups p gs = None"
    and "length t < 100" and "length name < 100"
  shows "str_contains (fst (client_run h bincode p uid_of dup fds user
     [t, name, ''4'', ''8'', ''100''])) ''Denied''"
proof -
  let ?resp = "Denied ''User not in any BPF RBAC group''"
  have resp: "daemon_response h p fds gs (CreateMap t name 4 8 100) = ?resp"
    using assms(2) by (simp add: daemon_response_def decide_def)
  have "ser_response bincode ?resp = Inr (write_response ?resp)" "length (write_response ?resp) \<le> 4096"
    by (simp_all add: bincode_def)
  with bincode.joined_client_verdict [OF assms(1) script_message_sizes [OF assms(3,4)], of p fds
      "write_response ?resp" dup] resp
  have "client_create_map bincode \<lparr>stream = client_end h bincode p fds (uid_of user) dup\<rparr> t name 4 8 100 =
      Inl (Msg (''Denied: '' @ ''User not in any BPF RBAC group''))"
    by (simp add: client_verdict_def del: write_response.simps)
  then show ?thesis
    by (rule client_run_error) simp
qed

lemma results_line_zero: "str_contains (results_line p 0) ''0 failed''"
  using results_line_contains [of "[]" p 0] by simp

text \<open>
  C26: the integration tests pass on the model. On every host where the first test user is in the
  group \<open>ebpf\<close>, neither test user is in another role's group, and the kernel creates maps, the
  script's four tests give the expected outputs when client and daemon run with the built-in policy:
  it counts four passes and no failure, and the runner reports success.
\<close>

theorem integration_tests_pass:
  assumes "get_user_groups h (uid_of ''xtask_user_ok'') = Inr gs_ok"
    and "get_user_groups h (uid_of ''xtask_user_bad'') = Inr gs_bad"
    and "''ebpf'' \<in> set gs_ok" and "{''ebpf-net'', ''ebpf-admin''} \<inter> set gs_ok = {}"
    and "{''ebpf'', ''ebpf-net'', ''ebpf-admin''} \<inter> set gs_bad = {}"
    and "\<And>fds attr n. 0 \<le> sint (fst (sys_bpf h fds 0 attr n))"
    and "script_run (client_run h bincode Policy_default uid_of dup) fds = (failures, out)"
  shows "failures = 0 \<and> (\<exists>pre. out = pre @ results_line 4 0) \<and> tests_verdict success out = Inr ()"
proof -
  let ?client = "client_run h bincode Policy_default uid_of dup"
  have ok: "get_role_for_groups Policy_default gs_ok = Some ''ebpf''"
    using assms(3,4) by (simp add: default_role_for_groups)
  have bad: "get_role_for_groups Policy_default gs_bad = None"
    using assms(5) by (simp add: default_role_for_groups)
  have pass: "str_contains (fst (?client fds ''xtask_user_ok'' [t, name, ''4'', ''8'', ''100''])) ''Success''"
    if "t \<in> {''hash'', ''array''}" "length name < 100" for t name fds
    by (rule client_run_stdout, rule allowed_test [where uid_of = uid_of, OF assms(1) ok default_tracing_creates [OF that(1)]
          that assms(6)])
  have deny: "str_contains (fst (?client fds ''xtask_user_bad'' [t, name, ''4'', ''8'', ''100''])) ''Denied''"
    if "length t < 100" "length name < 100" for t name fds
    by (rule denied_test [where uid_of = uid_of, OF assms(2) bad that])
  define st where "st = fst (fold (run_test ?client) script_tests
      (\<lparr>PASSED = 0, FAILED = 0, echoed = ''  Integration Tests:'' @ [CHR 0x0A]\<rparr>, fds))"
  have "PASSED st = 4" "FAILED st = 0"
    unfolding st_def by (simp_all add: script_tests_def run_test_def split_beta Let_def pass deny)
  moreover have "script_run ?client fds =
      (FAILED st, (echoed st @ [CHR 0x0A]) @ results_line (PASSED st) (FAILED st))"
    by (simp add: script_run_def st_def Let_def)
  ultimately obtain pre where out: "failures = 0" "out = pre @ results_line 4 0"
    using assms(7) by auto
  have "str_contains out ''0 failed''"
    unfolding out(2) by (rule str_contains_append2) (simp add: results_line_zero)
  with out show ?thesis
    by (auto simp: tests_verdict_def)
qed

definition script_host :: host where
  "script_host =
     \<lparr>user_from_uid = (\<lambda>uid. if uid = 1001 then Inr (Some \<lparr>pw_name = ''xtask_user_ok'', pw_gid = 1001\<rparr>)
        else Inr (Some \<lparr>pw_name = ''xtask_user_bad'', pw_gid = 1002\<rparr>)),
      group_from_gid = (\<lambda>gid. if gid = 200 then Inr (Some ''ebpf'') else Inr None),
      getgrouplist = (\<lambda>name gid. if name = ''xtask_user_ok'' then Inr [gid, 200] else Inr [gid]),
      sys_bpf = (\<lambda>fds cmd attr n. (9, 9 # fds)),
      last_os_error = ''Success (os error 0)'',
      debug_str = (\<lambda>s. [CHR 0x22] @ s @ [CHR 0x22])\<rparr>"

theorem integration_tests_pass_witness:
  "fst (script_run (client_run script_host bincode Policy_default
     (\<lambda>user. if user = ''xtask_user_ok'' then 1001 else 1002) (\<lambda>fd. fd)) []) = 0"
proof -
  let ?uid = "\<lambda>user. if user = ''xtask_user_ok'' then 1001 else 1002 :: u32"
  let ?run = "script_run (client_run script_host bincode Policy_default ?uid (\<lambda>fd. fd)) []"
  have ok: "get_user_groups script_host (?uid ''xtask_user_ok'') = Inr [''ebpf'']"
    by (simp add: script_host_def get_user_groups_def)
  have bad: "get_user_groups script_host (?uid ''xtask_user_bad'') = Inr []"
    by (simp add: script_host_def get_user_groups_def)
  have kernel: "0 \<le> sint (fst (sys_bpf script_host fds 0 attr n))" for fds attr n
    by (simp add: script_host_def)
  from integration_tests_pass [where uid_of = ?uid, OF ok bad _ _ _ kernel, of "\<lambda>fd. fd" "[]"
      "fst ?run" "snd ?run"] show ?thesis
    by simp
qed

end
