(* ===== verification/Test_Harness.thy ===== *)
theory Test_Harness
  imports Proxy_Sessions
begin

text \<open>
  The harness of the integration tests (\<open>tests/utils.rs\<close>, and \<open>DaemonGuard\<close> and \<open>unique_socket_path\<close> of
  \<open>tests/integration.rs\<close>): waiting for the daemon's socket, starting a daemon for a test, and creating
  its user. Times are nanoseconds since the call; \<open>file_exists path t\<close> tells whether the path exists at
  time \<open>t\<close>; a sleep lasts at least as long as asked, and \<open>extra\<close> is what it lasts longer. A panic is an
  error: the message of \<open>expect\<close> is the context of its cause.
\<close>

section \<open>Waiting for the socket\<close>

definition poll_interval :: nat where
  "poll_interval = 100 * 10 ^ 6"

text \<open>\<open>{:?}\<close> of a duration is the parameter \<open>debug_duration\<close>.\<close>

definition socket_timeout_error :: "(nat \<Rightarrow> string) \<Rightarrow> string \<Rightarrow> nat \<Rightarrow> string" where
  "socket_timeout_error debug_duration path timeout =
     ''Socket '' @ path @ '' did not appear within '' @ debug_duration timeout"

function wait_loop ::
    "(string \<Rightarrow> nat \<Rightarrow> bool) \<Rightarrow> (nat \<Rightarrow> nat) \<Rightarrow> string \<Rightarrow> nat \<Rightarrow> nat \<Rightarrow> bool" where
  "wait_loop file_exists extra path timeout elapsed =
     (if elapsed < timeout
      then if file_exists path elapsed then True
           else wait_loop file_exists extra path timeout (elapsed + poll_interval + extra elapsed)
      else False)"
  by pat_completeness auto
termination
  by (relation "measure (\<lambda>(_, _, _, timeout, elapsed). timeout - elapsed)")
    (simp_all add: poll_interval_def)

declare wait_loop.simps [simp del]

definition wait_for_socket ::
    "(nat \<Rightarrow> string) \<Rightarrow> (string \<Rightarrow> nat \<Rightarrow> bool) \<Rightarrow> (nat \<Rightarrow> nat) \<Rightarrow> string \<Rightarrow> nat \<Rightarrow> string + unit" where
  "wait_for_socket debug_duration file_exists extra path timeout =
     (if wait_loop file_exists extra path timeout 0 then Inr ()
      else Inl (socket_timeout_error debug_duration path timeout))"

text \<open>The times at which the loop looks, if it does not return before.\<close>

fun poll_time :: "(nat \<Rightarrow> nat) \<Rightarrow> nat \<Rightarrow> nat" where
  "poll_time extra 0 = 0"
| "poll_time extra (Suc n) = poll_time extra n + poll_interval + extra (poll_time extra n)"

lemma poll_time_ge: "n * poll_interval \<le> poll_time extra n"
  by (induction n) simp_all

lemma poll_time_mono: "m \<le> n \<Longrightarrow> poll_time extra m \<le> poll_time extra n"
  by (induction rule: dec_induct) simp_all

lemma wait_loop_iff:
  "wait_loop file_exists extra path timeout (poll_time extra k) \<longleftrightarrow>
     (\<exists>n\<ge>k. poll_time extra n < timeout \<and> file_exists path (poll_time extra n))"
proof (induction "timeout - poll_time extra k" arbitrary: k rule: less_induct)
  case less
  let ?lhs = "wait_loop file_exists extra path timeout (poll_time extra k)"
  let ?found = "\<lambda>n. poll_time extra n < timeout \<and> file_exists path (poll_time extra n)"
  show ?case
  proof (cases "poll_time extra k < timeout \<and> \<not> file_exists path (poll_time extra k)")
    case True
    have "timeout - poll_time extra (Suc k) < timeout - poll_time extra k"
      using True by (intro diff_less_mono2) (simp_all add: poll_interval_def)
    from less [OF this] True have "?lhs \<longleftrightarrow> (\<exists>n\<ge>Suc k. ?found n)"
      by (subst wait_loop.simps) simp
    also have "\<dots> \<longleftrightarrow> (\<exists>n\<ge>k. ?found n)"
      using True by (metis Suc_leD le_antisym not_less_eq_eq)
    finally show ?thesis .
  next
    case False
    then have "?lhs \<longleftrightarrow> poll_time extra k < timeout"
      by (subst wait_loop.simps) simp
    moreover have "poll_time extra k < timeout" if "k \<le> n" "?found n" for n
      using that poll_time_mono [of k n extra] by simp
    ultimately show ?thesis
      using False by blast
  qed
qed

text \<open>
  C35: waiting for the socket always ends: it succeeds exactly if the path exists at one of the times
  at which the loop looks before the time is up, and otherwise returns the error; the loop looks at
  most once per tenth of a second, however long its sleeps really last.
\<close>

theorem wait_for_socket_ends:
  "wait_for_socket debug_duration file_exists extra path timeout =
     (if \<exists>n. poll_time extra n < timeout \<and> file_exists path (poll_time extra n) then Inr ()
      else Inl (socket_timeout_error debug_duration path timeout)) \<and>
   card {n. poll_time extra n < timeout} * poll_interval < timeout + poll_interval"
proof
  let ?polls = "{n. poll_time extra n < timeout}"
  show "wait_for_socket debug_duration file_exists extra path timeout =
     (if \<exists>n. poll_time extra n < timeout \<and> file_exists path (poll_time extra n) then Inr ()
      else Inl (socket_timeout_error debug_duration path timeout))"
    using wait_loop_iff [of file_exists extra path timeout 0] by (simp add: wait_for_socket_def)
  show "card ?polls * poll_interval < timeout + poll_interval"
  proof (cases "card ?polls")
    case (Suc m)
    have "\<not> ?polls \<subseteq> {..<m}"
      using Suc card_mono [of "{..<m}" ?polls] by auto
    then obtain n where "m \<le> n" "poll_time extra n < timeout"
      by (auto simp: subset_iff not_less)
    with poll_time_ge [of m extra] poll_time_mono [of m n extra] Suc show ?thesis
      by simp
  qed (simp add: poll_interval_def)
qed

section \<open>A daemon for a test\<close>

text \<open>
  \<open>unique_socket_path\<close>: the process and the value \<open>fetch_add\<close> returns; the counter wraps at its width.
\<close>

definition unique_socket_path :: "u32 \<Rightarrow> u32 \<Rightarrow> string \<times> u32" where
  "unique_socket_path pid counter =
     (''/run/bpf-rbac-test-'' @ show_u32 pid @ ''-'' @ show_u32 counter @ ''.sock'', counter + 1)"

definition DAEMON_STARTUP_TIMEOUT :: nat where
  "DAEMON_STARTUP_TIMEOUT = 5 * 10 ^ 9"

text \<open>
  Paths handed out with different values of the counter differ, so that tests of one process use the
  same path only after the counter has wrapped around.
\<close>

lemma show_u32_inject [simp]: "show_u32 a = show_u32 b \<longleftrightarrow> a = b"
  by (metis option.inject parse_show_u32)

lemma unique_socket_paths:
  assumes "a < b" and "b < 2 ^ 32"
  shows "fst (unique_socket_path pid (word_of_nat a)) \<noteq> fst (unique_socket_path pid (word_of_nat b))"
proof
  assume "fst (unique_socket_path pid (word_of_nat a)) = fst (unique_socket_path pid (word_of_nat b))"
  then have "(word_of_nat a :: u32) = word_of_nat b"
    by (simp add: unique_socket_path_def)
  then have "unat (word_of_nat a :: u32) = unat (word_of_nat b :: u32)"
    by simp
  with assms show False
    by (simp add: unat_of_nat)
qed

text \<open>
  \<open>DaemonGuard\<close>: \<open>spawn\<close> is the outcome of starting the daemon's process with the path in its
  environment; the result is the path the guard keeps, with what starting and dropping the guard does
  to the daemon and its socket.
\<close>

datatype guard_action = RemoveFile string | SpawnDaemon string | KillDaemon | WaitDaemon

definition DaemonGuard_start ::
    "unit result \<Rightarrow> (nat \<Rightarrow> string) \<Rightarrow> (string \<Rightarrow> nat \<Rightarrow> bool) \<Rightarrow> (nat \<Rightarrow> nat) \<Rightarrow> string \<Rightarrow>
     string result \<times> guard_action list" where
  "DaemonGuard_start spawn debug_duration file_exists extra socket_path =
     (case with_context ''Failed to start daemon'' spawn of
        Inl e \<Rightarrow> (Inl e, [RemoveFile socket_path])
      | Inr _ \<Rightarrow>
          (case wait_for_socket debug_duration file_exists extra socket_path DAEMON_STARTUP_TIMEOUT of
             Inl e \<Rightarrow> Inl (Context ''Daemon socket did not appear'' (Msg e))
           | Inr _ \<Rightarrow> Inr socket_path,
           [RemoveFile socket_path, SpawnDaemon socket_path]))"

definition DaemonGuard_drop :: "string \<Rightarrow> guard_action list" where
  "DaemonGuard_drop socket_path = [KillDaemon, WaitDaemon, RemoveFile socket_path]"

lemma startup_binds_only_socket_path:
  "BindSocket path \<in> set (snd (daemon_startup read_to_string from_str sh)) \<longleftrightarrow> path = SOCKET_PATH"
  by (auto simp: daemon_startup_def Let_def split: sum.splits)

lemma unique_socket_path_not_daemon: "fst (unique_socket_path pid counter) \<noteq> SOCKET_PATH"
  by (simp add: unique_socket_path_def SOCKET_PATH_def)

text \<open>
  The guard waits for the socket at the test's own path, but the daemon binds only
  \<open>/run/bpf-rbac.sock\<close>; if nothing else creates the path, the wait runs out. There is then no guard that
  would be dropped: the daemon it has started is not killed.
\<close>

lemma guard_panics:
  assumes "\<forall>t. file_exists (fst (unique_socket_path pid counter)) t \<longrightarrow>
      BindSocket (fst (unique_socket_path pid counter)) \<in>
        set (snd (daemon_startup read_to_string from_str sh))"
  shows "DaemonGuard_start (Inr ()) debug_duration file_exists extra (fst (unique_socket_path pid counter)) =
     (Inl (Context ''Daemon socket did not appear'' (Msg (socket_timeout_error debug_duration
        (fst (unique_socket_path pid counter)) DAEMON_STARTUP_TIMEOUT))),
      [RemoveFile (fst (unique_socket_path pid counter)), SpawnDaemon (fst (unique_socket_path pid counter))])"
proof -
  have "\<not> file_exists (fst (unique_socket_path pid counter)) t" for t
    using assms unique_socket_path_not_daemon by (simp add: startup_binds_only_socket_path)
  then have "\<not> wait_loop file_exists extra (fst (unique_socket_path pid counter)) timeout 0" for timeout
    using wait_loop_iff [of file_exists extra _ timeout 0] by simp
  then show ?thesis
    by (simp add: DaemonGuard_start_def wait_for_socket_def)
qed

section \<open>Test users\<close>

text \<open>
  \<open>TestUserGuard\<close>: the commands it runs, and the guard or the panic. \<open>run\<close> gives the outcome of the
  last of the commands run so far: an error of spawning it, or whether it succeeded and its standard
  error.
\<close>

definition TestUserGuard_new ::
    "(string list list \<Rightarrow> (bool \<times> string) result) \<Rightarrow> string \<Rightarrow> string option \<Rightarrow>
     string result \<times> string list list" where
  "TestUserGuard_new run username grp =
     (let prep = (case grp of Some g \<Rightarrow> [[''groupadd'', g]] | None \<Rightarrow> []) @
            [[''userdel'', ''-r'', username]];
          cmd = [''useradd'', ''-m'', username] @
            (case grp of Some g \<Rightarrow> [''-G'', g] | None \<Rightarrow> []);
          cmds = prep @ [cmd]
      in (and_then (with_context ''Failed to create test user'' (run cmds)) (\<lambda>(success, stderr).
            if \<not> success then Inl (Msg (''Failed to create user '' @ username @ '': '' @ stderr))
            else Inr username), cmds))"

definition TestUserGuard_drop :: "string \<Rightarrow> string list list" where
  "TestUserGuard_drop username = [[''userdel'', ''-r'', username]]"

text \<open>
  The guard removes a user of that name before it creates one, whose only group beside its own is the
  one asked for, and holds the user it has created.
\<close>

lemma test_user_created:
  "fst (TestUserGuard_new run username grp) = Inr u \<longleftrightarrow>
     u = username \<and> (\<exists>stderr. run (snd (TestUserGuard_new run username grp)) = Inr (True, stderr))"
  by (cases "run (snd (TestUserGuard_new run username grp))")
    (auto simp: TestUserGuard_new_def Let_def split: option.splits if_splits)

end
