(* ===== verification/Integration_Tests.thy ===== *)
theory Integration_Tests
  imports Integration_Script Test_Harness Namespace_Delegation
begin

text \<open>
  The tests of \<open>tests/integration.rs\<close> that run the daemon, enter namespaces or load LSM programs, as
  functions of their environment: starting the daemon and creating a user with the guards of
  \<open>Test_Harness\<close>, running the client, the kernel's namespaces, and the loader of eBPF objects. A test
  returns \<open>Inr\<close> if it passes, and the panic otherwise.
\<close>

section \<open>Tests with a daemon\<close>

record test_env =
  start_daemon :: "string \<Rightarrow> string result \<times> guard_action list"
  new_user :: "string \<Rightarrow> string option \<Rightarrow> string result"
  run_client :: "i32 list \<Rightarrow> string \<Rightarrow> string list \<Rightarrow> string \<times> string \<times> i32 list"
  run_status :: string

text \<open>
  \<open>run_client\<close> is \<open>bpf-rbac create-map\<close> with positional arguments, run as a user: standard output,
  standard error and the daemon's descriptors afterwards. \<open>run_status\<close> is the standard output of
  \<open>bpf-rbac status\<close>.
\<close>

definition test_allowed_user_can_create_map :: "test_env \<Rightarrow> string \<Rightarrow> i32 list \<Rightarrow> unit result" where
  "test_allowed_user_can_create_map env socket_path fds =
     and_then (fst (start_daemon env socket_path)) (\<lambda>_.
     and_then (new_user env ''test_allowed'' (Some ''ebpf'')) (\<lambda>_.
       let (stdout, stderr, fds') =
             run_client env fds ''test_allowed'' [''hash'', ''test_map'', ''4'', ''8'', ''100'']
       in if str_contains stdout ''Success'' then Inr ()
          else Inl (Msg (''Expected success for allowed user, got: '' @ stdout))))"

definition test_denied_user_cannot_create_map :: "test_env \<Rightarrow> string \<Rightarrow> i32 list \<Rightarrow> unit result" where
  "test_denied_user_cannot_create_map env socket_path fds =
     and_then (fst (start_daemon env socket_path)) (\<lambda>_.
     and_then (new_user env ''test_denied'' None) (\<lambda>_.
       let (stdout, stderr, fds') =
             run_client env fds ''test_denied'' [''hash'', ''test_map'', ''4'', ''8'', ''100''];
           combined = stdout @ stderr
       in if str_contains combined ''Denied'' then Inr ()
          else Inl (Msg (''Expected denial for unauthorized user, got: '' @ combined))))"

definition test_daemon_status_check :: "test_env \<Rightarrow> string \<Rightarrow> unit result" where
  "test_daemon_status_check env socket_path =
     and_then (fst (start_daemon env socket_path)) (\<lambda>_.
       if str_contains (run_status env) ''running'' then Inr ()
       else Inl (Msg (''Expected daemon to be running, got: '' @ run_status env)))"

definition test_multiple_map_types :: "test_env \<Rightarrow> string \<Rightarrow> i32 list \<Rightarrow> unit result" where
  "test_multiple_map_types env socket_path fds =
     and_then (fst (start_daemon env socket_path)) (\<lambda>_.
     and_then (new_user env ''test_maps'' (Some ''ebpf'')) (\<lambda>_.
       let (stdout, stderr, fds1) =
             run_client env fds ''test_maps'' [''hash'', ''hash_map'', ''4'', ''8'', ''100'']
       in if \<not> str_contains stdout ''Success''
          then Inl (Msg ''Hash map creation should succeed'')
          else let (stdout, stderr, fds2) =
                 run_client env fds1 ''test_maps'' [''array'', ''array_map'', ''4'', ''8'', ''100'']
            in if str_contains stdout ''Success'' then Inr ()
               else Inl (Msg ''Array map creation should succeed'')))"

text \<open>
  C32: no test that starts its own daemon gets past the start. The guard waits for the socket at the
  test's own path, but the daemon binds only \<open>/run/bpf-rbac.sock\<close>; if nothing else creates the path,
  the wait runs out, all four tests panic, and the daemon that was started is not killed.
\<close>

theorem daemon_tests_panic:
  assumes "\<forall>t. file_exists (fst (unique_socket_path pid counter)) t \<longrightarrow>
      BindSocket (fst (unique_socket_path pid counter)) \<in>
        set (snd (daemon_startup read_to_string from_str sh))"
    and "start_daemon env = DaemonGuard_start (Inr ()) debug_duration file_exists extra"
  shows "\<exists>e. test_allowed_user_can_create_map env (fst (unique_socket_path pid counter)) fds =
         Inl (Context ''Daemon socket did not appear'' e) \<and>
       test_denied_user_cannot_create_map env (fst (unique_socket_path pid counter)) fds =
         Inl (Context ''Daemon socket did not appear'' e) \<and>
       test_daemon_status_check env (fst (unique_socket_path pid counter)) =
         Inl (Context ''Daemon socket did not appear'' e) \<and>
       test_multiple_map_types env (fst (unique_socket_path pid counter)) fds =
         Inl (Context ''Daemon socket did not appear'' e) \<and>
       snd (start_daemon env (fst (unique_socket_path pid counter))) =
         [RemoveFile (fst (unique_socket_path pid counter)), SpawnDaemon (fst (unique_socket_path pid counter))]"
proof -
  obtain e where "start_daemon env (fst (unique_socket_path pid counter)) =
      (Inl (Context ''Daemon socket did not appear'' e),
       [RemoveFile (fst (unique_socket_path pid counter)), SpawnDaemon (fst (unique_socket_path pid counter))])"
    using guard_panics [where file_exists = file_exists, OF assms(1)] assms(2) by simp
  then show ?thesis
    by (simp add: test_allowed_user_can_create_map_def test_denied_user_cannot_create_map_def
        test_daemon_status_check_def test_multiple_map_types_def)
qed

text \<open>
  Against a daemon that serves the built-in policy at its own path, what the tests assert holds: a
  user in the group \<open>ebpf\<close> creates hash and array maps, a user in none of the groups is denied, and the
  status command finds the daemon.
\<close>

theorem daemon_tests_pass:
  assumes "fst (start_daemon env path) = Inr g" and "\<And>u grp. new_user env u grp = Inr u"
    and "run_client env = client_process h bincode Policy_default uid_of dup"
    and "run_status env = concat (map (\<lambda>l. l @ [CHR 0x0A])
      (snd (cli_main bincode (\<lambda>p. if p = SOCKET_PATH then Inr st else Inl (Msg ''no socket'')) Status)))"
    and "get_user_groups h (uid_of ''test_allowed'') = Inr [''test_allowed'', ''ebpf'']"
    and "get_user_groups h (uid_of ''test_maps'') = Inr [''test_maps'', ''ebpf'']"
    and "get_user_groups h (uid_of ''test_denied'') = Inr [''test_denied'']"
    and kernel: "\<And>fds attr n. 0 \<le> sint (fst (sys_bpf h fds 0 attr n))"
  shows "test_allowed_user_can_create_map env path fds = Inr () \<and>
     test_denied_user_cannot_create_map env path fds = Inr () \<and>
     test_daemon_status_check env path = Inr () \<and> test_multiple_map_types env path fds = Inr ()"
proof -
  have role: "get_role_for_groups Policy_default [u, ''ebpf''] = Some ''ebpf''"
    if "u \<in> {''test_allowed'', ''test_maps''}" for u
    using that by (auto simp: default_role_for_groups)
  have none: "get_role_for_groups Policy_default [''test_denied''] = None"
    by (simp add: default_role_for_groups)
  have pass: "str_contains (fst (client_process h bincode Policy_default uid_of dup fds u
      [t, name, ''4'', ''8'', ''100''])) ''Success''"
    if "u \<in> {''test_allowed'', ''test_maps''}" "t \<in> {''hash'', ''array''}" "length name < 100" for u t name fds
    using that(1) assms(5,6)
    by (intro allowed_test [where uid_of = uid_of, OF _ role default_tracing_creates [OF that(2)] that(2,3) kernel])
      auto
  have "str_contains (fst (client_run h bincode Policy_default uid_of dup fds ''test_denied''
      [''hash'', ''test_map'', ''4'', ''8'', ''100''])) ''Denied''"
    by (rule denied_test [where uid_of = uid_of, OF assms(7) none]) simp_all
  then have deny: "case client_process h bincode Policy_default uid_of dup fds ''test_denied''
      [''hash'', ''test_map'', ''4'', ''8'', ''100''] of (out, err, _) \<Rightarrow> str_contains (out @ err) ''Denied''"
    by (simp add: client_run_def split: prod.splits)
  have status: "str_contains (run_status env) ''running''"
    unfolding assms(4)
    by (simp add: cli_main_def client_connect_def client_SOCKET_PATH_def SOCKET_PATH_def check_mark_def)
  show ?thesis
    using pass deny status
    by (simp add: test_allowed_user_can_create_map_def test_denied_user_cannot_create_map_def
        test_daemon_status_check_def test_multiple_map_types_def assms(1,2,3) Let_def split_beta)
qed

text \<open>A host with the three test users.\<close>

definition test_uid :: "string \<Rightarrow> u32" where
  "test_uid user = (if user = ''test_allowed'' then 1001 else if user = ''test_maps'' then 1002 else 1003)"

definition test_host :: host where
  "test_host =
     \<lparr>user_from_uid = (\<lambda>uid. Inr (Some (if uid = 1001 then \<lparr>pw_name = ''test_allowed'', pw_gid = 1001\<rparr>
        else if uid = 1002 then \<lparr>pw_name = ''test_maps'', pw_gid = 1002\<rparr>
        else \<lparr>pw_name = ''test_denied'', pw_gid = 1003\<rparr>))),
      group_from_gid = (\<lambda>gid. Inr (if gid = 200 then Some ''ebpf'' else if gid = 1001 then Some ''test_allowed''
        else if gid = 1002 then Some ''test_maps'' else Some ''test_denied'')),
      getgrouplist = (\<lambda>name gid. Inr (if name = ''test_denied'' then [gid] else [gid, 200])),
      sys_bpf = (\<lambda>fds cmd attr n. (9, 9 # fds)),
      last_os_error = ''Success (os error 0)'',
      debug_str = (\<lambda>s. [CHR 0x22] @ s @ [CHR 0x22])\<rparr>"

definition served_env :: test_env where
  "served_env =
     \<lparr>start_daemon = (\<lambda>path. (Inr path, [RemoveFile path, SpawnDaemon path])), new_user = (\<lambda>u _. Inr u),
      run_client = client_process test_host bincode Policy_default test_uid (\<lambda>fd. fd),
      run_status = concat (map (\<lambda>l. l @ [CHR 0x0A]) (snd (cli_main bincode
        (\<lambda>p. if p = SOCKET_PATH then Inr (client_end test_host bincode Policy_default [] 0 (\<lambda>fd. fd))
           else Inl (Msg ''no socket'')) Status)))\<rparr>"

theorem daemon_tests_pass_witness:
  "test_allowed_user_can_create_map served_env SOCKET_PATH [] = Inr () \<and>
   test_denied_user_cannot_create_map served_env SOCKET_PATH [] = Inr ()"
proof -
  have "get_user_groups test_host (test_uid ''test_allowed'') = Inr [''test_allowed'', ''ebpf'']"
    "get_user_groups test_host (test_uid ''test_maps'') = Inr [''test_maps'', ''ebpf'']"
    "get_user_groups test_host (test_uid ''test_denied'') = Inr [''test_denied'']"
    by (simp_all add: test_host_def test_uid_def get_user_groups_def)
  from daemon_tests_pass [where env = served_env and path = SOCKET_PATH and g = SOCKET_PATH and
      st = "client_end test_host bincode Policy_default [] 0 (\<lambda>fd. fd)" and fds = "[]",
      OF _ _ _ _ this] show ?thesis
    by (simp add: served_env_def test_host_def)
qed

theorem daemon_tests_panic_witness:
  "\<exists>e. test_daemon_status_check
     (served_env\<lparr>start_daemon := DaemonGuard_start (Inr ()) show_nat (\<lambda>path t. path = SOCKET_PATH \<and> 20 \<le> t) (\<lambda>_. 0)\<rparr>)
     (fst (unique_socket_path 42 0)) = Inl (Context ''Daemon socket did not appear'' e)"
proof -
  let ?exists = "\<lambda>path t. path = SOCKET_PATH \<and> 20 \<le> (t :: nat)"
  have "\<forall>t. ?exists (fst (unique_socket_path 42 0)) t \<longrightarrow> BindSocket (fst (unique_socket_path 42 0)) \<in>
      set (snd (daemon_startup (\<lambda>_. Inl (Msg ''ENOENT'')) (\<lambda>_. Inl (Msg ''ENOENT''))
        \<lparr>remove_file = \<lambda>_. Inr (), bind_socket = \<lambda>_. Inr (), set_permissions = \<lambda>_ _. Inr ()\<rparr>))"
    using unique_socket_path_not_daemon by simp
  from daemon_tests_panic [where file_exists = ?exists, OF this,
      of "served_env\<lparr>start_daemon := DaemonGuard_start (Inr ()) show_nat ?exists (\<lambda>_. 0)\<rparr>" show_nat "\<lambda>_. 0"]
  show ?thesis by auto
qed

section \<open>Tests of namespace delegation\<close>

definition test_target_namespace_from_pid :: "ns_calls \<Rightarrow> ns_world \<Rightarrow> unit result" where
  "test_target_namespace_from_pid k w =
     (case from_pid k w 1 of
        Inl e \<Rightarrow> Inl (Msg ''Should resolve namespace for PID 1'')
      | Inr ns \<Rightarrow>
          if 0 < target_userns_id ns then Inr () else Inl (Msg ''userns_id should be non-zero''))"

text \<open>
  The other tests make a mount point and start a process in new namespaces, whose target they resolve;
  \<open>mkdir\<close> and \<open>unshare\<close> are the outcomes, the latter with the process identifier.
\<close>

definition child_target ::
    "ns_calls \<Rightarrow> (string \<Rightarrow> unit result) \<Rightarrow> u32 result \<Rightarrow> string \<Rightarrow> ns_world \<Rightarrow> TargetNamespace result" where
  "child_target k mkdir unshare mount_path w =
     and_then (with_context ''Failed to create mount point'' (mkdir mount_path)) (\<lambda>_.
     and_then (with_context ''Failed to spawn unshare child'' unshare) (\<lambda>child_pid.
       with_context ''Failed to resolve target namespace'' (from_pid k w child_pid)))"

definition test_delegate_bpf_to_child_namespace ::
    "ns_calls \<Rightarrow> (string \<Rightarrow> unit result) \<Rightarrow> u32 result \<Rightarrow> ns_world \<Rightarrow> unit result" where
  "test_delegate_bpf_to_child_namespace k mkdir unshare w =
     (let mount_path = ''/tmp/bpf-rbac-test-bpffs'' in
      and_then (child_target k mkdir unshare mount_path w) (\<lambda>tgt.
        if \<not> 0 < target_userns_id tgt then Inl (Msg ''Should have valid userns_id'')
        else let (result, w') = delegate_bpf_to_namespace k tgt mount_path DelegationOpts_allow_all w
          in (case result of Inr _ \<Rightarrow> Inr () | Inl _ \<Rightarrow> Inr ())))"

definition test_delegate_and_revoke_lifecycle ::
    "ns_calls \<Rightarrow> (string \<Rightarrow> unit result) \<Rightarrow> u32 result \<Rightarrow> ns_world \<Rightarrow> unit result" where
  "test_delegate_and_revoke_lifecycle k mkdir unshare w =
     (let mount_path = ''/tmp/bpf-rbac-test-lifecycle'' in
      and_then (child_target k mkdir unshare mount_path w) (\<lambda>tgt.
       let (result, w') = delegate_bpf_to_namespace k tgt mount_path DelegationOpts_allow_all w
       in case result of
            Inl _ \<Rightarrow> Inr ()
          | Inr _ \<Rightarrow>
              with_context ''Revocation should succeed after delegation''
                (fst (revoke_bpf_delegation k tgt mount_path w'))))"

text \<open>
  \<open>list_mount\<close> is the outcome of listing the mount point from inside the namespace: an error of running
  \<open>nsenter\<close>, or whether it succeeded. The test then revokes the delegation and does not look at the
  result.
\<close>

definition test_bpf_token_creation_in_delegated_ns ::
    "ns_calls \<Rightarrow> (string \<Rightarrow> unit result) \<Rightarrow> u32 result \<Rightarrow> (ns_world \<Rightarrow> string \<Rightarrow> bool result) \<Rightarrow> ns_world \<Rightarrow>
     unit result" where
  "test_bpf_token_creation_in_delegated_ns k mkdir unshare list_mount w =
     (let mount_path = ''/tmp/bpf-rbac-test-token'' in
      and_then (child_target k mkdir unshare mount_path w) (\<lambda>tgt.
       let (result, w') = delegate_bpf_to_namespace k tgt mount_path DelegationOpts_allow_all w
       in case result of
            Inl _ \<Rightarrow> Inr ()
          | Inr _ \<Rightarrow>
              (case list_mount w' mount_path of
                 Inr success \<Rightarrow>
                   if success then Inr ()
                   else Inl (Msg ''Should be able to list bpffs mount from within namespace'')
               | Inl _ \<Rightarrow> Inr ())))"

text \<open>
  \<open>output\<close> is the outcome of \<open>unshare --user --map-root-user -- id -u\<close> with its standard output, which
  is \<open>0\<close> up to white space around it. \<open>read_to_string\<close> reads \<open>/proc/mounts\<close>.
\<close>

definition test_unshare_creates_userns :: "string result \<Rightarrow> unit result" where
  "test_unshare_creates_userns output =
     and_then (with_context ''Failed to run unshare'' output) (\<lambda>stdout.
       if split_whitespace stdout = [''0''] then Inr ()
       else Inl (Msg ''Should be uid 0 inside user namespace''))"

definition test_is_bpffs_mounted_nonexistent :: "(string \<Rightarrow> string result) \<Rightarrow> unit result" where
  "test_is_bpffs_mounted_nonexistent read_to_string =
     (if \<not> is_bpffs_mounted read_to_string ''/tmp/nonexistent-bpffs-path'' then Inr ()
      else Inl (Msg ''Non-existent path should not be a bpffs mount''))"

text \<open>
  C33: the life cycle test fails whenever the delegation it makes succeeds. The thread that delegated is
  left in the target's user namespace, which it cannot join again, so that revoking the delegation
  from the same thread fails, on every kernel that lets a thread join only user namespaces below its
  own and for a target that stays in its namespace.
\<close>

theorem lifecycle_test_fails:
  assumes "userns_hierarchy k below" and "from_pid k w child_pid = Inr tgt"
    and "delegate_bpf_to_namespace k tgt ''/tmp/bpf-rbac-test-lifecycle'' DelegationOpts_allow_all w = (Inr (), w')"
    and "target_ns k w' tgt ''user'' \<noteq> None \<longrightarrow> target_ns k w' tgt ''user'' = target_ns k w tgt ''user''"
    and "mkdir ''/tmp/bpf-rbac-test-lifecycle'' = Inr ()"
  shows "\<exists>e. test_delegate_and_revoke_lifecycle k mkdir (Inr child_pid) w =
     Inl (Context ''Revocation should succeed after delegation'' e)"
proof -
  let ?revoke = "revoke_bpf_delegation k tgt ''/tmp/bpf-rbac-test-lifecycle'' w'"
  have stranded: "target_ns k w tgt ''user'' = Some (user_ns w')"
    using userns_hierarchy.delegate_strands [OF assms(1,3)] by simp
  obtain e where "fst ?revoke = Inl e"
  proof (cases ?revoke)
    case (Pair r w'')
    have "r \<noteq> Inr ()"
      using userns_hierarchy.revoke_strands [OF assms(1)] Pair stranded assms(4) by fastforce
    with Pair that show thesis
      by (cases r) auto
  qed
  with assms(2,3,5) show ?thesis
    by (simp add: test_delegate_and_revoke_lifecycle_def child_target_def)
qed

theorem lifecycle_test_fails_witness:
  "\<exists>e. test_delegate_and_revoke_lifecycle (table_calls container_files [2] container_tree) (\<lambda>_. Inr ())
     (Inr 7) host_world =
     Inl (Context ''Revocation should succeed after delegation'' e)"
proof -
  let ?k = "table_calls container_files [2] container_tree"
  let ?tgt = "\<lparr>target_pid = 7, target_userns_id = 10\<rparr>"
  have pid: "from_pid ?k host_world 7 = Inr ?tgt"
    by (simp add: from_pid_def table_calls_def container_files_def show_u32_7 Let_def)
  have same: "target_ns ?k w' ?tgt ''user'' \<noteq> None \<longrightarrow> target_ns ?k w' ?tgt ''user'' = target_ns ?k w ?tgt ''user''"
    for w w' by (simp add: container_target)
  obtain w' where del: "delegate_bpf_to_namespace ?k ?tgt ''/tmp/bpf-rbac-test-lifecycle''
      DelegationOpts_allow_all host_world = (Inr (), w')"
    by (simp add: delegate_bpf_to_namespace_def open_ns_fd_def setns_ignoring_def table_calls_def
        container_files_def container_tree_def show_u32_7 delegation_mount_def Let_def)
  show ?thesis
    by (rule lifecycle_test_fails [OF container_kernel.userns_hierarchy_axioms pid del same]) simp
qed

section \<open>Tests of the LSM object\<close>

text \<open>
  The eBPF object file: \<open>None\<close> if it was not built, else the outcome of reading it.
\<close>

definition test_ebpf_binary_exists :: "u8 list result option \<Rightarrow> unit result" where
  "test_ebpf_binary_exists file =
     (case file of
        None \<Rightarrow> Inr ()
      | Some r \<Rightarrow> and_then r (\<lambda>data.
          if 0 < length data then Inr () else Inl (Msg ''eBPF binary should be non-empty'')))"

definition test_ebpf_binary_is_valid_elf :: "u8 list result option \<Rightarrow> unit result" where
  "test_ebpf_binary_is_valid_elf file =
     (case file of
        None \<Rightarrow> Inr ()
      | Some r \<Rightarrow> and_then r (\<lambda>data.
          if \<not> 4 \<le> length data then Inl (Msg ''eBPF binary too small'')
          else if take 4 data = [0x7F, 0x45, 0x4C, 0x46] then Inr ()
          else Inl (Msg ''Should be a valid ELF binary'')))"

text \<open>
  \<open>load_object\<close> loads the bytes of the object. A loaded object as the loader presents it: its programs, which of them are LSM programs, the outcome
  of loading a program for a hook and of attaching it, and its maps.
\<close>

record ebpf_object =
  programs :: "string list"
  is_lsm :: "string \<Rightarrow> bool"
  load_program :: "string \<Rightarrow> string \<Rightarrow> unit result"
  attach_program :: "string \<Rightarrow> unit result"
  object_maps :: "string list"

definition load_and_attach :: "ebpf_object \<Rightarrow> string \<Rightarrow> string \<Rightarrow> string \<Rightarrow> string \<Rightarrow> unit result" where
  "load_and_attach ebpf name hook load_msg attach_msg =
     (if name \<notin> set (programs ebpf) then Inl (Msg (name @ '' not found''))
      else if \<not> is_lsm ebpf name then Inl (Msg ''Not an LSM program'')
      else and_then (with_context load_msg (load_program ebpf name hook)) (\<lambda>_.
        with_context attach_msg (attach_program ebpf name)))"

definition test_lsm_program_load_and_attach ::
    "u8 list result option \<Rightarrow> (u8 list \<Rightarrow> ebpf_object result) \<Rightarrow> unit result \<Rightarrow> unit result" where
  "test_lsm_program_load_and_attach file load_object btf =
     (case file of
        None \<Rightarrow> Inl (Msg ''eBPF binary not found. Build it first'')
      | Some r \<Rightarrow> and_then r (\<lambda>data.
     and_then (with_context ''Failed to load eBPF programs'' (load_object data)) (\<lambda>ebpf.
       let has = (\<lambda>name. list_ex (\<lambda>n. str_contains n name) (programs ebpf)) in
       if \<not> has ''bpf_rbac_bpf'' then Inl (Msg ''Should contain bpf_rbac_bpf program'')
       else if \<not> has ''bpf_rbac_prog_load'' then Inl (Msg ''Should contain bpf_rbac_prog_load program'')
       else if \<not> has ''bpf_rbac_map_create'' then Inl (Msg ''Should contain bpf_rbac_map_create program'')
       else
         and_then (with_context ''Failed to load BTF from sysfs'' btf) (\<lambda>_.
         and_then (load_and_attach ebpf ''bpf_rbac_bpf'' ''bpf'' ''Failed to load bpf_rbac_bpf into kernel''
           ''Failed to attach bpf_rbac_bpf to LSM hook'') (\<lambda>_.
         and_then (load_and_attach ebpf ''bpf_rbac_prog_load'' ''bpf_prog_load''
           ''Failed to load bpf_rbac_prog_load'' ''Failed to attach bpf_rbac_prog_load'') (\<lambda>_.
         and_then (load_and_attach ebpf ''bpf_rbac_map_create'' ''bpf_map_create''
           ''Failed to load bpf_rbac_map_create'' ''Failed to attach bpf_rbac_map_create'') (\<lambda>_.
           if ''POLICY_MAP'' \<in> set (object_maps ebpf) then Inr ()
           else Inl (Msg ''POLICY_MAP should be accessible after loading''))))))))"

lemma str_contains_refl: "str_contains s s"
  unfolding str_contains_iff by (metis append_Nil append_Nil2)

lemma load_and_attach_iff:
  "load_and_attach ebpf name hook load_msg attach_msg = Inr () \<longleftrightarrow>
     name \<in> set (programs ebpf) \<and> is_lsm ebpf name \<and> load_program ebpf name hook = Inr () \<and>
     attach_program ebpf name = Inr ()"
  by (auto simp: load_and_attach_def)

text \<open>
  The test of the LSM object passes exactly if the kernel accepts and attaches the three programs, each
  for the hook it is written for, and the object has the policy map.
\<close>

lemma lsm_load_test_iff:
  "test_lsm_program_load_and_attach (Some (Inr data)) (\<lambda>_. Inr ebpf) (Inr ()) = Inr () \<longleftrightarrow>
     (\<forall>(name, hook)\<in>{(''bpf_rbac_bpf'', ''bpf''), (''bpf_rbac_prog_load'', ''bpf_prog_load''),
         (''bpf_rbac_map_create'', ''bpf_map_create'')}.
        name \<in> set (programs ebpf) \<and> is_lsm ebpf name \<and> load_program ebpf name hook = Inr () \<and>
        attach_program ebpf name = Inr ()) \<and> ''POLICY_MAP'' \<in> set (object_maps ebpf)"
proof -
  have has: "list_ex (\<lambda>n. str_contains n name) (programs ebpf)" if "name \<in> set (programs ebpf)" for name
    using that str_contains_refl by (auto simp: list_ex_iff)
  show ?thesis
    using has [of "''bpf_rbac_bpf''"] has [of "''bpf_rbac_prog_load''"] has [of "''bpf_rbac_map_create''"]
    by (auto simp: test_lsm_program_load_and_attach_def Let_def load_and_attach_iff split: if_splits)
qed

text \<open>A file that passes as an ELF file also passes as present.\<close>

lemma elf_test_implies_exists:
  assumes "test_ebpf_binary_is_valid_elf file = Inr ()"
  shows "test_ebpf_binary_exists file = Inr ()"
proof (cases "file")
  case (Some r)
  show ?thesis
  proof (cases r)
    case (Inr data)
    have "4 \<le> length data"
      using assms Some Inr by (rule_tac ccontr) (simp add: test_ebpf_binary_is_valid_elf_def)
    then have "0 < length data" by linarith
    with Some Inr show ?thesis
      by (simp add: test_ebpf_binary_exists_def)
  qed (use assms Some in \<open>simp add: test_ebpf_binary_is_valid_elf_def\<close>)
qed (simp add: test_ebpf_binary_exists_def)

end
