(* ===== verification/Reference_Monitor.thy ===== *)
theory Reference_Monitor
  imports Proxy_Sessions
begin

text \<open>
  What the daemon promises, without phases, descriptors, buffers or error texts: a reference monitor
  that keeps one status per client. A client asks once; its call is made exactly if it is authorised,
  and a descriptor is delivered only for a call that was made. The daemon of \<open>src/main.rs\<close> refines this
  monitor under every interleaving of its tasks: each of its steps is a step of the monitor or leaves
  the monitor's state as it is.
\<close>

section \<open>The monitor\<close>

datatype client_status =
    Pending
  | Granted BpfAttr
  | Refused
  | Delivered BpfAttr
  | Failed BpfAttr

type_synonym monitor = "(connection \<times> client_status) list"

inductive monitor_step :: "host \<Rightarrow> codec \<Rightarrow> Policy \<Rightarrow> monitor \<Rightarrow> monitor \<Rightarrow> bool"
  for h :: host and b :: codec and policy :: Policy where
  join: "monitor_step h b policy m (m @ [(c, Pending)])"
| grant: "i < length m \<Longrightarrow> m ! i = (c, Pending) \<Longrightarrow> authorised h b policy c 0 attr \<Longrightarrow>
     monitor_step h b policy m (m[i := (c, Granted attr)])"
| refuse: "i < length m \<Longrightarrow> m ! i = (c, Pending) \<Longrightarrow> \<nexists>attr. authorised h b policy c 0 attr \<Longrightarrow>
     monitor_step h b policy m (m[i := (c, Refused)])"
| deliver: "i < length m \<Longrightarrow> m ! i = (c, Granted attr) \<Longrightarrow>
     monitor_step h b policy m (m[i := (c, Delivered attr)])"
| report: "i < length m \<Longrightarrow> m ! i = (c, Granted attr) \<Longrightarrow>
     monitor_step h b policy m (m[i := (c, Failed attr)])"

inductive_cases monitor_stepE [elim]: "monitor_step h b policy m m'"

section \<open>Forward simulation\<close>

text \<open>
  An invariant of the concrete system and a function from its states to the abstract ones, under
  which every concrete step from a state of the invariant is an abstract step or none.
\<close>

locale forward_simulation = step_invariant step start I
  for step :: "'s \<Rightarrow> 's \<Rightarrow> bool" and start :: 's and I :: "'s \<Rightarrow> bool" +
  fixes astep :: "'a \<Rightarrow> 'a \<Rightarrow> bool" and astart :: 'a and abs :: "'s \<Rightarrow> 'a"
  assumes starts_related: "abs start = astart"
    and simulated: "I s \<Longrightarrow> step s s' \<Longrightarrow> abs s' = abs s \<or> astep (abs s) (abs s')"
begin

lemma reachable_simulated: "step\<^sup>*\<^sup>* start s \<Longrightarrow> astep\<^sup>*\<^sup>* astart (abs s)"
proof (induction rule: rtranclp_induct)
  case (step s s')
  then have "abs s' = abs s \<or> astep (abs s) (abs s')"
    by (intro simulated reachable_invariant)
  with step.IH show ?case
    by (auto intro: rtranclp.rtrancl_into_rtrancl)
qed (simp add: starts_related)

lemma abstract_invariant:
  assumes "step\<^sup>*\<^sup>* start s" and "J astart" and "\<And>a a'. astep a a' \<Longrightarrow> J a \<Longrightarrow> J a'"
  shows "J (abs s)"
  using reachable_simulated [OF assms(1)]
  by (induction rule: rtranclp_induct) (auto intro: assms(2,3))

end

section \<open>The daemon as a monitor\<close>

fun status_of :: "effect list \<Rightarrow> client_status" where
  "status_of [] = Pending"
| "status_of [BpfCall cmd attr] = Granted attr"
| "status_of [WriteAll bytes] = Refused"
| "status_of [BpfCall cmd attr, SendFd fd bytes] = Delivered attr"
| "status_of (BpfCall cmd attr # _) = Failed attr"
| "status_of _ = Pending"

definition monitor_of :: "daemon \<Rightarrow> monitor" where
  "monitor_of s =
     map (\<lambda>i. (conn (tasks s ! i), status_of (task_effects i s))) [0..<length (tasks s)]"

text \<open>What a task's phase says of the effects logged for it.\<close>

definition call_decided :: "host \<Rightarrow> codec \<Rightarrow> Policy \<Rightarrow> connection \<Rightarrow> Response \<Rightarrow> effect list \<Rightarrow> bool" where
  "call_decided h b p c resp effs \<longleftrightarrow>
     (\<exists>attr. effs = [BpfCall 0 attr] \<and> authorised h b p c 0 attr) \<or>
     effs = [] \<and> (\<forall>fd. resp \<noteq> Success (Some fd)) \<and> (\<nexists>attr. authorised h b p c 0 attr)"

definition task_consistent :: "host \<Rightarrow> codec \<Rightarrow> Policy \<Rightarrow> task \<Rightarrow> effect list \<Rightarrow> bool" where
  "task_consistent h b p t effs =
     (case phase t of
        Decided resp \<Rightarrow> call_decided h b p (conn t) resp effs
      | Finished _ \<Rightarrow>
          effs = [] \<or>
          (\<exists>resp effs'. call_decided h b p (conn t) resp effs' \<and>
             effs = effs' @ snd (reply b (conn t) resp))
      | _ \<Rightarrow> undecided h b p t effs)"

definition daemon_consistent :: "host \<Rightarrow> codec \<Rightarrow> Policy \<Rightarrow> daemon \<Rightarrow> bool" where
  "daemon_consistent h b p s \<longleftrightarrow>
     (\<forall>i<length (tasks s). task_consistent h b p (tasks s ! i) (task_effects i s)) \<and>
     (\<forall>(i, e)\<in>set (effect_log s). i < length (tasks s))"

section \<open>A decision is the monitor's\<close>

lemma decide_effects_shape:
  assumes "decide h p role req fds = (resp, fds', effs)"
  shows "effs = [] \<or> (\<exists>attr. effs = [BpfCall 0 attr])"
  using assms
  by (auto simp: decide_def execute_bpf_def create_bpf_map_def Let_def
      split: option.splits if_splits Request.splits prod.splits sum.splits)

lemma decide_success_called:
  assumes "decide h p role req fds = (Success (Some fd), fds', effs)"
  shows "effs \<noteq> []"
  using assms
  by (auto simp: decide_def execute_bpf_def create_bpf_map_def Let_def
      split: option.splits if_splits Request.splits prod.splits sum.splits)

lemma decide_authorised_called:
  assumes "authenticate h c p = Inr role" and "read_request b c = Inr (Some req)"
    and "decide h p role req fds = (resp, fds', effs)" and "authorised h b p c 0 attr"
  shows "effs \<noteq> []"
proof -
  obtain name t nm ks vs me n where "role = Some name" and req: "req = CreateMap t nm ks vs me"
    and "is_allowed p name req" and "map_of supported_map_types t = Some n"
    using assms(1,2,4) authenticate_role [OF assms(1)] unfolding authorised_def
    by (fastforce simp: read_request_def split: sum.splits if_splits)
  with assms(3) show ?thesis
    by (auto simp: decide_def execute_bpf_def create_bpf_map_def Let_def
        split: if_splits prod.splits sum.splits)
qed

lemma decide_call_authorised:
  assumes "authenticate h c p = Inr role" and "read_request b c = Inr (Some req)"
    and "decide h p role req fds = (resp, fds', effs)" and "BpfCall cmd attr \<in> set effs"
  shows "authorised h b p c cmd attr"
proof -
  obtain r fds1 effs1 where run: "handle_client h b c p fds = (r, fds1, effs1)"
    by (cases "handle_client h b c p fds")
  with assms have "BpfCall cmd attr \<in> set effs1"
    by (auto simp: handle_client_def split: prod.splits)
  with run show ?thesis
    by (rule handle_client_authorised)
qed

lemma decision_consistent:
  assumes "authenticate h c p = Inr role" and "read_request b c = Inr (Some req)"
    and "decide h p role req fds = (resp, fds', effs)"
  shows "call_decided h b p c resp effs"
  using decide_effects_shape [OF assms(3)]
proof
  assume "effs = []"
  with assms decide_authorised_called [OF assms] decide_success_called show ?thesis
    unfolding call_decided_def by blast
next
  assume "\<exists>attr. effs = [BpfCall 0 attr]"
  with decide_call_authorised [OF assms] show ?thesis
    unfolding call_decided_def by auto
qed

section \<open>One step of a task\<close>

text \<open>
  A step of a task keeps the task consistent, and moves the client's status as the monitor does or
  not at all.
\<close>

definition status_step :: "host \<Rightarrow> codec \<Rightarrow> Policy \<Rightarrow> connection \<Rightarrow> client_status \<Rightarrow> client_status \<Rightarrow> bool" where
  "status_step h b p c st st' =
     (case st' of
        Granted attr \<Rightarrow> st = Pending \<and> authorised h b p c 0 attr
      | Refused \<Rightarrow> st = Pending \<and> (\<nexists>attr. authorised h b p c 0 attr)
      | Delivered attr \<Rightarrow> st = Granted attr
      | Failed attr \<Rightarrow> st = Granted attr
      | Pending \<Rightarrow> False)"

lemma monitor_stepI:
  assumes "i < length m" and "m ! i = (c, st)" and "status_step h b p c st st'"
  shows "monitor_step h b p m (m[i := (c, st')])"
  using assms by (cases st') (auto simp: status_step_def intro: monitor_step.intros)

lemma reply_status:
  assumes "call_decided h b p c resp effs" and "reply b c resp = (r, effs')"
  shows "status_of (effs @ effs') = status_of effs \<or>
     status_step h b p c (status_of effs) (status_of (effs @ effs'))"
  using assms(1) unfolding call_decided_def reply_effects [OF assms(2)]
  by (auto simp: status_step_def split: sum.splits Response.splits option.splits)

lemma task_advance_consistent:
  assumes "task_consistent h b p t effs" and "\<not> is_finished t"
    and "task_advance h b p t fds = (t', fds', effs')"
  shows "conn t' = conn t \<and> task_consistent h b p t' (effs @ effs') \<and>
     (status_of (effs @ effs') = status_of effs \<or>
      status_step h b p (conn t) (status_of effs) (status_of (effs @ effs')))"
proof (cases "phase t")
  case Accepted
  with assms show ?thesis
    by (auto simp: task_consistent_def undecided_def task_advance_def split: sum.splits)
next
  case (Authenticated role)
  with assms show ?thesis
    by (auto simp: task_consistent_def undecided_def task_advance_def split: sum.splits option.splits)
next
  case (Received role req)
  obtain resp fds1 effs1 where d: "decide h p role req fds = (resp, fds1, effs1)"
    by (cases "decide h p role req fds")
  from Received assms(1) have "effs = []" "call_decided h b p (conn t) resp effs1"
    using decision_consistent [OF _ _ d] by (auto simp: task_consistent_def undecided_def)
  with Received assms(3) d show ?thesis
    by (auto simp: task_consistent_def task_advance_def call_decided_def status_step_def)
next
  case (Decided resp)
  from Decided assms(1) have decided: "call_decided h b p (conn t) resp effs"
    by (simp add: task_consistent_def)
  obtain r effs1 where r: "reply b (conn t) resp = (r, effs1)"
    by (cases "reply b (conn t) resp")
  with Decided assms(3) have t': "t' = t\<lparr>phase := Finished r\<rparr>" "effs' = effs1"
    by (simp_all add: task_advance_def)
  have "task_consistent h b p t' (effs @ effs')"
    using decided r unfolding t' task_consistent_def by (simp, metis snd_conv)
  with reply_status [OF decided r] t' show ?thesis by simp
qed (use assms in \<open>simp add: is_finished_def\<close>)

section \<open>Every step of the daemon\<close>

lemma monitor_of_accept:
  assumes "\<forall>(i, e)\<in>set (effect_log s). i < length (tasks s)"
  shows "monitor_of (accept_client (Inr c) s) = monitor_of s @ [(c, Pending)]"
  using task_effects_outside [OF assms, of "length (tasks s)"]
  by (simp add: monitor_of_def accept_client_fields nth_append)

lemma monitor_of_run:
  assumes "task_step h b p (tasks s ! i) (open_fds s) = (t', fds', effs)"
    and "conn t' = conn (tasks s ! i)" and "i < length (tasks s)"
  shows "monitor_of (run_task h b p i s) =
     (monitor_of s)[i := (conn (tasks s ! i), status_of (task_effects i s @ effs))]"
  using assms
  by (auto simp: monitor_of_def run_task_fields [OF assms(1)] task_effects_run_task [OF assms(1)]
      intro!: nth_equalityI simp: nth_list_update)

lemma nth_monitor_of:
  "i < length (tasks s) \<Longrightarrow> monitor_of s ! i = (conn (tasks s ! i), status_of (task_effects i s))"
  "length (monitor_of s) = length (tasks s)"
  by (simp_all add: monitor_of_def)

lemma run_consistent:
  assumes "daemon_consistent h b p s" and "i < length (tasks s)" and "\<not> is_finished (tasks s ! i)"
    and "\<not> held b (tasks s ! i)"
  shows "daemon_consistent h b p (run_task h b p i s) \<and>
     (monitor_of (run_task h b p i s) = monitor_of s \<or>
      monitor_step h b p (monitor_of s) (monitor_of (run_task h b p i s)))"
proof -
  let ?c = "conn (tasks s ! i)"
  obtain t' fds' effs where step: "task_step h b p (tasks s ! i) (open_fds s) = (t', fds', effs)"
    by (cases "task_step h b p (tasks s ! i) (open_fds s)")
  have "task_consistent h b p (tasks s ! i) (task_effects i s)"
    using assms by (simp add: daemon_consistent_def)
  from task_advance_consistent [OF this assms(3) step [unfolded task_step_free [OF assms(4)]]]
  have same: "conn t' = ?c" and cons: "task_consistent h b p t' (task_effects i s @ effs)"
    and moved: "status_of (task_effects i s @ effs) = status_of (task_effects i s) \<or>
      status_step h b p ?c (status_of (task_effects i s)) (status_of (task_effects i s @ effs))"
    by auto
  have "daemon_consistent h b p (run_task h b p i s)"
    using assms cons
    by (auto simp: daemon_consistent_def run_task_fields [OF step] task_effects_run_task [OF step]
        nth_list_update)
  moreover have "monitor_of (run_task h b p i s) = monitor_of s \<or>
      monitor_step h b p (monitor_of s) (monitor_of (run_task h b p i s))"
    using moved unfolding monitor_of_run [OF step same assms(2)]
  proof
    assume "status_of (task_effects i s @ effs) = status_of (task_effects i s)"
    then show "(monitor_of s)[i := (?c, status_of (task_effects i s @ effs))] = monitor_of s \<or>
        monitor_step h b p (monitor_of s)
          ((monitor_of s)[i := (?c, status_of (task_effects i s @ effs))])"
      using assms(2) nth_monitor_of(1) [OF assms(2)] by (metis list_update_id)
  qed (use assms(2) nth_monitor_of in \<open>auto intro: monitor_stepI\<close>)
  ultimately show ?thesis by blast
qed

lemma accept_consistent:
  assumes "daemon_consistent h b p s"
  shows "daemon_consistent h b p (accept_client r s) \<and>
     (monitor_of (accept_client r s) = monitor_of s \<or>
      monitor_step h b p (monitor_of s) (monitor_of (accept_client r s)))"
proof (cases r)
  case (Inr c)
  have log: "\<forall>(i, e)\<in>set (effect_log s). i < length (tasks s)"
    using assms by (simp add: daemon_consistent_def)
  then have "task_effects (length (tasks s)) s = []"
    by (rule task_effects_outside) simp
  with assms have "daemon_consistent h b p (accept_client (Inr c) s)"
    by (auto simp: daemon_consistent_def accept_client_fields nth_append less_Suc_eq
        task_consistent_def undecided_def)
  with Inr monitor_of_accept [OF log] show ?thesis
    by (auto intro: join)
qed (use assms in \<open>simp add: accept_client_def\<close>)

lemma step_consistent:
  assumes "daemon_consistent h b p s" and "daemon_step h b p s s'"
  shows "daemon_consistent h b p s'"
    and "monitor_of s' = monitor_of s \<or> monitor_step h b p (monitor_of s) (monitor_of s')"
proof -
  have "daemon_consistent h b p s' \<and>
      (monitor_of s' = monitor_of s \<or> monitor_step h b p (monitor_of s) (monitor_of s'))"
    using assms(2)
  proof cases
    case (accept r)
    with accept_consistent [OF assms(1), of r] show ?thesis by simp
  next
    case (run i)
    with run_consistent [OF assms(1)] show ?thesis by simp
  qed
  then show "daemon_consistent h b p s'"
    "monitor_of s' = monitor_of s \<or> monitor_step h b p (monitor_of s) (monitor_of s')"
    by blast+
qed

interpretation proxy: forward_simulation "daemon_step h b p" daemon_init "daemon_consistent h b p"
    "monitor_step h b p" "[]" monitor_of
  for h b p
proof unfold_locales
  show "daemon_consistent h b p daemon_init" "monitor_of daemon_init = []"
    by (simp_all add: daemon_init_def daemon_consistent_def monitor_of_def)
qed (simp_all add: step_consistent)

section \<open>Properties\<close>

text \<open>
  C3: the daemon refines the reference monitor. Whatever connections it accepts and however their
  tasks interleave, what it has done for its clients so far is a run of the monitor: each client asks
  once, its call is made only if it is authorised, it is refused only if no call is authorised for
  it, and it is sent a descriptor only after its own call.
\<close>

theorem daemon_refines_monitor:
  assumes "daemon_reachable h b p s"
  shows "(monitor_step h b p)\<^sup>*\<^sup>* [] (monitor_of s)"
  using assms by (rule proxy.reachable_simulated)

theorem daemon_refines_monitor_witness:
  "\<exists>c0 a0 c1 a1. (monitor_step demo_host bincode Policy_default)\<^sup>*\<^sup>* []
     [(c0, Delivered a0), (c1, Delivered a1)]"
proof -
  have "length (tasks two_sessions) = 2"
    unfolding two_sessions_def two_clients_def by simp
  moreover obtain a1 a0 b0 b1 where "effect_log two_sessions =
      [(1, BpfCall 0 a1), (0, BpfCall 0 a0), (0, SendFd 4 b0), (1, SendFd 3 b1)]"
    using two_sessions_log by blast
  ultimately have "monitor_of two_sessions =
      [(conn (tasks two_sessions ! 0), Delivered a0), (conn (tasks two_sessions ! 1), Delivered a1)]"
    by (simp add: monitor_of_def task_effects_def numeral_2_eq_2)
  with daemon_refines_monitor [OF two_sessions_reachable] show ?thesis
    by metis
qed

lemma answered_exactly:
  assumes "call_decided h b p c resp effs"
  shows "(\<exists>cmd attr. BpfCall cmd attr \<in> set (effs @ snd (reply b c resp))) \<longleftrightarrow>
     (\<exists>attr. authorised h b p c 0 attr)"
proof -
  have "BpfCall cmd attr \<notin> set (snd (reply b c resp))" for cmd attr
    using reply_effects [of b c resp] by (cases "reply b c resp")
      (auto split: sum.splits Response.splits option.splits)
  with assms show ?thesis
    unfolding call_decided_def by auto
qed

lemma consistent_exactly:
  assumes "task_consistent h b p t effs" and "effs \<noteq> []"
  shows "(\<exists>cmd attr. BpfCall cmd attr \<in> set effs) \<longleftrightarrow> (\<exists>attr. authorised h b p (conn t) 0 attr)"
proof (cases "phase t")
  case (Decided resp)
  with assms show ?thesis
    by (auto simp: task_consistent_def call_decided_def)
next
  case (Finished r)
  with assms obtain resp effs' where "call_decided h b p (conn t) resp effs'"
    "effs = effs' @ snd (reply b (conn t) resp)"
    by (auto simp: task_consistent_def)
  with answered_exactly show ?thesis by blast
qed (use assms in \<open>simp_all add: task_consistent_def undecided_def\<close>)

text \<open>
  C4: mediation is exact under concurrency. A client for which the daemon has done anything at all has
  had its \<open>bpf()\<close> call made if and only if a call is authorised for its connection: the daemon neither
  makes a call the policy forbids nor turns away a client whose request the policy and the supported
  map types allow.
\<close>

theorem sessions_exact_mediation:
  assumes "daemon_reachable h b p s" and "i < length (tasks s)" and "task_effects i s \<noteq> []"
  shows "(\<exists>cmd attr. (i, BpfCall cmd attr) \<in> set (effect_log s)) \<longleftrightarrow>
     (\<exists>attr. authorised h b p (conn (tasks s ! i)) 0 attr)"
proof -
  have "task_consistent h b p (tasks s ! i) (task_effects i s)"
    using proxy.reachable_invariant [OF assms(1)] assms(2) by (simp add: daemon_consistent_def)
  moreover have "BpfCall cmd attr \<in> set (task_effects i s) \<longleftrightarrow>
      (i, BpfCall cmd attr) \<in> set (effect_log s)" for cmd attr
    by (force simp: task_effects_def)
  ultimately show ?thesis
    using consistent_exactly assms(3) by metis
qed

theorem sessions_exact_mediation_witness:
  "\<exists>attr. authorised demo_host bincode Policy_default (conn (tasks two_sessions ! 0)) 0 attr"
proof -
  have len: "length (tasks two_sessions) = 2"
    unfolding two_sessions_def two_clients_def by simp
  obtain a b where logged: "(0, BpfCall a b) \<in> set (effect_log two_sessions)"
    using two_sessions_log by force
  then have "task_effects 0 two_sessions \<noteq> []"
    by (force simp: task_effects_def filter_empty_conv)
  with sessions_exact_mediation [OF two_sessions_reachable, of 0] len logged show ?thesis
    by auto
qed

end
