(* ===== verification/Session_Progress.thy ===== *)
theory Session_Progress
  imports Proxy_Sessions
begin

text \<open>
  The descriptors of the concurrent daemon: the table of open map descriptors has no duplicates, holds
  every descriptor that was sent, and grows by at most one descriptor per client.
\<close>

section \<open>Descriptors\<close>

definition waiting :: "task \<Rightarrow> bool" where
  "waiting t = (case phase t of Decided _ \<Rightarrow> False | Finished _ \<Rightarrow> False | _ \<Rightarrow> True)"

text \<open>
  The table of descriptors: no duplicates; every descriptor sent, or about to be sent, is in it; and
  no more entries than tasks that have been decided.
\<close>

definition fd_table_ok :: "daemon \<Rightarrow> bool" where
  "fd_table_ok s \<longleftrightarrow>
     distinct (open_fds s) \<and>
     (\<forall>i fd bytes. (i, SendFd fd bytes) \<in> set (effect_log s) \<longrightarrow> fd \<in> set (open_fds s)) \<and>
     (\<forall>t\<in>set (tasks s). \<forall>fd. phase t = Decided (Success (Some fd)) \<longrightarrow> fd \<in> set (open_fds s)) \<and>
     length (open_fds s) + length (filter waiting (tasks s)) \<le> length (tasks s)"

lemma length_filter_update:
  assumes "i < length xs"
  shows "length (filter P (xs[i := x])) + (if P (xs ! i) then 1 else 0) =
     length (filter P xs) + (if P x then 1 else 0)"
  using assms
proof (induction xs arbitrary: i)
  case (Cons y ys)
  show ?case
  proof (cases i)
    case (Suc j)
    with Cons.prems Cons.IH [of j] show ?thesis by simp
  qed simp
qed simp

lemma decide_no_send:
  assumes "decide h p role req fds = (resp, fds', effs)"
  shows "SendFd fd bytes \<notin> set effs"
  using decide_effect [OF assms] execute_bpf_effect by fastforce

lemma reply_send:
  assumes "reply b c resp = (r, effs)" and "SendFd fd bytes \<in> set effs"
  shows "resp = Success (Some fd)"
  using reply_effects [OF assms(1)] assms(2)
  by (cases "ser_response b resp"; cases resp) (auto split: option.splits)

context bpf_kernel
begin

lemma task_advance_table:
  assumes "task_advance h b p t fds = (t', fds', effs)" and "\<not> is_finished t"
  shows "fds' = fds \<and> (waiting t' \<longrightarrow> waiting t) \<or>
      (\<exists>fd. fds' = fd # fds \<and> fd \<notin> set fds \<and> waiting t \<and> \<not> waiting t')"
    and "phase t' = Decided (Success (Some fd)) \<Longrightarrow> fd \<in> set fds'"
    and "SendFd fd bytes \<in> set effs \<Longrightarrow> phase t = Decided (Success (Some fd))"
proof -
  have "(fds' = fds \<and> (waiting t' \<longrightarrow> waiting t) \<or>
       (\<exists>fd. fds' = fd # fds \<and> fd \<notin> set fds \<and> waiting t \<and> \<not> waiting t')) \<and>
     (\<forall>fd. phase t' = Decided (Success (Some fd)) \<longrightarrow> fd \<in> set fds') \<and>
     (\<forall>fd bytes. SendFd fd bytes \<in> set effs \<longrightarrow> phase t = Decided (Success (Some fd)))"
  proof (cases "phase t")
    case Accepted
    with assms show ?thesis
      by (auto simp: task_advance_def waiting_def split: sum.splits)
  next
    case (Authenticated role)
    with assms show ?thesis
      by (auto simp: task_advance_def waiting_def split: sum.splits option.splits)
  next
    case (Received role req)
    obtain resp fds1 effs1 where d: "decide h p role req fds = (resp, fds1, effs1)"
      by (cases "decide h p role req fds")
    with Received assms(1) have "t' = t\<lparr>phase := Decided resp\<rparr>" "fds' = fds1" "effs = effs1"
      by (simp_all add: task_advance_def)
    with Received decide_fds [OF d] decide_no_send [OF d] show ?thesis
      by (auto simp: waiting_def split: Response.splits option.splits)
  next
    case (Decided resp)
    obtain r effs1 where e: "reply b (conn t) resp = (r, effs1)"
      by (cases "reply b (conn t) resp")
    with Decided assms(1) have "t' = t\<lparr>phase := Finished r\<rparr>" "fds' = fds" "effs = effs1"
      by (simp_all add: task_advance_def)
    with Decided reply_send [OF e] show ?thesis
      by (auto simp: waiting_def)
  qed (use assms in \<open>simp add: is_finished_def\<close>)
  then show "fds' = fds \<and> (waiting t' \<longrightarrow> waiting t) \<or>
      (\<exists>fd. fds' = fd # fds \<and> fd \<notin> set fds \<and> waiting t \<and> \<not> waiting t')"
    "phase t' = Decided (Success (Some fd)) \<Longrightarrow> fd \<in> set fds'"
    "SendFd fd bytes \<in> set effs \<Longrightarrow> phase t = Decided (Success (Some fd))"
    by blast+
qed

lemma run_keeps_table:
  assumes "fd_table_ok s" and "i < length (tasks s)" and "\<not> is_finished (tasks s ! i)"
    and "\<not> held b (tasks s ! i)"
  shows "fd_table_ok (run_task h b p i s)"
proof -
  obtain t' fds' effs where step: "task_step h b p (tasks s ! i) (open_fds s) = (t', fds', effs)"
    by (cases "task_step h b p (tasks s ! i) (open_fds s)")
  note table = task_advance_table [OF step [unfolded task_step_free [OF assms(4)]] assms(3)]
  have grows: "set (open_fds s) \<subseteq> set fds'" "distinct fds'"
    using table(1) assms(1) by (auto simp: fd_table_ok_def)
  have "fd \<in> set fds'" if "(j, SendFd fd bytes) \<in> set (effect_log s @ map (Pair i) effs)" for j fd bytes
  proof (cases "(j, SendFd fd bytes) \<in> set (effect_log s)")
    case True
    with assms(1) have "fd \<in> set (open_fds s)"
      unfolding fd_table_ok_def by blast
    with grows(1) show ?thesis by blast
  next
    case False
    with that have "phase (tasks s ! i) = Decided (Success (Some fd))"
      by (intro table(3) [of fd bytes]) auto
    with assms(1) nth_mem [OF assms(2)] have "fd \<in> set (open_fds s)"
      unfolding fd_table_ok_def by blast
    with grows(1) show ?thesis by blast
  qed
  moreover have "fd \<in> set fds'" if "t \<in> set ((tasks s)[i := t'])" "phase t = Decided (Success (Some fd))" for t fd
    using that table(2) [of fd] assms(1) grows(1) set_update_subset_insert [of "tasks s" i t']
    unfolding fd_table_ok_def by fastforce
  moreover have "length fds' + length (filter waiting ((tasks s)[i := t'])) \<le> length (tasks s)"
    using table(1) assms(1) length_filter_update [OF assms(2), of waiting t']
    unfolding fd_table_ok_def by (auto split: if_splits)
  ultimately show ?thesis
    using grows(2) unfolding fd_table_ok_def run_task_fields [OF step] by auto
qed

lemma accept_keeps_table: "fd_table_ok s \<Longrightarrow> fd_table_ok (accept_client r s)"
  by (cases r) (auto simp: accept_client_def fd_table_ok_def waiting_def)

lemma step_keeps_table: "daemon_step h b p s s' \<Longrightarrow> fd_table_ok s \<Longrightarrow> fd_table_ok s'"
  by (erule daemon_stepE) (auto intro: run_keeps_table accept_keeps_table)

end

sublocale bpf_kernel \<subseteq> fd_table: step_invariant "daemon_step h b p" daemon_init fd_table_ok
  for b p
proof unfold_locales
  show "fd_table_ok daemon_init"
    by (simp add: daemon_init_def fd_table_ok_def)
qed (rule step_keeps_table)

context bpf_kernel
begin

lemma reachable_table: "daemon_reachable h b p s \<Longrightarrow> fd_table_ok s"
  by (rule fd_table.reachable_invariant)

end

text \<open>
  C13: the daemon's descriptor table stays well formed. In every reachable state the open descriptors
  are distinct, every descriptor ever sent to a client is among them, and there is at most one per
  client that has been decided, so a client can make the daemon open one descriptor and no more.
\<close>

theorem daemon_fd_table:
  assumes "bpf_kernel h" and "daemon_reachable h b p s"
  shows "distinct (open_fds s) \<and>
     (\<forall>i fd bytes. (i, SendFd fd bytes) \<in> set (effect_log s) \<longrightarrow> fd \<in> set (open_fds s)) \<and>
     length (open_fds s) + length (filter waiting (tasks s)) \<le> length (tasks s)"
  using bpf_kernel.reachable_table [OF assms] by (simp add: fd_table_ok_def)

theorem daemon_fd_table_witness:
  "distinct (open_fds two_sessions) \<and> {3, 4} \<subseteq> set (open_fds two_sessions)"
proof -
  note table = daemon_fd_table [OF demo_kernel.bpf_kernel_axioms two_sessions_reachable]
  obtain b0 b1 where "(0, SendFd 4 b0) \<in> set (effect_log two_sessions)"
    "(1, SendFd 3 b1) \<in> set (effect_log two_sessions)"
    using two_sessions_log by force
  with table show ?thesis by blast
qed

end
