(* ===== verification/Concurrent_Clients.thy ===== *)
theory Concurrent_Clients
  imports Client_Cli Reference_Monitor Session_Progress
begin

text \<open>
  The client library of \<open>src/protocol.rs\<close>, and the command-line client on top of it, against the
  concurrent daemon of \<open>src/main.rs\<close>: a client whose connection is one of the daemon's tasks receives
  what this task has sent, however the tasks of all clients were interleaved.
\<close>

section \<open>A client of a running daemon\<close>

text \<open>The client's end of the connection of task \<open>i\<close>.\<close>

definition session_stream :: "daemon \<Rightarrow> nat \<Rightarrow> (i32 \<Rightarrow> i32) \<Rightarrow> UnixStream" where
  "session_stream s i dup =
     \<lparr>stream_write_all = (\<lambda>_. Inr ()),
      stream_recvmsg = (\<lambda>sent n. Inr (delivered dup n (task_effects i s)))\<rparr>"

lemma session_stream_client_end:
  assumes "handle_client h b (daemon_end uid sent) p fds = (r, fds', task_effects i s)"
    and "ser_request b (CreateMap t name ks vs me) = Inr sent"
  shows "client_create_map b \<lparr>stream = session_stream s i dup\<rparr> t name ks vs me =
     client_create_map b \<lparr>stream = client_end h b p fds uid dup\<rparr> t name ks vs me"
  using assms
  by (simp add: client_create_map_def recv_response_with_fd_def session_stream_def client_end_def)

lemma session_verdict:
  assumes "wire_codec b" and "daemon_reachable h b p s" and "i < length (tasks s)"
    and "is_finished (tasks s ! i)" and "conn (tasks s ! i) = daemon_end uid sent"
    and "get_user_groups h uid = Inr gs"
    and "ser_request b (CreateMap t name ks vs me) = Inr sent" and "sent \<noteq> []"
    and "length sent \<le> 4096"
    and "\<And>fds. \<exists>bytes. ser_response b (daemon_response h p fds gs (CreateMap t name ks vs me)) = Inr bytes \<and>
        length bytes \<le> 4096"
  obtains ids k where "serial_order h b p s ids" "k < length ids" "ids ! k = i"
    "client_create_map b \<lparr>stream = session_stream s i dup\<rparr> t name ks vs me =
       client_verdict dup (daemon_response h p (fds_after h b p (conns_at s (take k ids))) gs
         (CreateMap t name ks vs me))"
proof -
  obtain ids where ids: "serial_order h b p s ids"
    using assms(2) by (rule reachable_serial_order)
  obtain k r fds' where k: "k < length ids" "ids ! k = i"
    and run: "handle_client h b (daemon_end uid sent) p (fds_after h b p (conns_at s (take k ids))) =
      (r, fds', task_effects i s)"
    using finished_in_order [OF ids assms(3,4)] assms(5) by metis
  obtain bytes where bytes: "ser_response b (daemon_response h p (fds_after h b p (conns_at s (take k ids))) gs
      (CreateMap t name ks vs me)) = Inr bytes" "length bytes \<le> 4096"
    using assms(10) by blast
  have "client_create_map b \<lparr>stream = session_stream s i dup\<rparr> t name ks vs me =
      client_verdict dup (daemon_response h p (fds_after h b p (conns_at s (take k ids))) gs
        (CreateMap t name ks vs me))"
    using session_stream_client_end [OF run assms(7)]
      wire_codec.joined_client_verdict [OF assms(1,6-9) bytes] by simp
  with ids k that show thesis by blast
qed

lemma verdict_descriptor:
  "client_verdict dup (daemon_response h p fds gs (CreateMap t name ks vs me)) = Inr x \<longleftrightarrow>
     (\<exists>role fd. x = dup fd \<and> get_role_for_groups p gs = Some role \<and>
        is_allowed p role (CreateMap t name ks vs me) \<and>
        fst (create_bpf_map h t name ks vs me fds) = Inr fd)"
  by (auto simp: client_verdict_def daemon_response_def decide_def execute_bpf_def
      split: Response.splits option.splits if_splits prod.splits sum.splits)

text \<open>
  C9: a client of the concurrent daemon sees its own decision. Take a client of the daemon whose task
  has finished, whose user has groups \<open>gs\<close>, whose request is not empty and fits the daemon's 4096 bytes,
  and whose possible answers fit the client's 4096 bytes. Whatever other clients there are and however
  their tasks are interleaved with its own, there is an order in which the clients were decided, with
  this one at position \<open>k\<close>, such that \<open>create_map\<close> returns the outcome of deciding its request for its own
  user with exactly the descriptors that the daemon had open after the clients before it: it returns a
  descriptor exactly if one of its groups gives a role, the role is allowed the request and the kernel
  creates the map, and then the descriptor is a copy of the new map's own.
\<close>

theorem concurrent_client_verdict:
  assumes "wire_codec b" and "daemon_reachable h b p s" and "i < length (tasks s)"
    and "is_finished (tasks s ! i)" and "conn (tasks s ! i) = daemon_end uid sent"
    and "get_user_groups h uid = Inr gs"
    and "ser_request b (CreateMap t name ks vs me) = Inr sent" and "sent \<noteq> []"
    and "length sent \<le> 4096"
    and "\<And>fds. \<exists>bytes. ser_response b (daemon_response h p fds gs (CreateMap t name ks vs me)) = Inr bytes \<and>
        length bytes \<le> 4096"
  shows "\<exists>ids k fds. serial_order h b p s ids \<and> k < length ids \<and> ids ! k = i \<and>
     fds = fds_after h b p (conns_at s (take k ids)) \<and>
     client_create_map b \<lparr>stream = session_stream s i dup\<rparr> t name ks vs me =
       client_verdict dup (daemon_response h p fds gs (CreateMap t name ks vs me)) \<and>
     (\<forall>x. client_create_map b \<lparr>stream = session_stream s i dup\<rparr> t name ks vs me = Inr x \<longleftrightarrow>
        (\<exists>role fd. x = dup fd \<and> get_role_for_groups p gs = Some role \<and>
           is_allowed p role (CreateMap t name ks vs me) \<and>
           fst (create_bpf_map h t name ks vs me fds) = Inr fd))"
proof -
  obtain ids k where "serial_order h b p s ids" "k < length ids" "ids ! k = i"
    "client_create_map b \<lparr>stream = session_stream s i dup\<rparr> t name ks vs me =
       client_verdict dup (daemon_response h p (fds_after h b p (conns_at s (take k ids))) gs
         (CreateMap t name ks vs me))"
    by (rule session_verdict [OF assms])
  then show ?thesis
    using verdict_descriptor by auto
qed

section \<open>The command-line client\<close>

text \<open>The two ways of giving \<open>create-map\<close> the same arguments.\<close>

definition create_map_command :: "bool \<Rightarrow> string \<Rightarrow> string \<Rightarrow> u32 \<Rightarrow> u32 \<Rightarrow> u32 \<Rightarrow> Commands" where
  "create_map_command by_flags t name ks vs me =
     (if by_flags then CreateMapCmd (Some t) (Some name) (Some ks) (Some vs) (Some me) []
      else CreateMapCmd None None None None None [t, name, show_u32 ks, show_u32 vs, show_u32 me])"

definition success_line :: "i32 \<Rightarrow> string" where
  "success_line fd = [CHR 0x0A] @ check_mark @ '' Success! BPF map created with FD: '' @ show_i32 fd"

lemma cli_create_map:
  assumes "connect ''/run/bpf-rbac.sock'' = Inr st"
  shows "fst (cli_main b connect (create_map_command by_flags t name ks vs me)) =
      map_sum (\<lambda>e. e) (\<lambda>_. ()) (client_create_map b \<lparr>stream = st\<rparr> t name ks vs me)"
    and "success_line fd \<in> set (snd (cli_main b connect (create_map_command by_flags t name ks vs me))) \<longleftrightarrow>
      (\<exists>x. client_create_map b \<lparr>stream = st\<rparr> t name ks vs me = Inr x \<and> show_i32 x = show_i32 fd)"
  using assms
  by (auto simp: cli_main_def create_map_command_def client_connect_def client_SOCKET_PATH_def
      resolve_create_map_args_def success_line_def check_mark_def Let_def split: sum.splits)

text \<open>
  C37: the command-line client reports the decision. Run \<open>create-map\<close>, with flags or with positional
  arguments, connected as a client of the concurrent daemon whose task finishes, for a request and
  answers that fit the buffers of 4096 bytes. It exits without an error exactly if one of the user's
  groups gives a role, the role is allowed the request, and the kernel creates the map in the order in
  which the daemon decided its clients; then it prints the number of the descriptor it received, and
  otherwise its error is the answer of the daemon and it announces no success.
\<close>

theorem cli_reports_decision:
  assumes "wire_codec b" and "daemon_reachable h b p s" and "i < length (tasks s)"
    and "is_finished (tasks s ! i)" and "conn (tasks s ! i) = daemon_end uid sent"
    and "get_user_groups h uid = Inr gs"
    and "ser_request b (CreateMap t name ks vs me) = Inr sent" and "sent \<noteq> []"
    and "length sent \<le> 4096"
    and "\<And>fds. \<exists>bytes. ser_response b (daemon_response h p fds gs (CreateMap t name ks vs me)) = Inr bytes \<and>
        length bytes \<le> 4096"
    and "connect ''/run/bpf-rbac.sock'' = Inr (session_stream s i dup)"
    and "cli_main b connect (create_map_command by_flags t name ks vs me) = (result, lines)"
  shows "\<exists>ids k fds. serial_order h b p s ids \<and> k < length ids \<and> ids ! k = i \<and>
     fds = fds_after h b p (conns_at s (take k ids)) \<and>
     (result = Inr () \<longleftrightarrow>
        (\<exists>role fd. get_role_for_groups p gs = Some role \<and> is_allowed p role (CreateMap t name ks vs me) \<and>
           fst (create_bpf_map h t name ks vs me fds) = Inr fd)) \<and>
     (\<forall>fd. result = Inr () \<and> fst (create_bpf_map h t name ks vs me fds) = Inr fd \<longrightarrow>
        success_line (dup fd) \<in> set lines) \<and>
     (\<forall>e. result = Inl e \<longrightarrow>
        client_verdict dup (daemon_response h p fds gs (CreateMap t name ks vs me)) = Inl e \<and>
        (\<forall>fd. success_line fd \<notin> set lines))"
proof -
  obtain ids k where order: "serial_order h b p s ids" "k < length ids" "ids ! k = i"
    and verdict: "client_create_map b \<lparr>stream = session_stream s i dup\<rparr> t name ks vs me =
       client_verdict dup (daemon_response h p (fds_after h b p (conns_at s (take k ids))) gs
         (CreateMap t name ks vs me))"
    by (rule session_verdict [OF assms(1-10)])
  define fds where "fds = fds_after h b p (conns_at s (take k ids))"
  let ?v = "client_verdict dup (daemon_response h p fds gs (CreateMap t name ks vs me))"
  note run = cli_create_map [where connect = connect and st = "session_stream s i dup" and b = b and
      by_flags = by_flags and t = t and name = name and ks = ks and vs = vs and me = me]
  have cli: "result = map_sum (\<lambda>e. e) (\<lambda>_. ()) ?v"
    "success_line fd \<in> set lines \<longleftrightarrow> (\<exists>x. ?v = Inr x \<and> show_i32 x = show_i32 fd)" for fd
    using run assms(11,12) verdict by (simp_all add: fds_def)
  have "result = Inr () \<longleftrightarrow>
      (\<exists>role fd. get_role_for_groups p gs = Some role \<and> is_allowed p role (CreateMap t name ks vs me) \<and>
         fst (create_bpf_map h t name ks vs me fds) = Inr fd)"
    using verdict_descriptor [of dup h p fds gs t name ks vs me] by (cases ?v) (simp_all add: cli(1), blast+)
  moreover have "success_line (dup fd) \<in> set lines"
    if "result = Inr ()" "fst (create_bpf_map h t name ks vs me fds) = Inr fd" for fd
    using that cli verdict_descriptor [of dup h p fds gs t name ks vs me] by (cases ?v) (simp_all, metis)
  moreover have "?v = Inl e \<and> (\<forall>fd. success_line fd \<notin> set lines)" if "result = Inl e" for e
    using that cli by (cases ?v) simp_all
  ultimately show ?thesis
    using order fds_def by blast
qed

section \<open>Two clients\<close>

lemma demo_conn_daemon_end: "demo_conn req = daemon_end 1000 (write_request req)"
  by (simp add: demo_conn_def daemon_end_def)

lemma demo_response_fits:
  "\<exists>bytes. ser_response bincode (daemon_response demo_host Policy_default fds [''users'', ''ebpf''] demo_request) =
     Inr bytes \<and> length bytes \<le> 4096"
proof -
  have "get_role_for_groups Policy_default [''users'', ''ebpf''] = Some ''ebpf''"
    by (simp add: default_role_for_groups)
  then show ?thesis
    using default_tracing_creates_hash
    by (auto simp: daemon_response_def decide_def demo_request_def execute_bpf_def create_bpf_map_def
        demo_host_def demo_bpf_def supported_map_types_def Let_def bincode_def write_word_def
        write_string_def split: option.splits)
qed

theorem concurrent_client_verdict_witness:
  "\<exists>ids k. k < length ids \<and> ids ! k = 0 \<and>
     client_create_map bincode \<lparr>stream = session_stream two_sessions 0 (\<lambda>fd. fd + 10)\<rparr> ''hash'' ''m'' 4 8 16 =
     client_verdict (\<lambda>fd. fd + 10)
       (daemon_response demo_host Policy_default
         (fds_after demo_host bincode Policy_default (conns_at two_sessions (take k ids)))
         [''users'', ''ebpf''] demo_request)"
proof -
  have "is_finished (tasks two_sessions ! 0)" "0 < length (tasks two_sessions)"
    "conn (tasks two_sessions ! 0) = daemon_end 1000 (write_request demo_request)"
    by (simp_all add: two_sessions_tasks is_finished_def demo_task_def demo_conn_daemon_end)
  moreover have "write_request demo_request \<noteq> []" "length (write_request demo_request) \<le> 4096"
    using length_demo_request by auto
  ultimately show ?thesis
    using concurrent_client_verdict [OF bincode.wire_codec_axioms two_sessions_reachable _ _ _ demo_groups,
        of 0 "write_request demo_request" "''hash''" "''m''" 4 8 16 "\<lambda>fd. fd + 10"]
      demo_serialised(1) demo_response_fits
    unfolding demo_request_def [symmetric] by blast
qed

text \<open>The first of two concurrent clients, run from the command line.\<close>

definition two_sessions_connect :: "string \<Rightarrow> UnixStream result" where
  "two_sessions_connect path = Inr (session_stream two_sessions 0 (\<lambda>fd. fd + 10))"

lemma serial_order_fds_before:
  assumes "bpf_kernel h" and "serial_order h b p s ids"
  shows "set (fds_after h b p (conns_at s (take k ids))) \<subseteq> set (open_fds s)"
proof -
  have "conns_at s ids = conns_at s (take k ids) @ conns_at s (drop k ids)"
    by (metis append_take_drop_id conns_at_append)
  then show ?thesis
    using fds_after_keeps [OF assms(1)] assms(2) by (auto simp: serial_order_def)
qed

lemma two_sessions_fds: "open_fds two_sessions = [4, 3]"
  using two_sessions_end by (elim exE) (drule arg_cong [of two_sessions _ open_fds], simp)

lemma demo_creates:
  "7 \<notin> set fds \<Longrightarrow> \<exists>fd. fst (create_bpf_map demo_host ''hash'' ''m'' 4 8 16 fds) = Inr fd"
  by (simp add: create_bpf_map_def demo_host_def demo_bpf_def supported_map_types_def Let_def)

theorem cli_reports_decision_witness:
  "fst (cli_main bincode two_sessions_connect (create_map_command False ''hash'' ''m'' 4 8 16)) = Inr ()"
proof -
  let ?cmd = "create_map_command False ''hash'' ''m'' 4 8 16"
  have task: "is_finished (tasks two_sessions ! 0)" "0 < length (tasks two_sessions)"
    "conn (tasks two_sessions ! 0) = daemon_end 1000 (write_request demo_request)"
    by (simp_all add: two_sessions_tasks is_finished_def demo_task_def demo_conn_daemon_end)
  have sent: "write_request demo_request \<noteq> []" "length (write_request demo_request) \<le> 4096"
    using length_demo_request by auto
  have role: "get_role_for_groups Policy_default [''users'', ''ebpf''] = Some ''ebpf''"
    by (simp add: default_role_for_groups)
  have "\<exists>fd. fst (create_bpf_map demo_host ''hash'' ''m'' 4 8 16
      (fds_after demo_host bincode Policy_default (conns_at two_sessions (take k ids)))) = Inr fd"
    if "serial_order demo_host bincode Policy_default two_sessions ids" for ids k
    using serial_order_fds_before [OF demo_kernel.bpf_kernel_axioms that, of k] two_sessions_fds
    by (intro demo_creates) auto
  moreover have "is_allowed Policy_default ''ebpf'' (CreateMap ''hash'' ''m'' 4 8 16)"
    using default_tracing_creates_hash by blast
  moreover have ser: "ser_request bincode (CreateMap ''hash'' ''m'' 4 8 16) = Inr (write_request demo_request)"
    using demo_serialised(1) unfolding demo_request_def .
  moreover have "two_sessions_connect ''/run/bpf-rbac.sock'' = Inr (session_stream two_sessions 0 (\<lambda>fd. fd + 10))"
    by (simp add: two_sessions_connect_def)
  ultimately show ?thesis
    using cli_reports_decision [OF bincode.wire_codec_axioms two_sessions_reachable task(2,1,3) demo_groups
        ser sent demo_response_fits [unfolded demo_request_def] _ prod.collapse [symmetric],
        of two_sessions_connect "\<lambda>fd. fd + 10" False] role
    by blast
qed

end
