(* ===== verification/Descriptor_Exhaustion.thy ===== *)
theory Descriptor_Exhaustion
  imports Session_Progress
begin

text \<open>
  The daemon of \<open>src/main.rs\<close> keeps every map descriptor it creates. Once their number has reached the
  limit of the process, \<open>bpf()\<close> fails, nothing is ever closed, and the daemon serves nobody any more.
\<close>

section \<open>A limit on descriptors\<close>

text \<open>\<open>RLIMIT_NOFILE\<close>: no descriptor is opened beyond the limit.\<close>

locale limited_kernel = bpf_kernel +
  fixes limit :: nat
  assumes bpf_limited: "limit \<le> length fds \<Longrightarrow> sint (fst (sys_bpf h fds cmd attr n)) < 0"

text \<open>The table is \<open>fds\<close>, and no task from \<open>n\<close> on has a descriptor to send or has sent one.\<close>

definition exhausted :: "i32 list \<Rightarrow> nat \<Rightarrow> daemon \<Rightarrow> bool" where
  "exhausted fds n s \<longleftrightarrow>
     open_fds s = fds \<and>
     (\<forall>i. n \<le> i \<longrightarrow> i < length (tasks s) \<longrightarrow> (\<forall>fd. phase (tasks s ! i) \<noteq> Decided (Success (Some fd)))) \<and>
     (\<forall>i fd bytes. (i, SendFd fd bytes) \<in> set (effect_log s) \<longrightarrow> i < n)"

lemma exhausted_sent: "exhausted fds n s \<Longrightarrow> (i, SendFd fd bytes) \<in> set (effect_log s) \<Longrightarrow> i < n"
  unfolding exhausted_def by blast

context limited_kernel
begin

lemma decide_refused:
  assumes "limit \<le> length fds" and "decide h p role req fds = (resp, fds', effs)"
  shows "fds' = fds" and "resp \<noteq> Success (Some fd)"
proof -
  have "fst (create_bpf_map h t name ks vs me fds) \<noteq> Inr fd" for t name ks vs me fd
    using bpf_limited [OF assms(1)]
    by (auto simp: create_bpf_map_def Let_def split: option.splits prod.splits) (metis fst_conv not_less)
  then have none: "create_bpf_map h t name ks vs me fds \<noteq> (Inr fd, fds', effs)" for t name ks vs me fd
    by (metis fst_conv)
  have "resp \<noteq> Success (Some fd)" for fd
    using assms(2) none
    by (auto simp: decide_def execute_bpf_def split: option.splits if_splits Request.splits prod.splits sum.splits)
  then show "resp \<noteq> Success (Some fd)" and "fds' = fds"
    using decide_fds [OF assms(2)] by (auto split: Response.splits option.splits)
qed

lemma task_advance_exhausted:
  assumes "limit \<le> length fds" and "task_advance h b p t fds = (t', fds', effs)" and "\<not> is_finished t"
  shows "fds' = fds" and "phase t' \<noteq> Decided (Success (Some fd))"
proof -
  have "fds' = fds \<and> phase t' \<noteq> Decided (Success (Some fd))"
  proof (cases "phase t")
    case (Received role req)
    then obtain resp where "decide h p role req fds = (resp, fds', effs)" "phase t' = Decided resp"
      using assms(2) by (auto simp: task_advance_def split: prod.splits)
    with decide_refused [OF assms(1), of p role req resp fds' effs] show ?thesis by simp
  qed (use assms(2,3) in \<open>auto simp: task_advance_def is_finished_def split: sum.splits option.splits prod.splits\<close>)
  then show "fds' = fds" "phase t' \<noteq> Decided (Success (Some fd))"
    by blast+
qed

lemma run_keeps_exhausted:
  assumes "limit \<le> length fds" and "exhausted fds n s" and "i < length (tasks s)"
    and "\<not> is_finished (tasks s ! i)" and "\<not> held b (tasks s ! i)"
  shows "exhausted fds n (run_task h b p i s)"
proof -
  obtain t' fds' effs where step: "task_step h b p (tasks s ! i) (open_fds s) = (t', fds', effs)"
    by (cases "task_step h b p (tasks s ! i) (open_fds s)")
  note advance = step [unfolded task_step_free [OF assms(5)]]
  have full: "limit \<le> length (open_fds s)"
    using assms(1,2) by (simp add: exhausted_def)
  have "i < n" if "SendFd fd bytes \<in> set effs" for fd bytes
    using task_advance_table(3) [OF advance assms(4) that] assms(2,3) unfolding exhausted_def
    by (metis not_less)
  then have "\<forall>j fd bytes. (j, SendFd fd bytes) \<in> set (effect_log s @ map (Pair i) effs) \<longrightarrow> j < n"
    using exhausted_sent [OF assms(2)] by auto
  moreover have "fds' = fds" "\<forall>j\<ge>n. j < length ((tasks s)[i := t']) \<longrightarrow>
      (\<forall>fd. phase ((tasks s)[i := t'] ! j) \<noteq> Decided (Success (Some fd)))"
    using task_advance_exhausted [OF full advance assms(4)] assms(2,3)
    by (auto simp: exhausted_def nth_list_update)
  ultimately show ?thesis
    unfolding exhausted_def run_task_fields [OF step] by blast
qed

lemma accept_keeps_exhausted: "exhausted fds n s \<Longrightarrow> exhausted fds n (accept_client r s)"
  by (cases r) (auto simp: accept_client_def exhausted_def nth_append)

lemma starts_exhausted:
  assumes "daemon_reachable h b p s"
  shows "exhausted (open_fds s) (length (tasks s)) s"
proof -
  obtain ids where "serial_order h b p s ids"
    using assms by (rule reachable_serial_order)
  then show ?thesis
    using serial_order_logged [of h b p s ids] by (auto simp: exhausted_def)
qed

lemma step_keeps_exhausted:
  "daemon_step h b p s s' \<Longrightarrow> limit \<le> length fds \<Longrightarrow> exhausted fds n s \<Longrightarrow> exhausted fds n s'"
  by (erule daemon_stepE) (auto intro: run_keeps_exhausted accept_keeps_exhausted)

lemma stays_exhausted:
  assumes "(daemon_step h b p)\<^sup>*\<^sup>* s s'" and "exhausted fds n s" and "limit \<le> length fds"
  shows "exhausted fds n s'"
  using assms by (induction rule: rtranclp_induct) (auto intro: step_keeps_exhausted)

end

text \<open>
  C14: descriptors run out for good. When the daemon's map descriptors have reached the limit of its
  process, however it goes on, its table stays as it is, and no client that connects from then on ever
  receives a descriptor, whatever its role is allowed.
\<close>

theorem exhaustion_is_permanent:
  assumes "limited_kernel h limit" and "daemon_reachable h b p s" and "limit \<le> length (open_fds s)"
    and "(daemon_step h b p)\<^sup>*\<^sup>* s s'" and "length (tasks s) \<le> i"
  shows "open_fds s' = open_fds s \<and> (i, SendFd fd bytes) \<notin> set (effect_log s')"
proof -
  have "exhausted (open_fds s) (length (tasks s)) s'"
    by (rule limited_kernel.stays_exhausted
        [OF assms(1,4) limited_kernel.starts_exhausted [OF assms(1,2)] assms(3)])
  with exhausted_sent [OF this, of i fd bytes] assms(5) show ?thesis
    by (auto simp: exhausted_def)
qed

section \<open>A host with one descriptor to spare\<close>

definition small_host :: host where
  "small_host = demo_host\<lparr>sys_bpf := \<lambda>fds cmd attr n. if fds = [] then (3, [3]) else (- 1, fds)\<rparr>"

interpretation small_kernel: limited_kernel small_host 1
  by unfold_locales (auto simp: small_host_def split: if_splits)

definition small_daemon :: daemon where
  "small_daemon =
     fold (run_task small_host bincode Policy_default) [0, 0, 0, 0]
       (accept_client (Inr (demo_conn demo_request)) daemon_init)"

lemma small_daemon_reachable: "daemon_reachable small_host bincode Policy_default small_daemon"
  unfolding small_daemon_def
  by (rule steps_schedule [OF reachable_accept]) (simp_all add: accept_client_def daemon_init_def)

lemma small_daemon_fds: "open_fds small_daemon = [3]" "length (tasks small_daemon) = 1"
proof -
  have auth: "authenticate small_host (demo_conn req) Policy_default = Inr (Some ''ebpf'')" for req
    by (simp add: authenticate_def demo_conn_def small_host_def demo_host_def get_user_groups_def
        default_role_for_groups)
  have "\<exists>attr. decide small_host Policy_default (Some ''ebpf'') demo_request [] =
      (Success (Some 3), [3], [BpfCall 0 attr])"
    using default_tracing_creates_hash
    by (simp add: decide_def demo_request_def execute_bpf_def create_bpf_map_def small_host_def
        supported_map_types_def Let_def)
  then obtain attr where dec: "decide small_host Policy_default (Some ''ebpf'') demo_request [] =
      (Success (Some 3), [3], [BpfCall 0 attr])"
    by blast
  obtain bytes where rep: "reply bincode (demo_conn demo_request) (Success (Some 3)) = (Inr (), [SendFd 3 bytes])"
    using demo_reply by blast
  show "open_fds small_daemon = [3]" "length (tasks small_daemon) = 1"
    by (simp_all add: small_daemon_def accept_client_def daemon_init_def run_task_def task_step_def
        task_advance_def held_def demo_conn_returns auth demo_read dec rep)
qed

theorem exhaustion_is_permanent_witness:
  "\<nexists>bytes. (1, SendFd 3 bytes) \<in> set (effect_log (fold (run_task small_host bincode Policy_default) [1, 1, 1, 1]
     (accept_client (Inr (demo_conn demo_request)) small_daemon)))"
proof -
  let ?step = "daemon_step small_host bincode Policy_default"
  let ?next = "accept_client (Inr (demo_conn demo_request)) small_daemon"
  have len: "length (tasks ?next) = 2"
    by (simp add: accept_client_def small_daemon_fds)
  have "?step\<^sup>*\<^sup>* small_daemon ?next"
    using accept by blast
  then have "?step\<^sup>*\<^sup>* small_daemon (fold (run_task small_host bincode Policy_default) [1, 1, 1, 1] ?next)"
    by (rule steps_schedule) (simp add: len)
  from exhaustion_is_permanent [OF small_kernel.limited_kernel_axioms small_daemon_reachable _ this]
  show ?thesis
    by (simp add: small_daemon_fds)
qed

end
