(* ===== verification/Policy_Config.thy ===== *)
theory Policy_Config
  imports Default_Policy
begin

text \<open>
  Deserialization of the configuration of \<open>src/policy.rs\<close>: the code \<open>serde\<close> derives for
  \<open>PolicyConfig\<close>, \<open>SystemPolicy\<close> and \<open>Role\<close> from their fields and attributes, on the tree of a YAML
  document. Reading a document into its tree is a parameter. The shipped configuration and the
  document of the unit tests are given as trees. Error messages are without the position in the
  document.
\<close>

section \<open>Documents\<close>

text \<open>
  A tree node: a plain scalar that YAML reads as null, with its text (\<open>~\<close>, \<open>null\<close> or nothing), another
  scalar as its text, a sequence, or a mapping with scalar keys in document order. What an empty value
  stands for where a sequence or a mapping is expected is left to the reader of documents.
\<close>

datatype yaml = YNull string | YStr string | YSeq "yaml list" | YMap "(string \<times> yaml) list"

section \<open>Deserialization\<close>

text \<open>A string takes the text of any scalar; only an optional value is absent for null.\<close>

definition de_string :: "yaml \<Rightarrow> string result" where
  "de_string y =
     (case y of
        YStr s \<Rightarrow> Inr s
      | YNull s \<Rightarrow> Inr s
      | _ \<Rightarrow> Inl (Msg ''invalid type, expected a string''))"

fun de_elements :: "(yaml \<Rightarrow> 'a result) \<Rightarrow> yaml list \<Rightarrow> 'a list result" where
  "de_elements d [] = Inr []"
| "de_elements d (y # ys) = and_then (d y) (\<lambda>x. and_then (de_elements d ys) (\<lambda>xs. Inr (x # xs)))"

definition de_vec :: "(yaml \<Rightarrow> 'a result) \<Rightarrow> yaml \<Rightarrow> 'a list result" where
  "de_vec d y =
     (case y of YSeq ys \<Rightarrow> de_elements d ys | _ \<Rightarrow> Inl (Msg ''invalid type, expected a sequence''))"

fun de_entries ::
    "(yaml \<Rightarrow> 'a result) \<Rightarrow> (string \<times> yaml) list \<Rightarrow> (string, 'a) hashmap \<Rightarrow> (string, 'a) hashmap result" where
  "de_entries d [] m = Inr m"
| "de_entries d ((k, y) # kvs) m = and_then (d y) (\<lambda>v. de_entries d kvs (hm_insert k v m))"

definition de_hashmap :: "(yaml \<Rightarrow> 'a result) \<Rightarrow> yaml \<Rightarrow> (string, 'a) hashmap result" where
  "de_hashmap d y =
     (case y of YMap kvs \<Rightarrow> de_entries d kvs [] | _ \<Rightarrow> Inl (Msg ''invalid type, expected a map''))"

definition de_option :: "(yaml \<Rightarrow> 'a result) \<Rightarrow> yaml \<Rightarrow> 'a option result" where
  "de_option d y =
     (case y of YNull _ \<Rightarrow> Inr None | _ \<Rightarrow> and_then (d y) (\<lambda>x. Inr (Some x)))"

definition deserialize_type_ops :: "yaml \<Rightarrow> type_ops result" where
  "deserialize_type_ops y = de_hashmap (de_vec de_string) y"

text \<open>
  A struct is read from a mapping: the value of a known field is deserialized where it stands, a
  second value for it is an error, and an unknown field is skipped.
\<close>

definition set_field :: "string \<Rightarrow> 'a option \<Rightarrow> 'a result \<Rightarrow> ('a \<Rightarrow> 'b result) \<Rightarrow> 'b result" where
  "set_field name cur v rest =
     (if cur \<noteq> None then Inl (Msg (''duplicate field '' @ name)) else and_then v rest)"

definition or_default :: "'a option \<Rightarrow> 'a \<Rightarrow> 'a" where
  "or_default x d = (case x of Some v \<Rightarrow> v | None \<Rightarrow> d)"

record role_fields =
  f_description :: "string option option"
  f_groups :: "string list option"
  f_commands :: "string list option"
  f_prog_types :: "type_ops option"
  f_map_types :: "type_ops option"

fun visit_role :: "(string \<times> yaml) list \<Rightarrow> role_fields \<Rightarrow> role_fields result" where
  "visit_role [] fs = Inr fs"
| "visit_role ((k, y) # kvs) fs =
     (if k = ''description'' then
        set_field k (f_description fs) (de_option de_string y)
          (\<lambda>v. visit_role kvs (fs\<lparr>f_description := Some v\<rparr>))
      else if k = ''groups'' then
        set_field k (f_groups fs) (de_vec de_string y) (\<lambda>v. visit_role kvs (fs\<lparr>f_groups := Some v\<rparr>))
      else if k = ''commands'' then
        set_field k (f_commands fs) (de_vec de_string y)
          (\<lambda>v. visit_role kvs (fs\<lparr>f_commands := Some v\<rparr>))
      else if k = ''prog_types'' then
        set_field k (f_prog_types fs) (deserialize_type_ops y)
          (\<lambda>v. visit_role kvs (fs\<lparr>f_prog_types := Some v\<rparr>))
      else if k = ''map_types'' then
        set_field k (f_map_types fs) (deserialize_type_ops y)
          (\<lambda>v. visit_role kvs (fs\<lparr>f_map_types := Some v\<rparr>))
      else visit_role kvs fs)"

definition de_role :: "yaml \<Rightarrow> Role result" where
  "de_role y =
     (case y of
        YMap kvs \<Rightarrow>
          and_then (visit_role kvs \<lparr>f_description = None, f_groups = None, f_commands = None,
              f_prog_types = None, f_map_types = None\<rparr>) (\<lambda>fs.
            case f_groups fs of
              None \<Rightarrow> Inl (Msg ''missing field groups'')
            | Some gs \<Rightarrow> Inr \<lparr>description = or_default (f_description fs) None, groups = gs,
                commands = or_default (f_commands fs) [],
                prog_types = or_default (f_prog_types fs) [],
                map_types = or_default (f_map_types fs) []\<rparr>)
      | _ \<Rightarrow> Inl (Msg ''invalid type, expected struct Role''))"

record system_fields =
  f_sp_commands :: "string list option"
  f_sp_prog_types :: "type_ops option"
  f_sp_map_types :: "type_ops option"

fun visit_system :: "(string \<times> yaml) list \<Rightarrow> system_fields \<Rightarrow> system_fields result" where
  "visit_system [] fs = Inr fs"
| "visit_system ((k, y) # kvs) fs =
     (if k = ''commands'' then
        set_field k (f_sp_commands fs) (de_vec de_string y)
          (\<lambda>v. visit_system kvs (fs\<lparr>f_sp_commands := Some v\<rparr>))
      else if k = ''prog_types'' then
        set_field k (f_sp_prog_types fs) (de_hashmap (de_vec de_string) y)
          (\<lambda>v. visit_system kvs (fs\<lparr>f_sp_prog_types := Some v\<rparr>))
      else if k = ''map_types'' then
        set_field k (f_sp_map_types fs) (de_hashmap (de_vec de_string) y)
          (\<lambda>v. visit_system kvs (fs\<lparr>f_sp_map_types := Some v\<rparr>))
      else visit_system kvs fs)"

definition de_system :: "yaml \<Rightarrow> SystemPolicy result" where
  "de_system y =
     (case y of
        YMap kvs \<Rightarrow>
          and_then (visit_system kvs \<lparr>f_sp_commands = None, f_sp_prog_types = None,
              f_sp_map_types = None\<rparr>) (\<lambda>fs.
            Inr \<lparr>sp_commands = or_default (f_sp_commands fs) [],
              sp_prog_types = or_default (f_sp_prog_types fs) [],
              sp_map_types = or_default (f_sp_map_types fs) []\<rparr>)
      | _ \<Rightarrow> Inl (Msg ''invalid type, expected struct SystemPolicy''))"

record config_fields =
  f_system_policy :: "SystemPolicy option option"
  f_roles :: "(string, Role) hashmap option"

fun visit_config :: "(string \<times> yaml) list \<Rightarrow> config_fields \<Rightarrow> config_fields result" where
  "visit_config [] fs = Inr fs"
| "visit_config ((k, y) # kvs) fs =
     (if k = ''system_policy'' then
        set_field k (f_system_policy fs) (de_option de_system y)
          (\<lambda>v. visit_config kvs (fs\<lparr>f_system_policy := Some v\<rparr>))
      else if k = ''roles'' then
        set_field k (f_roles fs) (de_hashmap de_role y)
          (\<lambda>v. visit_config kvs (fs\<lparr>f_roles := Some v\<rparr>))
      else visit_config kvs fs)"

definition de_config :: "yaml \<Rightarrow> PolicyConfig result" where
  "de_config y =
     (case y of
        YMap kvs \<Rightarrow>
          and_then (visit_config kvs \<lparr>f_system_policy = None, f_roles = None\<rparr>) (\<lambda>fs.
            case f_roles fs of
              None \<Rightarrow> Inl (Msg ''missing field roles'')
            | Some rs \<Rightarrow> Inr \<lparr>system_policy = or_default (f_system_policy fs) None, config_roles = rs\<rparr>)
      | _ \<Rightarrow> Inl (Msg ''invalid type, expected struct PolicyConfig''))"

text \<open>\<open>serde_yaml::from_str\<close> for this configuration, given the reading of documents into trees.\<close>

definition yaml_from_str :: "(string \<Rightarrow> yaml result) \<Rightarrow> string \<Rightarrow> PolicyConfig result" where
  "yaml_from_str parse_tree contents = and_then (parse_tree contents) de_config"

section \<open>Well-formed configurations\<close>

text \<open>The hash maps of a configuration have distinct keys.\<close>

definition role_wf :: "Role \<Rightarrow> bool" where
  "role_wf r \<longleftrightarrow> hm_wf (prog_types r) \<and> hm_wf (map_types r)"

definition system_wf :: "SystemPolicy \<Rightarrow> bool" where
  "system_wf s \<longleftrightarrow> hm_wf (sp_prog_types s) \<and> hm_wf (sp_map_types s)"

definition config_wf :: "PolicyConfig \<Rightarrow> bool" where
  "config_wf c \<longleftrightarrow>
     hm_wf (config_roles c) \<and> list_all (\<lambda>(n, r). role_wf r) (config_roles c) \<and>
     pred_option system_wf (system_policy c)"

lemma hm_insert_values: "set (hm_insert k v m) \<subseteq> insert (k, v) (set m)"
  by (induction m) (auto simp: hm_insert_def)

lemma de_entries_values:
  assumes "de_entries d kvs m = Inr m'" and "\<And>y v. d y = Inr v \<Longrightarrow> P v"
    and "list_all (\<lambda>(k, v). P v) m"
  shows "list_all (\<lambda>(k, v). P v) m'"
  using assms(1,3)
proof (induction kvs arbitrary: m)
  case (Cons kv kvs)
  obtain k y where kv: "kv = (k, y)"
    by (cases kv)
  with Cons.prems(1) obtain v where v: "d y = Inr v" "de_entries d kvs (hm_insert k v m) = Inr m'"
    by auto
  have "list_all (\<lambda>(k, v). P v) (hm_insert k v m)"
    using Cons.prems(2) assms(2) [OF v(1)] hm_insert_values [of k v m]
    by (fastforce simp: list_all_iff)
  from Cons.IH [OF v(2) this] show ?case .
qed simp

lemma de_entries_wf: "de_entries d kvs m = Inr m' \<Longrightarrow> hm_wf m \<Longrightarrow> hm_wf m'"
  by (induction kvs arbitrary: m) auto

lemma de_hashmap_wf: "de_hashmap d y = Inr m \<Longrightarrow> hm_wf m"
  by (auto simp: de_hashmap_def dest: de_entries_wf split: yaml.splits)

lemma type_ops_wf: "deserialize_type_ops y = Inr m \<Longrightarrow> hm_wf m"
  unfolding deserialize_type_ops_def by (rule de_hashmap_wf)

lemma set_field_Inr [simp]:
  "set_field name cur v rest = Inr z \<longleftrightarrow> cur = None \<and> (\<exists>x. v = Inr x \<and> rest x = Inr z)"
  by (simp add: set_field_def)

lemma visit_role_wf:
  assumes "visit_role kvs fs = Inr fs'"
    and "pred_option hm_wf (f_prog_types fs)" and "pred_option hm_wf (f_map_types fs)"
  shows "pred_option hm_wf (f_prog_types fs') \<and> pred_option hm_wf (f_map_types fs')"
  using assms
  by (induction kvs fs rule: visit_role.induct) (auto dest: type_ops_wf split: if_splits)

lemma pred_option_default: "pred_option P x \<Longrightarrow> P d \<Longrightarrow> P (or_default x d)"
  by (cases x) (simp_all add: or_default_def)

lemma de_role_wf:
  assumes "de_role y = Inr r"
  shows "role_wf r"
proof -
  from assms obtain kvs fs where "visit_role kvs \<lparr>f_description = None, f_groups = None,
      f_commands = None, f_prog_types = None, f_map_types = None\<rparr> = Inr fs"
    and r: "prog_types r = or_default (f_prog_types fs) []" "map_types r = or_default (f_map_types fs) []"
    by (auto simp: de_role_def split: yaml.splits option.splits)
  from visit_role_wf [OF this(1)] show ?thesis
    by (simp add: role_wf_def r pred_option_default)
qed

lemma visit_system_wf:
  assumes "visit_system kvs fs = Inr fs'"
    and "pred_option hm_wf (f_sp_prog_types fs)" and "pred_option hm_wf (f_sp_map_types fs)"
  shows "pred_option hm_wf (f_sp_prog_types fs') \<and> pred_option hm_wf (f_sp_map_types fs')"
  using assms
  by (induction kvs fs rule: visit_system.induct) (auto dest: de_hashmap_wf split: if_splits)

lemma de_system_wf:
  assumes "de_system y = Inr s"
  shows "system_wf s"
proof -
  from assms obtain kvs fs where "visit_system kvs \<lparr>f_sp_commands = None, f_sp_prog_types = None,
      f_sp_map_types = None\<rparr> = Inr fs"
    and s: "sp_prog_types s = or_default (f_sp_prog_types fs) []"
      "sp_map_types s = or_default (f_sp_map_types fs) []"
    by (auto simp: de_system_def split: yaml.splits)
  from visit_system_wf [OF this(1)] show ?thesis
    by (simp add: system_wf_def s pred_option_default)
qed

definition roles_wf :: "(string, Role) hashmap \<Rightarrow> bool" where
  "roles_wf rs \<longleftrightarrow> hm_wf rs \<and> list_all (\<lambda>(n, r). role_wf r) rs"

lemma de_roles_wf: "de_hashmap de_role y = Inr rs \<Longrightarrow> roles_wf rs"
  using de_hashmap_wf [of de_role y rs]
  by (auto simp: roles_wf_def de_hashmap_def dest: de_entries_values [where P = role_wf] de_role_wf
      split: yaml.splits)

lemma de_option_wf: "de_option de_system y = Inr x \<Longrightarrow> pred_option system_wf x"
  by (auto simp: de_option_def dest: de_system_wf split: yaml.splits)

lemma visit_config_wf:
  assumes "visit_config kvs fs = Inr fs'"
    and "pred_option (pred_option system_wf) (f_system_policy fs)" and "pred_option roles_wf (f_roles fs)"
  shows "pred_option (pred_option system_wf) (f_system_policy fs') \<and> pred_option roles_wf (f_roles fs')"
  using assms
  by (induction kvs fs rule: visit_config.induct)
    (auto dest: de_option_wf de_roles_wf split: if_splits)

text \<open>The hash maps of a loaded configuration have distinct keys, as hash maps have.\<close>

lemma loaded_config_wf:
  assumes "Policy_load read_to_string (yaml_from_str parse_tree) path = Inr p"
  shows "config_wf (config p)"
proof -
  obtain y where y: "de_config y = Inr (config p)"
    using assms by (auto simp: Policy_load_def yaml_from_str_def split: sum.splits)
  then obtain kvs fs rs where "visit_config kvs \<lparr>f_system_policy = None, f_roles = None\<rparr> = Inr fs"
    "f_roles fs = Some rs" "config p = \<lparr>system_policy = or_default (f_system_policy fs) None,
      config_roles = rs\<rparr>"
    by (auto simp: de_config_def split: yaml.splits option.splits)
  with visit_config_wf [of kvs "\<lparr>f_system_policy = None, f_roles = None\<rparr>" fs] show ?thesis
    by (auto simp: config_wf_def roles_wf_def or_default_def split: option.splits)
qed

section \<open>Writing a configuration as a document\<close>

definition yaml_strings :: "string list \<Rightarrow> yaml" where
  "yaml_strings ss = YSeq (map YStr ss)"

definition yaml_ops :: "type_ops \<Rightarrow> yaml" where
  "yaml_ops m = YMap (map (\<lambda>(k, ops). (k, yaml_strings ops)) m)"

definition yaml_role :: "Role \<Rightarrow> yaml" where
  "yaml_role r = YMap
     [(''description'', case description r of Some d \<Rightarrow> YStr d | None \<Rightarrow> YNull ''~''),
      (''groups'', yaml_strings (groups r)), (''commands'', yaml_strings (commands r)),
      (''prog_types'', yaml_ops (prog_types r)), (''map_types'', yaml_ops (map_types r))]"

definition yaml_system :: "SystemPolicy \<Rightarrow> yaml" where
  "yaml_system s = YMap
     [(''commands'', yaml_strings (sp_commands s)), (''prog_types'', yaml_ops (sp_prog_types s)),
      (''map_types'', yaml_ops (sp_map_types s))]"

definition yaml_config :: "PolicyConfig \<Rightarrow> yaml" where
  "yaml_config c = YMap
     [(''system_policy'', case system_policy c of Some s \<Rightarrow> yaml_system s | None \<Rightarrow> YNull ''~''),
      (''roles'', YMap (map (\<lambda>(n, r). (n, yaml_role r)) (config_roles c)))]"

lemma de_strings [simp]: "de_vec de_string (yaml_strings ss) = Inr ss"
proof -
  have "de_elements de_string (map YStr ss) = Inr ss"
    by (induction ss) (simp_all add: de_string_def)
  then show ?thesis
    by (simp add: de_vec_def yaml_strings_def)
qed

lemma hm_insert_new: "k \<notin> fst ` set m \<Longrightarrow> hm_insert k v m = m @ [(k, v)]"
  by (induction m) (auto simp: hm_insert_def)

lemma de_entries_map:
  assumes "\<And>k v. (k, v) \<in> set m \<Longrightarrow> d (w v) = Inr v" and "hm_wf (m0 @ m)"
  shows "de_entries d (map (\<lambda>(k, v). (k, w v)) m) m0 = Inr (m0 @ m)"
  using assms
proof (induction m arbitrary: m0)
  case (Cons kv m)
  obtain k v where kv: "kv = (k, v)"
    by (cases kv)
  from Cons.prems(2) kv have "k \<notin> fst ` set m0" and wf: "hm_wf ((m0 @ [(k, v)]) @ m)"
    by (auto simp: hm_wf_def)
  then have "hm_insert k v m0 = m0 @ [(k, v)]"
    by (simp add: hm_insert_new)
  moreover have "d (w v) = Inr v"
    using Cons.prems(1) [of k v] kv by simp
  moreover have "\<And>k v. (k, v) \<in> set m \<Longrightarrow> d (w v) = Inr v"
    using Cons.prems(1) by (meson list.set_intros(2))
  ultimately show ?case
    using Cons.IH [OF _ wf] kv by simp
qed simp

lemma de_ops [simp]: "hm_wf m \<Longrightarrow> de_hashmap (de_vec de_string) (yaml_ops m) = Inr m"
  using de_entries_map [of m "de_vec de_string" yaml_strings "[]"]
  by (simp add: de_hashmap_def yaml_ops_def)

lemma de_yaml_role: "role_wf r \<Longrightarrow> de_role (yaml_role r) = Inr r"
  by (cases "description r")
    (simp_all add: de_role_def yaml_role_def role_wf_def set_field_def de_option_def de_string_def
      deserialize_type_ops_def or_default_def)

lemma de_yaml_system: "system_wf s \<Longrightarrow> de_system (yaml_system s) = Inr s"
  by (simp add: de_system_def yaml_system_def system_wf_def set_field_def or_default_def)

lemma de_option_yaml_system: "system_wf s \<Longrightarrow> de_option de_system (yaml_system s) = Inr (Some s)"
  using de_yaml_system [of s] by (simp add: de_option_def yaml_system_def)

text \<open>
  C30: the document format is faithful. Every well-formed configuration is read back from the document
  that lists its fields, with the order of its hash maps, so that every policy can be configured.
\<close>

theorem config_round_trip:
  assumes "config_wf c"
  shows "de_config (yaml_config c) = Inr c"
proof -
  have roles: "de_hashmap de_role (YMap (map (\<lambda>(n, r). (n, yaml_role r)) (config_roles c))) =
      Inr (config_roles c)"
    using de_entries_map [of "config_roles c" de_role yaml_role "[]"] assms de_yaml_role
    by (fastforce simp: de_hashmap_def config_wf_def list_all_iff)
  have system: "de_option de_system (case system_policy c of Some s \<Rightarrow> yaml_system s | None \<Rightarrow> YNull ''~'') =
      Inr (system_policy c)"
    using assms
    by (cases "system_policy c")
      (simp_all add: de_option_yaml_system config_wf_def, simp add: de_option_def)
  show ?thesis
    by (simp add: de_config_def yaml_config_def set_field_def roles system or_default_def)
qed

section \<open>Documents with missing or unknown fields\<close>

definition unknown_field :: "string \<Rightarrow> bool" where
  "unknown_field k \<longleftrightarrow> k \<noteq> ''system_policy'' \<and> k \<noteq> ''roles''"

lemma visit_config_unknown:
  "list_all (\<lambda>(k, y). unknown_field k) kvs \<Longrightarrow> visit_config (kvs @ rest) fs = visit_config rest fs"
  by (induction kvs) (auto simp: unknown_field_def)

lemma uncapped:
  "is_command_allowed \<lparr>config = \<lparr>system_policy = None, config_roles = rs\<rparr>\<rparr> r x \<longleftrightarrow>
     ''any'' \<in> set (commands r) \<or> x \<in> set (commands r)"
  "is_prog_op_allowed \<lparr>config = \<lparr>system_policy = None, config_roles = rs\<rparr>\<rparr> r ty op \<longleftrightarrow>
     check_type_op (prog_types r) ty op"
  "is_map_op_allowed \<lparr>config = \<lparr>system_policy = None, config_roles = rs\<rparr>\<rparr> r ty op \<longleftrightarrow>
     check_type_op (map_types r) ty op"
  by (auto simp: is_command_allowed_def is_prog_op_allowed_def is_map_op_allowed_def list_ex_iff)

text \<open>
  C31: a misspelt ceiling is no ceiling. A document with readable roles and with any other entries under
  keys that are not fields of the configuration, whatever these entries are, is accepted, and nothing
  is capped: every role may use each command, and each operation on a program or map type, that it
  lists.
\<close>

theorem misspelt_ceiling_ignored:
  assumes "de_hashmap de_role v = Inr rs"
    and "list_all (\<lambda>(k, y). unknown_field k) pre" and "list_all (\<lambda>(k, y). unknown_field k) post"
  shows "\<exists>c. de_config (YMap (pre @ (''roles'', v) # post)) = Inr c \<and> config_roles c = rs \<and>
     (is_command_allowed \<lparr>config = c\<rparr> r x \<longleftrightarrow> ''any'' \<in> set (commands r) \<or> x \<in> set (commands r)) \<and>
     (is_prog_op_allowed \<lparr>config = c\<rparr> r ty op \<longleftrightarrow> check_type_op (prog_types r) ty op) \<and>
     (is_map_op_allowed \<lparr>config = c\<rparr> r ty op \<longleftrightarrow> check_type_op (map_types r) ty op)"
proof -
  have "visit_config post fs = Inr fs" for fs
    using visit_config_unknown [OF assms(3), of "[]"] by simp
  then have "de_config (YMap (pre @ (''roles'', v) # post)) = Inr \<lparr>system_policy = None, config_roles = rs\<rparr>"
    using assms(1) by (simp add: de_config_def visit_config_unknown [OF assms(2)] set_field_def or_default_def)
  then show ?thesis
    by (simp add: uncapped)
qed

lemma visit_role_no_commands:
  "visit_role kvs fs = Inr fs' \<Longrightarrow> ''commands'' \<notin> fst ` set kvs \<Longrightarrow> f_commands fs' = f_commands fs"
  by (induction kvs fs rule: visit_role.induct) (auto split: if_splits)

lemma visit_system_no_commands:
  "visit_system kvs fs = Inr fs' \<Longrightarrow> ''commands'' \<notin> fst ` set kvs \<Longrightarrow>
     f_sp_commands fs' = f_sp_commands fs"
  by (induction kvs fs rule: visit_system.induct) (auto split: if_splits)

text \<open>
  C34: an omitted section denies. A role whose document has no \<open>commands\<close> is allowed no request, and
  under a system policy whose document has no \<open>commands\<close> no role is allowed any.
\<close>

theorem omitted_commands_deny:
  "(de_role (YMap kvs) = Inr r \<and> ''commands'' \<notin> fst ` set kvs \<and> hm_get (roles p) name = Some r \<longrightarrow>
      \<not> is_allowed p name req) \<and>
   (de_system (YMap kvs) = Inr s \<and> ''commands'' \<notin> fst ` set kvs \<and>
      system_policy (config p) = Some s \<longrightarrow> \<not> is_allowed p name req)"
proof (intro conjI impI)
  assume role: "de_role (YMap kvs) = Inr r \<and> ''commands'' \<notin> fst ` set kvs \<and>
      hm_get (roles p) name = Some r"
  then obtain fs where "visit_role kvs \<lparr>f_description = None, f_groups = None,
      f_commands = None, f_prog_types = None, f_map_types = None\<rparr> = Inr fs"
    "commands r = or_default (f_commands fs) []"
    by (auto simp: de_role_def split: option.splits)
  with visit_role_no_commands [OF this(1)] role have "commands r = []"
    by (simp add: or_default_def)
  with role show "\<not> is_allowed p name req"
    by (simp add: is_allowed_iff granted_def)
next
  assume sys: "de_system (YMap kvs) = Inr s \<and> ''commands'' \<notin> fst ` set kvs \<and>
      system_policy (config p) = Some s"
  then obtain fs where "visit_system kvs \<lparr>f_sp_commands = None, f_sp_prog_types = None,
      f_sp_map_types = None\<rparr> = Inr fs" "sp_commands s = or_default (f_sp_commands fs) []"
    by (auto simp: de_system_def)
  with visit_system_no_commands [OF this(1)] sys have "sp_commands s = []"
    by (simp add: or_default_def)
  with sys show "\<not> is_allowed p name req"
    by (simp add: is_allowed_iff system_commands_def granted_def)
qed

section \<open>The shipped document and the document of the unit tests\<close>

definition shipped_document :: yaml where
  "shipped_document =
     YMap [(''system_policy'', YMap [(''commands'', YSeq [YStr ''PROG_LOAD'', YStr
       ''MAP_CREATE'', YStr ''MAP_LOOKUP_ELEM'', YStr ''MAP_UPDATE_ELEM'', YStr
       ''MAP_DELETE_ELEM'', YStr ''MAP_GET_NEXT_KEY'', YStr ''LINK_CREATE'', YStr ''OBJ_PIN'',
       YStr ''OBJ_GET'', YStr ''OBJ_GET_INFO_BY_FD'', YStr ''BTF_LOAD'', YStr ''PROG_ATTACH'',
       YStr ''PROG_DETACH'']), (''prog_types'', YMap [(''kprobe'', YSeq [YStr ''load'', YStr
       ''attach'', YStr ''detach'']), (''kretprobe'', YSeq [YStr ''load'', YStr ''attach'', YStr
       ''detach'']), (''uprobe'', YSeq [YStr ''load'', YStr ''attach'', YStr ''detach'']),
       (''uretprobe'', YSeq [YStr ''load'', YStr ''attach'', YStr ''detach'']), (''tracepoint'',
       YSeq [YStr ''load'', YStr ''attach'', YStr ''detach'']), (''raw_tracepoint'', YSeq [YStr
       ''load'', YStr ''attach'', YStr ''detach'']), (''perf_event'', YSeq [YStr ''load'', YStr
       ''attach'', YStr ''detach'']), (''fentry'', YSeq [YStr ''load'', YStr ''attach'', YStr
       ''detach'']), (''fexit'', YSeq [YStr ''load'', YStr ''attach'', YStr ''detach'']),
       (''xdp'', YSeq [YStr ''load'', YStr ''attach'', YStr ''detach'']), (''sched_cls'', YSeq
       [YStr ''load'', YStr ''attach'', YStr ''detach'']), (''sched_act'', YSeq [YStr ''load'',
       YStr ''attach'', YStr ''detach'']), (''socket_filter'', YSeq [YStr ''load'', YStr
       ''attach'', YStr ''detach'']), (''sk_skb'', YSeq [YStr ''load'', YStr ''attach'']),
       (''sk_msg'', YSeq [YStr ''load'', YStr ''attach'']), (''sock_ops'', YSeq [YStr ''load'',
       YStr ''attach''])]), (''map_types'', YMap [(''hash'', YSeq [YStr ''create'', YStr
       ''read'', YStr ''write'']), (''percpu_hash'', YSeq [YStr ''create'', YStr ''read'', YStr
       ''write'']), (''array'', YSeq [YStr ''create'', YStr ''read'', YStr ''write'']),
       (''percpu_array'', YSeq [YStr ''create'', YStr ''read'', YStr ''write'']),
       (''perf_event_array'', YSeq [YStr ''create'', YStr ''read'']), (''ringbuf'', YSeq [YStr
       ''create'', YStr ''read'']), (''stack_trace'', YSeq [YStr ''create'', YStr ''read'']),
       (''lru_hash'', YSeq [YStr ''create'', YStr ''read'', YStr ''write'']),
       (''lru_percpu_hash'', YSeq [YStr ''create'', YStr ''read'', YStr ''write'']),
       (''devmap'', YSeq [YStr ''create'', YStr ''read'', YStr ''write'']), (''devmap_hash'',
       YSeq [YStr ''create'', YStr ''read'', YStr ''write'']), (''cpumap'', YSeq [YStr
       ''create'', YStr ''read'', YStr ''write'']), (''xskmap'', YSeq [YStr ''create'', YStr
       ''read'', YStr ''write'']), (''sockmap'', YSeq [YStr ''create'', YStr ''read'', YStr
       ''write'']), (''sockhash'', YSeq [YStr ''create'', YStr ''read'', YStr ''write''])])]),
       (''roles'', YMap [(''ebpf'', YMap [(''description'', YStr
       ''Tracing and observability programs''), (''groups'', YSeq [YStr ''ebpf'']),
       (''commands'', YSeq [YStr ''PROG_LOAD'', YStr ''MAP_CREATE'', YStr ''MAP_LOOKUP_ELEM'',
       YStr ''MAP_UPDATE_ELEM'', YStr ''MAP_DELETE_ELEM'', YStr ''MAP_GET_NEXT_KEY'', YStr
       ''LINK_CREATE'', YStr ''OBJ_PIN'', YStr ''OBJ_GET'', YStr ''OBJ_GET_INFO_BY_FD'', YStr
       ''BTF_LOAD'']), (''prog_types'', YMap [(''kprobe'', YSeq [YStr ''load'', YStr
       ''attach'']), (''kretprobe'', YSeq [YStr ''load'', YStr ''attach'']), (''uprobe'', YSeq
       [YStr ''load'', YStr ''attach'']), (''uretprobe'', YSeq [YStr ''load'', YStr
       ''attach'']), (''tracepoint'', YSeq [YStr ''load'', YStr ''attach'']),
       (''raw_tracepoint'', YSeq [YStr ''load'', YStr ''attach'']), (''perf_event'', YSeq [YStr
       ''load'', YStr ''attach'']), (''fentry'', YSeq [YStr ''load'', YStr ''attach'']),
       (''fexit'', YSeq [YStr ''load'', YStr ''attach''])]), (''map_types'', YMap [(''hash'',
       YSeq [YStr ''create'', YStr ''read'', YStr ''write'']), (''percpu_hash'', YSeq [YStr
       ''create'', YStr ''read'', YStr ''write'']), (''array'', YSeq [YStr ''create'', YStr
       ''read'', YStr ''write'']), (''percpu_array'', YSeq [YStr ''create'', YStr ''read'', YStr
       ''write'']), (''perf_event_array'', YSeq [YStr ''create'', YStr ''read'']), (''ringbuf'',
       YSeq [YStr ''create'', YStr ''read'']), (''stack_trace'', YSeq [YStr ''create'', YStr
       ''read''])])]), (''ebpf-net'', YMap [(''description'', YStr ''Networking programs''),
       (''groups'', YSeq [YStr ''ebpf-net'']), (''commands'', YSeq [YStr ''PROG_LOAD'', YStr
       ''MAP_CREATE'', YStr ''MAP_LOOKUP_ELEM'', YStr ''MAP_UPDATE_ELEM'', YStr
       ''MAP_DELETE_ELEM'', YStr ''MAP_GET_NEXT_KEY'', YStr ''LINK_CREATE'', YStr ''OBJ_PIN'',
       YStr ''OBJ_GET'', YStr ''OBJ_GET_INFO_BY_FD'', YStr ''BTF_LOAD'', YStr ''PROG_ATTACH'',
       YStr ''PROG_DETACH'']), (''prog_types'', YMap [(''xdp'', YSeq [YStr ''load'', YStr
       ''attach'', YStr ''detach'']), (''sched_cls'', YSeq [YStr ''load'', YStr ''attach'', YStr
       ''detach'']), (''sched_act'', YSeq [YStr ''load'', YStr ''attach'', YStr ''detach'']),
       (''socket_filter'', YSeq [YStr ''load'', YStr ''attach'']), (''sk_skb'', YSeq [YStr
       ''load'', YStr ''attach'']), (''sk_msg'', YSeq [YStr ''load'', YStr ''attach'']),
       (''sock_ops'', YSeq [YStr ''load'', YStr ''attach''])]), (''map_types'', YMap [(''hash'',
       YSeq [YStr ''create'', YStr ''read'', YStr ''write'']), (''percpu_hash'', YSeq [YStr
       ''create'', YStr ''read'', YStr ''write'']), (''array'', YSeq [YStr ''create'', YStr
       ''read'', YStr ''write'']), (''percpu_array'', YSeq [YStr ''create'', YStr ''read'', YStr
       ''write'']), (''lru_hash'', YSeq [YStr ''create'', YStr ''read'', YStr ''write'']),
       (''lru_percpu_hash'', YSeq [YStr ''create'', YStr ''read'', YStr ''write'']),
       (''devmap'', YSeq [YStr ''create'', YStr ''read'', YStr ''write'']), (''devmap_hash'',
       YSeq [YStr ''create'', YStr ''read'', YStr ''write'']), (''cpumap'', YSeq [YStr
       ''create'', YStr ''read'', YStr ''write'']), (''xskmap'', YSeq [YStr ''create'', YStr
       ''read'', YStr ''write'']), (''sockmap'', YSeq [YStr ''create'', YStr ''read'', YStr
       ''write'']), (''sockhash'', YSeq [YStr ''create'', YStr ''read'', YStr ''write''])])]),
       (''ebpf-admin'', YMap [(''description'', YStr ''Full BPF access for administrators''),
       (''groups'', YSeq [YStr ''ebpf-admin'', YStr ''wheel'']), (''commands'', YSeq [YStr
       ''any'']), (''prog_types'', YMap [(''any'', YSeq [YStr ''any''])]), (''map_types'', YMap
       [(''any'', YSeq [YStr ''any''])])])])]"

definition test_document :: yaml where
  "test_document =
     YMap [(''system_policy'', YMap [(''commands'', YSeq [YStr ''PROG_LOAD'', YStr
       ''MAP_CREATE'']), (''prog_types'', YMap [(''kprobe'', YSeq [YStr ''load'', YStr
       ''attach''])]), (''map_types'', YMap [(''hash'', YSeq [YStr ''create'', YStr
       ''read''])])]), (''roles'', YMap [(''test'', YMap [(''groups'', YSeq [YStr ''test'']),
       (''commands'', YSeq [YStr ''PROG_LOAD'', YStr ''MAP_CREATE'', YStr ''LINK_CREATE'']),
       (''prog_types'', YMap [(''kprobe'', YSeq [YStr ''load'', YStr ''attach'', YStr
       ''detach'']), (''xdp'', YSeq [YStr ''load''])]), (''map_types'', YMap [(''hash'', YSeq
       [YStr ''create'', YStr ''read'', YStr ''write'']), (''array'', YSeq [YStr
       ''create''])])])])]"

lemma shipped_document_config: "de_config shipped_document = Inr (config shipped_policy)"
  by code_simp

lemma test_document_config: "de_config test_document = Inr (config test_policy)"
  by code_simp

theorem config_round_trip_witness: "de_config (yaml_config (config test_policy)) = Inr (config test_policy)"
  by (rule config_round_trip) (simp add: config_wf_def role_wf_def system_wf_def hm_wf_def test_policy_def)

theorem misspelt_ceiling_ignored_witness:
  "\<exists>c. de_config (YMap [(''system-policy'', yaml_system shipped_system),
       (''roles'', YMap [(''r'', YMap [(''groups'', YSeq []), (''commands'', YSeq [YStr ''PROG_TEST_RUN''])])])]) =
       Inr c \<and>
     is_command_allowed \<lparr>config = c\<rparr> \<lparr>description = None, groups = [], commands = [''PROG_TEST_RUN''],
       prog_types = [], map_types = []\<rparr> ''PROG_TEST_RUN''"
proof -
  let ?r = "\<lparr>description = None, groups = [], commands = [''PROG_TEST_RUN''], prog_types = [], map_types = []\<rparr>"
  have "de_hashmap de_role
      (YMap [(''r'', YMap [(''groups'', YSeq []), (''commands'', YSeq [YStr ''PROG_TEST_RUN''])])]) = Inr [(''r'', ?r)]"
    by (simp add: de_hashmap_def de_role_def set_field_def de_vec_def de_string_def or_default_def hm_insert_def)
  from misspelt_ceiling_ignored [OF this, of "[(''system-policy'', yaml_system shipped_system)]" "[]" ?r
      "''PROG_TEST_RUN''"]
  show ?thesis by (auto simp: unknown_field_def)
qed

theorem omitted_commands_deny_witness:
  "\<not> is_allowed \<lparr>config = \<lparr>system_policy = Some \<lparr>sp_commands = [], sp_prog_types = [], sp_map_types = []\<rparr>,
       config_roles = [(''ebpf-admin'', default_admin_role)]\<rparr>\<rparr> ''ebpf-admin'' (Attach ''xdp'' 3 ''eth0'')"
proof -
  have "de_system (YMap []) = Inr \<lparr>sp_commands = [], sp_prog_types = [], sp_map_types = []\<rparr>"
    by (simp add: de_system_def or_default_def)
  then show ?thesis
    using omitted_commands_deny [of "[]"] by simp
qed

end
