(* ===== verification/Unit_Tests.thy ===== *)
theory Unit_Tests
  imports Policy_Config Namespace_Delegation
begin

text \<open>
  The unit tests of the repository (module \<open>tests\<close> of \<open>src/policy.rs\<close>, modules \<open>unit_tests\<close> and
  \<open>namespace_tests\<close> of \<open>tests/integration.rs\<close>, as far as they need no kernel) as definitions: a test is
  the conjunction of its assertions, and an \<open>unwrap\<close> of a missing role makes it fail. All of them hold
  of the model.
\<close>

section \<open>Helpers\<close>

text \<open>\<open>policy.roles().get(name).unwrap()\<close> followed by assertions on the role.\<close>

definition with_role :: "Policy \<Rightarrow> string \<Rightarrow> (Role \<Rightarrow> bool) \<Rightarrow> bool" where
  "with_role p name asserts = (case hm_get (roles p) name of Some role \<Rightarrow> asserts role | None \<Rightarrow> False)"

text \<open>\<open>serde_yaml::from_str(yaml).unwrap()\<close> for the document of a test.\<close>

definition with_config :: "yaml \<Rightarrow> (Policy \<Rightarrow> bool) \<Rightarrow> bool" where
  "with_config doc asserts = (case de_config doc of Inr c \<Rightarrow> asserts \<lparr>config = c\<rparr> | Inl _ \<Rightarrow> False)"

section \<open>Tests of the policy engine\<close>

definition test_default_policy_allows_tracing :: bool where
  "test_default_policy_allows_tracing =
     with_role Policy_default ''ebpf'' (\<lambda>role.
       is_prog_op_allowed Policy_default role ''kprobe'' ''load'' \<and>
       is_prog_op_allowed Policy_default role ''tracepoint'' ''attach'' \<and>
       \<not> is_prog_op_allowed Policy_default role ''xdp'' ''load'')"

definition test_default_policy_allows_networking :: bool where
  "test_default_policy_allows_networking =
     with_role Policy_default ''ebpf-net'' (\<lambda>role.
       is_prog_op_allowed Policy_default role ''xdp'' ''load'' \<and>
       is_prog_op_allowed Policy_default role ''xdp'' ''detach'' \<and>
       \<not> is_prog_op_allowed Policy_default role ''kprobe'' ''load'')"

definition test_admin_allows_all :: bool where
  "test_admin_allows_all =
     with_role Policy_default ''ebpf-admin'' (\<lambda>role.
       is_prog_op_allowed Policy_default role ''xdp'' ''load'' \<and>
       is_prog_op_allowed Policy_default role ''kprobe'' ''attach'' \<and>
       is_map_op_allowed Policy_default role ''hash'' ''create'' \<and>
       is_command_allowed Policy_default role ''PROG_LOAD'' \<and>
       is_command_allowed Policy_default role ''MAP_CREATE'')"

definition test_bitmap_generation :: bool where
  "test_bitmap_generation =
     with_role Policy_default ''ebpf'' (\<lambda>role.
       let prog_bitmap = prog_types_bitmap Policy_default role;
           map_bitmap = map_types_bitmap Policy_default role
       in prog_bitmap AND shl1 2 \<noteq> 0 \<and> prog_bitmap AND shl1 5 \<noteq> 0 \<and> prog_bitmap AND shl1 6 = 0 \<and>
          map_bitmap AND shl1 1 \<noteq> 0 \<and> map_bitmap AND shl1 2 \<noteq> 0 \<and> map_bitmap AND shl1 14 = 0)"

definition test_system_policy_intersection :: bool where
  "test_system_policy_intersection =
     with_config test_document (\<lambda>policy. with_role policy ''test'' (\<lambda>role.
       \<not> is_command_allowed policy role ''LINK_CREATE'' \<and>
       is_command_allowed policy role ''PROG_LOAD'' \<and>
       \<not> is_prog_op_allowed policy role ''xdp'' ''load'' \<and>
       is_prog_op_allowed policy role ''kprobe'' ''load'' \<and>
       \<not> is_prog_op_allowed policy role ''kprobe'' ''detach'' \<and>
       \<not> is_map_op_allowed policy role ''hash'' ''write'' \<and>
       is_map_op_allowed policy role ''hash'' ''read'' \<and>
       \<not> is_map_op_allowed policy role ''array'' ''create''))"

section \<open>Tests of the crate's interface\<close>

definition test_default_policy_has_roles :: bool where
  "test_default_policy_has_roles \<longleftrightarrow>
     3 \<le> length (roles Policy_default) \<and> contains_key (roles Policy_default) ''ebpf'' \<and>
     contains_key (roles Policy_default) ''ebpf-net'' \<and>
     contains_key (roles Policy_default) ''ebpf-admin''"

definition test_policy_role_assignment :: bool where
  "test_policy_role_assignment \<longleftrightarrow>
     get_role_for_groups Policy_default [''someuser'', ''ebpf''] = Some ''ebpf'' \<and>
     get_role_for_groups Policy_default [''randomuser''] = None"

definition test_policy_allows_hash_map_for_ebpf_role :: bool where
  "test_policy_allows_hash_map_for_ebpf_role \<longleftrightarrow>
     is_allowed Policy_default ''ebpf'' (CreateMap ''hash'' ''test'' 4 8 100)"

definition test_policy_allows_array_map_for_ebpf_role :: bool where
  "test_policy_allows_array_map_for_ebpf_role \<longleftrightarrow>
     is_allowed Policy_default ''ebpf'' (CreateMap ''array'' ''test'' 4 8 100)"

definition test_policy_command_enforcement :: bool where
  "test_policy_command_enforcement =
     with_role Policy_default ''ebpf'' (\<lambda>role.
       is_command_allowed Policy_default role ''PROG_LOAD'' \<and>
       is_command_allowed Policy_default role ''MAP_CREATE'' \<and>
       \<not> is_command_allowed Policy_default role ''PROG_QUERY'')"

definition test_policy_prog_type_operations :: bool where
  "test_policy_prog_type_operations =
     with_role Policy_default ''ebpf'' (\<lambda>role.
       is_prog_op_allowed Policy_default role ''kprobe'' ''load'' \<and>
       is_prog_op_allowed Policy_default role ''kprobe'' ''attach'' \<and>
       \<not> is_prog_op_allowed Policy_default role ''xdp'' ''load'')"

definition test_policy_map_type_operations :: bool where
  "test_policy_map_type_operations =
     with_role Policy_default ''ebpf'' (\<lambda>role.
       is_map_op_allowed Policy_default role ''hash'' ''create'' \<and>
       is_map_op_allowed Policy_default role ''hash'' ''read'' \<and>
       is_map_op_allowed Policy_default role ''hash'' ''write'' \<and>
       \<not> is_map_op_allowed Policy_default role ''devmap'' ''create'')"

definition integration_test_admin_allows_all :: bool where
  "integration_test_admin_allows_all =
     with_role Policy_default ''ebpf-admin'' (\<lambda>role.
       is_command_allowed Policy_default role ''PROG_LOAD'' \<and>
       is_command_allowed Policy_default role ''PROG_QUERY'' \<and>
       is_command_allowed Policy_default role ''ANYTHING'' \<and>
       is_prog_op_allowed Policy_default role ''xdp'' ''load'' \<and>
       is_prog_op_allowed Policy_default role ''lsm'' ''attach'' \<and>
       is_map_op_allowed Policy_default role ''devmap'' ''create'')"

definition test_net_role_allows_networking :: bool where
  "test_net_role_allows_networking =
     with_role Policy_default ''ebpf-net'' (\<lambda>role.
       is_prog_op_allowed Policy_default role ''xdp'' ''load'' \<and>
       is_prog_op_allowed Policy_default role ''xdp'' ''detach'' \<and>
       is_prog_op_allowed Policy_default role ''sched_cls'' ''load'' \<and>
       \<not> is_prog_op_allowed Policy_default role ''kprobe'' ''load'' \<and>
       is_map_op_allowed Policy_default role ''devmap'' ''create'' \<and>
       \<not> is_map_op_allowed Policy_default role ''ringbuf'' ''create'')"

definition test_policy_yaml_loading :: bool where
  "test_policy_yaml_loading =
     with_config shipped_document (\<lambda>policy.
       contains_key (roles policy) ''ebpf'' \<and> contains_key (roles policy) ''ebpf-net'' \<and>
       contains_key (roles policy) ''ebpf-admin'' \<and> system_policy (config policy) \<noteq> None)"

section \<open>Tests of the delegation options\<close>

definition test_delegation_opts_mount_data :: bool where
  "test_delegation_opts_mount_data =
     (let data = to_mount_data DelegationOpts_allow_all;
          data2 = to_mount_data (from_bitmaps 0x1F 0x24 0x06 0x00)
      in str_contains data ''delegate_cmds=0xffffffff'' \<and>
         str_contains data ''delegate_progs=0xffffffff'' \<and>
         str_contains data ''delegate_maps=0xffffffff'' \<and>
         str_contains data ''delegate_attachs=0xffffffff'' \<and>
         str_contains data2 ''delegate_cmds=0x1f'' \<and> str_contains data2 ''delegate_progs=0x24'' \<and>
         str_contains data2 ''delegate_maps=0x6'' \<and> str_contains data2 ''delegate_attachs=0x0'')"

definition test_policy_to_delegation_opts :: bool where
  "test_policy_to_delegation_opts =
     with_role Policy_default ''ebpf'' (\<lambda>role.
       let opts = from_bitmaps (commands_bitmap Policy_default role)
             (prog_types_bitmap Policy_default role) (map_types_bitmap Policy_default role) 0;
           data = to_mount_data opts
       in delegate_cmds opts \<noteq> 0 \<and> delegate_progs opts \<noteq> 0 \<and> delegate_maps opts \<noteq> 0 \<and>
          str_contains data ''delegate_cmds='' \<and> str_contains data ''delegate_progs='' \<and>
          str_contains data ''delegate_maps='')"

section \<open>All tests pass\<close>

lemma engine_tests:
  "test_default_policy_allows_tracing" "test_default_policy_allows_networking"
  "test_admin_allows_all" "test_bitmap_generation" "test_system_policy_intersection"
  by code_simp+

lemma interface_tests:
  "test_default_policy_has_roles" "test_policy_role_assignment"
  "test_policy_allows_hash_map_for_ebpf_role" "test_policy_allows_array_map_for_ebpf_role"
  "test_policy_command_enforcement" "test_policy_prog_type_operations" "test_policy_map_type_operations"
  "integration_test_admin_allows_all" "test_net_role_allows_networking" "test_policy_yaml_loading"
  by code_simp+

lemma hex_digits:
  "digit_char 0 = CHR ''0''" "digit_char (Suc 0) = CHR ''1''" "digit_char 2 = CHR ''2''"
  "digit_char 4 = CHR ''4''" "digit_char 6 = CHR ''6''" "digit_char 15 = CHR ''f''"
  by code_simp+

lemma hex_texts:
  "show_hex 0xFFFFFFFF = ''0xffffffff''" "show_hex 0x1F = ''0x1f''" "show_hex 0x24 = ''0x24''"
  "show_hex 6 = ''0x6''" "show_hex 0 = ''0x0''"
  by (simp_all add: show_hex_def digits_of.simps hex_digits)

lemma mount_data_tests: "test_delegation_opts_mount_data"
  unfolding test_delegation_opts_mount_data_def to_mount_data_def Let_def
  by (simp add: DelegationOpts_allow_all_def from_bitmaps_def hex_texts)

lemma mount_data_names:
  "str_contains (to_mount_data opts) ''delegate_cmds=''"
  "str_contains (to_mount_data opts) ''delegate_progs=''"
  "str_contains (to_mount_data opts) ''delegate_maps=''"
  unfolding to_mount_data_def by (simp_all add: str_contains_append str_contains_append2)

lemma delegation_bitmaps:
  "with_role Policy_default ''ebpf'' (\<lambda>role. commands_bitmap Policy_default role \<noteq> 0 \<and>
     prog_types_bitmap Policy_default role \<noteq> 0 \<and> map_types_bitmap Policy_default role \<noteq> 0)"
  by code_simp

lemma delegation_test: "test_policy_to_delegation_opts"
  using delegation_bitmaps
  by (auto simp: test_policy_to_delegation_opts_def with_role_def from_bitmaps_def mount_data_names
      split: option.splits)

text \<open>
  Every assertion of the repository's unit tests that need no kernel holds of the model: the tests of
  the policy engine, of the crate's interface and of the delegation options.
\<close>

theorem unit_tests_pass:
  "test_default_policy_allows_tracing \<and> test_default_policy_allows_networking \<and>
   test_admin_allows_all \<and> test_bitmap_generation \<and> test_system_policy_intersection \<and>
   test_default_policy_has_roles \<and> test_policy_role_assignment \<and>
   test_policy_allows_hash_map_for_ebpf_role \<and> test_policy_allows_array_map_for_ebpf_role \<and>
   test_policy_command_enforcement \<and> test_policy_prog_type_operations \<and>
   test_policy_map_type_operations \<and> integration_test_admin_allows_all \<and>
   test_net_role_allows_networking \<and> test_policy_yaml_loading \<and>
   test_delegation_opts_mount_data \<and> test_policy_to_delegation_opts"
  by (simp add: engine_tests interface_tests mount_data_tests delegation_test)

end
