(* ===== verification/Doc_Examples.thy ===== *)
theory Doc_Examples
  imports Unit_Tests
begin

text \<open>
  The examples in the documentation of the sources, as definitions: the quick start of \<open>src/lib.rs\<close> on
  the shipped configuration, the examples of \<open>src/policy.rs\<close> and the one of \<open>src/namespace.rs\<close>. What
  the examples assert, and what the text beside them says, holds of the model.
\<close>

section \<open>The quick start\<close>

text \<open>
  \<open>Policy::load\<close> of the installed policy, role resolution, two checks, and the three bitmaps, which the
  example computes for the policy map.
\<close>

definition quick_start ::
    "(string \<Rightarrow> string result) \<Rightarrow> (string \<Rightarrow> PolicyConfig result) \<Rightarrow> (u32 \<times> u32 \<times> u32) result" where
  "quick_start read_to_string from_str =
     and_then (Policy_load read_to_string from_str ''/etc/bpf-rbac/policy.yaml'') (\<lambda>policy.
       let groups = [''alice'', ''ebpf''];
           role_name = get_role_for_groups policy groups
       in if role_name \<noteq> Some ''ebpf'' then Inl (Msg ''assertion failed'')
          else case hm_get (roles policy) ''ebpf'' of
            None \<Rightarrow> Inl (Msg ''called Option::unwrap() on a None value'')
          | Some role \<Rightarrow>
              if \<not> is_prog_op_allowed policy role ''kprobe'' ''load'' \<or>
                 is_prog_op_allowed policy role ''xdp'' ''load''
              then Inl (Msg ''assertion failed'')
              else Inr (commands_bitmap policy role, prog_types_bitmap policy role,
                     map_types_bitmap policy role))"

section \<open>The examples of the policy engine\<close>

text \<open>The document of the module's documentation, and what the text says of it.\<close>

definition doc_document :: yaml where
  "doc_document =
     YMap
      [(''system_policy'', YMap
         [(''commands'', YSeq [YStr ''PROG_LOAD'', YStr ''MAP_CREATE'']),
          (''prog_types'', YMap [(''kprobe'', YSeq [YStr ''load'', YStr ''attach''])]),
          (''map_types'', YMap [(''hash'', YSeq [YStr ''create'', YStr ''read''])])]),
       (''roles'', YMap
         [(''ebpf'', YMap
            [(''groups'', YSeq [YStr ''ebpf'']),
             (''commands'', YSeq [YStr ''PROG_LOAD'', YStr ''MAP_CREATE'', YStr ''LINK_CREATE'']),
             (''prog_types'', YMap [(''kprobe'', YSeq [YStr ''load'', YStr ''attach''])]),
             (''map_types'', YMap [(''hash'', YSeq [YStr ''create'', YStr ''read'', YStr ''write''])])])])]"

definition doc_intersection_example :: bool where
  "doc_intersection_example =
     with_config doc_document (\<lambda>policy. with_role policy ''ebpf'' (\<lambda>role.
       ''LINK_CREATE'' \<in> set (commands role) \<and> check_type_op (map_types role) ''hash'' ''write'' \<and>
       \<not> is_command_allowed policy role ''LINK_CREATE'' \<and>
       \<not> is_map_op_allowed policy role ''hash'' ''write''))"

definition doc_policy_example :: bool where
  "doc_policy_example =
     with_role Policy_default ''ebpf'' (\<lambda>role.
       is_command_allowed Policy_default role ''PROG_LOAD'' \<and>
       is_prog_op_allowed Policy_default role ''kprobe'' ''load'' \<and>
       \<not> is_prog_op_allowed Policy_default role ''xdp'' ''load'')"

section \<open>The example of the delegation options\<close>

definition doc_delegation_example :: "DelegationOpts \<times> DelegationOpts" where
  "doc_delegation_example = (DelegationOpts_allow_all, from_bitmaps 0x1F 0x24 0x06 0x00)"

section \<open>The examples hold\<close>

lemma quick_start_shipped:
  assumes "Policy_load read_to_string from_str ''/etc/bpf-rbac/policy.yaml'' = Inr shipped_policy"
  shows "\<exists>r. hm_get (roles shipped_policy) ''ebpf'' = Some r \<and>
     quick_start read_to_string from_str =
       Inr (commands_bitmap shipped_policy r, prog_types_bitmap shipped_policy r,
         map_types_bitmap shipped_policy r)"
proof -
  have "get_role_for_groups shipped_policy [''alice'', ''ebpf''] = Some ''ebpf''"
    "with_role shipped_policy ''ebpf'' (\<lambda>role. is_prog_op_allowed shipped_policy role ''kprobe'' ''load'' \<and>
       \<not> is_prog_op_allowed shipped_policy role ''xdp'' ''load'')"
    by code_simp+
  with assms show ?thesis
    by (auto simp: quick_start_def with_role_def Let_def split: option.splits)
qed

lemma doc_policy_examples: "doc_intersection_example" "doc_policy_example"
  by code_simp+

text \<open>
  The documentation's examples are right. With the shipped configuration installed, in whatever way
  its text is read, the quick start runs through and yields the bitmaps of the role \<open>ebpf\<close>; the role
  of the module's example asks for \<open>LINK_CREATE\<close> and hash map writes, and both are denied; the example
  of the built-in policy holds; and the two delegation options of the example are mounted with all bits
  set and with the bitmaps given.
\<close>

theorem doc_examples_hold:
  assumes "read_to_string ''/etc/bpf-rbac/policy.yaml'' = Inr text" and "parse_tree text = Inr shipped_document"
  shows "(\<exists>r. hm_get (roles shipped_policy) ''ebpf'' = Some r \<and>
       quick_start read_to_string (yaml_from_str parse_tree) =
         Inr (commands_bitmap shipped_policy r, prog_types_bitmap shipped_policy r,
           map_types_bitmap shipped_policy r)) \<and>
     doc_intersection_example \<and> doc_policy_example \<and>
     mount_option ''delegate_progs'' (to_mount_data (fst doc_delegation_example)) = Some 0xFFFFFFFF \<and>
     mount_option ''delegate_progs'' (to_mount_data (snd doc_delegation_example)) = Some 0x24"
proof -
  have "Policy_load read_to_string (yaml_from_str parse_tree) ''/etc/bpf-rbac/policy.yaml'' = Inr shipped_policy"
    using assms by (simp add: Policy_load_def yaml_from_str_def shipped_document_config)
  from quick_start_shipped [OF this] doc_policy_examples show ?thesis
    by (simp add: doc_delegation_example_def mount_option_to_mount_data DelegationOpts_allow_all_def from_bitmaps_def)
qed

theorem doc_examples_hold_witness:
  "\<exists>bitmaps. quick_start (\<lambda>_. Inr ''text'') (yaml_from_str (\<lambda>_. Inr shipped_document)) = Inr bitmaps"
  using doc_examples_hold [of "\<lambda>_. Inr ''text''" "''text''" "\<lambda>_. Inr shipped_document"] by blast

end
