(* ===== verification/Spec2Isabelle.thy ===== *)
theory Spec2Isabelle
  imports Policy_Order Bit_Positions Lsm_Enforcement Delegation_Limits Integration_Tests
    Concurrent_Clients Descriptor_Exhaustion Doc_Examples
begin

text \<open>
  A verification library for \<open>bpf-rbacd\<close>, role-based access control for the Linux \<open>bpf()\<close> system
  call.

  \<^bold>\<open>The program.\<close> A policy (a YAML file or a built-in table) names roles; a role lists user groups and
  what they may do: commands, operations per program type, operations per map type; an optional
  system policy caps every role. Three mechanisms enforce a policy. In proxy mode a daemon
  (\<open>src/main.rs\<close>) accepts clients on a Unix socket, identifies their user by the socket's
  credentials, resolves a role, checks the request, calls \<open>bpf()\<close> and passes the descriptor back; a
  client library (\<open>src/protocol.rs\<close>) and a command-line client (\<open>src/bin/bpf-rbac.rs\<close>) talk to it. In
  delegation mode (\<open>src/namespace.rs\<close>) a bpffs with delegation options made from bitmaps is mounted
  inside a container's namespaces. In the kernel, eBPF LSM programs (\<open>bpf-rbacd-ebpf\<close>) look the
  caller's user namespace up in a policy map of bitmaps (\<open>bpf-rbacd-common\<close>). The task runner
  (\<open>xtask\<close>) builds, installs and tests the whole.

  \<^bold>\<open>The theories.\<close>
  \<^item> \<open>Rbac_Prelude\<close>: machine integers, bits of bitmaps, \<open>anyhow\<close> errors and results, hash maps as
    association lists (iteration order is the list order), the collections of simplification rules, and
    invariants of step relations (the locale \<open>step_invariant\<close>), machines that answer events (the locale
    \<open>machine_refinement\<close>). \<open>Byte_Words\<close>: words as little-endian bytes, structs in \<open>repr(C)\<close> layout.
  \<^item> \<open>Rust_Text\<close>: the string functions of the standard library that the sources use, on strings as
    lists of UTF-8 bytes, with parse/print round trips.
  \<^item> \<open>Common_Types\<close> (\<open>bpf-rbacd-common/src/lib.rs\<close>): \<open>PolicyKey\<close>, \<open>PolicyValue\<close>, the flags and the
    tables of kernel numbers. \<open>Bit_Positions\<close> shows that the tables agree with the policy engine.
  \<^item> \<open>Lsm_Hooks\<close> (\<open>bpf-rbacd-ebpf/src/main.rs\<close>): the three LSM programs. The locale \<open>lsm_hook\<close> states
    what a hook owes its policy entry and proves its consequences once; the three programs are
    interpretations of it, for any answer of the resolver of namespaces. The programs as the source
    compiles them, whose resolver is a stub that answers 0, are the definitions named \<open>compiled\<close>, and
    what that means is part of the properties of administration. \<open>Policy_Map\<close>: the kernel's bounded hash map of bytes behind them (the locale
    \<open>bpf_hash_map\<close>), the layout of its entries, and its administration, which refines the finite
    function from namespaces to policies that the hooks are modelled on; what happens when it is full.
    \<open>Lsm_Enforcement\<close>: programs and map as one system under any sequence of calls and administrations,
    a refinement of an abstract policy machine in which the last administration of a namespace decides
    the calls that are attributed to it.
  \<^item> \<open>Policy_Engine\<close> (\<open>src/policy.rs\<close>): loading, role resolution, the checks, the bitmaps.
    \<open>Policy_Semantics\<close> gives the policy a meaning as sets of permissions and shows that the checks
    compute it, and how far the bitmaps do; the bitmap loops are treated in the locales \<open>name_bits\<close>
    and \<open>inj_name_bits\<close>, interpreted for commands, program types and map types. \<open>Default_Policy\<close> has
    the built-in policy and the shipped \<open>config/policy.yaml\<close>, decided for every request.
  \<^item> \<open>Policy_Config\<close>: deserialization of the configuration from the tree of a document, as the derive
    and field attributes of the structs prescribe it (defaults; missing, duplicate and unknown
    fields). Every well-formed configuration can be written down; a misspelt key is skipped silently.
  \<^item> \<open>Policy_Order\<close>: when one policy is no more permissive than another. Policy entries form a
    preorder, which is exactly the one the LSM programs realise; the bitmaps are monotone in the names
    of role and system policy, the checks on types are not.
  \<^item> \<open>Namespace_Delegation\<close> (\<open>src/namespace.rs\<close>): delegation, revocation and detection over a kernel
    given by the locale \<open>linux_namespaces\<close>, and by \<open>userns_hierarchy\<close>, which adds that a thread can
    only join user namespaces below its own. \<open>Delegation_Limits\<close>: what the further rules of Linux (the
    locale \<open>delegation_rules\<close>) leave of delegation: with them every delegation of anything is refused.
  \<^item> \<open>Wire_Protocol\<close>, \<open>Proxy_Daemon\<close> (\<open>src/protocol.rs\<close>, \<open>src/main.rs\<close>): the messages and the
    handler of a client with its parts. \<open>Bincode_Format\<close> is a codec that meets the contract
    \<open>wire_codec\<close>. \<open>Proxy_Mediation\<close> shows complete mediation and what happens to descriptors.
    \<open>Proxy_Sessions\<close> has the start-up and the accept loop, with the clients' tasks as an interleaving
    step relation: every schedule is equivalent to serving the clients one by one, so mediation and
    the separation of descriptors hold under concurrency. A task whose read or write does not return is
    held; it does not hold up the task of any other client, and there is no timeout that ends it.
  \<^item> \<open>Reference_Monitor\<close>: the daemon's promise as an abstract monitor with one status per client, and
    the daemon's refinement of it, by the locale \<open>forward_simulation\<close>, which extends the locale
    \<open>step_invariant\<close>. \<open>Session_Progress\<close>: the invariant of the daemon's descriptor table, as a
    \<open>sublocale\<close> of the kernel contract \<open>bpf_kernel\<close>.
    \<open>Descriptor_Exhaustion\<close>: the daemon at the limit of its process (the locale \<open>limited_kernel\<close>).
  \<^item> \<open>Client_Library\<close> and \<open>Client_Cli\<close>: the client side, joined to the daemon by a socket.
    \<open>Concurrent_Clients\<close>: client library and command-line client joined to a task of the concurrent
    daemon.
  \<^item> \<open>Xtask_Runner\<close> and \<open>Integration_Script\<close>: the task runner, and its integration tests run on the
    models of client and daemon.
  \<^item> \<open>Unit_Tests\<close> (\<open>tests\<close> of \<open>src/policy.rs\<close> and \<open>tests/integration.rs\<close>): the unit tests that need no
    kernel, and that they pass. \<open>Test_Harness\<close> (\<open>tests/utils.rs\<close>, \<open>tests/integration.rs\<close>): waiting for
    the socket, starting a daemon for a test, test users. \<open>Integration_Tests\<close>: the tests that run the
    daemon, enter namespaces or load LSM programs, over their environment, and which of them can pass.
  \<^item> \<open>Doc_Examples\<close>: the examples in the documentation of \<open>src/lib.rs\<close>, \<open>src/policy.rs\<close> and
    \<open>src/namespace.rs\<close>.
  \<^item> This theory: the enforcement mechanisms compared with each other: proxy and kernel, and the one
    policy of a container as the policy engine, the policy map and the mount options have it.

  \<^bold>\<open>Correspondence.\<close> A struct is a record and an enum a datatype, with the names of the source; fields
  of different structs that clash have a prefix. A function that returns \<open>Result\<close> returns a sum with
  the error on the left, a \<open>?\<close> is a case distinction, a loop over a list is a recursive function or a
  fold. Integers that reach the kernel or a bitmap are words of their width. System calls, the user
  database, the reading of YAML text, \<open>clap\<close> and the serializer are parameters: fields of the records \<open>host\<close>,
  \<open>connection\<close>, \<open>codec\<close>, \<open>ns_calls\<close>, \<open>world\<close>, \<open>UnixStream\<close>, \<open>map_calls\<close>, \<open>test_env\<close>, or arguments. What a property needs of
  them is a locale assumption or a premise, and its witness instantiates it.

  \<^bold>\<open>Bounds.\<close> No definition uses fuel: the recursions are structural or have a measure (the wait for
  the socket: the time left, which every sleep reduces by a tenth of a second at least). The handler
  reads at most 4096 bytes, as the source does; the policy map has 1024 entries. The limit of
  descriptors is a parameter.

  \<^bold>\<open>Not modelled.\<close> Log records of the daemon and progress messages; the duration of operations
  (whether an awaited read or write returns is part of the connection); the daemon's sockets in its
  table of descriptors; memory exhaustion; the contents of a program
  or map; what a loader does with an eBPF object, which is a parameter of the tests that load one;
  what an eBPF program other than the three LSM programs does. Module declarations and imports have no
  behaviour; the panic handler of the \<open>no_std\<close> binary is never reached by a program the verifier accepts.
\<close>

section \<open>The policy engine and the LSM programs\<close>

lemma role_entry_permits:
  "entry_permits (role_entry p r) bm (Some b) \<longleftrightarrow> unat b < 32 \<and> bit bm (unat b)"
  by (simp add: entry_permits_def role_entry_flags)

lemma to_bit_less_32:
  "command_to_bit c = Some b \<Longrightarrow> unat b < 32"
  "prog_type_to_bit t = Some b \<Longrightarrow> unat b < 32"
  "map_type_to_bit t = Some b \<Longrightarrow> unat b < 32"
  using command_bits.in_range prog_bits.in_range map_bits.in_range by blast+

text \<open>
  In the kernel, a command of a process in a namespace whose entry holds a role's bitmaps is
  allowed exactly if the policy engine allows that role the command, for every role that lists its
  commands and every command the engine knows.
\<close>

theorem lsm_commands_follow_policy:
  assumes "''any'' \<notin> set (commands r)" and "command_to_bit c = Some (arg_cmd ctx)"
    and "m \<lparr>userns_id = u\<rparr> = Some (role_entry p r)" and "arg_kernel ctx = 0"
  shows "fst (bpf_rbac_bpf (Inr u) m ctx) = 0 \<longleftrightarrow> is_command_allowed p r c"
  using assms bit_commands_bitmap [OF assms(1,2), of p] to_bit_less_32(1) [OF assms(2)]
  by (simp add: bpf_hook.allows_iff hook_permits_def role_entry_permits)
    (simp add: role_entry_def)

theorem lsm_commands_follow_policy_witness:
  "fst (bpf_rbac_bpf (Inr 7) [\<lparr>userns_id = 7\<rparr> \<mapsto> role_entry Policy_default default_ebpf_role]
     \<lparr>arg_cmd = 8, arg_attr = None, arg_kernel = 0\<rparr>) \<noteq> 0"
proof -
  let ?ctx = "\<lparr>arg_cmd = 8, arg_attr = None, arg_kernel = 0\<rparr>"
  let ?m = "[\<lparr>userns_id = 7\<rparr> \<mapsto> role_entry Policy_default default_ebpf_role]"
  have "''any'' \<notin> set (commands default_ebpf_role)"
    "\<not> is_command_allowed Policy_default default_ebpf_role ''PROG_ATTACH''"
    by (simp_all add: default_ebpf_role_def is_command_allowed_def Policy_default_def)
  moreover have "command_to_bit ''PROG_ATTACH'' = Some (arg_cmd ?ctx)"
    by (simp add: command_to_bit_def command_arms_def)
  ultimately show ?thesis
    using lsm_commands_follow_policy [of default_ebpf_role "''PROG_ATTACH''" ?ctx ?m 7 Policy_default]
    by simp
qed

text \<open>The hook calls the kernel makes when a process carries a request out itself.\<close>

definition request_hooks :: "i64 + u64 \<Rightarrow> policy_map \<Rightarrow> Request \<Rightarrow> (i32 \<times> lsm_log list) list" where
  "request_hooks userns m req =
     (let call = (\<lambda>cmd ty. \<lparr>arg_cmd = cmd, arg_attr = ty, arg_kernel = 0\<rparr>) in
      case req of
        LoadProgram t _ _ \<Rightarrow>
          [bpf_rbac_bpf userns m (call 5 None), bpf_rbac_prog_load userns m (call 5 (prog_type_to_bit t))]
      | CreateMap t _ _ _ _ \<Rightarrow>
          [bpf_rbac_bpf userns m (call 0 None), bpf_rbac_map_create userns m (call 0 (map_type_to_bit t))]
      | Attach _ _ _ \<Rightarrow> [bpf_rbac_bpf userns m (call 8 None)])"

definition known_type :: "Request \<Rightarrow> bool" where
  "known_type req =
     (case req of
        LoadProgram t _ _ \<Rightarrow> prog_type_to_bit t \<noteq> None
      | CreateMap t _ _ _ _ \<Rightarrow> map_type_to_bit t \<noteq> None
      | Attach _ _ _ \<Rightarrow> True)"

lemma needs_command_bits:
  "command_to_bit ''PROG_LOAD'' = Some 5" "command_to_bit ''MAP_CREATE'' = Some 0"
  "command_to_bit ''PROG_ATTACH'' = Some 8"
  by (simp_all add: command_to_bit_def command_arms_def)

lemma hooks_allow:
  assumes "m \<lparr>userns_id = u\<rparr> = Some (role_entry p r)" and "unat b < 32"
  shows "bit (commands_bitmap p r) (unat b) \<Longrightarrow>
      fst (bpf_rbac_bpf (Inr u) m \<lparr>arg_cmd = b, arg_attr = a, arg_kernel = 0\<rparr>) = 0"
    and "bit (prog_types_bitmap p r) (unat b) \<Longrightarrow>
      fst (bpf_rbac_prog_load (Inr u) m \<lparr>arg_cmd = c, arg_attr = Some b, arg_kernel = 0\<rparr>) = 0"
    and "bit (map_types_bitmap p r) (unat b) \<Longrightarrow>
      fst (bpf_rbac_map_create (Inr u) m \<lparr>arg_cmd = c, arg_attr = Some b, arg_kernel = 0\<rparr>) = 0"
  using assms
  by (simp_all add: bpf_hook.allows_iff prog_load_hook.allows_iff map_create_hook.allows_iff
      hook_permits_def role_entry_permits)
    (simp_all add: role_entry_def)

text \<open>
  C10: the kernel never refuses what the proxy would grant. If the daemon allows a role a request of a
  type the engine knows, then a process in a namespace whose entry holds this role's bitmaps passes
  all LSM hooks when it makes the same request itself.
\<close>

theorem lsm_admits_what_proxy_allows:
  assumes "is_allowed p name req" and "hm_get (roles p) name = Some r" and "known_type req"
    and "m \<lparr>userns_id = u\<rparr> = Some (role_entry p r)"
  shows "list_all (\<lambda>(answer, _). answer = 0) (request_hooks (Inr u) m req)"
proof (cases req)
  case (LoadProgram t path n)
  with assms obtain b where "prog_type_to_bit t = Some b"
    by (auto simp: known_type_def)
  moreover have "is_command_allowed p r ''PROG_LOAD''" "is_prog_op_allowed p r t ''load''"
    using assms(1,2) LoadProgram by (simp_all add: is_allowed_def roles_def)
  ultimately show ?thesis
    using LoadProgram bitmaps_cover(1,2) [of p r] needs_command_bits to_bit_less_32
      hooks_allow(1,2) [where m = m and u = u, OF assms(4)]
    by (fastforce simp: request_hooks_def case_prod_beta)
next
  case (CreateMap t n ks vs me)
  with assms obtain b where "map_type_to_bit t = Some b"
    by (auto simp: known_type_def)
  moreover have "is_command_allowed p r ''MAP_CREATE''" "is_map_op_allowed p r t ''create''"
    using assms(1,2) CreateMap by (simp_all add: is_allowed_def roles_def)
  ultimately show ?thesis
    using CreateMap bitmaps_cover(1,3) [of p r] needs_command_bits to_bit_less_32
      hooks_allow(1,3) [where m = m and u = u, OF assms(4)]
    by (fastforce simp: request_hooks_def case_prod_beta)
next
  case (Attach t f tgt)
  moreover have "is_command_allowed p r ''PROG_ATTACH''"
    using assms(1,2) Attach by (simp add: is_allowed_def roles_def)
  ultimately show ?thesis
    using bitmaps_cover(1) [of p r] needs_command_bits to_bit_less_32 hooks_allow(1) [where m = m and u = u, OF assms(4)]
    by (fastforce simp: request_hooks_def case_prod_beta)
qed

theorem lsm_admits_what_proxy_allows_witness:
  "list_all (\<lambda>(answer, _). answer = 0)
     (request_hooks (Inr 7) [\<lparr>userns_id = 7\<rparr> \<mapsto> role_entry Policy_default default_ebpf_role]
       (CreateMap ''hash'' ''m'' 4 8 16))"
proof -
  have "hm_get (roles Policy_default) ''ebpf'' = Some default_ebpf_role"
    by (simp add: default_roles)
  moreover have "known_type (CreateMap ''hash'' ''m'' 4 8 16)"
    by (simp add: known_type_def map_type_to_bit_def map_type_arms_def)
  ultimately show ?thesis
    using lsm_admits_what_proxy_allows [OF default_tracing_creates_hash] by simp
qed

section \<open>The policy engine and delegation\<close>

text \<open>
  What is delegated to a container is what the policy says. When the delegation options are made
  from a role's bitmaps, the command bitmap the kernel reads back from the options of the mount has
  the bit of a command set exactly if the engine allows the role the command, for every role that
  lists its commands.
\<close>

theorem delegated_commands_follow_policy:
  assumes "''any'' \<notin> set (commands r)" and "command_to_bit c = Some b"
  shows "\<exists>w. mount_option ''delegate_cmds'' (to_mount_data (from_bitmaps (commands_bitmap p r)
        (prog_types_bitmap p r) (map_types_bitmap p r) attachs)) = Some w \<and>
     (bit w (unat b) \<longleftrightarrow> is_command_allowed p r c)"
  using bit_commands_bitmap [OF assms, of p] by (simp add: mount_option_to_mount_data from_bitmaps_def)

theorem delegated_commands_follow_policy_witness:
  "\<exists>w. mount_option ''delegate_cmds'' (to_mount_data (from_bitmaps
       (commands_bitmap Policy_default default_ebpf_role)
       (prog_types_bitmap Policy_default default_ebpf_role)
       (map_types_bitmap Policy_default default_ebpf_role) 0)) = Some w \<and> bit w 5"
proof -
  have "''any'' \<notin> set (commands default_ebpf_role)"
    "is_command_allowed Policy_default default_ebpf_role ''PROG_LOAD''"
    by (simp_all add: default_ebpf_role_def is_command_allowed_def Policy_default_def)
  then show ?thesis
    using delegated_commands_follow_policy [of default_ebpf_role "''PROG_LOAD''" 5 Policy_default 0]
      needs_command_bits by simp
qed

section \<open>One policy for a container\<close>

lemma bpf_hook_role_entry:
  assumes "''any'' \<notin> set (commands r)" and "command_to_bit c = Some b"
  shows "fst (bpf_rbac_bpf (Inr u) (m(\<lparr>userns_id = u\<rparr> \<mapsto> role_entry p r))
      \<lparr>arg_cmd = b, arg_attr = a, arg_kernel = 0\<rparr>) = 0 \<longleftrightarrow> is_command_allowed p r c"
  using bit_commands_bitmap [OF assms, of p] to_bit_less_32(1) [OF assms(2)]
  by (simp add: bpf_hook.allows_iff hook_permits_def role_entry_permits) (simp add: role_entry_def)

lemma role_entry_wf [simp]: "PolicyValue_wf (role_entry p r)"
  by (simp add: PolicyValue_wf_def role_entry_def PolicyValue_empty_def)

lemma from_pid_identifies:
  assumes "\<forall>file ino f. sys_stat_ino k w file = Inr ino \<longrightarrow> sys_open k w file = Inr f \<longrightarrow> f = ino"
    and "from_pid k w pid = Inr tgt" and "target_ns k w tgt ''user'' = Some u"
  shows "target_pid tgt = pid \<and> target_userns_id tgt = u"
proof -
  let ?file = "''/proc/'' @ show_u32 pid @ ''/ns/user''"
  obtain ino where "sys_stat_ino k w ?file = Inr ino" and tgt: "tgt = \<lparr>target_pid = pid, target_userns_id = ino\<rparr>"
    using assms(2) by (auto simp: from_pid_def Let_def split: sum.splits)
  moreover from assms(3) tgt have "sys_open k w ?file = Inr u"
    by (auto simp: target_ns_def split: sum.splits)
  ultimately show ?thesis
    using assms(1) by auto
qed

text \<open>
  C11: one policy, in three encodings. A process of a container is identified, and the bitmaps of a role
  that lists its commands are entered in the kernel's policy map under the identifier that was
  determined. Then the entry is the one of the user namespace the process is in. If the resolver of
  the LSM program answers with this namespace, the program lets the container make a command exactly if
  the policy engine allows the role the command, and the mount options made from the same bitmaps
  delegate exactly these commands. The program as it is compiled does not agree with them: its resolver
  answers 0, so it lets every command pass as long as the map has no entry for namespace 0.
\<close>

theorem container_policies_agree:
  assumes "\<forall>file ino f. sys_stat_ino k w file = Inr ino \<longrightarrow> sys_open k w file = Inr f \<longrightarrow> f = ino"
    and "from_pid k w pid = Inr tgt" and "target_ns k w tgt ''user'' = Some u"
    and "''any'' \<notin> set (commands r)" and "command_to_bit c = Some b"
    and "bpf_hash_map calls n"
    and "policy_insert calls s \<lparr>userns_id = target_userns_id tgt\<rparr> (role_entry p r) = Inr s'"
  shows "POLICY_MAP calls s' = (POLICY_MAP calls s)(\<lparr>userns_id = u\<rparr> \<mapsto> role_entry p r) \<and>
     (fst (bpf_rbac_bpf (Inr u) (POLICY_MAP calls s') \<lparr>arg_cmd = b, arg_attr = None, arg_kernel = 0\<rparr>) = 0
        \<longleftrightarrow> is_command_allowed p r c) \<and>
     (\<exists>bits. mount_option ''delegate_cmds'' (to_mount_data (from_bitmaps (commands_bitmap p r)
          (prog_types_bitmap p r) (map_types_bitmap p r) attachs)) = Some bits \<and>
        (bit bits (unat b) \<longleftrightarrow> is_command_allowed p r c)) \<and>
     (u \<noteq> 0 \<and> POLICY_MAP calls s \<lparr>userns_id = 0\<rparr> = None \<longrightarrow>
        fst (compiled_bpf (POLICY_MAP calls s') \<lparr>arg_cmd = b, arg_attr = None, arg_kernel = 0\<rparr>) = 0)"
proof -
  have "target_userns_id tgt = u"
    using from_pid_identifies [OF assms(1-3)] by simp
  with bpf_hash_map.insert_result [OF assms(6,7) role_entry_wf]
  have view: "POLICY_MAP calls s' = (POLICY_MAP calls s)(\<lparr>userns_id = u\<rparr> \<mapsto> role_entry p r)"
    by simp
  moreover have "compiled_bpf m ctx = (0, [])" if "m \<lparr>userns_id = 0\<rparr> = None" for m ctx
    using that by (cases "arg_kernel ctx = 0")
      (simp_all add: compiled_bpf_def get_current_userns_id_def bpf_hook.unmanaged bpf_hook.from_kernel)
  ultimately show ?thesis
    using bit_commands_bitmap [OF assms(4,5), of p] bpf_hook_role_entry [OF assms(4,5)]
    by (auto simp: mount_option_to_mount_data from_bitmaps_def)
qed

theorem container_policies_agree_witness:
  "\<exists>s'. policy_insert (hash_table MAP_ENTRIES) [] \<lparr>userns_id = 10\<rparr>
      (role_entry Policy_default default_ebpf_role) = Inr s' \<and>
     fst (bpf_rbac_bpf (Inr 10) (POLICY_MAP (hash_table MAP_ENTRIES) s')
       \<lparr>arg_cmd = 8, arg_attr = None, arg_kernel = 0\<rparr>) \<noteq> 0 \<and>
     fst (compiled_bpf (POLICY_MAP (hash_table MAP_ENTRIES) s')
       \<lparr>arg_cmd = 8, arg_attr = None, arg_kernel = 0\<rparr>) = 0"
proof -
  let ?k = "table_calls container_files [2] container_tree"
    and ?tgt = "\<lparr>target_pid = 7, target_userns_id = 10\<rparr>"
  have id: "from_pid ?k host_world 7 = Inr ?tgt" "target_ns ?k host_world ?tgt ''user'' = Some 10"
    by (simp_all add: from_pid_def table_calls_def container_files_def show_u32_7 Let_def target_ns_def)
  have files: "\<forall>file ino f. sys_stat_ino ?k host_world file = Inr ino \<longrightarrow>
      sys_open ?k host_world file = Inr f \<longrightarrow> f = ino"
    by (simp add: table_calls_def Let_def)
  have role: "''any'' \<notin> set (commands default_ebpf_role)" "command_to_bit ''PROG_ATTACH'' = Some 8"
    "\<not> is_command_allowed Policy_default default_ebpf_role ''PROG_ATTACH''"
    by (simp_all add: default_ebpf_role_def is_command_allowed_def Policy_default_def
        command_to_bit_def command_arms_def)
  obtain s' where s': "policy_insert (hash_table MAP_ENTRIES) [] \<lparr>userns_id = target_userns_id ?tgt\<rparr>
      (role_entry Policy_default default_ebpf_role) = Inr s'"
    by (simp add: hash_table_def policy_insert_def MAP_ENTRIES_def MAX_POLICY_ENTRIES_def)
  have none: "POLICY_MAP (hash_table MAP_ENTRIES) [] \<lparr>userns_id = 0\<rparr> = None" "(10 :: u64) \<noteq> 0"
    by (simp_all add: POLICY_MAP_def hash_table_def)
  note agree = container_policies_agree
    [where attachs = 0, OF files id role(1,2) table_map.bpf_hash_map_axioms s']
  have "fst (bpf_rbac_bpf (Inr 10) (POLICY_MAP (hash_table MAP_ENTRIES) s')
       \<lparr>arg_cmd = 8, arg_attr = None, arg_kernel = 0\<rparr>) \<noteq> 0"
    using agree role(3) by blast
  moreover have "fst (compiled_bpf (POLICY_MAP (hash_table MAP_ENTRIES) s')
       \<lparr>arg_cmd = 8, arg_attr = None, arg_kernel = 0\<rparr>) = 0"
    using agree none by blast
  moreover have "policy_insert (hash_table MAP_ENTRIES) [] \<lparr>userns_id = 10\<rparr>
      (role_entry Policy_default default_ebpf_role) = Inr s'"
    using s' by simp
  ultimately show ?thesis by blast
qed

end
